(* ===== verification/Prelude.thy ===== *)
theory Prelude
  imports Main "HOL-Library.Sublist" "HOL-Library.Word"
begin

text \<open>
  Shared vocabulary of the development: the characters and the string, character and number
  routines of the C library that the sources call, as executable functions on \<^typ>\<open>string\<close>,
  together with the generic lemmas the component theories rest on.

  A C string is the list of its characters before the terminating NUL. A pointer that may be
  NULL is an option. A buffer of \<open>n\<close> bytes that receives a string through the
  \<open>strncpy(dst, src, n - 1); dst[n - 1] = 0\<close> idiom (or through a clamped \<open>memcpy\<close>, or
  \<open>snprintf\<close>) holds \<open>bufcpy n src\<close>. A C \<open>int\<close> is an \<^typ>\<open>int\<close>; a conversion from
  \<open>long\<close> is \<open>to_int32\<close>, the two's complement wrap-around to 32 bits.
\<close>

section \<open>Collections of simplification rules\<close>

named_theorems cstr_simps \<open>string routines of the C library\<close>
named_theorems fs_simps \<open>reading the world after an operation on it\<close>
named_theorems io_defs \<open>definitions of the operations on the world\<close>

section \<open>Characters\<close>

abbreviation NL :: char where "NL \<equiv> CHR 0x0A"
abbreviation CR :: char where "CR \<equiv> CHR 0x0D"
abbreviation TAB :: char where "TAB \<equiv> CHR 0x09"
abbreviation SP :: char where "SP \<equiv> CHR 0x20"
abbreviation DQ :: char where "DQ \<equiv> CHR 0x22"
abbreviation NUL :: char where "NUL \<equiv> CHR 0x00"

definition isspace :: "char \<Rightarrow> bool" where
  "isspace c \<longleftrightarrow> c \<in> {SP, TAB, NL, CHR 0x0B, CHR 0x0C, CR}"

definition isdigit :: "char \<Rightarrow> bool" where
  "isdigit c \<longleftrightarrow> 48 \<le> (of_char c :: nat) \<and> (of_char c :: nat) \<le> 57"

definition toupper :: "char \<Rightarrow> char" where
  "toupper c = (let n = (of_char c :: nat) in if 97 \<le> n \<and> n \<le> 122 then char_of (n - 32) else c)"

definition tolower :: "char \<Rightarrow> char" where
  "tolower c = (let n = (of_char c :: nat) in if 65 \<le> n \<and> n \<le> 90 then char_of (n + 32) else c)"

section \<open>Strings\<close>

text \<open>A byte buffer seen as a C string ends at its first NUL.\<close>

definition cstr :: "string \<Rightarrow> string" where
  "cstr b = takeWhile (\<lambda>c. c \<noteq> NUL) b"

text \<open>What a buffer of \<open>n\<close> bytes holds after a bounded copy of \<open>s\<close>.\<close>

definition bufcpy :: "nat \<Rightarrow> string \<Rightarrow> string" where
  "bufcpy n s = take (n - 1) s"

text \<open>\<open>strstr\<close>: the suffix of the text that starts at the first occurrence, if any.\<close>

primrec strstr :: "string \<Rightarrow> string \<Rightarrow> string option" where
  "strstr [] n = (if n = [] then Some [] else None)"
| "strstr (c # h) n = (if prefix n (c # h) then Some (c # h) else strstr h n)"

definition has_substr :: "string \<Rightarrow> string \<Rightarrow> bool" where
  "has_substr h n \<longleftrightarrow> strstr h n \<noteq> None"

text \<open>\<open>strchr\<close> for a character other than NUL.\<close>

primrec strchr :: "string \<Rightarrow> char \<Rightarrow> string option" where
  "strchr [] c = None"
| "strchr (x # s) c = (if x = c then Some (x # s) else strchr s c)"

text \<open>\<open>strcspn\<close>: the length of the initial part free of the given characters.\<close>

definition strcspn :: "string \<Rightarrow> string \<Rightarrow> nat" where
  "strcspn s reject = length (takeWhile (\<lambda>c. c \<notin> set reject) s)"

definition strcasecmp_eq :: "string \<Rightarrow> string \<Rightarrow> bool" where
  "strcasecmp_eq a b \<longleftrightarrow> map tolower a = map tolower b"

text \<open>Removal of trailing characters, the \<open>while (end >= s && ...) *end-- = 0\<close> loops.\<close>

definition rstrip :: "(char \<Rightarrow> bool) \<Rightarrow> string \<Rightarrow> string" where
  "rstrip p s = rev (dropWhile p (rev s))"

text \<open>
  \<open>fgets(line, n, f)\<close> called until end of file: each call takes the bytes up to and
  including a newline, but at most \<open>n - 1\<close> of them; the caller sees the chunk as a C string.
\<close>

fun split_line :: "nat \<Rightarrow> string \<Rightarrow> string \<times> string" where
  "split_line 0 s = ([], s)"
| "split_line (Suc k) [] = ([], [])"
| "split_line (Suc k) (c # s) =
     (if c = NL then ([c], s) else (let (a, b) = split_line k s in (c # a, b)))"

lemma split_line_append: "fst (split_line k s) @ snd (split_line k s) = s"
  by (induction k s rule: split_line.induct) (auto split: prod.splits)

lemma split_line_snd_le: "length (snd (split_line k s)) \<le> length s"
  by (induction k s rule: split_line.induct) (auto split: prod.splits)

lemma split_line_snd_less:
  assumes "s \<noteq> []" and "k \<noteq> 0"
  shows "length (snd (split_line k s)) < length s"
proof -
  from assms obtain j c t where "k = Suc j" "s = c # t"
    by (metis list.exhaust not0_implies_Suc)
  then show ?thesis
    using split_line_snd_le [of j t] by (auto split: prod.splits)
qed

function fgets_lines :: "nat \<Rightarrow> string \<Rightarrow> string list" where
  "fgets_lines n s =
     (if s = [] \<or> n \<le> 1 then []
      else let (a, b) = split_line (n - 1) s in cstr a # fgets_lines n b)"
  by pat_completeness auto
termination
proof (relation "measure (\<lambda>(n, s). length s)")
  fix n :: nat and s :: string and x a b
  assume "\<not> (s = [] \<or> n \<le> 1)" and "x = split_line (n - 1) s" and "(a, b) = x"
  then have "length (snd (split_line (n - 1) s)) < length s"
    by (intro split_line_snd_less) auto
  with \<open>(a, b) = x\<close> \<open>x = split_line (n - 1) s\<close>
  show "((n, b), n, s) \<in> measure (\<lambda>(n, s). length s)"
    by (metis case_prod_conv in_measure snd_conv)
qed simp

declare fgets_lines.simps [simp del]

text \<open>The blocks in which \<open>fread\<close> hands out a file.\<close>

function chunks :: "nat \<Rightarrow> string \<Rightarrow> string list" where
  "chunks n s = (if s = [] \<or> n = 0 then [] else take n s # chunks n (drop n s))"
  by pat_completeness auto
termination
  by (relation "measure (\<lambda>(n, s). length s)") auto

declare chunks.simps [simp del]

lemma concat_chunks: "0 < n \<Longrightarrow> concat (chunks n s) = s"
  by (induction n s rule: chunks.induct) (auto simp: chunks.simps)

section \<open>Numbers\<close>

definition digit_char :: "nat \<Rightarrow> char" where
  "digit_char d = char_of (48 + d)"

definition digit_val :: "char \<Rightarrow> nat" where
  "digit_val c = of_char c - 48"

text \<open>\<open>%d\<close> and \<open>%0wd\<close>.\<close>

fun show_nat :: "nat \<Rightarrow> string" where
  "show_nat n = (if n < 10 then [digit_char n] else show_nat (n div 10) @ [digit_char (n mod 10)])"

declare show_nat.simps [simp del]

definition show_int :: "int \<Rightarrow> string" where
  "show_int i = (if i < 0 then CHR ''-'' # show_nat (nat (- i)) else show_nat (nat i))"

definition pad0 :: "nat \<Rightarrow> string \<Rightarrow> string" where
  "pad0 w s = replicate (w - length s) (CHR ''0'') @ s"

text \<open>The digits at the front of a string: their value, and the rest.\<close>

fun read_digits :: "nat \<Rightarrow> string \<Rightarrow> nat \<times> string" where
  "read_digits acc [] = (acc, [])"
| "read_digits acc (c # s) =
     (if isdigit c then read_digits (10 * acc + digit_val c) s else (acc, c # s))"

text \<open>
  \<open>strtol(s, &end, 10)\<close>: \<open>None\<close> when no conversion is done (\<open>end = s\<close>), otherwise the
  value, saturated to the 64-bit \<open>long\<close>, and the unread rest. \<open>fscanf("%ld")\<close> on glibc
  converts the same prefix.
\<close>

definition saturate_long :: "int \<Rightarrow> int" where
  "saturate_long v = max (- (2 ^ 63)) (min (2 ^ 63 - 1) v)"

definition read_sign :: "string \<Rightarrow> bool \<times> string" where
  "read_sign s = (case s of [] \<Rightarrow> (False, s)
     | c # t \<Rightarrow> if c = CHR ''-'' then (True, t) else if c = CHR ''+'' then (False, t) else (False, s))"

definition strtol :: "string \<Rightarrow> (int \<times> string) option" where
  "strtol s = (let (neg, t) = read_sign (dropWhile isspace s) in
     if t = [] \<or> \<not> isdigit (hd t) then None
     else let (n, r) = read_digits 0 t in
       Some (saturate_long (if neg then - int n else int n), r))"

text \<open>The conversion from \<open>long\<close> to \<open>int\<close>: two's complement, 32 bits.\<close>

definition to_int32 :: "int \<Rightarrow> int" where
  "to_int32 v = signed_take_bit 31 v"

definition atoi :: "string \<Rightarrow> int" where
  "atoi s = (case strtol s of None \<Rightarrow> 0 | Some (v, _) \<Rightarrow> to_int32 v)"

text \<open>
  \<open>fscanf("%lf")\<close> followed by the conversion of the double to \<open>int\<close>: the integer part of a
  decimal number without exponent, which is the form in which the kernel prints
  \<^verbatim>\<open>/proc/uptime\<close>. \<open>None\<close> when no number is at the front.
\<close>

definition scan_lf_trunc :: "string \<Rightarrow> int option" where
  "scan_lf_trunc s = (let (neg, t) = read_sign (dropWhile isspace s) in
     if t = [] then None
     else if isdigit (hd t) then
       (let (n, r) = read_digits 0 t in Some (if neg then - int n else int n))
     else if hd t = CHR ''.'' \<and> tl t \<noteq> [] \<and> isdigit (hd (tl t)) then Some 0
     else None)"

section \<open>Lemmas on strings\<close>

lemma length_bufcpy [simp]: "length (bufcpy n s) \<le> n - 1"
  by (simp add: bufcpy_def)

lemma bufcpy_less: "0 < n \<Longrightarrow> length (bufcpy n s) < n"
  using length_bufcpy [of n s] by linarith

lemma bufcpy_id [simp]: "length s < n \<Longrightarrow> bufcpy n s = s"
  by (simp add: bufcpy_def)

lemma bufcpy_bufcpy [simp]: "bufcpy n (bufcpy n s) = bufcpy n s"
  by (simp add: bufcpy_def)

lemma bufcpy_eq_iff: "0 < n \<Longrightarrow> bufcpy n s = s \<longleftrightarrow> length s < n"
  by (auto simp: bufcpy_def)

lemma prefix_bufcpy: "prefix (bufcpy n s) s"
  by (simp add: bufcpy_def take_is_prefix)

lemma cstr_id [simp]: "NUL \<notin> set s \<Longrightarrow> cstr s = s"
  unfolding cstr_def by (subst takeWhile_eq_all_conv) auto

lemma cstr_no_nul [simp]: "NUL \<notin> set (cstr s)"
  by (auto simp: cstr_def dest: set_takeWhileD)

lemma strstr_None_iff: "strstr h n = None \<longleftrightarrow> \<not> sublist n h"
  by (induction h) (auto simp: sublist_Cons_right)

lemma has_substr_iff: "has_substr h n \<longleftrightarrow> sublist n h"
  by (simp add: has_substr_def strstr_None_iff)

lemma strstr_SomeD:
  "strstr h n = Some r \<Longrightarrow> \<exists>p. h = p @ r \<and> prefix n r"
proof (induction h)
  case Nil
  then show ?case by (auto split: if_splits)
next
  case (Cons c h)
  then show ?case by (auto split: if_splits)
qed

lemma strchr_SomeD: "strchr s c = Some r \<Longrightarrow> \<exists>p. s = p @ r \<and> c \<notin> set p \<and> hd r = c \<and> r \<noteq> []"
  by (induction s) (auto split: if_splits intro: exI [of _ "_ # _"])

lemma strchr_append: "c \<notin> set p \<Longrightarrow> strchr (p @ c # r) c = Some (c # r)"
  by (induction p) auto

lemma strchr_None_iff: "strchr s c = None \<longleftrightarrow> c \<notin> set s"
  by (induction s) auto

text \<open>
  Scanning for a pattern that opens with a quote skips text without quotes, and skips a quoted
  value that is followed by a comma when the pattern asks for a colon there.
\<close>

lemma strstr_skip: "d \<notin> set v \<Longrightarrow> strstr (v @ h) (d # p) = strstr h (d # p)"
  by (induction v) auto

lemma strstr_here: "prefix n h \<Longrightarrow> strstr h n = Some h"
  by (cases h) auto

lemma quoted_prefix_iff:
  assumes "q \<notin> set v" and "q \<notin> set k"
  shows "prefix (k @ q # r) (v @ q # h) \<longleftrightarrow> v = k \<and> prefix r h"
  using assms
proof (induction k arbitrary: v)
  case Nil
  then show ?case by (cases v) auto
next
  case (Cons x k)
  then show ?case by (cases v) auto
qed

lemma strstr_quoted_skip:
  assumes "q \<notin> set v" and "q \<notin> set k" and "v \<noteq> k \<or> \<not> prefix r h" and "\<not> prefix (k @ q # r) h"
  shows "strstr (q # v @ q # h) (q # k @ q # r) = strstr h (q # k @ q # r)"
proof -
  have "\<not> prefix (k @ q # r) (v @ q # h)"
    using assms(3) by (simp add: quoted_prefix_iff [OF assms(1,2)])
  then have "strstr (q # v @ q # h) (q # k @ q # r) = strstr (v @ q # h) (q # k @ q # r)"
    by simp
  also have "\<dots> = strstr (q # h) (q # k @ q # r)"
    using assms(1) by (rule strstr_skip)
  also have "\<dots> = strstr h (q # k @ q # r)"
    using assms(4) by simp
  finally show ?thesis .
qed

declare strstr.simps [simp del]

lemma rstrip_id: "s = [] \<or> \<not> p (last s) \<Longrightarrow> rstrip p s = s"
  by (cases s rule: rev_cases) (auto simp: rstrip_def)

lemma rstrip_prefix: "prefix (rstrip p s) s"
proof -
  have "suffix (dropWhile p (rev s)) (rev s)"
    by (rule suffix_dropWhile)
  then show ?thesis by (simp add: rstrip_def suffix_to_prefix)
qed

lemma rstrip_last: "rstrip p s = [] \<or> \<not> p (last (rstrip p s))"
  by (cases "dropWhile p (rev s)")
    (auto simp: rstrip_def dest: hd_dropWhile, metis hd_dropWhile list.sel(1) neq_Nil_conv)

section \<open>Lemmas on numbers\<close>

lemma digit_char_props:
  assumes "d < 10"
  shows "isdigit (digit_char d)" and "digit_val (digit_char d) = d"
  using assms by (simp_all add: isdigit_def digit_char_def digit_val_def)

text \<open>The digits as characters, for evaluating printed numbers.\<close>

lemma digit_char_eval [simp]:
  "digit_char 0 = CHR ''0''" "digit_char 1 = CHR ''1''" "digit_char (Suc 0) = CHR ''1''" "digit_char 2 = CHR ''2''"
  "digit_char 3 = CHR ''3''" "digit_char 4 = CHR ''4''" "digit_char 5 = CHR ''5''" "digit_char 6 = CHR ''6''"
  "digit_char 7 = CHR ''7''" "digit_char 8 = CHR ''8''" "digit_char 9 = CHR ''9''"
  by code_simp+

lemma show_nat_nonempty [simp]: "show_nat n \<noteq> []"
  by (subst show_nat.simps) simp

lemma show_nat_digits: "c \<in> set (show_nat n) \<Longrightarrow> isdigit c"
proof (induction n rule: show_nat.induct)
  case (1 n)
  then show ?case
    by (subst (asm) (2) show_nat.simps) (auto split: if_splits simp: digit_char_props)
qed

lemma hd_show_nat: "isdigit (hd (show_nat n))"
  by (rule show_nat_digits) (rule hd_in_set, simp)

lemma read_digits_append:
  "read_digits a (show_nat n @ r) = read_digits (a * 10 ^ length (show_nat n) + n) r"
proof (induction n arbitrary: a r rule: show_nat.induct)
  case (1 n)
  show ?case
  proof (cases "n < 10")
    case True
    then show ?thesis
      by (simp add: show_nat.simps [of n] digit_char_props mult.commute)
  next
    case False
    then show ?thesis
      using "1.IH" [OF False, of a "digit_char (n mod 10) # r"]
      by (simp add: show_nat.simps [of n] digit_char_props algebra_simps)
  qed
qed

lemma read_show_nat:
  "r = [] \<or> \<not> isdigit (hd r) \<Longrightarrow> read_digits 0 (show_nat n @ r) = (n, r)"
  using read_digits_append [of 0 n r] by (cases r) auto

lemma isdigit_not_isspace: "isdigit c \<Longrightarrow> \<not> isspace c"
  by (auto simp: isdigit_def isspace_def)

lemma strtol_show_int:
  assumes "r = [] \<or> \<not> isdigit (hd r)"
  shows "strtol (show_int i @ r) = Some (saturate_long i, r)"
proof (cases "i < 0")
  case True
  then show ?thesis
    using assms by (simp add: strtol_def show_int_def read_sign_def isspace_def hd_show_nat
        read_show_nat)
next
  case False
  obtain c t where ct: "show_nat (nat i) = c # t"
    by (cases "show_nat (nat i)") auto
  with hd_show_nat [of "nat i"] have dig: "isdigit c" by simp
  then have "c \<noteq> CHR ''-''" "c \<noteq> CHR ''+''"
    by (auto simp: isdigit_def)
  with dig ct False have "read_sign (dropWhile isspace (show_int i @ r)) = (False, show_nat (nat i) @ r)"
    by (simp add: show_int_def read_sign_def isdigit_not_isspace)
  moreover have "read_digits 0 (show_nat (nat i) @ r) = (nat i, r)"
    using assms by (rule read_show_nat)
  ultimately show ?thesis
    using False hd_show_nat [of "nat i"] by (simp add: strtol_def)
qed

lemma to_int32_id: "- (2 ^ 31) \<le> v \<Longrightarrow> v < 2 ^ 31 \<Longrightarrow> to_int32 v = v"
  unfolding to_int32_def by (rule signed_take_bit_int_eq_self) auto

lemma to_int32_range: "- (2 ^ 31) \<le> to_int32 v" "to_int32 v < 2 ^ 31"
  unfolding to_int32_def
  by (rule signed_take_bit_int_greater_eq_minus_exp, rule signed_take_bit_int_less_exp)

lemma saturate_long_id: "- (2 ^ 63) \<le> v \<Longrightarrow> v < 2 ^ 63 \<Longrightarrow> saturate_long v = v"
  by (simp add: saturate_long_def)

section \<open>Lines and trimming\<close>

lemma split_line_nl: "NL \<notin> set x \<Longrightarrow> length x < k \<Longrightarrow> split_line k (x @ NL # r) = (x @ [NL], r)"
proof (induction x arbitrary: k)
  case Nil
  then show ?case by (cases k) simp_all
next
  case (Cons c x)
  then show ?case by (cases k) auto
qed

lemma fgets_lines_concat:
  assumes "\<forall>x \<in> set xs. NL \<notin> set x \<and> NUL \<notin> set x \<and> length x < n - 1" and "1 < n"
  shows "fgets_lines n (concat (map (\<lambda>x. x @ [NL]) xs)) = map (\<lambda>x. x @ [NL]) xs"
  using assms(1)
proof (induction xs)
  case Nil
  show ?case by (simp add: fgets_lines.simps)
next
  case (Cons x xs)
  then show ?case
    using assms(2) by (simp add: fgets_lines.simps [of n "x @ NL # concat (map (\<lambda>x. x @ [NL]) xs)"] split_line_nl)
qed

lemma sublist_sep: "d \<notin> set k \<Longrightarrow> sublist k (a @ d # b) \<longleftrightarrow> sublist k a \<or> sublist k b"
proof -
  assume d: "d \<notin> set k"
  have p: "prefix z (d # b) \<Longrightarrow> d \<notin> set z \<Longrightarrow> z = []" for z by (cases z) auto
  show ?thesis
  proof (cases "k = []")
    case False
    with d p have "\<not> prefix k (d # b)" by blast
    moreover have "(\<exists>x y. k = x @ y \<and> suffix x a \<and> prefix y (d # b)) \<longleftrightarrow> suffix k a"
      using d p by fastforce
    ultimately show ?thesis
      by (auto simp: sublist_append sublist_Cons_right)
  qed simp
qed

lemma dropWhile_lead: "\<not> p (hd s) \<Longrightarrow> s \<noteq> [] \<Longrightarrow> p c \<Longrightarrow> dropWhile p (replicate m c @ s) = s"
  by (induction m) (cases s; simp)+

lemma rstrip_trail: "s = [] \<or> \<not> p (last s) \<Longrightarrow> p c \<Longrightarrow> rstrip p (s @ replicate n c) = s"
proof -
  assume s: "s = [] \<or> \<not> p (last s)" and c: "p c"
  have "dropWhile p (replicate n c @ z) = dropWhile p z" for z using c by (induction n) simp_all
  then have "rstrip p (s @ replicate n c) = rstrip p s" by (simp add: rstrip_def)
  with s show ?thesis by (simp add: rstrip_id)
qed

end
