(* ===== verification/World.thy ===== *)
theory World
  imports Prelude
begin

text \<open>
  The world both programs run in, and the system calls they make on it.

  The file system is a map from absolute path names to nodes; a path that goes through a
  symbolic link is its target. Everything else a call does is an event on a trace, so that the
  order of telemetry, RFC, shell, signal and reboot actions is part of every statement. The
  record \<open>env\<close> holds what the program cannot decide: which opens, writes, unlinks and renames fail and
  with which \<open>errno\<close>, the order in which \<open>readdir\<close> returns names, the clock, the process
  environment, what other processes do to the files between two calls, and the third-party
  services (RFC, telemetry, the secure shell wrapper, the device properties), which may answer
  according to everything that has happened so far. \<open>g_lock_fd\<close> of the world is the static of
  the reason fetcher, as whether the descriptor is open.
\<close>

section \<open>Types\<close>

type_synonym path = string

datatype node = Reg string | Dir

datatype errno = ENOENT | EEXIST | ENOTDIR | ELOOP | EISDIR | EACCES | EINTR | EIO

datatype wdmp_status = WDMP_SUCCESS | WDMP_ERR_DEFAULT_VALUE | WDMP_FAILURE

datatype wdmp_type = WDMP_BOOLEAN | WDMP_INT

datatype signal = SIGIO | SIGUSR1 | SIGTERM

datatype stream = Stdout | Stderr

datatype event =
    T2Count string int
  | T2Val string string
  | RfcSet string string wdmp_type
  | Shell string
  | KillSig int signal
  | SyncDisks
  | USleep nat
  | SleepSecs nat
  | ForkExec string
  | Printed stream string
  | LockEx path
  | LockUn path

text \<open>
  A directory tree that is removed recursively. A leaf is anything but a directory, with
  whether it can be unlinked; a directory carries whether it can be opened and whether it can
  be removed once empty, and its entries in the order \<open>readdir\<close> returns them.
\<close>

datatype ftree = Leaf bool | DirT bool bool "(string \<times> ftree) list"

text \<open>A blocking \<open>flock\<close>: it is granted, it fails, or another process never gives the lock up.\<close>

datatype flock_answer = FlockGranted | FlockError | FlockWaits

text \<open>What one \<open>select\<close> on an inotify descriptor, and the \<open>read\<close> after it, came to.\<close>

datatype wakeup = SelFail errno | SelTimeout | ReadFail | Names "string list"

record tm =
  tm_year :: nat
  tm_mon :: nat
  tm_mday :: nat
  tm_hour :: nat
  tm_min :: nat
  tm_sec :: nat
  tm_wday :: nat

record env =
  open_r_err :: "path \<Rightarrow> errno option"
  open_w_err :: "path \<Rightarrow> errno option"
  unlink_err :: "path \<Rightarrow> errno option"
  rename_err :: "path \<Rightarrow> errno option"
  size_max :: "path \<Rightarrow> nat option"
  dirents :: "path \<Rightarrow> string list"
  getenv :: "string \<Rightarrow> string option"
  utc_clock :: "nat \<Rightarrow> tm \<times> nat"
  local_clock :: "nat \<Rightarrow> tm"
  t2_enabled :: bool
  getRFCParameter :: "event list \<Rightarrow> string \<Rightarrow> string \<Rightarrow> wdmp_status \<times> string"
  setRFCParameter :: "event list \<Rightarrow> string \<Rightarrow> string \<Rightarrow> string \<Rightarrow> wdmp_type \<Rightarrow> wdmp_status"
  v_secure_system :: "event list \<Rightarrow> string \<Rightarrow> int"
  getDevicePropertyData :: "string \<Rightarrow> string option"
  kill_ok :: "int \<Rightarrow> signal \<Rightarrow> bool"
  getpid :: int
  pid_lock_free :: bool
  interleave :: "nat \<Rightarrow> (path \<Rightarrow> node option) \<Rightarrow> (path \<Rightarrow> node option)"
  fork_pid :: int
  flock :: flock_answer
  logger_ok :: bool
  gettimeofday_ok :: "nat \<Rightarrow> bool"
  mono_clock :: "nat \<Rightarrow> nat option"
  inotify_init_ok :: bool
  inotify_watch_ok :: bool
  inotify_wait :: "nat \<Rightarrow> wakeup"

record world =
  fs :: "path \<Rightarrow> node option"
  trace :: "event list"
  ticks :: nat
  g_lock_fd :: bool
  trees :: "path \<Rightarrow> ftree option"

section \<open>System calls\<close>

definition emit :: "event \<Rightarrow> world \<Rightarrow> world" where [io_defs]:
  "emit ev w = w\<lparr>trace := trace w @ [ev]\<rparr>"

text \<open>The contents of a regular file.\<close>

definition content :: "world \<Rightarrow> path \<Rightarrow> string option" where
  "content w p = (case fs w p of Some (Reg c) \<Rightarrow> Some c | _ \<Rightarrow> None)"

text \<open>
  \<open>fopen(p, "r")\<close>: the bytes a reader will see. A directory can be opened; reading it fails
  at once, which the callers see as end of file.
\<close>

definition fopen_r :: "env \<Rightarrow> path \<Rightarrow> world \<Rightarrow> errno + string" where
  "fopen_r e p w = (case open_r_err e p of Some er \<Rightarrow> Inl er
     | None \<Rightarrow> (case fs w p of None \<Rightarrow> Inl ENOENT | Some Dir \<Rightarrow> Inr [] | Some (Reg c) \<Rightarrow> Inr c))"

definition fopen_w :: "env \<Rightarrow> path \<Rightarrow> world \<Rightarrow> errno + world" where
  "fopen_w e p w = (case open_w_err e p of Some er \<Rightarrow> Inl er
     | None \<Rightarrow> if fs w p = Some Dir then Inl EISDIR
               else Inr (w\<lparr>fs := (fs w)(p := Some (Reg []))\<rparr>))"

definition fopen_a :: "env \<Rightarrow> path \<Rightarrow> world \<Rightarrow> errno + world" where
  "fopen_a e p w = (case open_w_err e p of Some er \<Rightarrow> Inl er
     | None \<Rightarrow> if fs w p = Some Dir then Inl EISDIR
               else if fs w p = None then Inr (w\<lparr>fs := (fs w)(p := Some (Reg []))\<rparr>)
               else Inr w)"

text \<open>
  A write to an open file, which ends when the file reaches the size the environment allows
  (a full disk or a limit); the flag is whether all of it was written.
\<close>

definition fputs :: "env \<Rightarrow> path \<Rightarrow> string \<Rightarrow> world \<Rightarrow> bool \<times> world" where
  "fputs e p s w = (case content w p of None \<Rightarrow> (False, w)
     | Some c \<Rightarrow> (case size_max e p of
           None \<Rightarrow> (True, w\<lparr>fs := (fs w)(p := Some (Reg (c @ s)))\<rparr>)
         | Some k \<Rightarrow> (length (c @ s) \<le> k,
                      w\<lparr>fs := (fs w)(p := Some (Reg (c @ take (k - length c) s)))\<rparr>)))"

definition fprints :: "env \<Rightarrow> path \<Rightarrow> string list \<Rightarrow> world \<Rightarrow> world" where
  "fprints e p ss w = fold (\<lambda>s w. snd (fputs e p s w)) ss w"

text \<open>\<open>unlink\<close>: \<open>None\<close> is success.\<close>

definition unlink :: "env \<Rightarrow> path \<Rightarrow> world \<Rightarrow> errno option \<times> world" where
  "unlink e p w = (case unlink_err e p of Some er \<Rightarrow> (Some er, w)
     | None \<Rightarrow> (case fs w p of None \<Rightarrow> (Some ENOENT, w) | Some Dir \<Rightarrow> (Some EISDIR, w)
         | Some (Reg _) \<Rightarrow> (None, w\<lparr>fs := (fs w)(p := None)\<rparr>)))"

definition mkdir :: "env \<Rightarrow> path \<Rightarrow> world \<Rightarrow> errno option \<times> world" where
  "mkdir e p w = (if fs w p \<noteq> None then (Some EEXIST, w)
     else case open_w_err e p of Some er \<Rightarrow> (Some er, w)
       | None \<Rightarrow> (None, w\<lparr>fs := (fs w)(p := Some Dir)\<rparr>))"

text \<open>\<open>rename\<close>: the directory or its entries may refuse it; a directory replaces no file and is not replaced.\<close>

definition rename_file :: "env \<Rightarrow> path \<Rightarrow> path \<Rightarrow> world \<Rightarrow> errno option \<times> world" where
  "rename_file e p q w = (case fs w p of None \<Rightarrow> (Some ENOENT, w)
     | Some n \<Rightarrow> (case rename_err e p of Some er \<Rightarrow> (Some er, w)
         | None \<Rightarrow> if fs w q = Some Dir then (Some EISDIR, w)
                   else if n = Dir \<and> fs w q \<noteq> None then (Some ENOTDIR, w)
                   else (None, w\<lparr>fs := (fs w)(p := None, q := Some n)\<rparr>)))"

definition access_ok :: "path \<Rightarrow> world \<Rightarrow> bool" where
  "access_ok p w \<longleftrightarrow> fs w p \<noteq> None"

definition is_reg :: "path \<Rightarrow> world \<Rightarrow> bool" where
  "is_reg p w \<longleftrightarrow> content w p \<noteq> None"

definition is_dir :: "path \<Rightarrow> world \<Rightarrow> bool" where
  "is_dir p w \<longleftrightarrow> fs w p = Some Dir"

text \<open>\<open>opendir\<close>: the names the following \<open>readdir\<close> calls return.\<close>

definition opendir :: "env \<Rightarrow> path \<Rightarrow> world \<Rightarrow> string list option" where
  "opendir e p w = (if open_r_err e p = None \<and> is_dir p w then Some (dirents e p) else None)"

text \<open>
  The loop that copies one open file into another, \<open>n\<close> bytes at a time, until the input ends
  or a write comes short.
\<close>

function copy_chunks :: "env \<Rightarrow> path \<Rightarrow> nat \<Rightarrow> string \<Rightarrow> world \<Rightarrow> bool \<times> world" where
  "copy_chunks e dst n s w = (if s = [] \<or> n = 0 then (True, w)
     else let (done, w1) = fputs e dst (take n s) w
          in if done then copy_chunks e dst n (drop n s) w1 else (False, w1))"
  by pat_completeness auto
termination
  by (relation "measure (\<lambda>(e, dst, n, s, w). length s)") auto

declare copy_chunks.simps [simp del]

text \<open>Every reading of the clock may give another time.\<close>

definition utc_now :: "env \<Rightarrow> world \<Rightarrow> (tm \<times> nat) \<times> world" where
  "utc_now e w = (utc_clock e (ticks w), w\<lparr>ticks := Suc (ticks w)\<rparr>)"

definition local_now :: "env \<Rightarrow> world \<Rightarrow> tm \<times> world" where
  "local_now e w = (local_clock e (ticks w), w\<lparr>ticks := Suc (ticks w)\<rparr>)"

text \<open>What the other processes do to the files while this one waits or is between two calls.\<close>

definition others_run :: "env \<Rightarrow> world \<Rightarrow> world" where
  "others_run e w = w\<lparr>fs := interleave e (ticks w) (fs w), ticks := Suc (ticks w)\<rparr>"

text \<open>\<open>v_secure_system\<close> with its formatted command.\<close>

definition secure_system :: "env \<Rightarrow> string \<Rightarrow> world \<Rightarrow> int \<times> world" where
  "secure_system e cmd w = (v_secure_system e (trace w) cmd, emit (Shell cmd) w)"

text \<open>A path on which creating, writing and removing a regular file succeeds.\<close>

definition writable :: "env \<Rightarrow> path \<Rightarrow> world \<Rightarrow> bool" where
  "writable e p w \<longleftrightarrow> open_w_err e p = None \<and> size_max e p = None \<and> unlink_err e p = None \<and> fs w p \<noteq> Some Dir"

definition readable :: "env \<Rightarrow> path \<Rightarrow> bool" where
  "readable e p \<longleftrightarrow> open_r_err e p = None"

text \<open>
  A quiet environment and an empty world, the starting points of the concrete runs: nothing
  fails, every service refuses, every shell command succeeds, the clock stands still.
\<close>

definition tm0 :: tm where
  "tm0 = \<lparr>tm_year = 126, tm_mon = 0, tm_mday = 5, tm_hour = 23, tm_min = 45, tm_sec = 7, tm_wday = 1\<rparr>"

definition calm_env :: env where
  "calm_env = \<lparr>open_r_err = (\<lambda>_. None), open_w_err = (\<lambda>_. None), unlink_err = (\<lambda>_. None), rename_err = (\<lambda>_. None),
     size_max = (\<lambda>_. None), dirents = (\<lambda>_. []), getenv = (\<lambda>_. None),
     utc_clock = (\<lambda>_. (tm0, 250)), local_clock = (\<lambda>_. tm0), t2_enabled = True,
     getRFCParameter = (\<lambda>_ _ _. (WDMP_FAILURE, [])), setRFCParameter = (\<lambda>_ _ _ _ _. WDMP_SUCCESS),
     v_secure_system = (\<lambda>_ _. 0), getDevicePropertyData = (\<lambda>_. None),
     kill_ok = (\<lambda>_ _. True), getpid = 4242, pid_lock_free = True, interleave = (\<lambda>_ f. f),
     fork_pid = 4243, flock = FlockGranted, logger_ok = True, gettimeofday_ok = (\<lambda>_. True),
     mono_clock = (\<lambda>n. Some (2 * n)), inotify_init_ok = True, inotify_watch_ok = True,
     inotify_wait = (\<lambda>_. SelTimeout)\<rparr>"

definition empty_world :: world where
  "empty_world = \<lparr>fs = (\<lambda>_. None), trace = [], ticks = 0, g_lock_fd = False, trees = (\<lambda>_. None)\<rparr>"

text \<open>\<open>strftime\<close> with the format \<^verbatim>\<open>%a %b %d %H:%M:%S UTC %Y\<close> in the C locale.\<close>

definition day_name :: "nat \<Rightarrow> string" where
  "day_name d = [''Sun'', ''Mon'', ''Tue'', ''Wed'', ''Thu'', ''Fri'', ''Sat''] ! (d mod 7)"

definition month_name :: "nat \<Rightarrow> string" where
  "month_name m = [''Jan'', ''Feb'', ''Mar'', ''Apr'', ''May'', ''Jun'', ''Jul'', ''Aug'', ''Sep'',
     ''Oct'', ''Nov'', ''Dec''] ! (m mod 12)"

definition strftime_utc :: "tm \<Rightarrow> string" where
  "strftime_utc t = day_name (tm_wday t) @ '' '' @ month_name (tm_mon t) @ '' '' @
     pad0 2 (show_nat (tm_mday t)) @ '' '' @ pad0 2 (show_nat (tm_hour t)) @ '':'' @
     pad0 2 (show_nat (tm_min t)) @ '':'' @ pad0 2 (show_nat (tm_sec t)) @ '' UTC '' @
     show_nat (tm_year t + 1900)"

text \<open>\<open>snprintf\<close> with the format \<^verbatim>\<open>%04d-%02d-%02dT%02d:%02d:%02d.%03ldZ\<close>.\<close>

definition iso8601_ms :: "tm \<times> nat \<Rightarrow> string" where
  "iso8601_ms tms = (let (t, ms) = tms in
     pad0 4 (show_nat (tm_year t + 1900)) @ ''-'' @ pad0 2 (show_nat (tm_mon t + 1)) @ ''-'' @
     pad0 2 (show_nat (tm_mday t)) @ ''T'' @ pad0 2 (show_nat (tm_hour t)) @ '':'' @
     pad0 2 (show_nat (tm_min t)) @ '':'' @ pad0 2 (show_nat (tm_sec t)) @ ''.'' @
     pad0 3 (show_nat ms) @ ''Z'')"

section \<open>Whole-file operations\<close>

text \<open>Open, print a sequence of strings, close: the shape of most writers of the sources.\<close>

definition write_file :: "env \<Rightarrow> path \<Rightarrow> string list \<Rightarrow> world \<Rightarrow> errno option \<times> world" where
  "write_file e p ss w = (case fopen_w e p w of Inl er \<Rightarrow> (Some er, w)
     | Inr w1 \<Rightarrow> (None, fprints e p ss w1))"

definition append_file :: "env \<Rightarrow> path \<Rightarrow> string list \<Rightarrow> world \<Rightarrow> errno option \<times> world" where
  "append_file e p ss w = (case fopen_a e p w of Inl er \<Rightarrow> (Some er, w)
     | Inr w1 \<Rightarrow> (None, fprints e p ss w1))"

section \<open>Laws of the system calls\<close>

lemma emit_simps [simp]:
  "fs (emit ev w) = fs w" "trace (emit ev w) = trace w @ [ev]" "ticks (emit ev w) = ticks w"
  by (simp_all add: emit_def)

lemma content_emit [simp]: "content (emit ev w) p = content w p"
  by (simp add: content_def)

lemma content_update [simp]:
  "content (w\<lparr>fs := (fs v)(p := Some (Reg s))\<rparr>) q = (if q = p then Some s else content v q)"
  "content (w\<lparr>fs := (fs v)(p := None)\<rparr>) q = (if q = p then None else content v q)"
  by (simp_all add: content_def)

lemma content_SomeD: "content w p = Some c \<Longrightarrow> fs w p = Some (Reg c)"
  by (auto simp: content_def split: option.splits node.splits)

lemma writable_emit [simp]: "writable e p (emit ev w) = writable e p w"
  by (simp add: writable_def)

lemma writable_upd_reg: "writable e q w \<Longrightarrow> writable e q (v\<lparr>fs := (fs w)(p := Some (Reg s))\<rparr>)"
  by (auto simp: writable_def)

lemma writable_upd_none: "writable e q w \<Longrightarrow> writable e q (v\<lparr>fs := (fs w)(p := None)\<rparr>)"
  by (auto simp: writable_def)

lemma writable_cong: "fs v = fs w \<Longrightarrow> writable e p v = writable e p w"
  by (simp add: writable_def)

lemma writable_at: "fs v p = fs w p \<Longrightarrow> writable e p v = writable e p w"
  by (simp add: writable_def)

lemma fopen_r_cong: "fs v p = fs w p \<Longrightarrow> fopen_r e p v = fopen_r e p w"
  by (simp only: fopen_r_def)

lemma secure_system_snd [simp]: "snd (secure_system e c w) = emit (Shell c) w"
  by (simp add: secure_system_def)

lemma fputs_unlimited:
  assumes "fs w p = Some (Reg c)" and "size_max e p = None"
  shows "fputs e p s w = (True, w\<lparr>fs := (fs w)(p := Some (Reg (c @ s)))\<rparr>)"
  using assms by (simp add: fputs_def content_def)

lemma fprints_unlimited:
  assumes "fs w p = Some (Reg c)" and "size_max e p = None"
  shows "fprints e p ss w = w\<lparr>fs := (fs w)(p := Some (Reg (c @ concat ss)))\<rparr>"
  using assms
proof (induction ss arbitrary: c w)
  case Nil
  then have "(fs w)(p := Some (Reg c)) = fs w" by auto
  then show ?case by (simp add: fprints_def)
next
  case (Cons s ss)
  let ?w = "w\<lparr>fs := (fs w)(p := Some (Reg (c @ s)))\<rparr>"
  have "fprints e p (s # ss) w = fprints e p ss ?w"
    using Cons.prems by (simp add: fprints_def fputs_unlimited)
  also have "\<dots> = ?w\<lparr>fs := (fs ?w)(p := Some (Reg ((c @ s) @ concat ss)))\<rparr>"
    by (rule Cons.IH) (use Cons.prems in simp_all)
  also have "\<dots> = w\<lparr>fs := (fs w)(p := Some (Reg (c @ concat (s # ss))))\<rparr>"
    by simp
  finally show ?case .
qed

lemma write_file_writable:
  assumes "writable e p w"
  shows "write_file e p ss w = (None, w\<lparr>fs := (fs w)(p := Some (Reg (concat ss)))\<rparr>)"
  using assms by (simp add: write_file_def fopen_w_def writable_def
      fprints_unlimited [where c = "[]"])

lemma append_file_writable:
  assumes "writable e p w"
  shows "append_file e p ss w =
    (None, w\<lparr>fs := (fs w)(p := Some (Reg (case content w p of None \<Rightarrow> concat ss | Some c \<Rightarrow> c @ concat ss)))\<rparr>)"
  using assms
  by (auto simp: append_file_def fopen_a_def writable_def content_def fprints_unlimited
      split: option.splits node.splits)

lemma unlink_writable:
  assumes "writable e p w"
  shows "snd (unlink e p w) = w\<lparr>fs := (fs w)(p := None)\<rparr>"
proof (cases "fs w p")
  case None
  then have "(fs w)(p := None) = fs w" by auto
  with None assms show ?thesis by (simp add: unlink_def writable_def)
next
  case (Some n)
  with assms show ?thesis by (cases n) (auto simp: unlink_def writable_def)
qed

text \<open>File operations leave no event.\<close>

lemma trace_fputs [simp]: "trace (snd (fputs e p s w)) = trace w"
  by (simp add: fputs_def split: option.split)

lemma trace_fprints [simp]: "trace (fprints e p ss w) = trace w"
  unfolding fprints_def by (induction ss arbitrary: w) simp_all

lemma trace_files [simp]:
  "trace (snd (write_file e p ss w)) = trace w" "trace (snd (append_file e p ss w)) = trace w"
  "trace (snd (unlink e p w)) = trace w" "trace (snd (mkdir e p w)) = trace w"
  "trace (snd (rename_file e p q w)) = trace w" "trace (others_run e w) = trace w"
  by (simp_all add: write_file_def append_file_def fopen_w_def fopen_a_def unlink_def mkdir_def rename_file_def
      others_run_def split: option.split sum.split node.split)

text \<open>Nor do they touch the lock descriptor.\<close>

lemma lock_fputs [simp]: "g_lock_fd (snd (fputs e p s w)) = g_lock_fd w"
  by (simp add: fputs_def split: option.split)

lemma lock_fprints [simp]: "g_lock_fd (fprints e p ss w) = g_lock_fd w"
  unfolding fprints_def by (induction ss arbitrary: w) simp_all

lemma lock_files [simp]:
  "g_lock_fd (snd (write_file e p ss w)) = g_lock_fd w" "g_lock_fd (snd (append_file e p ss w)) = g_lock_fd w"
  "g_lock_fd (snd (unlink e p w)) = g_lock_fd w" "g_lock_fd (snd (mkdir e p w)) = g_lock_fd w"
  "g_lock_fd (snd (rename_file e p q w)) = g_lock_fd w" "g_lock_fd (others_run e w) = g_lock_fd w"
  "g_lock_fd (emit ev w) = g_lock_fd w"
  by (simp_all add: write_file_def append_file_def fopen_w_def fopen_a_def unlink_def mkdir_def rename_file_def
      others_run_def emit_def split: option.split sum.split node.split)

text \<open>Failed opens leave the world as it was.\<close>

lemma write_file_failed:
  "open_w_err e p = Some er \<Longrightarrow> write_file e p ss w = (Some er, w)"
  "open_w_err e p = Some er \<Longrightarrow> append_file e p ss w = (Some er, w)"
  by (simp_all add: write_file_def append_file_def fopen_w_def fopen_a_def)

text \<open>Copying by chunks is one write of the whole input.\<close>

lemma fputs_append:
  assumes "fputs e p a w = (True, w1)"
  shows "fputs e p (a @ b) w = fputs e p b w1"
proof (cases "content w p")
  case None
  with assms show ?thesis by (simp add: fputs_def)
next
  case (Some c)
  show ?thesis
  proof (cases "size_max e p")
    case None
    with Some assms show ?thesis by (auto simp: fputs_def)
  next
    case (Some k)
    with \<open>content w p = Some c\<close> assms show ?thesis by (auto simp: fputs_def)
  qed
qed

lemma fputs_short:
  assumes "fputs e p a w = (False, w1)"
  shows "fputs e p (a @ b) w = (False, w1)"
  using assms by (auto simp: fputs_def split: option.splits if_splits)

lemma copy_chunks_Nil [simp]: "copy_chunks e dst n [] w = (True, w)"
  by (simp add: copy_chunks.simps)

lemma copy_chunks_eq:
  "0 < n \<Longrightarrow> content w dst \<noteq> None \<Longrightarrow> (size_max e dst = None \<or> s \<noteq> []) \<Longrightarrow> copy_chunks e dst n s w = fputs e dst s w"
proof (induction e dst n s w rule: copy_chunks.induct)
  case (1 e dst n s w)
  show ?case
  proof (cases "s = []")
    case True
    with "1.prems" show ?thesis
      by (auto simp: fputs_def content_def fun_upd_idem split: option.splits node.splits)
  next
    case False
    obtain ok w1 where f: "fputs e dst (take n s) w = (ok, w1)" by fastforce
    have s: "s = take n s @ drop n s" by simp
    show ?thesis
    proof (cases ok)
      case True
      have c: "content w1 dst \<noteq> None"
        using f "1.prems" by (auto simp: fputs_def split: option.splits)
      have "copy_chunks e dst n s w = copy_chunks e dst n (drop n s) w1"
        using f True False "1.prems" by (simp add: copy_chunks.simps [of e dst n s w])
      also have "\<dots> = fputs e dst (drop n s) w1"
      proof (cases "drop n s = [] \<and> size_max e dst \<noteq> None")
        case True
        with f \<open>ok\<close> False show ?thesis
          by (auto simp: fputs_def content_def fun_upd_idem
              split: option.splits node.splits)
      next
        case False
        then show ?thesis
          using "1.IH" [OF _ f [symmetric] refl] True c "1.prems" \<open>s \<noteq> []\<close> by auto
      qed
      finally show ?thesis using fputs_append [of e dst "take n s" w w1 "drop n s"] f True by simp
    next
      case False
      then show ?thesis
        using f \<open>s \<noteq> []\<close> "1.prems" fputs_short [of e dst "take n s" w w1 "drop n s"]
        by (simp add: copy_chunks.simps [of e dst n s w])
    qed
  qed
qed

lemma copy_chunks_frame:
  "copy_chunks e dst n s w = (b, w') \<Longrightarrow> trace w' = trace w \<and> g_lock_fd w' = g_lock_fd w \<and> (\<forall>q. q \<noteq> dst \<longrightarrow> fs w' q = fs w q)"
proof (induction e dst n s w rule: copy_chunks.induct)
  case (1 e dst n s w)
  obtain ok w1 where f: "fputs e dst (take n s) w = (ok, w1)" by fastforce
  then have w1: "trace w1 = trace w" "g_lock_fd w1 = g_lock_fd w" "q \<noteq> dst \<Longrightarrow> fs w1 q = fs w q" for q
    by (auto simp: fputs_def split: option.splits)
  show ?case
  proof (cases "s = [] \<or> n = 0 \<or> \<not> ok")
    case True
    with "1.prems" f w1 show ?thesis by (auto simp: copy_chunks.simps [of e dst n s w] split: if_splits)
  next
    case False
    then have "copy_chunks e dst n (drop n s) w1 = (b, w')"
      using "1.prems" f by (simp add: copy_chunks.simps [of e dst n s w])
    with "1.IH" [OF _ f [symmetric] refl] False w1 show ?thesis by simp
  qed
qed

lemma fopen_a_Inr:
  "fopen_a e p w = Inr w1 \<Longrightarrow> trace w1 = trace w \<and> g_lock_fd w1 = g_lock_fd w \<and> (\<forall>q. q \<noteq> p \<longrightarrow> fs w1 q = fs w q)"
  by (auto simp: fopen_a_def split: option.splits if_splits)

lemma fopen_w_Inr:
  "fopen_w e p w = Inr w1 \<Longrightarrow> trace w1 = trace w \<and> g_lock_fd w1 = g_lock_fd w \<and> (\<forall>q. q \<noteq> p \<longrightarrow> fs w1 q = fs w q)"
  by (auto simp: fopen_w_def split: option.splits if_splits)

section \<open>Frames: the paths an operation may touch\<close>

text \<open>
  The contract every operation of the programs keeps: outside its set of paths the file system
  is as before, and the trace only grows.
\<close>

locale world_op =
  fixes f :: "world \<Rightarrow> world"
    and P :: "path set"
  assumes frame: "q \<notin> P \<Longrightarrow> fs (f w) q = fs w q"
    and trace_grows: "prefix (trace w) (trace (f w))"
begin

lemma content_frame: "q \<notin> P \<Longrightarrow> content (f w) q = content w q"
  by (simp add: content_def frame)

lemma access_frame: "q \<notin> P \<Longrightarrow> access_ok q (f w) = access_ok q w"
  by (simp add: access_ok_def frame)

lemma trace_via: "prefix a (trace w) \<Longrightarrow> prefix a (trace (f w))"
  using trace_grows prefix_order.trans by blast

lemma event_kept: "ev \<in> set (trace w) \<Longrightarrow> ev \<in> set (trace (f w))"
  using trace_grows [of w] set_mono_prefix by blast

end

lemma world_opI:
  assumes "\<And>w q. q \<notin> P \<Longrightarrow> fs (f w) q = fs w q" and "\<And>w. prefix (trace w) (trace (f w))"
  shows "world_op f P"
  using assms by unfold_locales auto

lemma world_op_comp:
  assumes "world_op f P" and "world_op g Q" and "P \<subseteq> R" and "Q \<subseteq> R"
  shows "world_op (\<lambda>w. g (f w)) R"
proof (rule world_opI)
  fix w q assume "q \<notin> R"
  with assms have "q \<notin> P" "q \<notin> Q" by auto
  then show "fs (g (f w)) q = fs w q"
    using world_op.frame [OF assms(1)] world_op.frame [OF assms(2)] by metis
next
  fix w show "prefix (trace w) (trace (g (f w)))"
    using world_op.trace_grows [OF assms(1)] world_op.trace_grows [OF assms(2)]
      prefix_order.trans by blast
qed

lemma world_op_mono: "world_op f P \<Longrightarrow> P \<subseteq> R \<Longrightarrow> world_op f R"
  unfolding world_op_def by blast

lemma world_op_id: "world_op (\<lambda>w. w) P"
  by (rule world_opI) auto

lemma world_op_if:
  "world_op f P \<Longrightarrow> world_op g P \<Longrightarrow> world_op (\<lambda>w. if b w then f w else g w) P"
  unfolding world_op_def by auto

lemma world_op_fold: "(\<And>x. x \<in> set xs \<Longrightarrow> world_op (g x) P) \<Longrightarrow> world_op (\<lambda>w. fold g xs w) P"
proof (induction xs)
  case Nil
  show ?case by (simp add: world_op_id)
next
  case (Cons x xs)
  have "world_op (\<lambda>w. fold g xs w) P" by (rule Cons.IH) (simp add: Cons.prems)
  from world_op_comp [OF Cons.prems [of x] this subset_refl subset_refl]
  show ?case by simp
qed

interpretation emit_op: world_op "emit ev" "{}" for ev
  by unfold_locales simp_all

interpretation unlink_op: world_op "\<lambda>w. snd (unlink e p w)" "{p}" for e p
  by unfold_locales (auto simp: unlink_def split: option.splits node.splits)

interpretation fputs_op: world_op "\<lambda>w. snd (fputs e p s w)" "{p}" for e p s
  by unfold_locales (auto simp: fputs_def split: option.splits)

interpretation fprints_op: world_op "\<lambda>w. fprints e p ss w" "{p}" for e p ss
  unfolding fprints_def by (rule world_op_fold) (rule fputs_op.world_op_axioms)

interpretation write_op: world_op "\<lambda>w. snd (write_file e p ss w)" "{p}" for e p ss
proof unfold_locales
  fix w q assume "q \<notin> {p}"
  then show "fs (snd (write_file e p ss w)) q = fs w q"
    by (auto simp: write_file_def fopen_w_def fprints_op.frame split: option.splits)
next
  fix w show "prefix (trace w) (trace (snd (write_file e p ss w)))"
    using fprints_op.trace_grows [of "w\<lparr>fs := (fs w)(p := Some (Reg []))\<rparr>" e p ss]
    by (auto simp: write_file_def fopen_w_def split: option.splits)
qed

interpretation append_op: world_op "\<lambda>w. snd (append_file e p ss w)" "{p}" for e p ss
proof unfold_locales
  fix w q assume "q \<notin> {p}"
  then show "fs (snd (append_file e p ss w)) q = fs w q"
    by (auto simp: append_file_def fopen_a_def fprints_op.frame split: option.splits)
next
  fix w show "prefix (trace w) (trace (snd (append_file e p ss w)))"
    using fprints_op.trace_grows [of "w\<lparr>fs := (fs w)(p := Some (Reg []))\<rparr>" e p ss]
      fprints_op.trace_grows [of w e p ss]
    by (auto simp: append_file_def fopen_a_def split: option.splits)
qed

interpretation system_op: world_op "\<lambda>w. snd (secure_system e c w)" "{}" for e c
  by unfold_locales simp_all

section \<open>The file store interface\<close>

text \<open>
  What a client may assume of the files: a file read after it was overwritten, appended to or
  removed, and that other files keep their contents, on the paths where the operations succeed.
\<close>

locale file_store =
  fixes rd :: "'w \<Rightarrow> path \<Rightarrow> string option"
    and put :: "path \<Rightarrow> string list \<Rightarrow> 'w \<Rightarrow> 'w"
    and app :: "path \<Rightarrow> string list \<Rightarrow> 'w \<Rightarrow> 'w"
    and rm :: "path \<Rightarrow> 'w \<Rightarrow> 'w"
    and ok :: "path \<Rightarrow> 'w \<Rightarrow> bool"
  assumes rd_put: "ok p w \<Longrightarrow> rd (put p ss w) q = (if q = p then Some (concat ss) else rd w q)"
    and rd_app: "ok p w \<Longrightarrow> rd (app p ss w) q =
      (if q = p then Some (case rd w p of None \<Rightarrow> concat ss | Some c \<Rightarrow> c @ concat ss) else rd w q)"
    and rd_rm: "ok p w \<Longrightarrow> rd (rm p w) q = (if q = p then None else rd w q)"
    and ok_put: "ok p w \<Longrightarrow> ok q w \<Longrightarrow> ok q (put p ss w)"
    and ok_app: "ok p w \<Longrightarrow> ok q w \<Longrightarrow> ok q (app p ss w)"
    and ok_rm: "ok p w \<Longrightarrow> ok q w \<Longrightarrow> ok q (rm p w)"
begin

lemma ok_app_all: "ok p w \<Longrightarrow> ok q w \<Longrightarrow> ok q (fold (\<lambda>s. app p [s]) ls w)"
  by (induction ls arbitrary: w) (auto intro: ok_app)

lemma rd_app_all:
  "ok p w \<Longrightarrow> rd w p = Some c \<Longrightarrow>
   rd (fold (\<lambda>s. app p [s]) ls w) q = (if q = p then Some (c @ concat ls) else rd w q)"
proof (induction ls arbitrary: w c)
  case Nil
  then show ?case by simp
next
  case (Cons s ls)
  then show ?case
    using Cons.IH [of "app p [s] w" "c @ s"] by (auto simp: rd_app ok_app)
qed

text \<open>A log that is emptied and then appended to line by line holds exactly those lines.\<close>

lemma rd_log:
  assumes "ok p w"
  shows "rd (fold (\<lambda>s. app p [s]) ls (put p [] w)) q = (if q = p then Some (concat ls) else rd w q)"
  using assms rd_app_all [of p "put p [] w" "[]" ls q] by (auto simp: rd_put ok_put)

lemma rd_rm_put: "ok p w \<Longrightarrow> rd (put p ss (rm p w)) p = Some (concat ss)"
  by (simp add: ok_rm rd_put)

end

interpretation store: file_store content "\<lambda>p ss w. snd (write_file e p ss w)"
  "\<lambda>p ss w. snd (append_file e p ss w)" "\<lambda>p w. snd (unlink e p w)" "writable e" for e
  by unfold_locales
    (auto simp: write_file_writable append_file_writable unlink_writable writable_upd_reg
      writable_upd_none)

end
