(* ===== verification/Paths.thy ===== *)
theory Paths
  imports World
begin

text \<open>
  The fixed file names and RFC parameter names of the sources, and that they are pairwise
  different. Both programs use the same spelling for the files they share.
\<close>

section \<open>Files of rebootnow and of the reason fetcher\<close>

definition REBOOTINFO_LOG :: path where
  "REBOOTINFO_LOG = ''/opt/logs/rebootInfo.log''"
definition REBOOT_INFO_DIR :: path where
  "REBOOT_INFO_DIR = ''/opt/secure/reboot''"
definition REBOOT_INFO_FILE :: path where
  "REBOOT_INFO_FILE = ''/opt/secure/reboot/reboot.info''"
definition PARODUS_REBOOT_INFO_FILE :: path where
  "PARODUS_REBOOT_INFO_FILE = ''/opt/secure/reboot/parodusreboot.info''"
definition REBOOTNOW_FLAG :: path where
  "REBOOTNOW_FLAG = ''/opt/secure/reboot/rebootNow''"
definition PREVIOUS_REBOOT_INFO_FILE :: path where
  "PREVIOUS_REBOOT_INFO_FILE = ''/opt/secure/reboot/previousreboot.info''"
definition MAINTENANCE_REBOOT_FLAG :: path where
  "MAINTENANCE_REBOOT_FLAG = ''/opt/secure/reboot/maintenance_reboot''"
definition REBOOTSTOP_FLAG :: path where
  "REBOOTSTOP_FLAG = ''/opt/secure/reboot/rebootStop''"
definition REBOOT_COUNTER_FILE :: path where
  "REBOOT_COUNTER_FILE = ''/opt/secure/reboot/rebootCounter''"
definition PID_FILE :: path where
  "PID_FILE = ''/tmp/.rebootNow.pid''"
definition PROC_UPTIME :: path where
  "PROC_UPTIME = ''/proc/uptime''"
definition PREVIOUS_HARD_REBOOT_INFO_FILE :: path where
  "PREVIOUS_HARD_REBOOT_INFO_FILE = ''/opt/secure/reboot/hardpower.info''"
definition PREVIOUS_PARODUSREBOOT_INFO_FILE :: path where
  "PREVIOUS_PARODUSREBOOT_INFO_FILE = ''/opt/secure/reboot/previousparodusreboot.info''"
definition KEYPRESS_INFO_FILE :: path where
  "KEYPRESS_INFO_FILE = ''/opt/secure/reboot/keypress.info''"
definition PREVIOUS_KEYPRESS_INFO_FILE :: path where
  "PREVIOUS_KEYPRESS_INFO_FILE = ''/opt/secure/reboot/previouskeypress.info''"
definition PARODUS_LOG :: path where
  "PARODUS_LOG = ''/opt/logs/parodus.log''"
definition BRCM_REBOOT_FILE :: path where
  "BRCM_REBOOT_FILE = ''/proc/brcm/previous_reboot_reason''"
definition STT_FLAG :: path where
  "STT_FLAG = ''/tmp/stt_received''"
definition LOCK_DIR :: path where
  "LOCK_DIR = ''/tmp/rebootInfo.lock''"
definition KERNEL_LOG_FILE :: path where
  "KERNEL_LOG_FILE = ''/opt/logs/messages.txt''"
definition PATH_FLAG_INVOCATION :: path where
  "PATH_FLAG_INVOCATION = ''/tmp/Update_rebootInfo_invoked''"
definition BACKUP_LOGS_DONE_FLAG :: path where
  "BACKUP_LOGS_DONE_FLAG = ''/tmp/.backup_logs_done''"

definition DEVICE_PROPERTIES_PATH :: path where
  "DEVICE_PROPERTIES_PATH = ''/etc/device.properties''"
definition PSTORE_DIR :: path where
  "PSTORE_DIR = ''/sys/fs/pstore''"
definition PSTORE_CONSOLE_LOG_FILE :: path where
  "PSTORE_CONSOLE_LOG_FILE = ''/sys/fs/pstore/console-ramoops-0''"
definition UIMGR_LOG_FILE :: path where
  "UIMGR_LOG_FILE = ''/opt/logs/PreviousLogs/uimgr_log.txt''"
definition OCAPRI_LOG_FILE :: path where
  "OCAPRI_LOG_FILE = ''/opt/logs/PreviousLogs/ocapri_log.txt''"
definition ECM_CRASH_LOG_FILE :: path where
  "ECM_CRASH_LOG_FILE = ''/opt/logs/PreviousLogs/messages-ecm.txt''"
definition KERNEL_REASON_LOG :: path where
  "KERNEL_REASON_LOG = ''/opt/logs/receiver.log''"

definition all_paths :: "path list" where
  "all_paths = [REBOOTINFO_LOG, REBOOT_INFO_DIR, REBOOT_INFO_FILE, PARODUS_REBOOT_INFO_FILE,
     REBOOTNOW_FLAG, PREVIOUS_REBOOT_INFO_FILE, MAINTENANCE_REBOOT_FLAG, REBOOTSTOP_FLAG,
     REBOOT_COUNTER_FILE, PID_FILE, PROC_UPTIME, PREVIOUS_HARD_REBOOT_INFO_FILE,
     PREVIOUS_PARODUSREBOOT_INFO_FILE, KEYPRESS_INFO_FILE, PREVIOUS_KEYPRESS_INFO_FILE,
     PARODUS_LOG, BRCM_REBOOT_FILE, STT_FLAG, LOCK_DIR, KERNEL_LOG_FILE, PATH_FLAG_INVOCATION,
     BACKUP_LOGS_DONE_FLAG, DEVICE_PROPERTIES_PATH, PSTORE_DIR, PSTORE_CONSOLE_LOG_FILE,
     UIMGR_LOG_FILE, OCAPRI_LOG_FILE, ECM_CRASH_LOG_FILE, KERNEL_REASON_LOG]"

section \<open>RFC parameters\<close>

definition RFC_CALLER_ID :: string where
  "RFC_CALLER_ID = ''rebootmgr''"
definition RFC_MNG_NOTIFY :: string where
  "RFC_MNG_NOTIFY =
     ''Device.DeviceInfo.X_RDKCENTRAL-COM_RFC.Feature.ManageableNotification.Enable''"
definition RFC_FW_REBOOT_NOTIFY :: string where
  "RFC_FW_REBOOT_NOTIFY =
     ''Device.DeviceInfo.X_RDKCENTRAL-COM_xOpsDeviceMgmt.RPC.RebootPendingNotification''"
definition RFC_REBOOTSTOP_DETECTION :: string where
  "RFC_REBOOTSTOP_DETECTION =
     ''Device.DeviceInfo.X_RDKCENTRAL-COM_RFC.Feature.RebootStop.Detection''"
definition RFC_REBOOTSTOP_DURATION :: string where
  "RFC_REBOOTSTOP_DURATION =
     ''Device.DeviceInfo.X_RDKCENTRAL-COM_RFC.Feature.RebootStop.Duration''"
definition RFC_REBOOTSTOP_ENABLE :: string where
  "RFC_REBOOTSTOP_ENABLE = ''Device.DeviceInfo.X_RDKCENTRAL-COM_RFC.Feature.RebootStop.Enable''"
definition REBOOT_PENDING_NOTIFICATION_DELAY :: int where
  "REBOOT_PENDING_NOTIFICATION_DELAY = 10"

section \<open>Distinctness\<close>

lemma all_paths_distinct: "distinct all_paths" "distinct (rev all_paths)"
  by code_simp+

lemmas path_neq [simp] = all_paths_distinct [unfolded all_paths_def, simplified]

lemma rfc_neq [simp]:
  "RFC_REBOOTSTOP_DETECTION \<noteq> RFC_REBOOTSTOP_DURATION" "RFC_REBOOTSTOP_DURATION \<noteq> RFC_REBOOTSTOP_DETECTION"
  "RFC_MNG_NOTIFY \<noteq> RFC_REBOOTSTOP_DETECTION" "RFC_REBOOTSTOP_DETECTION \<noteq> RFC_MNG_NOTIFY"
  "RFC_MNG_NOTIFY \<noteq> RFC_REBOOTSTOP_DURATION" "RFC_REBOOTSTOP_DURATION \<noteq> RFC_MNG_NOTIFY"
  by code_simp+

end
