(* ===== verification/RebootUtils.thy ===== *)
theory RebootUtils
  imports Paths
begin

text \<open>
  \<^verbatim>\<open>reboot-helper/src/utils.c\<close>: the time stamp, the append to the reboot log, the telemetry
  wrappers and the typed RFC accessors. A getter returns \<open>None\<close> where the C function returns
  false and leaves the caller's variable alone.
\<close>

section \<open>Definitions\<close>

definition timestamp_update :: "env \<Rightarrow> nat \<Rightarrow> world \<Rightarrow> string \<times> world" where
  "timestamp_update e sz w = (let ((t, ms), w1) = utc_now e w; s = strftime_utc t in
     (if length s < sz then s else [], w1))"

definition write_rebootinfo_log :: "env \<Rightarrow> path \<Rightarrow> string \<Rightarrow> world \<Rightarrow> int \<times> world" where
  "write_rebootinfo_log e p line w = (case fopen_a e p w of Inl _ \<Rightarrow> (-1, w)
     | Inr w1 \<Rightarrow> (let (done, w2) = fputs e p line w1 in (if done then 0 else -1, w2)))"

definition t2CountNotify :: "env \<Rightarrow> string option \<Rightarrow> int \<Rightarrow> world \<Rightarrow> world" where
  "t2CountNotify e marker val w = (if t2_enabled e then
       (case marker of None \<Rightarrow> w | Some m \<Rightarrow> if m = [] then w else emit (T2Count m val) w)
     else w)"

definition t2ValNotify :: "env \<Rightarrow> string option \<Rightarrow> string option \<Rightarrow> world \<Rightarrow> world" where
  "t2ValNotify e marker val w = (if t2_enabled e then
       (case (marker, val) of (Some m, Some v) \<Rightarrow> if m = [] then w else emit (T2Val m v) w
         | _ \<Rightarrow> w)
     else w)"

definition rfc_read_param_value :: "env \<Rightarrow> string option \<Rightarrow> nat \<Rightarrow> world \<Rightarrow> string option" where
  "rfc_read_param_value e param_name buf_size w = (case param_name of None \<Rightarrow> None
     | Some name \<Rightarrow> if buf_size = 0 then None
       else let (status, value) = getRFCParameter e (trace w) RFC_CALLER_ID name in
         if status \<noteq> WDMP_SUCCESS \<and> status \<noteq> WDMP_ERR_DEFAULT_VALUE then None
         else if value = [] then None
         else if 2 \<le> length value \<and> value ! 0 = DQ \<and> value ! (length value - 1) = DQ then
           (let copy_len = length value - 2;
                copy_len = (if buf_size \<le> copy_len then buf_size - 1 else copy_len)
            in Some (take copy_len (drop 1 value)))
         else Some (bufcpy buf_size value))"

definition rfc_get_string_param :: "env \<Rightarrow> string option \<Rightarrow> nat \<Rightarrow> world \<Rightarrow> string option" where
  "rfc_get_string_param e param_name buf_size w = rfc_read_param_value e param_name buf_size w"

definition rfc_get_bool_param :: "env \<Rightarrow> string option \<Rightarrow> world \<Rightarrow> bool option" where
  "rfc_get_bool_param e param_name w = (case rfc_read_param_value e param_name 64 w of
       None \<Rightarrow> None
     | Some raw \<Rightarrow> Some (strcasecmp_eq raw ''true'' \<or> raw = ''1''))"

definition rfc_get_int_param :: "env \<Rightarrow> string option \<Rightarrow> world \<Rightarrow> int option" where
  "rfc_get_int_param e param_name w = (case rfc_read_param_value e param_name 64 w of
       None \<Rightarrow> None
     | Some raw \<Rightarrow> (case strtol raw of None \<Rightarrow> None
         | Some (v, rest) \<Rightarrow> if rest \<noteq> [] \<and> hd rest \<noteq> NL then None else Some (to_int32 v)))"

definition rfc_set_bool_param :: "env \<Rightarrow> string option \<Rightarrow> bool \<Rightarrow> world \<Rightarrow> bool \<times> world" where
  "rfc_set_bool_param e param_name value w = (case param_name of None \<Rightarrow> (False, w)
     | Some name \<Rightarrow>
         (let str_val = (if value then ''true'' else ''false'');
              status = setRFCParameter e (trace w) RFC_CALLER_ID name str_val WDMP_BOOLEAN
          in (status = WDMP_SUCCESS, emit (RfcSet name str_val WDMP_BOOLEAN) w)))"

definition rfc_set_int_param :: "env \<Rightarrow> string option \<Rightarrow> int \<Rightarrow> world \<Rightarrow> bool \<times> world" where
  "rfc_set_int_param e param_name value w = (case param_name of None \<Rightarrow> (False, w)
     | Some name \<Rightarrow>
         (let str_val = bufcpy 32 (show_int value);
              status = setRFCParameter e (trace w) RFC_CALLER_ID name str_val WDMP_INT
          in (status = WDMP_SUCCESS, emit (RfcSet name str_val WDMP_INT) w)))"

section \<open>Frames and laws\<close>

lemma rfc_set_bool_snd [simp]:
  "snd (rfc_set_bool_param e (Some n) b w) =
     emit (RfcSet n (if b then ''true'' else ''false'') WDMP_BOOLEAN) w"
  by (simp add: rfc_set_bool_param_def Let_def)

lemma t2CountNotify_fs [simp]: "fs (t2CountNotify e m v w) = fs w"
  by (simp add: t2CountNotify_def split: option.split)

interpretation t2count_op: world_op "t2CountNotify e m v" "{}" for e m v
  by unfold_locales (simp_all add: t2CountNotify_def split: option.split)

interpretation rfc_set_bool_op: world_op "\<lambda>w. snd (rfc_set_bool_param e n v w)" "{}" for e n v
  by unfold_locales (simp_all add: rfc_set_bool_param_def Let_def split: option.split)

interpretation rfc_set_int_op: world_op "\<lambda>w. snd (rfc_set_int_param e n v w)" "{}" for e n v
  by unfold_locales (simp_all add: rfc_set_int_param_def Let_def split: option.split)

interpretation timestamp_op: world_op "\<lambda>w. snd (timestamp_update e sz w)" "{}" for e sz
  by unfold_locales (simp_all add: timestamp_update_def utc_now_def Let_def split: prod.split)

lemma write_rebootinfo_log_eq:
  "snd (write_rebootinfo_log e p line w) = snd (append_file e p [line] w)"
  by (simp add: write_rebootinfo_log_def append_file_def fprints_def Let_def split: sum.split prod.split)

interpretation rebootinfo_log_op: world_op "\<lambda>w. snd (write_rebootinfo_log e p line w)" "{p}" for e p line
  unfolding write_rebootinfo_log_eq by (rule append_op.world_op_axioms)

text \<open>The buffer of a getter is never overrun, quoted or not.\<close>

lemma rfc_read_param_value_bound:
  "rfc_read_param_value e n sz w = Some v \<Longrightarrow> length v < sz"
  by (auto simp: rfc_read_param_value_def Let_def bufcpy_def split: option.splits prod.splits if_splits)

lemma rfc_read_plain:
  assumes "getRFCParameter e (trace w) RFC_CALLER_ID n = (WDMP_SUCCESS, v)"
    and "v \<noteq> []" and "hd v \<noteq> DQ" and "length v < sz"
  shows "rfc_read_param_value e (Some n) sz w = Some v"
  using assms by (cases v) (auto simp: rfc_read_param_value_def)

lemma rfc_read_quoted:
  assumes "getRFCParameter e (trace w) RFC_CALLER_ID n = (WDMP_SUCCESS, DQ # v @ [DQ])"
    and "length v < sz"
  shows "rfc_read_param_value e (Some n) sz w = Some v"
  using assms by (auto simp: rfc_read_param_value_def Let_def nth_append)

lemma length_show_nat: "n < 10 ^ k \<Longrightarrow> 0 < k \<Longrightarrow> length (show_nat n) \<le> k"
proof (induction n arbitrary: k rule: show_nat.induct)
  case (1 n)
  show ?case
  proof (cases "n < 10")
    case True
    then show ?thesis using "1.prems" by (simp add: show_nat.simps [of n])
  next
    case False
    then obtain j where j: "k = Suc j" "0 < j"
      using "1.prems" by (cases k; cases "k - 1") auto
    with "1.prems" have "n div 10 < 10 ^ j"
      by (simp add: less_mult_imp_div_less mult.commute)
    from "1.IH" [OF False this j(2)] show ?thesis
      using False j by (simp add: show_nat.simps [of n])
  qed
qed

lemma length_show_int32:
  assumes "- (2 ^ 31) \<le> v" and "v < 2 ^ 31"
  shows "length (show_int v) \<le> 11"
proof -
  have "length (show_nat (nat \<bar>v\<bar>)) \<le> 10"
    by (rule length_show_nat) (use assms in auto)
  then show ?thesis
    by (auto simp: show_int_def abs_if split: if_splits)
qed

lemma hd_show_int: "hd (show_int v) \<noteq> DQ" and show_int_nonempty [simp]: "show_int v \<noteq> []"
proof -
  have "isdigit (hd (show_nat k))" for k by (rule hd_show_nat)
  moreover have "\<not> isdigit DQ" by (simp add: isdigit_def)
  ultimately have "hd (show_nat k) \<noteq> DQ" for k by metis
  then show "hd (show_int v) \<noteq> DQ" by (simp add: show_int_def)
qed (simp add: show_int_def)

section \<open>Properties\<close>

text \<open>
  C29. An integer RFC parameter survives the text form: whatever 32-bit value
  \<^verbatim>\<open>rfc_set_int_param\<close> formats, \<^verbatim>\<open>rfc_get_int_param\<close> reads back exactly when the service
  answers with that text, plain or wrapped in double quotes.
\<close>

theorem rfc_int_roundtrip:
  assumes "- (2 ^ 31) \<le> v" and "v < 2 ^ 31"
    and "getRFCParameter e (trace w) RFC_CALLER_ID n = (WDMP_SUCCESS, reply)"
    and "reply = show_int v \<or> reply = DQ # show_int v @ [DQ]"
  shows "snd (rfc_set_int_param e (Some n) v w) = emit (RfcSet n (show_int v) WDMP_INT) w \<and>
    rfc_get_int_param e (Some n) w = Some v"
proof
  have len: "length (show_int v) < 32" "length (show_int v) < 64"
    using length_show_int32 [OF assms(1,2)] by simp_all
  then show "snd (rfc_set_int_param e (Some n) v w) = emit (RfcSet n (show_int v) WDMP_INT) w"
    by (simp add: rfc_set_int_param_def Let_def)
  have "rfc_read_param_value e (Some n) 64 w = Some (show_int v)"
    using assms(3,4) len(2) rfc_read_plain rfc_read_quoted hd_show_int by fastforce
  moreover have "strtol (show_int v) = Some (v, [])"
    using strtol_show_int [of "[]" v] assms(1,2) by (simp add: saturate_long_id)
  ultimately show "rfc_get_int_param e (Some n) w = Some v"
    using assms(1,2) by (simp add: rfc_get_int_param_def to_int32_id)
qed

theorem rfc_int_roundtrip_witness:
  "rfc_get_int_param (calm_env\<lparr>getRFCParameter := (\<lambda>_ _ _. (WDMP_SUCCESS, show_int (- 45)))\<rparr>)
     (Some RFC_REBOOTSTOP_DURATION) empty_world = Some (- 45)"
  by (rule rfc_int_roundtrip [of "- 45" _ _ _ "show_int (- 45)", THEN conjunct2]) simp_all

end
