(* ===== verification/CyclicReboot.thy ===== *)
theory CyclicReboot
  imports RebootUtils
begin

text \<open>
  \<^verbatim>\<open>reboot-helper/src/cyclic_reboot.c\<close>: the guard against reboot loops. Its state lives in
  four files (the marker that the last reboot came from rebootnow, the stop marker, the
  counter, the record of the previous reboot); \<open>handle_cyclic_reboot\<close> decides between an
  immediate reboot (1) and a deferred one (0). The production build is modelled (no
  \<open>GTEST_ENABLE\<close>). Output pointers are the addresses of the caller's arrays, so an
  operation returns the new contents of the array beside its result.
\<close>

section \<open>Operations\<close>

definition cyclic_file_exists :: "path option \<Rightarrow> world \<Rightarrow> bool" where
  "cyclic_file_exists p w = (case p of None \<Rightarrow> False | Some q \<Rightarrow> access_ok q w)"

definition read_rebootcounter :: "env \<Rightarrow> path option \<Rightarrow> int \<Rightarrow> world \<Rightarrow> int \<times> int" where
  "read_rebootcounter e path out w = (case path of None \<Rightarrow> (-1, out)
     | Some p \<Rightarrow> (case fopen_r e p w of Inl _ \<Rightarrow> (-1, 0)
         | Inr c \<Rightarrow> (case strtol c of None \<Rightarrow> (-1, 0) | Some (v, _) \<Rightarrow> (0, to_int32 v))))"

definition write_rebootcounter :: "env \<Rightarrow> path option \<Rightarrow> int \<Rightarrow> world \<Rightarrow> world" where
  "write_rebootcounter e path v w = (case path of None \<Rightarrow> w
     | Some p \<Rightarrow> snd (write_file e p [show_int v @ [NL]] w))"

definition touch_file :: "env \<Rightarrow> path option \<Rightarrow> world \<Rightarrow> world" where
  "touch_file e path w = (case path of None \<Rightarrow> w | Some p \<Rightarrow> snd (append_file e p [] w))"

text \<open>
  The conversion of the uptime to \<open>int\<close> is undefined in C beyond \<open>INT_MAX\<close> (68 years of
  uptime); the model takes the \<open>INT_MIN\<close> of x86. The \<open>INT_MAX\<close> of ARM lies outside the window as well.
\<close>

definition read_proc_uptime_secs :: "env \<Rightarrow> world \<Rightarrow> int" where
  "read_proc_uptime_secs e w = (case fopen_r e PROC_UPTIME w of Inl _ \<Rightarrow> -1
     | Inr c \<Rightarrow> (case scan_lf_trunc c of None \<Rightarrow> -1
         | Some v \<Rightarrow> if - (2 ^ 31) \<le> v \<and> v < 2 ^ 31 then v else - (2 ^ 31)))"

definition extract_json_value ::
    "string option \<Rightarrow> string option \<Rightarrow> string \<Rightarrow> nat \<Rightarrow> int \<times> string" where
  "extract_json_value buf key out outsz = (case (buf, key) of
       (Some b, Some k) \<Rightarrow>
         if outsz = 0 then (-1, out)
         else (let pattern = bufcpy 128 ([DQ] @ k @ [DQ, CHR '':'', DQ]) in
           (case strstr b pattern of None \<Rightarrow> (-1, out)
            | Some p \<Rightarrow> (let p = drop (length pattern) p in
                (case strchr p DQ of None \<Rightarrow> (-1, out)
                 | Some q \<Rightarrow> (let len = length p - length q;
                                  len = (if outsz \<le> len then outsz - 1 else len)
                              in (0, take len p))))))
     | _ \<Rightarrow> (-1, out))"

record prev_info =
  p_src :: string
  p_rsn :: string
  p_cus :: string
  p_oth :: string
  p_ts :: string

definition read_previous_reboot_info ::
    "env \<Rightarrow> nat \<Rightarrow> nat \<Rightarrow> nat \<Rightarrow> nat \<Rightarrow> nat \<Rightarrow> prev_info \<Rightarrow> world \<Rightarrow> int \<times> prev_info" where
  "read_previous_reboot_info e ssz rsz csz osz tsz out w =
     (if \<not> cyclic_file_exists (Some PREVIOUS_REBOOT_INFO_FILE) w then (-1, out)
      else case fopen_r e PREVIOUS_REBOOT_INFO_FILE w of Inl _ \<Rightarrow> (-1, out)
      | Inr c \<Rightarrow>
        (let buf = Some (cstr (take (4096 - 1) c));
             (r1, src) = extract_json_value buf (Some ''source'') (p_src out) ssz;
             (r2, rsn) = extract_json_value buf (Some ''reason'') (p_rsn out) rsz;
             (r3, cus) = extract_json_value buf (Some ''customReason'') (p_cus out) csz;
             (r4, oth) = extract_json_value buf (Some ''otherReason'') (p_oth out) osz;
             (r5, ts) = extract_json_value buf (Some ''timestamp'') (p_ts out) tsz
         in (if r1 \<noteq> 0 \<or> r2 \<noteq> 0 \<or> r3 \<noteq> 0 \<or> r4 \<noteq> 0 then -1 else 0,
             \<lparr>p_src = src, p_rsn = rsn, p_cus = cus, p_oth = oth, p_ts = ts\<rparr>)))"

text \<open>The two normalisation loops of \<open>compute_cron_time\<close>.\<close>

function cron_borrow :: "int \<Rightarrow> int \<Rightarrow> int \<times> int" where
  "cron_borrow mn hr = (if mn < 0 then
       (let mn = mn + 60; hr = hr - 1; hr = (if hr < 0 then 23 else hr) in cron_borrow mn hr)
     else (mn, hr))"
  by pat_completeness auto
termination
  by (relation "measure (\<lambda>(mn, hr). nat (- mn))") auto

function cron_carry :: "int \<Rightarrow> int \<Rightarrow> int \<times> int" where
  "cron_carry mn hr = (if 60 \<le> mn then
       (let mn = mn - 60; hr = hr + 1; hr = (if hr > 23 then 0 else hr) in cron_carry mn hr)
     else (mn, hr))"
  by pat_completeness auto
termination
  by (relation "measure (\<lambda>(mn, hr). nat mn)") auto

declare cron_borrow.simps [simp del] cron_carry.simps [simp del]

definition cron_fields :: "int \<Rightarrow> tm \<Rightarrow> int \<times> int" where
  "cron_fields add_minutes t =
     (let hr = int (tm_hour t); mn = int (tm_min t); mn = mn + 1; mn = mn + add_minutes;
          (mn, hr) = cron_borrow mn hr
      in cron_carry mn hr)"

definition compute_cron_time :: "env \<Rightarrow> int \<Rightarrow> nat \<Rightarrow> world \<Rightarrow> string \<times> world" where
  "compute_cron_time e add_minutes outsz w =
     (let (t, w1) = local_now e w; (mn, hr) = cron_fields add_minutes t
      in (bufcpy outsz (show_int mn @ '' '' @ show_int hr @ '' * * *''), w1))"

definition REBOOT_CYCLE_THRESHOLD :: int where
  "REBOOT_CYCLE_THRESHOLD = 5"

definition REBOOT_WINDOW_SECS :: int where
  "REBOOT_WINDOW_SECS = 10 * 60"

definition CRON_REMOVE :: string where
  "CRON_REMOVE = ''sh /lib/rdk/cronjobs_update.sh remove rebootnow''"

definition cron_add :: "string \<Rightarrow> string" where
  "cron_add entry = ''sh /lib/rdk/cronjobs_update.sh add rebootnow '' @ [DQ] @ entry @ [DQ]"

definition cron_entry :: "string \<Rightarrow> string" where
  "cron_entry cron = bufcpy 256 (cron @ '' /usr/bin/rebootnow -s '' @ [DQ] @ ''CyclicReboot'' @ [DQ] @
     '' -o '' @ [DQ] @ ''Rebooting device after expiry of Cyclic reboot pause window'' @ [DQ])"

text \<open>A loop was detected: stop marker, RFC, telemetry, and a cron job for the deferred reboot.\<close>

definition cyclic_halt :: "env \<Rightarrow> int \<Rightarrow> world \<Rightarrow> world" where
  "cyclic_halt e stop_duration w =
     (let w = touch_file e (Some REBOOTSTOP_FLAG) w;
          w = snd (rfc_set_bool_param e (Some RFC_REBOOTSTOP_ENABLE) True w);
          w = t2CountNotify e (Some ''SYST_ERR_Cyclic_reboot'') 1 w;
          w = snd (secure_system e CRON_REMOVE w);
          (cron, w) = compute_cron_time e stop_duration 64 w;
          w = snd (secure_system e (cron_add (cron_entry cron)) w)
      in touch_file e (Some REBOOTNOW_FLAG) w)"

text \<open>The device is not in a loop: clear everything the guard keeps.\<close>

definition cyclic_reset :: "env \<Rightarrow> world \<Rightarrow> world" where
  "cyclic_reset e w =
     (let w = snd (rfc_set_bool_param e (Some RFC_REBOOTSTOP_ENABLE) False w);
          w = write_rebootcounter e (Some REBOOT_COUNTER_FILE) 0 w;
          w = snd (unlink e REBOOTSTOP_FLAG w)
      in snd (secure_system e CRON_REMOVE w))"

definition same_cause ::
    "string option \<Rightarrow> string option \<Rightarrow> string option \<Rightarrow> string option \<Rightarrow> prev_info \<Rightarrow> bool" where
  "same_cause source rebootReason customReason otherReason p \<longleftrightarrow>
     source = Some (p_src p) \<and> rebootReason = Some (p_rsn p) \<and>
     customReason = Some (p_cus p) \<and> otherReason = Some (p_oth p)"

definition detection_enabled :: "env \<Rightarrow> world \<Rightarrow> bool" where
  "detection_enabled e w =
     (case rfc_get_bool_param e (Some RFC_REBOOTSTOP_DETECTION) w of Some b \<Rightarrow> b | None \<Rightarrow> True)"

definition stop_duration :: "env \<Rightarrow> world \<Rightarrow> int" where
  "stop_duration e w = (case rfc_get_int_param e (Some RFC_REBOOTSTOP_DURATION) w of
       Some d \<Rightarrow> if 0 < d \<and> d < 24 * 60 then d else 30
     | None \<Rightarrow> 30)"

definition empty_prev :: prev_info where
  "empty_prev = \<lparr>p_src = [], p_rsn = [], p_cus = [], p_oth = [], p_ts = []\<rparr>"

definition handle_cyclic_reboot ::
    "env \<Rightarrow> string option \<Rightarrow> string option \<Rightarrow> string option \<Rightarrow> string option \<Rightarrow> world \<Rightarrow> int \<times> world" where
  "handle_cyclic_reboot e source rebootReason customReason otherReason w =
     (let detect = detection_enabled e w;
          duration = stop_duration e w
      in if cyclic_file_exists (Some REBOOTNOW_FLAG) w \<and> detect then
           (let w = snd (unlink e REBOOTNOW_FLAG w);
                (rc, p) = read_previous_reboot_info e 128 128 128 256 64 empty_prev w
            in if rc = 0 then
                 (let upsecs = read_proc_uptime_secs e w
                  in if 0 \<le> upsecs \<and> upsecs \<le> REBOOT_WINDOW_SECS then
                       if same_cause source rebootReason customReason otherReason p then
                         if cyclic_file_exists (Some REBOOTSTOP_FLAG) w then
                           (0, touch_file e (Some REBOOTNOW_FLAG) w)
                         else
                           (let count = snd (read_rebootcounter e (Some REBOOT_COUNTER_FILE) 0 w)
                            in if REBOOT_CYCLE_THRESHOLD \<le> count then (0, cyclic_halt e duration w)
                               else (1, write_rebootcounter e (Some REBOOT_COUNTER_FILE) (count + 1) w))
                       else (1, cyclic_reset e w)
                     else (1, cyclic_reset e w))
               else (1, cyclic_reset e w))
         else (1, w))"

section \<open>The record of a reboot: what is written can be read back\<close>

text \<open>The key-value pairs of the record, and the pattern the reader searches for.\<close>

definition json_pat :: "string \<Rightarrow> string" where
  "json_pat k = DQ # k @ DQ # [CHR '':'', DQ]"

definition json_kv :: "string \<Rightarrow> string \<Rightarrow> string" where
  "json_kv k v = DQ # k @ DQ # CHR '':'' # DQ # v @ [DQ]"

lemma strstr_kv_skip:
  assumes "DQ \<notin> set k'" "DQ \<notin> set v" "DQ \<notin> set k" "k' \<noteq> k" "k \<noteq> []" "hd k \<noteq> CHR '':''"
    and "rest \<noteq> []" "hd rest \<noteq> CHR '':''" "hd rest \<noteq> hd k"
  shows "strstr (json_kv k' v @ rest) (json_pat k) = strstr rest (json_pat k)"
proof -
  let ?p = "DQ # k @ DQ # [CHR '':'', DQ]"
  obtain x k1 where k: "k = x # k1" using assms(5) by (cases k) auto
  obtain y r1 where r: "rest = y # r1" using assms(7) by (cases rest) auto
  have "strstr (json_kv k' v @ rest) ?p = strstr (CHR '':'' # DQ # v @ DQ # rest) ?p"
    using strstr_quoted_skip [of DQ k' k "[CHR '':'', DQ]" "CHR '':'' # DQ # v @ DQ # rest"] assms k
    by (simp add: json_kv_def)
  also have "\<dots> = strstr (DQ # v @ DQ # rest) ?p"
    by (simp add: strstr.simps(2))
  also have "\<dots> = strstr rest ?p"
    by (rule strstr_quoted_skip) (use assms k r in auto)
  finally show ?thesis by (simp add: json_pat_def)
qed

lemma strstr_kv_here: "strstr (json_kv k v @ rest) (json_pat k) = Some (json_kv k v @ rest)"
  by (rule strstr_here) (simp add: json_kv_def json_pat_def)

lemma strstr_pat_skip: "c \<noteq> DQ \<Longrightarrow> strstr (c # h) (json_pat k) = strstr h (json_pat k)"
  by (simp add: json_pat_def strstr.simps(2))

lemma extract_json_value_found:
  assumes "strstr b (json_pat k) = Some (json_kv k v @ rest)" and "DQ \<notin> set v"
    and "length k \<le> 100" and "0 < sz"
  shows "extract_json_value (Some b) (Some k) out sz = (0, bufcpy sz v)"
proof -
  have pat: "bufcpy 128 ([DQ] @ k @ [DQ, CHR '':'', DQ]) = json_pat k"
    using assms(3) by (simp add: json_pat_def)
  have rest: "drop (length (json_pat k)) (json_kv k v @ rest) = v @ DQ # rest"
    by (simp add: json_pat_def json_kv_def)
  have quote: "strchr (v @ DQ # rest) DQ = Some (DQ # rest)"
    using assms(2) by (rule strchr_append)
  show ?thesis
    unfolding extract_json_value_def Let_def prod.case option.case pat assms(1) rest quote
    using assms(4) by (simp add: bufcpy_def)
qed

text \<open>The layout both writers produce.\<close>

definition record_text :: "prev_info \<Rightarrow> string" where
  "record_text r = CHR ''{'' # NL # json_kv ''timestamp'' (p_ts r) @ CHR '','' # NL #
     json_kv ''source'' (p_src r) @ CHR '','' # NL # json_kv ''reason'' (p_rsn r) @ CHR '','' # NL #
     json_kv ''customReason'' (p_cus r) @ CHR '','' # NL # json_kv ''otherReason'' (p_oth r) @
     [NL, CHR ''}'', NL]"

definition quotable :: "prev_info \<Rightarrow> bool" where
  "quotable r \<longleftrightarrow> (\<forall>s \<in> {p_src r, p_rsn r, p_cus r, p_oth r, p_ts r}. DQ \<notin> set s \<and> NUL \<notin> set s)"

definition truncated :: "nat \<Rightarrow> nat \<Rightarrow> nat \<Rightarrow> nat \<Rightarrow> nat \<Rightarrow> prev_info \<Rightarrow> prev_info" where
  "truncated ssz rsz csz osz tsz r = \<lparr>p_src = bufcpy ssz (p_src r), p_rsn = bufcpy rsz (p_rsn r),
     p_cus = bufcpy csz (p_cus r), p_oth = bufcpy osz (p_oth r), p_ts = bufcpy tsz (p_ts r)\<rparr>"

lemma json_kv_chars: "set (json_kv k v) = {DQ, CHR '':''} \<union> set k \<union> set v"
  by (auto simp: json_kv_def)

lemma record_text_no_nul: "quotable r \<Longrightarrow> cstr (record_text r) = record_text r"
  by (rule cstr_id) (auto simp: record_text_def quotable_def json_kv_chars)

text \<open>Skipping a pair of the record costs only a check of the two keys.\<close>

lemma strstr_pair_skip:
  assumes "DQ \<notin> set (k' @ v @ k)" and "k' \<noteq> k" and "k \<noteq> []" and "hd k \<notin> {CHR '':'', CHR '',''}"
  shows "strstr (json_kv k' v @ CHR '','' # NL # rest) (json_pat k) = strstr rest (json_pat k)"
proof -
  have "strstr (json_kv k' v @ CHR '','' # NL # rest) (json_pat k) = strstr (CHR '','' # NL # rest) (json_pat k)"
    by (rule strstr_kv_skip) (use assms in auto)
  then show ?thesis by (simp add: strstr_pat_skip)
qed

lemma strstr_open: "strstr (CHR ''{'' # NL # rest) (json_pat k) = strstr rest (json_pat k)"
  by (simp add: strstr_pat_skip)

lemma extract_record:
  assumes "quotable r" and "0 < sz"
  shows "extract_json_value (Some (record_text r)) (Some ''timestamp'') out sz = (0, bufcpy sz (p_ts r))"
    and "extract_json_value (Some (record_text r)) (Some ''source'') out sz = (0, bufcpy sz (p_src r))"
    and "extract_json_value (Some (record_text r)) (Some ''reason'') out sz = (0, bufcpy sz (p_rsn r))"
    and "extract_json_value (Some (record_text r)) (Some ''customReason'') out sz = (0, bufcpy sz (p_cus r))"
    and "extract_json_value (Some (record_text r)) (Some ''otherReason'') out sz = (0, bufcpy sz (p_oth r))"
proof -
  have q: "DQ \<notin> set (p_ts r)" "DQ \<notin> set (p_src r)" "DQ \<notin> set (p_rsn r)" "DQ \<notin> set (p_cus r)"
      "DQ \<notin> set (p_oth r)"
    using assms(1) by (auto simp: quotable_def)
  have k: "DQ \<notin> set ''timestamp''" "DQ \<notin> set ''source''" "DQ \<notin> set ''reason''" "DQ \<notin> set ''customReason''"
      "DQ \<notin> set ''otherReason''"
    by simp_all
  note skip = record_text_def strstr_open strstr_pair_skip strstr_kv_here
  show "extract_json_value (Some (record_text r)) (Some ''timestamp'') out sz = (0, bufcpy sz (p_ts r))"
    by (rule extract_json_value_found) (use assms q k in \<open>simp_all add: skip\<close>)
  show "extract_json_value (Some (record_text r)) (Some ''source'') out sz = (0, bufcpy sz (p_src r))"
    by (rule extract_json_value_found) (use assms q k in \<open>simp_all add: skip\<close>)
  show "extract_json_value (Some (record_text r)) (Some ''reason'') out sz = (0, bufcpy sz (p_rsn r))"
    by (rule extract_json_value_found) (use assms q k in \<open>simp_all add: skip\<close>)
  show "extract_json_value (Some (record_text r)) (Some ''customReason'') out sz = (0, bufcpy sz (p_cus r))"
    by (rule extract_json_value_found) (use assms q k in \<open>simp_all add: skip\<close>)
  show "extract_json_value (Some (record_text r)) (Some ''otherReason'') out sz = (0, bufcpy sz (p_oth r))"
    by (rule extract_json_value_found) (use assms q k in \<open>simp_all add: skip\<close>)
qed

text \<open>
  The interface between the writers of the record (rebootnow, and the reason fetcher) and its
  readers: a writer prints a sequence of strings from which every field can be recovered, up to
  the size of the reader's array.
\<close>

locale reboot_record =
  fixes render :: "prev_info \<Rightarrow> string list"
  assumes no_nul: "quotable r \<Longrightarrow> cstr (concat (render r)) = concat (render r)"
    and field_lookup:
      "quotable r \<Longrightarrow> 0 < sz \<Longrightarrow>
       extract_json_value (Some (concat (render r))) (Some ''timestamp'') out sz = (0, bufcpy sz (p_ts r)) \<and>
       extract_json_value (Some (concat (render r))) (Some ''source'') out sz = (0, bufcpy sz (p_src r)) \<and>
       extract_json_value (Some (concat (render r))) (Some ''reason'') out sz = (0, bufcpy sz (p_rsn r)) \<and>
       extract_json_value (Some (concat (render r))) (Some ''customReason'') out sz = (0, bufcpy sz (p_cus r)) \<and>
       extract_json_value (Some (concat (render r))) (Some ''otherReason'') out sz = (0, bufcpy sz (p_oth r))"
begin

lemma read_back:
  assumes "content w PREVIOUS_REBOOT_INFO_FILE = Some (concat (render r))"
    and "quotable r" and "length (concat (render r)) < 4096"
    and "readable e PREVIOUS_REBOOT_INFO_FILE"
    and "0 < ssz" "0 < rsz" "0 < csz" "0 < osz" "0 < tsz"
  shows "read_previous_reboot_info e ssz rsz csz osz tsz out w = (0, truncated ssz rsz csz osz tsz r)"
proof -
  have open_ok: "fopen_r e PREVIOUS_REBOOT_INFO_FILE w = Inr (concat (render r))"
    using assms(1,4) by (simp add: fopen_r_def readable_def content_SomeD)
  have exists: "cyclic_file_exists (Some PREVIOUS_REBOOT_INFO_FILE) w"
    using content_SomeD [OF assms(1)] by (simp add: cyclic_file_exists_def access_ok_def)
  have buf: "cstr (take (4096 - 1) (concat (render r))) = concat (render r)"
    using assms(2,3) by (simp add: no_nul)
  show ?thesis
    unfolding read_previous_reboot_info_def open_ok Let_def sum.case buf
    using assms(2,5-9) by (simp add: exists field_lookup truncated_def)
qed

end

lemma reboot_recordI:
  assumes "\<And>r. concat (render r) = record_text r"
  shows "reboot_record render"
  using assms by unfold_locales (auto simp: record_text_no_nul extract_record)

section \<open>The time of the deferred reboot\<close>

lemma cron_borrow_eq:
  "0 \<le> hr \<Longrightarrow> hr \<le> 23 \<Longrightarrow> mn < 60 \<Longrightarrow> cron_borrow mn hr = (mn mod 60, (hr + mn div 60) mod 24)"
proof (induction mn hr rule: cron_borrow.induct)
  case (1 mn hr)
  show ?case
  proof (cases "mn < 0")
    case True
    let ?h = "if hr - 1 < 0 then 23 else hr - 1"
    have "cron_borrow mn hr = cron_borrow (mn + 60) ?h"
      using True by (subst cron_borrow.simps) (simp add: Let_def)
    also have "\<dots> = ((mn + 60) mod 60, (?h + (mn + 60) div 60) mod 24)"
      by (rule "1.IH" [OF True refl refl refl]) (use "1.prems" True in auto)
    also have "(?h + (mn + 60) div 60) mod 24 = (hr + mn div 60) mod 24"
    proof -
      have "?h + (mn + 60) div 60 = (hr + mn div 60) \<or> ?h + (mn + 60) div 60 = (hr + mn div 60) + 24"
        using "1.prems" by auto
      then show ?thesis by (elim disjE) (simp_all only: mod_add_self2)
    qed
    finally show ?thesis by simp
  next
    case False
    then show ?thesis using "1.prems" by (simp add: cron_borrow.simps [of mn hr])
  qed
qed

lemma cron_carry_eq:
  "0 \<le> hr \<Longrightarrow> hr \<le> 23 \<Longrightarrow> 0 \<le> mn \<Longrightarrow> cron_carry mn hr = (mn mod 60, (hr + mn div 60) mod 24)"
proof (induction mn hr rule: cron_carry.induct)
  case (1 mn hr)
  show ?case
  proof (cases "60 \<le> mn")
    case True
    let ?h = "if hr + 1 > 23 then 0 else hr + 1"
    have "cron_carry mn hr = cron_carry (mn - 60) ?h"
      using True by (subst cron_carry.simps) (simp only: Let_def if_True)
    also have "\<dots> = ((mn - 60) mod 60, (?h + (mn - 60) div 60) mod 24)"
      by (rule "1.IH" [OF True refl refl refl]) (use "1.prems" True in auto)
    also have "(mn - 60) mod 60 = mn mod 60" by (rule minus_mod_self2)
    also have "(?h + (mn - 60) div 60) mod 24 = (hr + mn div 60) mod 24"
    proof -
      have "(mn - 60) div 60 = mn div 60 - 1"
        using div_add_self2 [of 60 "mn - 60"] by simp
      then have "hr + mn div 60 = ?h + (mn - 60) div 60 \<or> hr + mn div 60 = (?h + (mn - 60) div 60) + 24"
        using "1.prems" by auto
      then show ?thesis by (metis mod_add_self2)
    qed
    finally show ?thesis .
  next
    case False
    then show ?thesis using "1.prems" by (simp add: cron_carry.simps [of mn hr])
  qed
qed
lemma cron_fields_eq:
  assumes "tm_hour t < 24" and "tm_min t < 60"
  shows "cron_fields d t = ((int (tm_min t) + 1 + d) mod 60,
    (int (tm_hour t) + (int (tm_min t) + 1 + d) div 60) mod 24)"
proof (cases "int (tm_min t) + 1 + d < 0")
  case True
  let ?m = "int (tm_min t) + 1 + d"
  have b: "cron_borrow ?m (int (tm_hour t)) = (?m mod 60, (int (tm_hour t) + ?m div 60) mod 24)"
    by (rule cron_borrow_eq) (use assms True in auto)
  have "cron_carry (?m mod 60) h = (?m mod 60, h)" for h
    by (subst cron_carry.simps) (rule if_not_P, simp add: not_le)
  then show ?thesis using b by (simp add: cron_fields_def Let_def)
next
  case False
  let ?m = "int (tm_min t) + 1 + d"
  have "cron_borrow ?m (int (tm_hour t)) = (?m, int (tm_hour t))"
    using False by (subst cron_borrow.simps) simp
  moreover have "cron_carry ?m (int (tm_hour t)) = (?m mod 60, (int (tm_hour t) + ?m div 60) mod 24)"
    by (rule cron_carry_eq) (use assms False in auto)
  ultimately show ?thesis by (simp add: cron_fields_def Let_def)
qed

lemma length_show_small: "0 \<le> v \<Longrightarrow> v < 100 \<Longrightarrow> length (show_int v) \<le> 2"
  using length_show_nat [of "nat v" 2] by (simp add: show_int_def)

section \<open>The guard as a small machine, and that the code implements it\<close>

datatype verdict = Proceed | Defer

record guard =
  armed :: bool
  stopped :: bool
  tally :: int

definition guard_step :: "bool \<Rightarrow> bool \<Rightarrow> guard \<Rightarrow> verdict \<times> guard" where
  "guard_step detect hit g =
     (if \<not> armed g \<or> \<not> detect then (Proceed, g)
      else if \<not> hit then (Proceed, \<lparr>armed = False, stopped = False, tally = 0\<rparr>)
      else if stopped g then (Defer, g)
      else if REBOOT_CYCLE_THRESHOLD \<le> tally g then (Defer, g\<lparr>stopped := True\<rparr>)
      else (Proceed, g\<lparr>armed := False, tally := tally g + 1\<rparr>))"

definition abs_guard :: "env \<Rightarrow> world \<Rightarrow> guard" where
  "abs_guard e w = \<lparr>armed = access_ok REBOOTNOW_FLAG w, stopped = access_ok REBOOTSTOP_FLAG w,
     tally = snd (read_rebootcounter e (Some REBOOT_COUNTER_FILE) 0 w)\<rparr>"

definition verdict_of :: "int \<Rightarrow> verdict" where
  "verdict_of rc = (if rc = 0 then Defer else Proceed)"

definition guard_ok :: "env \<Rightarrow> world \<Rightarrow> bool" where
  "guard_ok e w \<longleftrightarrow> writable e REBOOTNOW_FLAG w \<and> writable e REBOOTSTOP_FLAG w \<and>
     writable e REBOOT_COUNTER_FILE w \<and> readable e REBOOT_COUNTER_FILE"

definition loop_hit ::
    "env \<Rightarrow> string option \<Rightarrow> string option \<Rightarrow> string option \<Rightarrow> string option \<Rightarrow> world \<Rightarrow> bool" where
  "loop_hit e s r c oth w =
     (let (rc, p) = read_previous_reboot_info e 128 128 128 256 64 empty_prev w;
          up = read_proc_uptime_secs e w
      in rc = 0 \<and> 0 \<le> up \<and> up \<le> REBOOT_WINDOW_SECS \<and> same_cause s r c oth p)"

text \<open>What the guard's own steps do to its files.\<close>

lemma touch_file_fs:
  "writable e p w \<Longrightarrow> fs (touch_file e (Some p) w) =
     (fs w)(p := Some (Reg (case content w p of None \<Rightarrow> [] | Some c \<Rightarrow> c)))"
  by (simp add: touch_file_def append_file_writable split: option.split)

lemma write_rebootcounter_fs:
  "writable e p w \<Longrightarrow> fs (write_rebootcounter e (Some p) v w) = (fs w)(p := Some (Reg (show_int v @ [NL])))"
  by (simp add: write_rebootcounter_def write_file_writable)

lemma compute_cron_time_fs [simp]:
  "fs (snd (compute_cron_time e d n w)) = fs w" "trace (snd (compute_cron_time e d n w)) = trace w"
  by (simp_all add: compute_cron_time_def local_now_def split: prod.split)

lemma cyclic_halt_fs:
  assumes "guard_ok e w"
  shows "fs (cyclic_halt e d w) = (fs w)(
     REBOOTSTOP_FLAG := Some (Reg (case content w REBOOTSTOP_FLAG of None \<Rightarrow> [] | Some c \<Rightarrow> c)),
     REBOOTNOW_FLAG := Some (Reg (case content w REBOOTNOW_FLAG of None \<Rightarrow> [] | Some c \<Rightarrow> c)))"
proof -
  have w: "writable e REBOOTSTOP_FLAG w" "writable e REBOOTNOW_FLAG w"
    using assms by (simp_all add: guard_ok_def)
  have "writable e REBOOTNOW_FLAG v" if "fs v = fs (touch_file e (Some REBOOTSTOP_FLAG) w)" for v
    using w that by (auto simp: writable_def touch_file_fs)
  then show ?thesis
    using w by (simp add: cyclic_halt_def Let_def case_prod_beta touch_file_fs content_def)
qed

lemma cyclic_reset_fs:
  assumes "guard_ok e w"
  shows "fs (cyclic_reset e w) = (fs w)(REBOOT_COUNTER_FILE := Some (Reg (show_int 0 @ [NL])), REBOOTSTOP_FLAG := None)"
  using assms
  by (simp add: cyclic_reset_def Let_def guard_ok_def write_rebootcounter_fs unlink_writable writable_upd_reg
      writable_def)

text \<open>The counter file holds what was written to it.\<close>

lemma counter_roundtrip:
  assumes "fs w p = Some (Reg (show_int v @ [NL]))" and "readable e p" and "- (2 ^ 31) \<le> v" and "v < 2 ^ 31"
  shows "read_rebootcounter e (Some p) out w = (0, v)"
proof -
  have "strtol (show_int v @ [NL]) = Some (v, [NL])"
    using strtol_show_int [of "[NL]" v] assms(3,4) by (simp add: saturate_long_id isdigit_def)
  then show ?thesis
    using assms by (simp add: read_rebootcounter_def fopen_r_def readable_def to_int32_id)
qed

lemma read_rebootcounter_cong:
  "fs v p = fs w p \<Longrightarrow> read_rebootcounter e (Some p) out v = read_rebootcounter e (Some p) out w"
  by (simp only: read_rebootcounter_def option.case fopen_r_cong [of v p w])

lemma read_rebootcounter_range:
  "- (2 ^ 31) \<le> snd (read_rebootcounter e (Some p) 0 w)" "snd (read_rebootcounter e (Some p) 0 w) < 2 ^ 31"
  using to_int32_range by (auto simp: read_rebootcounter_def split: sum.split option.split prod.split)

lemma loop_hit_cong:
  assumes "fs v PREVIOUS_REBOOT_INFO_FILE = fs w PREVIOUS_REBOOT_INFO_FILE" and "fs v PROC_UPTIME = fs w PROC_UPTIME"
  shows "loop_hit e s r c oth v = loop_hit e s r c oth w"
  by (simp only: loop_hit_def read_previous_reboot_info_def read_proc_uptime_secs_def
      cyclic_file_exists_def access_ok_def option.case assms fopen_r_cong [OF assms(1)] fopen_r_cong [OF assms(2)])

text \<open>The handler by cases on the state of the guard, as one conditional.\<close>

lemma handle_cyclic_reboot_cases:
  "handle_cyclic_reboot e s r c oth w =
     (let w1 = snd (unlink e REBOOTNOW_FLAG w);
          count = snd (read_rebootcounter e (Some REBOOT_COUNTER_FILE) 0 w1)
      in if \<not> access_ok REBOOTNOW_FLAG w \<or> \<not> detection_enabled e w then (1, w)
         else if \<not> loop_hit e s r c oth w1 then (1, cyclic_reset e w1)
         else if access_ok REBOOTSTOP_FLAG w1 then (0, touch_file e (Some REBOOTNOW_FLAG) w1)
         else if REBOOT_CYCLE_THRESHOLD \<le> count then (0, cyclic_halt e (stop_duration e w) w1)
         else (1, write_rebootcounter e (Some REBOOT_COUNTER_FILE) (count + 1) w1))"
  by (auto simp: handle_cyclic_reboot_def loop_hit_def cyclic_file_exists_def Let_def split: prod.split)

lemma guard_ok_upd:
  assumes "guard_ok e w" and "p \<in> {REBOOTNOW_FLAG, REBOOTSTOP_FLAG, REBOOT_COUNTER_FILE}" and "n \<noteq> Some Dir"
  shows "guard_ok e (v\<lparr>fs := (fs w)(p := n)\<rparr>)"
  using assms by (auto simp: guard_ok_def writable_def)

lemma guard_ok_cong: "fs v = fs w \<Longrightarrow> guard_ok e v = guard_ok e w"
  by (simp add: guard_ok_def writable_def)

lemma handle_guard_ok:
  assumes "guard_ok e w"
  shows "guard_ok e (snd (handle_cyclic_reboot e s r c oth w))"
proof -
  define w1 where "w1 = snd (unlink e REBOOTNOW_FLAG w)"
  have g1: "guard_ok e w1"
    using assms by (simp add: w1_def guard_ok_def unlink_writable writable_upd_none)
  then have "guard_ok e (cyclic_reset e w1)" "guard_ok e (touch_file e (Some REBOOTNOW_FLAG) w1)"
      "guard_ok e (cyclic_halt e d w1)" "guard_ok e (write_rebootcounter e (Some REBOOT_COUNTER_FILE) v w1)" for d v
    using cyclic_reset_fs [OF g1] cyclic_halt_fs [OF g1]
    by (auto simp: guard_ok_def writable_def touch_file_fs write_rebootcounter_fs)
  then show ?thesis
    using assms by (simp add: handle_cyclic_reboot_cases Let_def w1_def [symmetric])
qed

section \<open>Frames\<close>

interpretation touch_op: world_op "touch_file e (Some p)" "{p}" for e p
  unfolding touch_file_def option.case by (rule append_op.world_op_axioms)

interpretation counter_op: world_op "write_rebootcounter e (Some p) v" "{p}" for e p v
  unfolding write_rebootcounter_def option.case by (rule write_op.world_op_axioms)

interpretation cron_op: world_op "\<lambda>w. snd (compute_cron_time e d n w)" "{}" for e d n
  by unfold_locales simp_all

definition guard_files :: "path set" where
  "guard_files = {REBOOTNOW_FLAG, REBOOTSTOP_FLAG, REBOOT_COUNTER_FILE}"

lemmas guard_trace = touch_op.trace_via rfc_set_bool_op.trace_via t2count_op.trace_via
  system_op.trace_via cron_op.trace_via counter_op.trace_via unlink_op.trace_via

interpretation halt_op: world_op "cyclic_halt e d" guard_files for e d
proof unfold_locales
  fix w q assume "q \<notin> guard_files"
  then show "fs (cyclic_halt e d w) q = fs w q"
    by (simp add: guard_files_def cyclic_halt_def Let_def case_prod_beta touch_op.frame)
next
  fix w show "prefix (trace w) (trace (cyclic_halt e d w))"
    unfolding cyclic_halt_def Let_def case_prod_beta by (intro guard_trace prefix_order.refl)
qed

interpretation reset_op: world_op "cyclic_reset e" guard_files for e
proof unfold_locales
  fix w q assume "q \<notin> guard_files"
  then show "fs (cyclic_reset e w) q = fs w q"
    by (simp add: guard_files_def cyclic_reset_def Let_def counter_op.frame unlink_op.frame)
next
  fix w show "prefix (trace w) (trace (cyclic_reset e w))"
    unfolding cyclic_reset_def Let_def by (intro guard_trace prefix_order.refl)
qed

interpretation cyclic_op: world_op "\<lambda>w. snd (handle_cyclic_reboot e s r c oth w)" guard_files for e s r c oth
proof unfold_locales
  fix w q assume q: "q \<notin> guard_files"
  then have "q \<noteq> REBOOTNOW_FLAG" "q \<noteq> REBOOT_COUNTER_FILE" by (auto simp: guard_files_def)
  with q show "fs (snd (handle_cyclic_reboot e s r c oth w)) q = fs w q"
    by (simp add: handle_cyclic_reboot_cases Let_def reset_op.frame halt_op.frame touch_op.frame
        counter_op.frame unlink_op.frame)
next
  fix w show "prefix (trace w) (trace (snd (handle_cyclic_reboot e s r c oth w)))"
    by (simp add: handle_cyclic_reboot_cases Let_def guard_trace reset_op.trace_via halt_op.trace_via)
qed

lemma counter_reset: "guard_ok e w \<Longrightarrow> snd (read_rebootcounter e (Some REBOOT_COUNTER_FILE) 0 (cyclic_reset e w)) = 0"
  by (subst counter_roundtrip [where v = 0]) (simp_all add: cyclic_reset_fs guard_ok_def)

lemma counter_raised:
  assumes "guard_ok e w" and "- (2 ^ 31) \<le> v" and "v < REBOOT_CYCLE_THRESHOLD"
  shows "fs (write_rebootcounter e (Some REBOOT_COUNTER_FILE) (v + 1) w) =
      (fs w)(REBOOT_COUNTER_FILE := Some (Reg (show_int (v + 1) @ [NL])))"
    and "snd (read_rebootcounter e (Some REBOOT_COUNTER_FILE) 0 (write_rebootcounter e (Some REBOOT_COUNTER_FILE) (v + 1) w)) = v + 1"
proof -
  show f: "fs (write_rebootcounter e (Some REBOOT_COUNTER_FILE) (v + 1) w) =
      (fs w)(REBOOT_COUNTER_FILE := Some (Reg (show_int (v + 1) @ [NL])))"
    using assms(1) by (simp add: write_rebootcounter_fs guard_ok_def)
  show "snd (read_rebootcounter e (Some REBOOT_COUNTER_FILE) 0 (write_rebootcounter e (Some REBOOT_COUNTER_FILE) (v + 1) w)) = v + 1"
    by (subst counter_roundtrip [where v = "v + 1"])
      (use assms f in \<open>simp_all add: guard_ok_def REBOOT_CYCLE_THRESHOLD_def\<close>)
qed

text \<open>The marker is gone, and nothing else the guard looks at has changed.\<close>

lemma guard_disarmed:
  assumes "guard_ok e w"
  shows "fs (snd (unlink e REBOOTNOW_FLAG w)) = (fs w)(REBOOTNOW_FLAG := None)"
    and "guard_ok e (snd (unlink e REBOOTNOW_FLAG w))"
    and "loop_hit e s r c oth (snd (unlink e REBOOTNOW_FLAG w)) = loop_hit e s r c oth w"
    and "read_rebootcounter e (Some REBOOT_COUNTER_FILE) out (snd (unlink e REBOOTNOW_FLAG w)) =
      read_rebootcounter e (Some REBOOT_COUNTER_FILE) out w"
proof -
  show f: "fs (snd (unlink e REBOOTNOW_FLAG w)) = (fs w)(REBOOTNOW_FLAG := None)"
    using assms by (simp add: guard_ok_def unlink_writable)
  then show "guard_ok e (snd (unlink e REBOOTNOW_FLAG w))" using assms by (auto simp: guard_ok_def writable_def)
  show "loop_hit e s r c oth (snd (unlink e REBOOTNOW_FLAG w)) = loop_hit e s r c oth w"
    by (rule loop_hit_cong) (simp_all add: f)
  show "read_rebootcounter e (Some REBOOT_COUNTER_FILE) out (snd (unlink e REBOOTNOW_FLAG w)) =
      read_rebootcounter e (Some REBOOT_COUNTER_FILE) out w"
    by (rule read_rebootcounter_cong) (simp add: f)
qed

lemma guard_refines:
  assumes "guard_ok e w"
  shows "guard_step (detection_enabled e w) (loop_hit e s r c oth w) (abs_guard e w) =
      (verdict_of (fst (handle_cyclic_reboot e s r c oth w)), abs_guard e (snd (handle_cyclic_reboot e s r c oth w)))"
proof -
  define w1 where "w1 = snd (unlink e REBOOTNOW_FLAG w)"
  note fs1 = guard_disarmed(1) [OF assms, folded w1_def] and g1 = guard_disarmed(2) [OF assms, folded w1_def]
    and hit1 = guard_disarmed(3) [OF assms, folded w1_def] and count1 = guard_disarmed(4) [OF assms, folded w1_def]
  let ?count = "\<lambda>w. snd (read_rebootcounter e (Some REBOOT_COUNTER_FILE) 0 w)"
  note upd = fs1 access_ok_def abs_guard_def verdict_of_def guard_step_def
  consider (off) "\<not> access_ok REBOOTNOW_FLAG w \<or> \<not> detection_enabled e w"
    | (miss) "access_ok REBOOTNOW_FLAG w" "detection_enabled e w" "\<not> loop_hit e s r c oth w"
    | (stop) "access_ok REBOOTNOW_FLAG w" "detection_enabled e w" "loop_hit e s r c oth w" "access_ok REBOOTSTOP_FLAG w"
    | (halt) "access_ok REBOOTNOW_FLAG w" "detection_enabled e w" "loop_hit e s r c oth w"
        "\<not> access_ok REBOOTSTOP_FLAG w" "REBOOT_CYCLE_THRESHOLD \<le> ?count w"
    | (count) "access_ok REBOOTNOW_FLAG w" "detection_enabled e w" "loop_hit e s r c oth w"
        "\<not> access_ok REBOOTSTOP_FLAG w" "?count w < REBOOT_CYCLE_THRESHOLD"
    by linarith
  then show ?thesis
  proof cases
    case off
    then show ?thesis
      by (auto simp: handle_cyclic_reboot_cases Let_def guard_step_def abs_guard_def verdict_of_def)
  next
    case miss
    with hit1 counter_reset [OF g1] show ?thesis
      by (simp add: handle_cyclic_reboot_cases Let_def w1_def [symmetric] cyclic_reset_fs [OF g1] upd)
  next
    case stop
    have t: "fs (touch_file e (Some REBOOTNOW_FLAG) w1) = (fs w1)(REBOOTNOW_FLAG := Some (Reg []))"
      using g1 by (simp add: touch_file_fs guard_ok_def content_def fs1)
    with stop hit1 show ?thesis
      using read_rebootcounter_cong [of "touch_file e (Some REBOOTNOW_FLAG) w1" REBOOT_COUNTER_FILE w]
      by (simp add: handle_cyclic_reboot_cases Let_def w1_def [symmetric] upd)
  next
    case halt
    with hit1 count1 show ?thesis
      using read_rebootcounter_cong [of "cyclic_halt e (stop_duration e w) w1" REBOOT_COUNTER_FILE w]
      by (simp add: handle_cyclic_reboot_cases Let_def w1_def [symmetric] cyclic_halt_fs [OF g1] upd)
  next
    case count
    note read_rebootcounter_range(1) [of e REBOOT_COUNTER_FILE w]
    from counter_raised [OF g1 this] count hit1 count1 show ?thesis
      by (simp add: handle_cyclic_reboot_cases Let_def w1_def [symmetric] upd)
  qed
qed

section \<open>Bounded reboot loops\<close>

text \<open>The verdicts of \<open>n\<close> requests in a row.\<close>

primrec verdicts :: "('s \<Rightarrow> verdict \<times> 's) \<Rightarrow> nat \<Rightarrow> 's \<Rightarrow> verdict list" where
  "verdicts f 0 s = []"
| "verdicts f (Suc n) s = fst (f s) # verdicts f n (snd (f s))"

text \<open>
  What a client of the guard relies on: under repeated requests of one cause, the counter goes
  up until the threshold, then the guard halts and stays halted.
\<close>

locale loop_guard =
  fixes request :: "'s \<Rightarrow> verdict \<times> 's"
    and inv :: "'s \<Rightarrow> bool"
    and halted :: "'s \<Rightarrow> bool"
    and count :: "'s \<Rightarrow> int"
  assumes inv_step: "inv s \<Longrightarrow> inv (snd (request s))"
    and go: "inv s \<Longrightarrow> \<not> halted s \<Longrightarrow> count s < REBOOT_CYCLE_THRESHOLD \<Longrightarrow>
      fst (request s) = Proceed \<and> \<not> halted (snd (request s)) \<and> count (snd (request s)) = count s + 1"
    and halt: "inv s \<Longrightarrow> \<not> halted s \<Longrightarrow> REBOOT_CYCLE_THRESHOLD \<le> count s \<Longrightarrow>
      fst (request s) = Defer \<and> halted (snd (request s))"
    and stay: "inv s \<Longrightarrow> halted s \<Longrightarrow> fst (request s) = Defer \<and> halted (snd (request s))"
begin

lemma verdicts_halted: "inv s \<Longrightarrow> halted s \<Longrightarrow> verdicts request n s = replicate n Defer"
  by (induction n arbitrary: s) (auto simp: stay inv_step)

lemma verdicts_running:
  assumes "inv s" and "\<not> halted s" and "k = nat (REBOOT_CYCLE_THRESHOLD - count s)"
  shows "verdicts request n s = replicate (min n k) Proceed @ replicate (n - k) Defer"
  using assms
proof (induction n arbitrary: s k)
  case 0
  then show ?case by simp
next
  case (Suc n)
  show ?case
  proof (cases "count s < REBOOT_CYCLE_THRESHOLD")
    case True
    then obtain j where j: "k = Suc j" "j = nat (REBOOT_CYCLE_THRESHOLD - (count s + 1))"
      using Suc.prems(3) by (cases k) auto
    have "verdicts request n (snd (request s)) = replicate (min n j) Proceed @ replicate (n - j) Defer"
      by (rule Suc.IH) (use True go [of s] inv_step [of s] Suc.prems j in auto)
    then show ?thesis
      using True go [of s] Suc.prems(1,2) unfolding j(1) by simp
  next
    case False
    then show ?thesis
      using halt [of s] inv_step [of s] verdicts_halted [of "snd (request s)" n] Suc.prems by simp
  qed
qed

text \<open>However many requests arrive, only finitely many of them reboot the device.\<close>

lemma proceeds_bounded:
  assumes "inv s"
  shows "length (filter (\<lambda>v. v = Proceed) (verdicts request n s)) \<le> nat (REBOOT_CYCLE_THRESHOLD - count s)"
  using assms verdicts_running [of s _ n] verdicts_halted [of s n] by (cases "halted s") auto

end

text \<open>
  A request to the guard as \<^verbatim>\<open>main\<close> makes it: the handler, and on the way to the reboot the
  marker that rebootnow caused it.
\<close>

definition loop_request ::
    "env \<Rightarrow> string \<Rightarrow> string \<Rightarrow> string \<Rightarrow> string \<Rightarrow> world \<Rightarrow> verdict \<times> world" where
  "loop_request e s r c oth w =
     (let (rc, w1) = handle_cyclic_reboot e (Some s) (Some r) (Some c) (Some oth) w
      in (verdict_of rc, if rc = 0 then w1 else touch_file e (Some REBOOTNOW_FLAG) w1))"

definition loop_inv :: "env \<Rightarrow> string \<Rightarrow> string \<Rightarrow> string \<Rightarrow> string \<Rightarrow> world \<Rightarrow> bool" where
  "loop_inv e s r c oth w \<longleftrightarrow> guard_ok e w \<and> access_ok REBOOTNOW_FLAG w \<and>
     (\<forall>v. detection_enabled e v) \<and> loop_hit e (Some s) (Some r) (Some c) (Some oth) w"

lemma touch_guard:
  assumes "guard_ok e w"
  shows "guard_ok e (touch_file e (Some REBOOTNOW_FLAG) w)"
    and "abs_guard e (touch_file e (Some REBOOTNOW_FLAG) w) = (abs_guard e w)\<lparr>armed := True\<rparr>"
proof -
  have f: "fs (touch_file e (Some REBOOTNOW_FLAG) w) =
      (fs w)(REBOOTNOW_FLAG := Some (Reg (case content w REBOOTNOW_FLAG of None \<Rightarrow> [] | Some c \<Rightarrow> c)))"
    using assms by (simp add: guard_ok_def touch_file_fs)
  then show "guard_ok e (touch_file e (Some REBOOTNOW_FLAG) w)"
    using assms by (auto simp: guard_ok_def writable_def)
  show "abs_guard e (touch_file e (Some REBOOTNOW_FLAG) w) = (abs_guard e w)\<lparr>armed := True\<rparr>"
    using read_rebootcounter_cong [of "touch_file e (Some REBOOTNOW_FLAG) w" REBOOT_COUNTER_FILE w e 0]
    by (simp add: abs_guard_def f access_ok_def)
qed

lemma loop_request_abs:
  assumes "loop_inv e s r c oth w"
  shows "fst (loop_request e s r c oth w) = fst (guard_step True True (abs_guard e w))"
    and "abs_guard e (snd (loop_request e s r c oth w)) = (snd (guard_step True True (abs_guard e w)))\<lparr>armed := True\<rparr>"
    and "loop_inv e s r c oth (snd (loop_request e s r c oth w))"
proof -
  let ?h = "handle_cyclic_reboot e (Some s) (Some r) (Some c) (Some oth) w"
  have g: "guard_ok e w" "detection_enabled e w" "loop_hit e (Some s) (Some r) (Some c) (Some oth) w"
    using assms by (simp_all add: loop_inv_def)
  have ref: "guard_step True True (abs_guard e w) = (verdict_of (fst ?h), abs_guard e (snd ?h))"
    using guard_refines [OF g(1), of "Some s" "Some r" "Some c" "Some oth"] g(2,3) by simp
  have deferred: "armed (abs_guard e (snd ?h))" if "fst ?h = 0"
    using ref that assms by (auto simp: guard_step_def verdict_of_def loop_inv_def abs_guard_def split: if_splits)
  have g': "guard_ok e (snd ?h)" by (rule handle_guard_ok [OF g(1)])
  have eq: "loop_request e s r c oth w = (verdict_of (fst ?h), if fst ?h = 0 then snd ?h else touch_file e (Some REBOOTNOW_FLAG) (snd ?h))"
    by (simp add: loop_request_def case_prod_beta Let_def)
  show "fst (loop_request e s r c oth w) = fst (guard_step True True (abs_guard e w))"
    by (simp add: eq ref)
  show 2: "abs_guard e (snd (loop_request e s r c oth w)) = (snd (guard_step True True (abs_guard e w)))\<lparr>armed := True\<rparr>"
    using deferred touch_guard(2) [OF g'] by (simp add: eq ref)
  have "guard_ok e (snd (loop_request e s r c oth w))"
    using g' touch_guard(1) [OF g'] by (simp add: eq)
  moreover have "access_ok REBOOTNOW_FLAG (snd (loop_request e s r c oth w))"
    using arg_cong [OF 2, of armed] by (simp add: abs_guard_def)
  moreover have "loop_hit e (Some s) (Some r) (Some c) (Some oth) (snd (loop_request e s r c oth w)) =
      loop_hit e (Some s) (Some r) (Some c) (Some oth) w"
    by (rule loop_hit_cong) (simp_all add: eq touch_op.frame cyclic_op.frame guard_files_def)
  ultimately show "loop_inv e s r c oth (snd (loop_request e s r c oth w))"
    using assms by (simp add: loop_inv_def)
qed

interpretation code_guard: loop_guard "loop_request e s r c oth" "loop_inv e s r c oth"
  "\<lambda>w. stopped (abs_guard e w)" "\<lambda>w. tally (abs_guard e w)" for e s r c oth
proof unfold_locales
  fix w assume i: "loop_inv e s r c oth w"
  then have a: "armed (abs_guard e w)" by (simp add: loop_inv_def abs_guard_def)
  show "loop_inv e s r c oth (snd (loop_request e s r c oth w))" by (rule loop_request_abs(3) [OF i])
  note step = loop_request_abs(1,2) [OF i] guard_step_def
  show "\<not> stopped (abs_guard e w) \<Longrightarrow> tally (abs_guard e w) < REBOOT_CYCLE_THRESHOLD \<Longrightarrow>
      fst (loop_request e s r c oth w) = Proceed \<and> \<not> stopped (abs_guard e (snd (loop_request e s r c oth w))) \<and>
      tally (abs_guard e (snd (loop_request e s r c oth w))) = tally (abs_guard e w) + 1"
    using a by (simp add: step)
  show "\<not> stopped (abs_guard e w) \<Longrightarrow> REBOOT_CYCLE_THRESHOLD \<le> tally (abs_guard e w) \<Longrightarrow>
      fst (loop_request e s r c oth w) = Defer \<and> stopped (abs_guard e (snd (loop_request e s r c oth w)))"
    using a by (simp add: step)
  show "stopped (abs_guard e w) \<Longrightarrow>
      fst (loop_request e s r c oth w) = Defer \<and> stopped (abs_guard e (snd (loop_request e s r c oth w)))"
    using a by (simp add: step)
qed
section \<open>A device in a loop, for the concrete runs\<close>

definition sample_prev :: prev_info where
  "sample_prev = \<lparr>p_src = ''XFS'', p_rsn = ''OPS_TRIGGERED'', p_cus = ''Unknown'', p_oth = ''Unknown'',
     p_ts = ''Mon Jan 05 23:45:07 UTC 2026''\<rparr>"

definition loop_world :: "int \<Rightarrow> world" where
  "loop_world k = empty_world\<lparr>fs := (\<lambda>_. None)(REBOOTNOW_FLAG := Some (Reg []),
     PREVIOUS_REBOOT_INFO_FILE := Some (Reg (record_text sample_prev)),
     PROC_UPTIME := Some (Reg ''120.55 300.10''), REBOOT_COUNTER_FILE := Some (Reg (show_int k @ [NL])))\<rparr>"

lemma calm_detects: "detection_enabled calm_env w"
  by (simp add: detection_enabled_def rfc_get_bool_param_def rfc_read_param_value_def calm_env_def)

lemma calm_guard_ok: "guard_ok calm_env (loop_world k)"
  by (simp add: guard_ok_def writable_def readable_def calm_env_def loop_world_def)

lemma loop_world_record:
  "read_previous_reboot_info calm_env 128 128 128 256 64 empty_prev (loop_world k) = (0, sample_prev)"
proof -
  have r: "reboot_record (\<lambda>r. [record_text r])" by (rule reboot_recordI) simp
  have q: "quotable sample_prev" by code_simp
  have len: "length (record_text sample_prev) < 4096" by code_simp
  have t: "truncated 128 128 128 256 64 sample_prev = sample_prev" by code_simp
  show ?thesis
    using reboot_record.read_back [OF r, of "loop_world k" sample_prev calm_env 128 128 128 256 64 empty_prev] q len t
    by (simp add: loop_world_def content_def readable_def calm_env_def)
qed

lemma loop_world_uptime: "read_proc_uptime_secs calm_env (loop_world k) = 120"
proof -
  have "scan_lf_trunc ''120.55 300.10'' = Some 120" by code_simp
  then show ?thesis
    by (simp add: read_proc_uptime_secs_def fopen_r_def calm_env_def loop_world_def)
qed

lemma loop_world_inv:
  "loop_inv calm_env ''XFS'' ''OPS_TRIGGERED'' ''Unknown'' ''Unknown'' (loop_world k)"
  by (simp add: loop_inv_def calm_guard_ok calm_detects loop_hit_def loop_world_record loop_world_uptime
      REBOOT_WINDOW_SECS_def same_cause_def sample_prev_def access_ok_def)
    (simp add: loop_world_def)

lemma loop_world_abs:
  "- (2 ^ 31) \<le> k \<Longrightarrow> k < 2 ^ 31 \<Longrightarrow>
   abs_guard calm_env (loop_world k) = \<lparr>armed = True, stopped = False, tally = k\<rparr>"
  by (subst abs_guard_def, subst counter_roundtrip [where v = k])
    (simp_all add: loop_world_def access_ok_def readable_def calm_env_def)

section \<open>Properties\<close>

text \<open>
  C3. The reboot-loop guard implements its small machine: for every state of its three files
  on which the file operations succeed, the verdict of \<^verbatim>\<open>handle_cyclic_reboot\<close> and the next
  marker, stop flag and counter are those of \<open>guard_step\<close> for the detection switch read from
  the RFC and for whether the request repeats the recorded cause within ten minutes of uptime;
  and the files stay in order for the next request.
\<close>

theorem guard_refinement:
  assumes "guard_ok e w"
  shows "guard_step (detection_enabled e w) (loop_hit e s r c oth w) (abs_guard e w) =
      (verdict_of (fst (handle_cyclic_reboot e s r c oth w)),
       abs_guard e (snd (handle_cyclic_reboot e s r c oth w))) \<and>
    guard_ok e (snd (handle_cyclic_reboot e s r c oth w))"
  using guard_refines [OF assms] handle_guard_ok [OF assms] by simp

theorem guard_refinement_witness:
  "guard_step True True \<lparr>armed = True, stopped = False, tally = 5\<rparr> =
     (verdict_of (fst (handle_cyclic_reboot calm_env (Some ''XFS'') (Some ''OPS_TRIGGERED'') (Some ''Unknown'')
        (Some ''Unknown'') (loop_world 5))),
      abs_guard calm_env (snd (handle_cyclic_reboot calm_env (Some ''XFS'') (Some ''OPS_TRIGGERED'')
        (Some ''Unknown'') (Some ''Unknown'') (loop_world 5))))"
  using guard_refinement [OF calm_guard_ok, of 5 "Some ''XFS''" "Some ''OPS_TRIGGERED''" "Some ''Unknown''"
      "Some ''Unknown''"] loop_world_inv [of 5] loop_world_abs [of 5]
  by (simp add: loop_inv_def)

text \<open>
  C28. The cron time of the deferred reboot is a valid minute and hour, and it is the local
  time of the decision plus one minute plus the pause, modulo a day; the normalisation loops
  terminate for every pause, positive or negative.
\<close>

theorem cron_time_correct:
  assumes "tm_hour t < 24" and "tm_min t < 60" and "cron_fields d t = (mn, hr)"
  shows "0 \<le> mn \<and> mn < 60 \<and> 0 \<le> hr \<and> hr < 24 \<and>
    60 * hr + mn = (60 * int (tm_hour t) + int (tm_min t) + 1 + d) mod (24 * 60)"
proof -
  let ?m = "int (tm_min t) + 1 + d"
  have eq: "mn = ?m mod 60" "hr = (int (tm_hour t) + ?m div 60) mod 24"
    using assms cron_fields_eq [OF assms(1,2), of d] by simp_all
  have "(60 * int (tm_hour t) + ?m) div 60 = int (tm_hour t) + ?m div 60"
    by simp
  moreover have "(60 * int (tm_hour t) + ?m) mod 60 = ?m mod 60"
    by simp
  ultimately have "(60 * int (tm_hour t) + ?m) mod (60 * 24) = 60 * hr + mn"
    using zmod_zmult2_eq [of 24 "60 * int (tm_hour t) + ?m" 60] eq by simp
  then show ?thesis using eq by (simp add: algebra_simps)
qed

theorem cron_time_correct_witness:
  "cron_fields 30 tm0 = (16, 0) \<and> 60 * 0 + 16 = (60 * int (tm_hour tm0) + int (tm_min tm0) + 1 + 30) mod (24 * 60)"
proof -
  have c: "cron_fields 30 tm0 = (16, 0)"
    by (subst cron_fields_eq) (simp_all add: tm0_def)
  show ?thesis
    using cron_time_correct [OF _ _ c] c by (simp add: tm0_def)
qed

section \<open>Causes the guard cannot recognise\<close>

lemma extract_json_value_plain:
  assumes "length out < sz" and "DQ \<notin> set out"
  shows "length (snd (extract_json_value b k out sz)) < sz \<and> DQ \<notin> set (snd (extract_json_value b k out sz))"
proof -
  have cut: "DQ \<notin> set (take n p)" if q: "strchr p DQ = Some q" and n: "n \<le> length p - length q" for n p q
  proof -
    obtain l where "p = l @ q" "DQ \<notin> set l" using strchr_SomeD [OF q] by auto
    moreover from this n have "take n p = take n l" by simp
    ultimately show ?thesis by (auto dest: in_set_takeD)
  qed
  show ?thesis
    using assms by (auto simp: extract_json_value_def Let_def cut split: option.splits dest: cut)
qed

lemma read_source_plain:
  "length (p_src (snd (read_previous_reboot_info e 128 128 128 256 64 empty_prev w))) < 128 \<and>
   DQ \<notin> set (p_src (snd (read_previous_reboot_info e 128 128 128 256 64 empty_prev w)))"
  using extract_json_value_plain [of "[]" 128]
  by (simp add: read_previous_reboot_info_def Let_def case_prod_beta empty_prev_def split: sum.split)

text \<open>
  C40. The loop guard is blind to a source of 128 characters or more and to a source with a
  double quote: such a request is never deferred, however often it repeats, because the
  recorded copy is cut, or ends at the quote, and never compares equal.
\<close>

theorem odd_source_never_deferred:
  assumes "128 \<le> length s \<or> DQ \<in> set s"
  shows "fst (handle_cyclic_reboot e (Some s) r c oth w) = 1"
proof -
  have "\<not> loop_hit e (Some s) r c oth v" for v
    using assms read_source_plain [of e v] by (auto simp: loop_hit_def same_cause_def case_prod_beta Let_def)
  then show ?thesis by (simp add: handle_cyclic_reboot_cases Let_def)
qed

theorem odd_source_never_deferred_witness:
  "fst (handle_cyclic_reboot calm_env (Some (replicate 200 (CHR ''x''))) (Some ''FIRMWARE_FAILURE'') (Some ''Unknown'')
     (Some ''Unknown'') (loop_world 5)) = 1"
  by (rule odd_source_never_deferred) simp

end
