(* ===== verification/SystemCleanup.thy ===== *)
theory SystemCleanup
  imports RebootUtils
begin

text \<open>
  \<^verbatim>\<open>reboot-helper/src/system_cleanup.c\<close>: the housekeeping before a reboot (signals to telemetry
  and parodus, removal of downloaded apps after an image upgrade, device scripts, the move of
  the volatile logs to persistent storage, shutdown of the bluetooth services) and the PID file
  that keeps a second instance out.
\<close>

section \<open>Files and processes\<close>

definition cleanup_file_exists :: "path option \<Rightarrow> world \<Rightarrow> bool" where
  "cleanup_file_exists p w = (case p of None \<Rightarrow> False | Some q \<Rightarrow> is_reg q w)"

definition is_supported_log_file :: "string option \<Rightarrow> string option \<Rightarrow> bool" where
  "is_supported_log_file s sfx = (case (s, sfx) of
       (Some a, Some b) \<Rightarrow> length b \<le> length a \<and> drop (length a - length b) a = b
     | _ \<Rightarrow> False)"

definition read_file_to_buf :: "env \<Rightarrow> path \<Rightarrow> nat \<Rightarrow> world \<Rightarrow> string option" where
  "read_file_to_buf e p sz w = (case fopen_r e p w of Inl _ \<Rightarrow> None
     | Inr c \<Rightarrow> Some (cstr (take (sz - 1) c)))"

definition PROC_DIR :: path where
  "PROC_DIR = ''/proc''"

text \<open>One directory entry of \<^verbatim>\<open>/proc\<close>: signal the process if its command name matches.\<close>

definition signal_entry :: "env \<Rightarrow> string \<Rightarrow> signal \<Rightarrow> string \<Rightarrow> nat \<times> world \<Rightarrow> nat \<times> world" where
  "signal_entry e name sig dname st = (let (count, w) = st in
     if dname = [] \<or> \<not> isdigit (hd dname) then (count, w)
     else (let commpath = bufcpy 512 (''/proc/'' @ dname @ ''/comm'') in
       case fopen_r e commpath w of Inl _ \<Rightarrow> (count, w)
       | Inr c \<Rightarrow> if c = [] then (count, w)
         else (let comm = cstr (fst (split_line (256 - 1) c));
                   comm = rstrip (\<lambda>x. x = NL \<or> x = CR) comm
               in if comm = name then
                    (let pid = atoi dname in
                     if 1 < pid then
                       (if kill_ok e pid sig then count + 1 else count, emit (KillSig pid sig) w)
                     else (count, w))
                  else (count, w))))"

definition send_signalcleanup :: "env \<Rightarrow> string option \<Rightarrow> signal \<Rightarrow> world \<Rightarrow> nat \<times> world" where
  "send_signalcleanup e name sig w = (case name of None \<Rightarrow> (0, w)
     | Some n \<Rightarrow> if n = [] then (0, w)
       else (case opendir e PROC_DIR w of None \<Rightarrow> (0, w)
             | Some names \<Rightarrow> fold (signal_entry e n sig) names (0, w)))"

section \<open>Recursive removal\<close>

text \<open>
  The result code and what is left of the tree. The entries \<^verbatim>\<open>.\<close> and \<^verbatim>\<open>..\<close> are skipped and do
  not keep a directory from being empty.
\<close>

definition is_dot :: "string \<Rightarrow> bool" where
  "is_dot n \<longleftrightarrow> n = ''.'' \<or> n = ''..''"

fun remove_dir_at :: "ftree \<Rightarrow> int \<times> ftree option"
  and remove_entries :: "(string \<times> ftree) list \<Rightarrow> int \<times> (string \<times> ftree) list" where
  "remove_dir_at (Leaf unlinkable) = (if unlinkable then (0, None) else (-1, Some (Leaf unlinkable)))"
| "remove_dir_at (DirT opens removable es) =
     (if \<not> opens then (-1, Some (DirT opens removable es))
      else let (rc, left) = remove_entries es in
        if removable \<and> list_all (\<lambda>(n, _). is_dot n) left then (rc, None)
        else (-1, Some (DirT opens removable left)))"
| "remove_entries [] = (0, [])"
| "remove_entries ((n, t) # es) =
     (let (rc, left) = remove_entries es in
      if is_dot n then (rc, (n, t) # left)
      else (case remove_dir_at t of (r, None) \<Rightarrow> (if r \<noteq> 0 then -1 else rc, left)
            | (r, Some t') \<Rightarrow> (if r \<noteq> 0 then -1 else rc, (n, t') # left)))"

fun clear_entries :: "(string \<times> ftree) list \<Rightarrow> int \<times> (string \<times> ftree) list" where
  "clear_entries [] = (0, [])"
| "clear_entries ((n, t) # es) =
     (let (rc, left) = clear_entries es in
      if is_dot n then (rc, (n, t) # left)
      else (case t of Leaf _ \<Rightarrow> (rc, (n, t) # left)
            | DirT _ _ _ \<Rightarrow> (case remove_dir_at t of (r, None) \<Rightarrow> (if r \<noteq> 0 then -1 else rc, left)
                | (r, Some t') \<Rightarrow> (if r \<noteq> 0 then -1 else rc, (n, t') # left))))"

text \<open>
  The paths of a tree, and the paths that are gone when less of it is left: whatever the tree no
  longer has, and everything below it.
\<close>

fun tree_paths :: "path \<Rightarrow> ftree \<Rightarrow> path list" where
  "tree_paths p (Leaf _) = [p]"
| "tree_paths p (DirT _ _ es) =
     p # concat (map (\<lambda>(n, t). if is_dot n then [] else tree_paths (p @ ''/'' @ n) t) es)"

definition gone_paths :: "path \<Rightarrow> ftree \<Rightarrow> ftree \<Rightarrow> path \<Rightarrow> bool" where
  "gone_paths r old left q = list_ex (\<lambda>p. q = p \<or> prefix (p @ ''/'') q)
     (filter (\<lambda>p. p \<notin> set (tree_paths r left)) (tree_paths r old))"

text \<open>\<open>trees\<close> is what \<^verbatim>\<open>readdir\<close> finds; what the walk removes is gone from the file system.\<close>

definition clear_subdirectory :: "path option \<Rightarrow> world \<Rightarrow> int \<times> world" where
  "clear_subdirectory root w = (case root of None \<Rightarrow> (-1, w)
     | Some r \<Rightarrow> (case trees w r of
         Some (DirT True removable es) \<Rightarrow>
           (let (rc, left) = clear_entries es
            in (rc, w\<lparr>trees := (trees w)(r := Some (DirT True removable left)),
                     fs := (\<lambda>q. if gone_paths r (DirT True removable es) (DirT True removable left) q then None else fs w q)\<rparr>))
       | _ \<Rightarrow> (-1, w)))"

section \<open>Moving the volatile logs\<close>

definition sync_one :: "env \<Rightarrow> path \<Rightarrow> path \<Rightarrow> string \<Rightarrow> world \<Rightarrow> world" where
  "sync_one e temp_path log_path name w =
     (if \<not> (is_supported_log_file (Some name) (Some ''.txt'') \<or> is_supported_log_file (Some name) (Some ''.log''))
      then w
      else (let src = temp_path @ ''/'' @ name; dst = log_path @ ''/'' @ name in
        if 512 \<le> length src \<or> 512 \<le> length dst then w
        else (let rs = fopen_r e src w; rd = fopen_a e dst w in
          case (rs, rd) of
            (Inr c, Inr w1) \<Rightarrow>
              (let (copy_ok, w2) = copy_chunks e dst 4096 c w1
               in if \<not> copy_ok then w2 else (case fopen_w e src w2 of Inl _ \<Rightarrow> w2 | Inr w3 \<Rightarrow> w3))
          | (_, Inr w1) \<Rightarrow> w1
          | (_, Inl _) \<Rightarrow> w)))"

definition sync_logs_from_temp :: "env \<Rightarrow> path option \<Rightarrow> path option \<Rightarrow> world \<Rightarrow> world" where
  "sync_logs_from_temp e temp_path log_path w = (case (temp_path, log_path) of
       (Some t, Some l) \<Rightarrow> if t = l then w
         else (case opendir e t w of None \<Rightarrow> w | Some names \<Rightarrow> fold (sync_one e t l) names w)
     | _ \<Rightarrow> w)"

text \<open>The copy of the saved system time.\<close>

definition copy_systime :: "env \<Rightarrow> path \<Rightarrow> path \<Rightarrow> world \<Rightarrow> world" where
  "copy_systime e temp_log_path persistent_path w =
     (let src = temp_log_path @ ''/.systime'' in
      if 512 \<le> length src then w
      else if \<not> cleanup_file_exists (Some src) w then w
      else (let dst = persistent_path @ ''/.systime'' in
        if 512 \<le> length dst then w
        else (case (fopen_r e src w, fopen_w e dst w) of
            (Inr c, Inr w1) \<Rightarrow> snd (copy_chunks e dst 4096 (if src = dst then [] else c) w1)
          | (_, Inr w1) \<Rightarrow> w1
          | (_, Inl _) \<Rightarrow> w)))"

section \<open>The housekeeping\<close>

definition BT_SERVICES :: "string list" where
  "BT_SERVICES = [''ctrlm-main'', ''btmgr'', ''bluetooth'', ''bt-hciuart'', ''btmac-preset'', ''bt'', ''syslog-ng'']"

definition stop_service :: "env \<Rightarrow> string \<Rightarrow> world \<Rightarrow> world" where
  "stop_service e svc w =
     (let (active, w1) = secure_system e (''systemctl --quiet is-active '' @ svc) w
      in if active = 0 then snd (secure_system e (''systemctl stop '' @ svc) w1) else w1)"

definition RDM_MANIFEST :: path where "RDM_MANIFEST = ''/etc/rdm/rdm-manifest.xml''"
definition CDL_FLASHED_FILE :: path where "CDL_FLASHED_FILE = ''/opt/cdl_flashed_file_name''"
definition RUNNING_IMAGE_FILE :: path where "RUNNING_IMAGE_FILE = ''/tmp/currently_running_image_name''"
definition MEDIA_APPS :: path where "MEDIA_APPS = ''/media/apps''"
definition LIGHTSLEEP_SWITCH :: path where
  "LIGHTSLEEP_SWITCH = ''/opt/persistent/.lightsleepKillSwitchEnable''"

definition rdm_cleanup :: "env \<Rightarrow> world \<Rightarrow> world" where
  "rdm_cleanup e w = (if cleanup_file_exists (Some RDM_MANIFEST) w then
       (case (read_file_to_buf e CDL_FLASHED_FILE 256 w, read_file_to_buf e RUNNING_IMAGE_FILE 256 w) of
          (Some cdl, Some prev) \<Rightarrow>
            if strstr cdl prev = None then snd (clear_subdirectory (Some MEDIA_APPS) w) else w
        | _ \<Rightarrow> w)
     else w)"

definition run_if_present :: "env \<Rightarrow> path \<Rightarrow> world \<Rightarrow> world" where
  "run_if_present e script w = (if cleanup_file_exists (Some script) w
     then snd (secure_system e (''sh '' @ script) w) else w)"

definition device_scripts :: "env \<Rightarrow> world \<Rightarrow> world" where
  "device_scripts e w =
     (let w = (case getenv e ''DEVICE_NAME'' of
            Some d \<Rightarrow> if d = ''XiOne'' \<or> d = ''XiOne-SCB'' then run_if_present e ''/lib/rdk/eMMC_Upgrade.sh'' w else w
          | None \<Rightarrow> w);
          w = run_if_present e ''/lib/rdk/aps4_reset.sh'' w
      in run_if_present e ''/lib/rdk/update_www-backup.sh'' w)"

definition sync_transient_logs :: "env \<Rightarrow> world \<Rightarrow> world" where
  "sync_transient_logs e w = (case getenv e ''PERSISTENT_PATH'' of None \<Rightarrow> w
     | Some persistent \<Rightarrow>
         if cleanup_file_exists (Some LIGHTSLEEP_SWITCH) w then w
         else (case getenv e ''TEMP_LOG_PATH'' of None \<Rightarrow> w
           | Some temp \<Rightarrow>
               (let w = (case getenv e ''LOG_PATH'' of None \<Rightarrow> w
                         | Some log \<Rightarrow> sync_logs_from_temp e (Some temp) (Some log) w)
                in copy_systime e temp persistent w)))"

definition stop_bluetooth :: "env \<Rightarrow> world \<Rightarrow> world" where
  "stop_bluetooth e w = (if getenv e ''BLUETOOTH_ENABLED'' = Some ''true''
     then fold (stop_service e) BT_SERVICES w else w)"

definition cleanup_services :: "env \<Rightarrow> world \<Rightarrow> world" where
  "cleanup_services e w =
     (let w = snd (send_signalcleanup e (Some ''telemetry2_0'') SIGIO w);
          w = snd (send_signalcleanup e (Some ''parodus'') SIGUSR1 w);
          w = rdm_cleanup e w;
          w = device_scripts e w;
          w = sync_transient_logs e w;
          w = stop_bluetooth e w;
          w = emit SyncDisks w
      in emit (USleep 200000) w)"

section \<open>The PID file\<close>

text \<open>\<open>open(PID_FILE, O_WRONLY | O_CREAT | O_EXCL)\<close> and, on success, the write of the PID.\<close>

definition pid_create :: "env \<Rightarrow> world \<Rightarrow> errno + world" where
  "pid_create e w = (if fs w PID_FILE \<noteq> None then Inl EEXIST
     else case open_w_err e PID_FILE of Some er \<Rightarrow> Inl er
       | None \<Rightarrow> Inr (snd (fputs e PID_FILE (show_int (getpid e)) (w\<lparr>fs := (fs w)(PID_FILE := Some (Reg []))\<rparr>))))"

text \<open>\<open>open(PID_FILE, O_RDWR)\<close>: the contents to be inspected.\<close>

definition pid_open :: "env \<Rightarrow> world \<Rightarrow> errno + string" where
  "pid_open e w = (case fs w PID_FILE of None \<Rightarrow> Inl ENOENT | Some Dir \<Rightarrow> Inl EISDIR
     | Some (Reg c) \<Rightarrow> (case open_w_err e PID_FILE of Some er \<Rightarrow> Inl er
         | None \<Rightarrow> (case open_r_err e PID_FILE of Some er \<Rightarrow> Inl er | None \<Rightarrow> Inr c)))"

text \<open>Whether the process named in the file runs rebootnow.\<close>

definition pid_running :: "env \<Rightarrow> string \<Rightarrow> world \<Rightarrow> bool" where
  "pid_running e c w = (if c = [] then False
     else (let buf = cstr (fst (split_line (32 - 1) c)); pid = atoi buf;
               procpath = bufcpy 64 (''/proc/'' @ show_int pid @ ''/cmdline'')
           in case fopen_r e procpath w of Inl _ \<Rightarrow> False
              | Inr cmdline \<Rightarrow> has_substr (cstr (take (256 - 1) cmdline)) ''rebootnow''))"

text \<open>
  What other processes do between the failed exclusive create and the second open is the
  environment's \<open>interleave\<close>; a lock held elsewhere is \<open>\<not> pid_lock_free\<close>.
\<close>

definition pidfile_write_and_guard :: "env \<Rightarrow> world \<Rightarrow> int \<times> world" where
  "pidfile_write_and_guard e w = (case pid_create e w of
       Inr w1 \<Rightarrow> (0, w1)
     | Inl er \<Rightarrow>
         if er = EEXIST then
           (let w = others_run e w in
            case pid_open e w of
              Inl er2 \<Rightarrow> if er2 = ENOENT then (case pid_create e w of Inr w1 \<Rightarrow> (0, w1) | Inl _ \<Rightarrow> (-1, w))
                         else (-1, w)
            | Inr c \<Rightarrow> if \<not> pid_lock_free e then (-1, w)
                else if pid_running e c w then (-1, w)
                else (0, snd (fputs e PID_FILE (show_int (getpid e)) (w\<lparr>fs := (fs w)(PID_FILE := Some (Reg []))\<rparr>))))
         else (-1, w))"

definition cleanup_pidfile :: "env \<Rightarrow> world \<Rightarrow> world" where
  "cleanup_pidfile e w = snd (unlink e PID_FILE w)"

section \<open>Recursive removal: the result code is the truth\<close>

fun deletable :: "ftree \<Rightarrow> bool" where
  "deletable (Leaf u) = u"
| "deletable (DirT opens removable es) = (opens \<and> removable \<and> (\<forall>(n, t) \<in> set es. is_dot n \<or> deletable t))"

definition all_dots :: "(string \<times> ftree) list \<Rightarrow> bool" where
  "all_dots es \<longleftrightarrow> list_all (\<lambda>(n, _). is_dot n) es"

lemma remove_dir_at_sound:
  "(remove_dir_at t = (0, None) \<longleftrightarrow> deletable t) \<and> (\<not> deletable t \<longrightarrow> fst (remove_dir_at t) = -1 \<and> snd (remove_dir_at t) \<noteq> None)"
  "(fst (remove_entries es) = 0 \<longleftrightarrow> (\<forall>(n, t) \<in> set es. is_dot n \<or> deletable t)) \<and>
   (fst (remove_entries es) \<noteq> 0 \<longrightarrow> fst (remove_entries es) = -1) \<and>
   (list_all (\<lambda>(n, _). is_dot n) (snd (remove_entries es)) \<longleftrightarrow> (\<forall>(n, t) \<in> set es. is_dot n \<or> deletable t))"
proof (induction t and es rule: remove_dir_at_remove_entries.induct)
  case (1 u)
  show ?case by simp
next
  case (2 opens removable es)
  then show ?case
    by (cases opens; cases removable; cases "remove_entries es") auto
next
  case 3
  show ?case by simp
next
  case (4 n t es)
  from "4.IH"(1) have es: "(fst (remove_entries es) = 0 \<longleftrightarrow> (\<forall>(n, t) \<in> set es. is_dot n \<or> deletable t)) \<and>
   (fst (remove_entries es) \<noteq> 0 \<longrightarrow> fst (remove_entries es) = -1) \<and>
   (list_all (\<lambda>(n, _). is_dot n) (snd (remove_entries es)) \<longleftrightarrow> (\<forall>(n, t) \<in> set es. is_dot n \<or> deletable t))"
    by simp
  show ?case
  proof (cases "is_dot n")
    case True
    with es show ?thesis by (cases "remove_entries es") auto
  next
    case False
    with "4.IH"(2) have "(remove_dir_at t = (0, None) \<longleftrightarrow> deletable t) \<and>
        (\<not> deletable t \<longrightarrow> fst (remove_dir_at t) = -1 \<and> snd (remove_dir_at t) \<noteq> None)"
      by (metis prod.collapse)
    with es False show ?thesis
      by (cases "deletable t"; cases "remove_dir_at t"; cases "remove_entries es") auto
  qed
qed

definition is_leaf :: "ftree \<Rightarrow> bool" where
  "is_leaf t = (case t of Leaf _ \<Rightarrow> True | _ \<Rightarrow> False)"

lemma clear_entries_sound:
  "(fst (clear_entries es) = 0 \<longleftrightarrow> (\<forall>(n, t) \<in> set es. is_dot n \<or> is_leaf t \<or> deletable t)) \<and>
   (fst (clear_entries es) = 0 \<or> fst (clear_entries es) = -1) \<and>
   filter (\<lambda>(n, t). is_dot n \<or> is_leaf t) (snd (clear_entries es)) = filter (\<lambda>(n, t). is_dot n \<or> is_leaf t) es \<and>
   (fst (clear_entries es) = 0 \<longrightarrow> snd (clear_entries es) = filter (\<lambda>(n, t). is_dot n \<or> is_leaf t) es)"
proof (induction es)
  case Nil
  show ?case by simp
next
  case (Cons x es)
  obtain n t where x: "x = (n, t)" by fastforce
  show ?case
  proof (cases "is_dot n \<or> is_leaf t")
    case True
    with Cons x show ?thesis
      by (cases t) (auto simp: case_prod_beta Let_def is_leaf_def)
  next
    case False
    then obtain a b c where t: "t = DirT a b c" by (cases t) (auto simp: is_leaf_def)
    have nl: "\<not> is_leaf t'" if "remove_dir_at t = (r, Some t')" for r t'
      using that t by (auto simp: is_leaf_def case_prod_beta Let_def split: if_splits ftree.splits)
    show ?thesis
    proof (cases "deletable t")
      case True
      then have "remove_dir_at t = (0, None)" using remove_dir_at_sound(1) by blast
      with Cons x t False True show ?thesis by (auto simp: case_prod_beta Let_def)
    next
      case nd: False
      then obtain t' where r: "remove_dir_at t = (-1, Some t')"
        using remove_dir_at_sound(1) [of t] by (metis option.exhaust prod.collapse)
      with Cons x t False nd nl [OF r] show ?thesis by (auto simp: case_prod_beta Let_def)
    qed
  qed
qed

section \<open>The log move keeps every byte\<close>

definition in_dir :: "path \<Rightarrow> string \<Rightarrow> path" where
  "in_dir d n = d @ ''/'' @ n"

lemma in_dir_inj:
  assumes "CHR ''/'' \<notin> set n" and "CHR ''/'' \<notin> set m"
  shows "in_dir d n = in_dir d' m \<longleftrightarrow> d = d' \<and> n = m"
proof
  assume "in_dir d n = in_dir d' m"
  then have "rev n @ CHR ''/'' # rev d = rev m @ CHR ''/'' # rev d'"
    by (metis append.assoc append_Cons append_Nil in_dir_def rev.simps(2) rev_append rev_rev_ident self_append_conv2)
  then have eq: "rev n @ CHR ''/'' # rev d = rev m @ CHR ''/'' # rev d'" .
  have "takeWhile (\<lambda>c. c \<noteq> CHR ''/'') (rev n @ CHR ''/'' # rev d) = rev n"
    "takeWhile (\<lambda>c. c \<noteq> CHR ''/'') (rev m @ CHR ''/'' # rev d') = rev m"
    by (subst takeWhile_append2; use assms in auto)+
  with eq have "rev n = rev m" by metis
  with eq show "d = d' \<and> n = m" by simp
qed simp

definition movable :: "path \<Rightarrow> path \<Rightarrow> string \<Rightarrow> bool" where
  "movable t l n \<longleftrightarrow> (is_supported_log_file (Some n) (Some ''.txt'') \<or> is_supported_log_file (Some n) (Some ''.log'')) \<and>
     length (in_dir t n) < 512 \<and> length (in_dir l n) < 512"

definition log_ok :: "env \<Rightarrow> path \<Rightarrow> path \<Rightarrow> string \<Rightarrow> world \<Rightarrow> bool" where
  "log_ok e t l n w \<longleftrightarrow> writable e (in_dir t n) w \<and> writable e (in_dir l n) w \<and> readable e (in_dir t n) \<and>
     content w (in_dir t n) \<noteq> None"

definition text_of :: "world \<Rightarrow> path \<Rightarrow> string" where
  "text_of w p = (case content w p of None \<Rightarrow> [] | Some c \<Rightarrow> c)"

lemma sync_one_moves:
  assumes "movable t l n" and "log_ok e t l n w" and "t \<noteq> l"
  shows "fs (sync_one e t l n w) = (fs w)(in_dir l n := Some (Reg (text_of w (in_dir l n) @ text_of w (in_dir t n))),
    in_dir t n := Some (Reg []))"
proof -
  let ?s = "in_dir t n" and ?d = "in_dir l n"
  obtain c where c: "content w ?s = Some c" using assms(2) by (auto simp: log_ok_def)
  have ne: "?s \<noteq> ?d" using assms(3) by (simp add: in_dir_def)
  have rs: "fopen_r e ?s w = Inr c"
    using assms(2) content_SomeD [OF c] by (simp add: log_ok_def fopen_r_def readable_def)
  obtain w1 where w1: "fopen_a e ?d w = Inr w1" and f1: "fs w1 = (fs w)(?d := Some (Reg (text_of w ?d)))"
  proof (cases "fs w ?d")
    case None
    then show ?thesis using assms(2) that by (auto simp: fopen_a_def log_ok_def writable_def text_of_def content_def)
  next
    case (Some k)
    then obtain x where "fs w ?d = Some (Reg x)" using assms(2) by (cases k) (auto simp: log_ok_def writable_def)
    then show ?thesis
      using assms(2) that [of w] by (auto simp: fopen_a_def log_ok_def writable_def text_of_def content_def fun_upd_idem)
  qed
  have cc: "copy_chunks e ?d 4096 c w1 = (True, w1\<lparr>fs := (fs w1)(?d := Some (Reg (text_of w ?d @ c)))\<rparr>)"
    using assms(2) f1 copy_chunks_eq [of 4096 w1 ?d e c] fputs_unlimited [of w1 ?d "text_of w ?d" e c]
    by (simp add: log_ok_def writable_def content_def)
  have t: "text_of w ?s = c" using c by (simp add: text_of_def)
  have "fs w ?s \<noteq> Some Dir" "open_w_err e ?s = None"
    using assms(2) by (auto simp: log_ok_def writable_def)
  then show ?thesis
    using assms(1) rs w1 cc ne f1 t unfolding sync_one_def Let_def in_dir_def [symmetric]
    by (simp add: movable_def fopen_w_def)
qed

lemma sync_one_skips: "\<not> movable t l n \<Longrightarrow> sync_one e t l n w = w"
  by (auto simp: sync_one_def movable_def in_dir_def Let_def)

lemma sync_one_other:
  assumes "n \<noteq> m" and "CHR ''/'' \<notin> set n" and "CHR ''/'' \<notin> set m" and "t \<noteq> l" and "movable t l m \<longrightarrow> log_ok e t l m w"
  shows "fs (sync_one e t l m w) (in_dir d n) = fs w (in_dir d n)"
proof (cases "movable t l m")
  case True
  have "in_dir d n \<noteq> in_dir l m" "in_dir d n \<noteq> in_dir t m" using assms(1-3) by (simp_all add: in_dir_inj)
  with True assms(4,5) show ?thesis by (simp add: sync_one_moves)
next
  case False
  then show ?thesis by (simp add: sync_one_skips)
qed

lemma sync_all:
  assumes "distinct names" and "\<forall>n \<in> set names. CHR ''/'' \<notin> set n" and "t \<noteq> l"
    and "\<forall>n \<in> set names. movable t l n \<longrightarrow> log_ok e t l n w"
  shows "(\<forall>n \<in> set names. movable t l n \<longrightarrow>
        content (fold (sync_one e t l) names w) (in_dir l n) = Some (text_of w (in_dir l n) @ text_of w (in_dir t n)) \<and>
        content (fold (sync_one e t l) names w) (in_dir t n) = Some []) \<and>
      (\<forall>q. (\<forall>n \<in> set names. movable t l n \<longrightarrow> q \<noteq> in_dir l n \<and> q \<noteq> in_dir t n) \<longrightarrow>
        fs (fold (sync_one e t l) names w) q = fs w q)"
  using assms
proof (induction names arbitrary: w)
  case Nil
  then show ?case by simp
next
  case (Cons m names)
  let ?v = "sync_one e t l m w"
  have other: "fs ?v (in_dir d n) = fs w (in_dir d n)" if "n \<in> set names" for d n
    by (rule sync_one_other) (use that Cons.prems in auto)
  then have same: "content ?v (in_dir d n) = content w (in_dir d n)" "text_of ?v (in_dir d n) = text_of w (in_dir d n)"
      "writable e (in_dir d n) ?v = writable e (in_dir d n) w" if "n \<in> set names" for d n
    using that by (simp_all add: content_def text_of_def writable_def)
  have IH: "(\<forall>n \<in> set names. movable t l n \<longrightarrow>
        content (fold (sync_one e t l) names ?v) (in_dir l n) = Some (text_of ?v (in_dir l n) @ text_of ?v (in_dir t n)) \<and>
        content (fold (sync_one e t l) names ?v) (in_dir t n) = Some []) \<and>
      (\<forall>q. (\<forall>n \<in> set names. movable t l n \<longrightarrow> q \<noteq> in_dir l n \<and> q \<noteq> in_dir t n) \<longrightarrow>
        fs (fold (sync_one e t l) names ?v) q = fs ?v q)"
    by (rule Cons.IH) (use Cons.prems same in \<open>auto simp: log_ok_def\<close>)
  have mine: "fs (fold (sync_one e t l) names ?v) (in_dir d m) = fs ?v (in_dir d m)" for d
  proof -
    have "in_dir d m \<noteq> in_dir d' n" if "n \<in> set names" for d' n
      using that Cons.prems(1,2) by (auto simp: in_dir_inj)
    then show ?thesis using IH by blast
  qed
  show ?case
  proof (cases "movable t l m")
    case True
    have v: "fs ?v = (fs w)(in_dir l m := Some (Reg (text_of w (in_dir l m) @ text_of w (in_dir t m))), in_dir t m := Some (Reg []))"
      using True Cons.prems(3,4) by (simp add: sync_one_moves)
    have ne: "in_dir l m \<noteq> in_dir t m" using Cons.prems(3) by (simp add: in_dir_def)
    show ?thesis
      using IH mine v ne True same by (simp add: content_def)
  next
    case False
    then have "?v = w" by (rule sync_one_skips)
    with IH False show ?thesis by auto
  qed
qed

section \<open>Frames\<close>

interpretation stop_op: world_op "stop_service e svc" "{}" for e svc
  by unfold_locales (simp_all add: stop_service_def case_prod_beta Let_def)

lemma signal_entry_frame [simp]: "fs (snd (signal_entry e n sig d st)) = fs (snd st)"
  by (auto simp: signal_entry_def Let_def split: prod.split sum.split)

lemma signal_entry_trace: "\<exists>ks. trace (snd (signal_entry e n sig d st)) = trace (snd st) @ ks \<and>
    (\<forall>ev \<in> set ks. \<exists>pid. 1 < pid \<and> ev = KillSig pid sig) \<and> fst (signal_entry e n sig d st) \<le> fst st + length ks"
  by (auto simp: signal_entry_def Let_def split: prod.split sum.split)

lemma signal_fold:
  "\<exists>ks. trace (snd (fold (signal_entry e n sig) ds st)) = trace (snd st) @ ks \<and>
    (\<forall>ev \<in> set ks. \<exists>pid. 1 < pid \<and> ev = KillSig pid sig) \<and>
    fst (fold (signal_entry e n sig) ds st) \<le> fst st + length ks \<and>
    fs (snd (fold (signal_entry e n sig) ds st)) = fs (snd st)"
proof (induction ds arbitrary: st)
  case Nil
  show ?case by simp
next
  case (Cons d ds)
  obtain ks where ks: "trace (snd (signal_entry e n sig d st)) = trace (snd st) @ ks"
      "\<forall>ev \<in> set ks. \<exists>pid. 1 < pid \<and> ev = KillSig pid sig" "fst (signal_entry e n sig d st) \<le> fst st + length ks"
    using signal_entry_trace by blast
  obtain ks' where ks': "trace (snd (fold (signal_entry e n sig) ds (signal_entry e n sig d st))) =
        trace (snd (signal_entry e n sig d st)) @ ks'"
      "\<forall>ev \<in> set ks'. \<exists>pid. 1 < pid \<and> ev = KillSig pid sig"
      "fst (fold (signal_entry e n sig) ds (signal_entry e n sig d st)) \<le> fst (signal_entry e n sig d st) + length ks'"
      "fs (snd (fold (signal_entry e n sig) ds (signal_entry e n sig d st))) = fs (snd (signal_entry e n sig d st))"
    using Cons.IH by blast
  show ?case
    by (rule exI [of _ "ks @ ks'"]) (use ks ks' in auto)
qed

interpretation signal_op: world_op "\<lambda>w. snd (send_signalcleanup e n sig w)" "{}" for e n sig
proof unfold_locales
  fix w q
  have "fs (snd (fold (signal_entry e x sig) ds (0, w))) = fs w" for x ds
    using signal_fold [of e x sig ds "(0, w)"] by auto
  then show "fs (snd (send_signalcleanup e n sig w)) q = fs w q"
    by (simp add: send_signalcleanup_def split: option.split)
next
  fix w
  have "prefix (trace w) (trace (snd (fold (signal_entry e x sig) ds (0, w))))" for x ds
    using signal_fold [of e x sig ds "(0, w)"] by auto
  then show "prefix (trace w) (trace (snd (send_signalcleanup e n sig w)))"
    by (simp add: send_signalcleanup_def split: option.split)
qed

text \<open>
  The files the housekeeping may write: the ones it found in the volatile log directory, their
  copies, and the saved system time.
\<close>

definition log_files :: "env \<Rightarrow> path set" where
  "log_files e = {p. \<exists>t. getenv e ''TEMP_LOG_PATH'' = Some t \<and>
     ((\<exists>l. getenv e ''LOG_PATH'' = Some l \<and> (\<exists>n \<in> set (dirents e t). p = in_dir t n \<or> p = in_dir l n)) \<or>
      (\<exists>d. getenv e ''PERSISTENT_PATH'' = Some d \<and> p = in_dir d ''.systime''))}"

lemma sync_one_frame:
  "trace (sync_one e t l n w) = trace w \<and> (\<forall>q. q \<notin> {in_dir t n, in_dir l n} \<longrightarrow> fs (sync_one e t l n w) q = fs w q)"
  unfolding sync_one_def Let_def in_dir_def [symmetric]
  by (auto split: sum.split prod.split dest!: fopen_a_Inr fopen_w_Inr copy_chunks_frame)

interpretation sync_one_op: world_op "sync_one e t l n" "{in_dir t n, in_dir l n}" for e t l n
  using sync_one_frame by unfold_locales auto

definition moved_files :: "env \<Rightarrow> path \<Rightarrow> path \<Rightarrow> path set" where
  "moved_files e t l = {in_dir d n | d n. d \<in> {t, l} \<and> n \<in> set (dirents e t)}"

interpretation sync_logs_op: world_op "sync_logs_from_temp e (Some t) (Some l)" "moved_files e t l" for e t l
proof -
  have one: "world_op (sync_one e t l n) (moved_files e t l)" if "n \<in> set (dirents e t)" for n
    by (rule world_op_mono [OF sync_one_op.world_op_axioms]) (use that in \<open>auto simp: moved_files_def\<close>)
  have fold: "world_op (\<lambda>w. fold (sync_one e t l) (dirents e t) w) (moved_files e t l)"
    by (rule world_op_fold) (rule one)
  show "world_op (sync_logs_from_temp e (Some t) (Some l)) (moved_files e t l)"
    by (rule world_opI)
      (use world_op.frame [OF fold] world_op.trace_grows [OF fold] in
        \<open>auto simp: sync_logs_from_temp_def opendir_def\<close>)
qed

lemma copy_systime_frame:
  "trace (copy_systime e t p w) = trace w \<and> (\<forall>q. q \<noteq> in_dir p ''.systime'' \<longrightarrow> fs (copy_systime e t p w) q = fs w q)"
proof -
  have d: "p @ ''/.systime'' = in_dir p ''.systime''" by (simp add: in_dir_def)
  show ?thesis
    unfolding copy_systime_def Let_def d
    by (auto split: sum.split dest!: fopen_w_Inr)
      (metis copy_chunks_frame prod.collapse)+
qed

interpretation transient_op: world_op "sync_transient_logs e" "log_files e" for e
proof -
  have a: "q \<notin> log_files e \<Longrightarrow> getenv e ''TEMP_LOG_PATH'' = Some t \<Longrightarrow> getenv e ''LOG_PATH'' = Some l \<Longrightarrow>
      fs (sync_logs_from_temp e (Some t) (Some l) w) q = fs w q" for q t l w
    by (rule sync_logs_op.frame) (auto simp: log_files_def moved_files_def)
  have b: "q \<notin> log_files e \<Longrightarrow> getenv e ''PERSISTENT_PATH'' = Some p \<Longrightarrow> getenv e ''TEMP_LOG_PATH'' = Some t \<Longrightarrow>
      q \<noteq> in_dir p ''.systime''" for q p t
    by (auto simp: log_files_def)
  show "world_op (sync_transient_logs e) (log_files e)"
    by unfold_locales
      (auto simp: sync_transient_logs_def Let_def copy_systime_frame a b sync_logs_op.trace_grows split: option.split)
qed

lemma tree_paths_below: "p \<in> set (tree_paths r t) \<Longrightarrow> p = r \<or> prefix (r @ ''/'') p"
proof (induction r t arbitrary: p rule: tree_paths.induct)
  case (1 r u)
  then show ?case by simp
next
  case (2 r a b es)
  then consider "p = r" | n t where "(n, t) \<in> set es" "\<not> is_dot n" "p \<in> set (tree_paths (r @ ''/'' @ n) t)"
    by (auto split: if_splits)
  then show ?case
  proof cases
    case (2 n t)
    with "2.IH" [OF this(1) refl] have "p = r @ ''/'' @ n \<or> prefix ((r @ ''/'' @ n) @ ''/'') p" by simp
    then show ?thesis by (auto simp: prefix_def)
  qed simp
qed

lemma gone_below: "gone_paths r old (DirT a b es) q \<Longrightarrow> prefix (r @ ''/'') q"
  by (auto simp: gone_paths_def list_ex_iff prefix_def dest!: tree_paths_below)

text \<open>The files of the downloaded applications.\<close>

definition app_files :: "path set" where
  "app_files = {q. prefix (MEDIA_APPS @ ''/'') q}"

lemma fixed_no_app: "\<forall>p \<in> set all_paths. p \<notin> app_files"
proof -
  have "\<forall>p \<in> set all_paths. \<not> prefix (MEDIA_APPS @ ''/'') p" by code_simp
  then show ?thesis by (simp add: app_files_def)
qed

lemmas own_no_app [simp] = fixed_no_app [unfolded all_paths_def, simplified]

interpretation clear_op: world_op "\<lambda>w. snd (clear_subdirectory (Some MEDIA_APPS) w)" app_files
  by unfold_locales
    (auto simp: clear_subdirectory_def case_prod_beta Let_def app_files_def dest: gone_below split: option.split ftree.split bool.split)

interpretation rdm_op: world_op "rdm_cleanup e" app_files for e
  by unfold_locales (auto simp: rdm_cleanup_def clear_op.frame clear_op.trace_grows split: option.split)

lemma rdm_cleanup_trace: "trace (rdm_cleanup e w) = trace w"
  by (simp add: rdm_cleanup_def clear_subdirectory_def case_prod_beta Let_def split: option.split ftree.split bool.split)

interpretation script_op: world_op "run_if_present e s" "{}" for e s
  by unfold_locales (simp_all add: run_if_present_def)

interpretation scripts_op: world_op "device_scripts e" "{}" for e
  by unfold_locales
    (auto simp: device_scripts_def Let_def script_op.frame intro!: script_op.trace_via split: option.split)

interpretation bluetooth_op: world_op "stop_bluetooth e" "{}" for e
proof -
  have "world_op (\<lambda>w. fold (stop_service e) xs w) {}" for xs
    by (rule world_op_fold) (rule stop_op.world_op_axioms)
  then show "world_op (stop_bluetooth e) {}"
    unfolding stop_bluetooth_def by (rule world_op_if) (rule world_op_id)
qed

interpretation cleanup_op: world_op "cleanup_services e" "log_files e \<union> app_files" for e
proof unfold_locales
  fix w q assume "q \<notin> log_files e \<union> app_files"
  then show "fs (cleanup_services e w) q = fs w q"
    by (simp add: cleanup_services_def Let_def transient_op.frame bluetooth_op.frame scripts_op.frame rdm_op.frame signal_op.frame)
next
  fix w show "prefix (trace w) (trace (cleanup_services e w))"
    unfolding cleanup_services_def Let_def
    by (intro emit_op.trace_via bluetooth_op.trace_via transient_op.trace_via scripts_op.trace_via rdm_op.trace_via
        signal_op.trace_via prefix_order.refl)
qed

section \<open>The PID guard\<close>

lemma pid_create_Inr:
  assumes "pid_create e w = Inr w1" and "size_max e PID_FILE = None"
  shows "content w1 PID_FILE = Some (show_int (getpid e))" and "\<forall>q. q \<noteq> PID_FILE \<longrightarrow> fs w1 q = fs w q"
    and "trace w1 = trace w"
  using assms by (auto simp: pid_create_def fputs_def content_def split: if_splits option.splits)

lemma guard_takeover:
  assumes "fs w PID_FILE = Some (Reg c)" and "size_max e PID_FILE = None"
  shows "content (snd (fputs e PID_FILE s (w\<lparr>fs := (fs w)(PID_FILE := Some (Reg []))\<rparr>))) PID_FILE = Some s"
  using assms by (simp add: fputs_def)

lemma pid_running_others:
  assumes "interleave e (ticks w) (fs w) = fs w"
  shows "pid_running e c (others_run e w) = pid_running e c w"
  using fopen_r_cong [of "others_run e w" _ w e] assms by (simp add: pid_running_def others_run_def Let_def)

lemma pid_guard_locked:
  assumes "fs w PID_FILE = Some (Reg c)" and "pid_running e c w" and "interleave e (ticks w) (fs w) = fs w"
  shows "fst (pidfile_write_and_guard e w) = -1 \<and> fs (snd (pidfile_write_and_guard e w)) = fs w \<and>
    trace (snd (pidfile_write_and_guard e w)) = trace w"
  using pid_running_others [OF assms(3), of c] assms
  by (auto simp: pidfile_write_and_guard_def Let_def pid_create_def others_run_def pid_open_def
      split: sum.split option.split)

text \<open>Another instance, number 77, at work.\<close>

definition pid_world :: world where
  "pid_world = empty_world\<lparr>fs := (\<lambda>_. None)(PID_FILE := Some (Reg ''77''),
     ''/proc/77/cmdline'' := Some (Reg ''/usr/bin/rebootnow''))\<rparr>"

lemma pid_world_running: "pid_running calm_env ''77'' pid_world" "fs pid_world PID_FILE = Some (Reg ''77'')"
proof -
  have "has_substr ''/usr/bin/rebootnow'' ''rebootnow''" by code_simp
  moreover have "show_int (atoi (cstr (fst (split_line 31 ''77'')))) = ''77''" by code_simp
  ultimately show "pid_running calm_env ''77'' pid_world"
    by (simp add: pid_running_def fopen_r_def calm_env_def pid_world_def PID_FILE_def)
qed (simp add: pid_world_def PID_FILE_def)

section \<open>Properties\<close>

text \<open>
  C27. The recursive removal is honest and complete: \<^verbatim>\<open>remove_dir_at\<close> returns 0 exactly when
  everything under the directory can be removed, and then nothing of it is left; otherwise it
  returns -1 and something is left.
\<close>

theorem remove_dir_at_honest:
  "(fst (remove_dir_at t) = 0 \<longleftrightarrow> deletable t) \<and> (fst (remove_dir_at t) = 0 \<longleftrightarrow> snd (remove_dir_at t) = None) \<and>
   fst (remove_dir_at t) \<in> {0, -1}"
proof (cases "deletable t")
  case True
  then have "remove_dir_at t = (0, None)" using remove_dir_at_sound(1) [of t] by simp
  with True show ?thesis by simp
next
  case False
  then have "fst (remove_dir_at t) = -1 \<and> snd (remove_dir_at t) \<noteq> None"
    using remove_dir_at_sound(1) [of t] by simp
  with False show ?thesis by simp
qed

text \<open>
  C26. The move of the volatile logs loses nothing, as long as the logs can be read and written in
  full and nobody else writes them meanwhile: after \<^verbatim>\<open>sync_logs_from_temp\<close> every log file of
  the directory holds in the persistent copy what that copy held before, followed by the whole
  volatile file, and the volatile file is empty; every other file is as before.
\<close>

theorem sync_logs_lossless:
  assumes "opendir e t w = Some names" and "distinct names" and "\<forall>n \<in> set names. CHR ''/'' \<notin> set n"
    and "t \<noteq> l" and "\<forall>n \<in> set names. movable t l n \<longrightarrow> log_ok e t l n w"
  shows "(\<forall>n \<in> set names. movable t l n \<longrightarrow>
        content (sync_logs_from_temp e (Some t) (Some l) w) (in_dir l n) =
          Some (text_of w (in_dir l n) @ text_of w (in_dir t n)) \<and>
        content (sync_logs_from_temp e (Some t) (Some l) w) (in_dir t n) = Some []) \<and>
      (\<forall>q. (\<forall>n \<in> set names. movable t l n \<longrightarrow> q \<noteq> in_dir l n \<and> q \<noteq> in_dir t n) \<longrightarrow>
        fs (sync_logs_from_temp e (Some t) (Some l) w) q = fs w q)"
proof -
  have "sync_logs_from_temp e (Some t) (Some l) w = fold (sync_one e t l) names w"
    using assms(1,4) by (simp add: sync_logs_from_temp_def)
  with sync_all [OF assms(2-5)] show ?thesis by simp
qed

definition log_env :: env where
  "log_env = calm_env\<lparr>dirents := (\<lambda>_. [''.'', ''a.log'', ''core.bin''])\<rparr>"

definition log_world :: world where
  "log_world = empty_world\<lparr>fs := (\<lambda>_. None)(''/t'' := Some Dir, ''/t/a.log'' := Some (Reg ''new''),
     ''/l/a.log'' := Some (Reg ''old''), ''/t/core.bin'' := Some (Reg ''x''))\<rparr>"

theorem sync_logs_lossless_witness:
  "content (sync_logs_from_temp log_env (Some ''/t'') (Some ''/l'') log_world) ''/l/a.log'' = Some ''oldnew'' \<and>
   content (sync_logs_from_temp log_env (Some ''/t'') (Some ''/l'') log_world) ''/t/a.log'' = Some []"
proof -
  have o: "opendir log_env ''/t'' log_world = Some [''.'', ''a.log'', ''core.bin'']"
    by (simp add: opendir_def is_dir_def log_env_def log_world_def calm_env_def)
  have m: "movable ''/t'' ''/l'' ''a.log''" by code_simp
  have nm: "\<not> movable ''/t'' ''/l'' ''.''" "\<not> movable ''/t'' ''/l'' ''core.bin''" by code_simp+
  have ok: "log_ok log_env ''/t'' ''/l'' ''a.log'' log_world"
    by (simp add: log_ok_def writable_def readable_def content_def in_dir_def log_env_def log_world_def calm_env_def)
  have "(\<forall>n \<in> set [''.'', ''a.log'', ''core.bin'']. movable ''/t'' ''/l'' n \<longrightarrow>
      content (sync_logs_from_temp log_env (Some ''/t'') (Some ''/l'') log_world) (in_dir ''/l'' n) =
        Some (text_of log_world (in_dir ''/l'' n) @ text_of log_world (in_dir ''/t'' n)) \<and>
      content (sync_logs_from_temp log_env (Some ''/t'') (Some ''/l'') log_world) (in_dir ''/t'' n) = Some [])"
    by (rule sync_logs_lossless [THEN conjunct1, OF o]) (use nm ok in simp_all)
  with m show ?thesis
    by (simp add: in_dir_def text_of_def content_def log_world_def)
qed

text \<open>
  C13. The PID guard taken as one step, with the other processes running between its exclusive
  creation and its second open only, and on a file system that takes the number (the program
  ignores a failed write): it answers nothing but 0 and -1; it admits this process only with its
  own number in the PID file; and it turns the process away without touching anything when the
  others leave the files alone and the recorded process is a running rebootnow whose command line
  can be read. The orders in which this single step is taken apart are the subject of \<open>PidRace\<close>,
  which has schedules that admit two processes.
\<close>

theorem pid_guard_exclusive:
  assumes "size_max e PID_FILE = None"
  shows "fst (pidfile_write_and_guard e w) \<in> {0, -1} \<and>
    (fst (pidfile_write_and_guard e w) = 0 \<longrightarrow>
       content (snd (pidfile_write_and_guard e w)) PID_FILE = Some (show_int (getpid e))) \<and>
    (fs w PID_FILE = Some (Reg c) \<longrightarrow> interleave e (ticks w) (fs w) = fs w \<longrightarrow> pid_running e c w \<longrightarrow>
       fst (pidfile_write_and_guard e w) = -1 \<and> fs (snd (pidfile_write_and_guard e w)) = fs w)"
proof -
  have created: "content w1 PID_FILE = Some (show_int (getpid e))" if "pid_create e v = Inr w1" for v w1
    by (rule pid_create_Inr(1) [OF that assms])
  have opened: "\<exists>c. fs v PID_FILE = Some (Reg c)" if "pid_open e v = Inr d" for v d
    using that by (auto simp: pid_open_def split: option.splits node.splits)
  show ?thesis
    apply (intro conjI impI)
    subgoal by (simp add: pidfile_write_and_guard_def Let_def split: sum.split)
    subgoal
      using created opened guard_takeover [OF _ assms]
      by (fastforce simp: pidfile_write_and_guard_def Let_def split: sum.splits if_splits)
    subgoal using pid_guard_locked by blast
    subgoal using pid_guard_locked by blast
    done
qed

theorem pid_guard_exclusive_witness:
  "content (snd (pidfile_write_and_guard calm_env empty_world)) PID_FILE = Some ''4242'' \<and>
   fst (pidfile_write_and_guard calm_env pid_world) = -1"
proof
  have m: "size_max calm_env PID_FILE = None" by (simp add: calm_env_def)
  have "fst (pidfile_write_and_guard calm_env empty_world) = 0"
    by (simp add: pidfile_write_and_guard_def pid_create_def empty_world_def calm_env_def)
  moreover have "show_int (getpid calm_env) = ''4242''"
    by (simp add: calm_env_def show_int_def show_nat.simps)
  ultimately show "content (snd (pidfile_write_and_guard calm_env empty_world)) PID_FILE = Some ''4242''"
    using pid_guard_exclusive [OF m, of empty_world "[]"] by simp
  have "interleave calm_env (ticks pid_world) (fs pid_world) = fs pid_world"
    by (simp add: calm_env_def)
  then show "fst (pidfile_write_and_guard calm_env pid_world) = -1"
    using pid_guard_exclusive [OF m, of pid_world "''77''"] pid_world_running by blast
qed

text \<open>
  The cleanup signals only processes above the init process: \<^verbatim>\<open>send_signalcleanup\<close> adds nothing
  but its own signal to the trace, never to a process number of one or below, changes no file,
  and the number of processes it reports is at most the number of signals it sent.
\<close>

lemma signal_targets:
  "\<exists>ks. trace (snd (send_signalcleanup e name sig w)) = trace w @ ks \<and>
     (\<forall>ev \<in> set ks. \<exists>pid. 1 < pid \<and> ev = KillSig pid sig) \<and>
     fst (send_signalcleanup e name sig w) \<le> length ks \<and> fs (snd (send_signalcleanup e name sig w)) = fs w"
proof -
  have "\<exists>ks. trace (snd (fold (signal_entry e n sig) ds (0, w))) = trace w @ ks \<and>
    (\<forall>ev \<in> set ks. \<exists>pid. 1 < pid \<and> ev = KillSig pid sig) \<and>
    fst (fold (signal_entry e n sig) ds (0, w)) \<le> length ks \<and>
    fs (snd (fold (signal_entry e n sig) ds (0, w))) = fs w" for n ds
    using signal_fold [of e n sig ds "(0, w)"] by simp
  then show ?thesis
    by (simp add: send_signalcleanup_def split: option.split)
qed

end
