(* ===== verification/RebootMain.thy ===== *)
theory RebootMain
  imports CyclicReboot SystemCleanup
begin

text \<open>
  \<^verbatim>\<open>reboot-helper/src/reboot_main.c\<close>: the program \<^verbatim>\<open>rebootnow\<close>. A run takes the PID file, reads
  its options, files the request under a category, saves it (the log, the record, the parodus
  line), asks the reboot-loop guard, saves the record for the next run, and reboots the device
  in three stages unless the guard defers. The logger and telemetry initialisation have no
  effect on anything modelled.
\<close>

section \<open>Categories\<close>

definition APP_TRIGGERED_REASONS :: "string list" where
  "APP_TRIGGERED_REASONS = [
    ''Servicemanager'', ''systemservice_legacy'', ''WarehouseReset'', ''WarehouseService'',
    ''HrvInitWHReset'', ''HrvColdInitReset'', ''HtmlDiagnostics'', ''InstallTDK'', ''StartTDK'',
    ''TR69Agent'', ''SystemServices'', ''Bsu_GUI'', ''SNMP'', ''CVT_CDL'', ''Nxserver'',
    ''DRM_Netflix_Initialize'', ''hrvinit'', ''PaceMFRLibrary'']"

definition OPS_TRIGGERED_REASONS :: "string list" where
  "OPS_TRIGGERED_REASONS = [
    ''ScheduledReboot'', ''RebootSTB.sh'', ''FactoryReset'', ''UpgradeReboot_firmwareDwnld.sh'',
    ''UpgradeReboot_restore'', ''XFS'', ''wait_for_pci0_ready'', ''websocketproxyinit'', ''NSC_IR_EventReboot'',
    ''host_interface_dma_bus_wait'', ''usbhotplug'', ''Receiver_MDVRSet'', ''Receiver_VidiPath_Enabled'',
    ''Receiver_Toggle_Optimus'', ''S04init_ticket'', ''Network-Service'', ''monitor.sh'', ''ecmIpMonitor.sh'',
    ''monitorMfrMgr.sh'', ''vlAPI_Caller_Upgrade'', ''ImageUpgrade_rmf_osal'', ''ImageUpgrade_mfr_api'',
    ''ImageUpgrade_updateNewImage.sh'', ''ImageUpgrade_userInitiatedFWDnld.sh'', ''ClearSICache'',
    ''tr69hostIfReset'', ''hostIf_utils'', ''hostifDeviceInfo'', ''HAL_SYS_Reboot'', ''UpgradeReboot_deviceInitiatedFWDnld.sh'',
    ''UpgradeReboot_rdkvfwupgrader'', ''UpgradeReboot_ipdnl.sh'', ''PowerMgr_Powerreset'', ''PowerMgr_coldFactoryReset'',
    ''DeepSleepMgr'', ''PowerMgr_CustomerReset'', ''PowerMgr_PersonalityReset'', ''Power_Thermmgr'', ''PowerMgr_Plat'',
    ''HAL_CDL_notify_mgr_event'', ''vldsg_estb_poll_ecm_operational_state'', ''BcmIndicateEcmReset'', ''SASWatchDog'',
    ''BP3_Provisioning'', ''eMMC_FW_UPGRADE'', ''BOOTLOADER_UPGRADE'', ''cdl_service'', ''BCMCommandHandler'',
    ''BRCM_Image_Validate'', ''docsis_mode_check.sh'', ''tch_nvram.sh'', ''Receiver'', ''CANARY_Update'', ''boot_FSR'',
    ''CyclicReboot'']"

definition MAINTENANCE_TRIGGERED_REASONS :: "string list" where
  "MAINTENANCE_TRIGGERED_REASONS = [''AutoReboot.sh'', ''PwrMgr'']"

definition check_string_value :: "string list \<Rightarrow> string option \<Rightarrow> bool" where
  "check_string_value xs needle = (case needle of None \<Rightarrow> False
     | Some n \<Rightarrow> list_ex (\<lambda>x. strstr x n \<noteq> None) xs)"

definition categorize :: "string \<Rightarrow> string \<Rightarrow> string" where
  "categorize source custom_reason =
     (if check_string_value APP_TRIGGERED_REASONS (Some source) then
        (if custom_reason = ''MAINTENANCE_REBOOT'' then ''MAINTENANCE_REBOOT'' else ''APP_TRIGGERED'')
      else if check_string_value OPS_TRIGGERED_REASONS (Some source) then ''OPS_TRIGGERED''
      else if check_string_value MAINTENANCE_TRIGGERED_REASONS (Some source) then ''MAINTENANCE_REBOOT''
      else ''FIRMWARE_FAILURE'')"

section \<open>Usage and options\<close>

definition PROGRAM_NAME :: string where "PROGRAM_NAME = ''rebootnow''"

definition usage_text :: string where
  "usage_text = ''Usage: '' @ PROGRAM_NAME @ '' [options]'' @ [NL, NL] @
     ''Script-equivalent arguments for rebootNow.sh:'' @ [NL] @
     ''  -s <source>        Source process triggering reboot (normal)'' @ [NL] @
     ''  -c <source>        Source process triggering reboot (crash)'' @ [NL] @
     ''  -r <custom>        Custom reason (e.g., MAINTENANCE_REBOOT)'' @ [NL] @
     ''  -o <other>         Other descriptive reason text'' @ [NL] @
     ''  -h                 Show this help and exit'' @ [NL, NL] @ ''Examples:'' @ [NL] @
     ''  '' @ PROGRAM_NAME @ '' -s HtmlDiagnostics -o '' @ [DQ] @ ''User requested reboot'' @ [DQ, NL] @
     ''  '' @ PROGRAM_NAME @ '' -c dsMgrMain -r MAINTENANCE_REBOOT -o '' @ [DQ] @ ''Crash detected'' @ [DQ, NL]"

definition usage :: "stream \<Rightarrow> world \<Rightarrow> world" where
  "usage out w = emit (Printed out usage_text) w"

text \<open>
  What successive calls of \<open>getopt(argc, argv, "s:c:r:o:h")\<close> return: an option with its
  argument, \<open>-h\<close>, or a refusal (an unknown option, or a missing argument). The first argument is
  whether \<^verbatim>\<open>POSIXLY_CORRECT\<close> is set, the second the unread rest of the current element.
\<close>

datatype optitem = OptArg char string | OptHelp | OptBad

definition takes_arg :: "char \<Rightarrow> bool" where
  "takes_arg c \<longleftrightarrow> c \<in> {CHR ''s'', CHR ''c'', CHR ''r'', CHR ''o''}"

function getopt_scan :: "bool \<Rightarrow> string \<Rightarrow> string list \<Rightarrow> optitem list" where
  "getopt_scan px [] [] = []"
| "getopt_scan px [] (a # as) =
     (if a = ''--'' then []
      else if length a \<le> 1 \<or> hd a \<noteq> CHR ''-'' then (if px then [] else getopt_scan px [] as)
      else getopt_scan px (tl a) as)"
| "getopt_scan px (c # cs) as =
     (if c = CHR ''h'' then OptHelp # getopt_scan px cs as
      else if takes_arg c then
        (if cs \<noteq> [] then OptArg c cs # getopt_scan px [] as
         else (case as of [] \<Rightarrow> [OptBad] | a # as' \<Rightarrow> OptArg c a # getopt_scan px [] as'))
      else OptBad # getopt_scan px cs as)"
  by pat_completeness auto
termination
  by (relation "measure (\<lambda>(px, cs, as). length cs + sum_list (map (\<lambda>a. Suc (length a)) as))") auto

record opts =
  o_source :: "string option"
  is_crash :: bool
  custom_reason :: string
  other_reason :: string

definition default_opts :: opts where
  "default_opts = \<lparr>o_source = None, is_crash = False, custom_reason = ''Unknown'', other_reason = ''Unknown''\<rparr>"

text \<open>The option loop: an early exit with its status and the stream of the usage text, or the options.\<close>

fun option_loop :: "optitem list \<Rightarrow> opts \<Rightarrow> (int \<times> stream) + opts" where
  "option_loop [] st = Inr st"
| "option_loop (OptArg c a # its) st =
     (if c = CHR ''s'' then option_loop its (st\<lparr>o_source := Some a, is_crash := False\<rparr>)
      else if c = CHR ''c'' then
        (if is_crash st \<or> o_source st \<noteq> None then Inl (1, Stderr)
         else option_loop its (st\<lparr>o_source := Some a, is_crash := True\<rparr>))
      else if c = CHR ''r'' then option_loop its (st\<lparr>custom_reason := a\<rparr>)
      else option_loop its (st\<lparr>other_reason := a\<rparr>))"
| "option_loop (OptHelp # its) st = Inl (0, Stdout)"
| "option_loop (OptBad # its) st = Inl (1, Stdout)"

section \<open>Telemetry, the maintenance flag, the log text\<close>

definition t2_marker :: "string \<Rightarrow> bool \<Rightarrow> string" where
  "t2_marker source crash =
     (if \<not> crash then
        (if strstr source ''runPodRecovery'' \<noteq> None then ''SYST_ERR_RunPod_reboot''
         else if strstr source ''CardNotResponding'' \<noteq> None then ''SYST_ERR_CCNotResponding_reboot''
         else bufcpy 256 (''SYST_ERR_'' @ source))
      else
        (if strstr source ''dsMgrMain'' \<noteq> None then ''SYST_ERR_DSMGR_reboot''
         else if strstr source ''IARMDaemonMain'' \<noteq> None then ''SYST_ERR_IARMDAEMON_reboot''
         else if strstr source ''rmfStreamer'' \<noteq> None then ''SYST_ERR_Rmfstreamer_reboot''
         else if strstr source ''runPod'' \<noteq> None then ''SYST_ERR_RunPod_reboot''
         else bufcpy 256 (''SYST_ERR_'' @ source @ ''_reboot'')))"

definition emit_t2_for_source :: "env \<Rightarrow> string option \<Rightarrow> bool \<Rightarrow> world \<Rightarrow> world" where
  "emit_t2_for_source e source crash w = (case source of None \<Rightarrow> w
     | Some s \<Rightarrow> if s = [] then w else t2CountNotify e (Some (t2_marker s crash)) 1 w)"

definition update_maintenance_reboot_flag :: "env \<Rightarrow> string option \<Rightarrow> world \<Rightarrow> int \<times> world" where
  "update_maintenance_reboot_flag e reboot_reason w = (case reboot_reason of None \<Rightarrow> (-1, w)
     | Some r \<Rightarrow>
         if r = [] then (-1, w)
         else if r = ''MAINTENANCE_REBOOT'' then
           (case fopen_w e MAINTENANCE_REBOOT_FLAG w of Inl _ \<Rightarrow> (-1, w) | Inr w1 \<Rightarrow> (0, w1))
         else (case unlink e MAINTENANCE_REBOOT_FLAG w of
             (None, w1) \<Rightarrow> (0, w1)
           | (Some er, w1) \<Rightarrow> (if er \<noteq> ENOENT then -1 else 0, w1)))"

definition signal_cleanup_handler :: "env \<Rightarrow> int \<Rightarrow> world \<Rightarrow> world" where
  "signal_cleanup_handler e signum w = cleanup_pidfile e w"

text \<open>
  The bounded append: the C string in the buffer and the number of bytes used, for the formatted
  text (\<open>None\<close> is a negative result of \<open>vsnprintf\<close>).
\<close>

definition update_reboot_log :: "string option \<Rightarrow> nat \<Rightarrow> nat \<Rightarrow> string option \<Rightarrow> string option \<times> nat" where
  "update_reboot_log buffer buffer_size bytes_used text = (case buffer of None \<Rightarrow> (None, 0)
     | Some b \<Rightarrow>
         if buffer_size = 0 then (Some b, 0)
         else if buffer_size - 1 \<le> bytes_used then (Some (take (buffer_size - 1) b), buffer_size - 1)
         else (let bytes_left = buffer_size - bytes_used in
           (case text of None \<Rightarrow> (Some (take (buffer_size - 1) b), bytes_used)
            | Some t \<Rightarrow>
                (let b' = take bytes_used b @ take (bytes_left - 1) t in
                 if bytes_left \<le> length t then (Some b', buffer_size - 1)
                 else (Some b', bytes_used + length t)))))"

text \<open>The first line of the log, put together by three appends.\<close>

definition reason_line :: "string \<Rightarrow> bool \<Rightarrow> string \<Rightarrow> string" where
  "reason_line source crash other =
     (let (b, n) = update_reboot_log (Some []) 1024 0 (Some ''RebootReason: '');
          (b, n) = update_reboot_log b 1024 n
            (Some (if crash then ''Triggered from '' @ source @ '' process failure or crash..!''
                   else ''Triggered from '' @ source @ '' process''));
          (b, n) = update_reboot_log b 1024 n
            (Some (if other = ''Unknown'' then [NL] else '' '' @ other @ [NL]))
      in case b of Some s \<Rightarrow> s | None \<Rightarrow> [])"

definition log_lines :: "string \<Rightarrow> bool \<Rightarrow> string \<Rightarrow> string \<Rightarrow> string \<Rightarrow> string list" where
  "log_lines source crash ts custom other =
     [reason_line source crash other,
      bufcpy 1024 (''RebootInitiatedBy: '' @ source @ [NL]),
      bufcpy 1024 (''RebootTime: '' @ ts @ [NL]),
      bufcpy 1024 (''CustomReason: '' @ custom @ [NL]),
      bufcpy 1024 (''OtherReason: '' @ other @ [NL])]"

text \<open>The record, as the sequence of strings printed.\<close>

definition render_record :: "prev_info \<Rightarrow> string list" where
  "render_record r = [''{'' @ [NL],
     [DQ] @ ''timestamp'' @ [DQ] @ '':'' @ [DQ] @ p_ts r @ [DQ] @ '','' @ [NL],
     [DQ] @ ''source'' @ [DQ] @ '':'' @ [DQ] @ p_src r @ [DQ] @ '','' @ [NL],
     [DQ] @ ''reason'' @ [DQ] @ '':'' @ [DQ] @ p_rsn r @ [DQ] @ '','' @ [NL],
     [DQ] @ ''customReason'' @ [DQ] @ '':'' @ [DQ] @ p_cus r @ [DQ] @ '','' @ [NL],
     [DQ] @ ''otherReason'' @ [DQ] @ '':'' @ [DQ] @ p_oth r @ [DQ] @ [NL],
     ''}'' @ [NL]]"

definition parodus_line :: "string \<Rightarrow> string \<Rightarrow> string \<Rightarrow> string \<Rightarrow> string" where
  "parodus_line ts reason custom source = bufcpy 1024 (''PreviousRebootInfo:'' @ ts @ '','' @ reason @ '','' @ custom @
     '','' @ source @ [NL])"

section \<open>The run\<close>

definition request_record :: "string \<Rightarrow> string \<Rightarrow> string \<Rightarrow> string \<Rightarrow> prev_info" where
  "request_record source custom other ts = \<lparr>p_src = source, p_rsn = categorize source custom, p_cus = custom,
     p_oth = other, p_ts = ts\<rparr>"

text \<open>Log, record and parodus line; the time stamp is the result.\<close>

definition save_request :: "env \<Rightarrow> string \<Rightarrow> bool \<Rightarrow> string \<Rightarrow> string \<Rightarrow> world \<Rightarrow> string \<times> world" where
  "save_request e source crash custom other w =
     (let w = emit_t2_for_source e (Some source) crash w;
          w = (case fopen_w e REBOOTINFO_LOG w of Inl _ \<Rightarrow> w | Inr w1 \<Rightarrow> w1);
          (ts, w) = timestamp_update e 64 w;
          w = fold (\<lambda>line w. snd (write_rebootinfo_log e REBOOTINFO_LOG line w)) (log_lines source crash ts custom other) w;
          w = snd (mkdir e REBOOT_INFO_DIR w);
          w = snd (write_file e REBOOT_INFO_FILE (render_record (request_record source custom other ts)) w);
          w = snd (write_file e PARODUS_REBOOT_INFO_FILE [parodus_line ts (categorize source custom) custom source] w)
      in (ts, w))"

text \<open>The three stages of the reboot. A negative \<open>fork_pid\<close> is a failed \<open>fork\<close>.\<close>

definition reboot_sequence :: "env \<Rightarrow> world \<Rightarrow> world" where
  "reboot_sequence e w =
     (let w = (if 0 < fork_pid e then emit (ForkExec ''reboot'') w else w);
          w = emit (SleepSecs 90) w;
          (rc, w) = secure_system e ''systemctl reboot'' w;
          w = (if 0 < fork_pid e then emit (KillSig (fork_pid e) SIGTERM) w else w)
      in snd (secure_system e ''reboot -f'' w))"

definition notify_pending :: "env \<Rightarrow> world \<Rightarrow> world" where
  "notify_pending e w = (case rfc_get_bool_param e (Some RFC_MNG_NOTIFY) w of
       Some True \<Rightarrow> snd (rfc_set_int_param e (Some RFC_FW_REBOOT_NOTIFY) REBOOT_PENDING_NOTIFICATION_DELAY w)
     | _ \<Rightarrow> w)"

definition prepare_reboot :: "env \<Rightarrow> string \<Rightarrow> world \<Rightarrow> world" where
  "prepare_reboot e reason w =
     (let w = snd (update_maintenance_reboot_flag e (Some reason) w);
          w = notify_pending e w;
          w = cleanup_services e w
      in snd (append_file e REBOOTNOW_FLAG [] w))"

definition run_request :: "env \<Rightarrow> string \<Rightarrow> bool \<Rightarrow> string \<Rightarrow> string \<Rightarrow> world \<Rightarrow> int \<times> world" where
  "run_request e source crash custom other w =
     (let reason = categorize source custom;
          (ts, w) = save_request e source crash custom other w;
          (proceed, w) = handle_cyclic_reboot e (Some source) (Some reason) (Some custom) (Some other) w;
          w = snd (write_file e PREVIOUS_REBOOT_INFO_FILE (render_record (request_record source custom other ts)) w)
      in if proceed = 0 then (0, w)
         else (0, reboot_sequence e (prepare_reboot e reason w)))"

definition rebootnow_body :: "env \<Rightarrow> string list \<Rightarrow> world \<Rightarrow> int \<times> world" where
  "rebootnow_body e args w =
     (case option_loop (getopt_scan (getenv e ''POSIXLY_CORRECT'' \<noteq> None) [] args) default_opts of
        Inl (rc, out) \<Rightarrow> (rc, usage out w)
      | Inr opt \<Rightarrow> (case o_source opt of None \<Rightarrow> (1, usage Stderr w)
          | Some source \<Rightarrow> run_request e source (is_crash opt) (custom_reason opt) (other_reason opt) w))"

text \<open>\<open>main\<close>, with the PID file removed at exit once it was taken.\<close>

definition rebootnow_main :: "env \<Rightarrow> string list \<Rightarrow> world \<Rightarrow> int \<times> world" where
  "rebootnow_main e args w =
     (let (pid_rc, w) = pidfile_write_and_guard e w in
      if pid_rc \<noteq> 0 then (1, w)
      else (let (rc, w) = rebootnow_body e args w in (rc, cleanup_pidfile e w)))"

section \<open>The log text\<close>

lemma update_reboot_log_fits:
  assumes "length b = used" and "used < sz"
  shows "update_reboot_log (Some b) sz used (Some t) = (Some (take (sz - 1) (b @ t)), min (sz - 1) (used + length t))"
  using assms by (auto simp: update_reboot_log_def Let_def min_def)

definition reason_text :: "string \<Rightarrow> bool \<Rightarrow> string \<Rightarrow> string" where
  "reason_text source crash other = ''RebootReason: Triggered from '' @ source @ '' process'' @
     (if crash then '' failure or crash..!'' else []) @ (if other = ''Unknown'' then [] else '' '' @ other) @ [NL]"

lemma reason_line_eq: "reason_line source crash other = bufcpy 1024 (reason_text source crash other)"
proof -
  have fits: "update_reboot_log (Some (take 1023 s)) 1024 (min 1023 (length s)) (Some t) =
      (Some (take 1023 (s @ t)), min 1023 (length (s @ t)))" for s t
  proof -
    have l: "length (take 1023 s) = min 1023 (length s)" by simp
    have t: "take 1023 (take 1023 s @ t) = take 1023 (s @ t)" by (simp add: min_def)
    have m: "min 1023 (min 1023 (length s) + length t) = min 1023 (length (s @ t))" by simp
    have "update_reboot_log (Some (take 1023 s)) 1024 (min 1023 (length s)) (Some t) =
        (Some (take (1024 - 1) (take 1023 s @ t)), min (1024 - 1) (min 1023 (length s) + length t))"
      by (rule update_reboot_log_fits) auto
    then show ?thesis using t m by simp
  qed
  have first: "update_reboot_log (Some []) 1024 0 (Some t) = (Some (take 1023 t), min 1023 (length t))" for t
    using fits [of "[]" t] by simp
  show ?thesis
    unfolding reason_line_def Let_def first fits prod.case option.case
    by (simp add: bufcpy_def reason_text_def del: take_append)
qed

interpretation main_record: reboot_record render_record
  by (rule reboot_recordI) (simp add: render_record_def record_text_def json_kv_def)

section \<open>Reboot commands\<close>

definition reboot_cmd :: "event \<Rightarrow> bool" where
  "reboot_cmd ev \<longleftrightarrow> ev \<in> {ForkExec ''reboot'', Shell ''systemctl reboot'', Shell ''reboot -f''}"

definition reboots :: "world \<Rightarrow> event list" where
  "reboots w = filter reboot_cmd (trace w)"

lemma reboots_emit [simp]: "reboots (emit ev w) = reboots w @ (if reboot_cmd ev then [ev] else [])"
  by (simp add: reboots_def)

lemma reboots_cong: "trace v = trace w \<Longrightarrow> reboots v = reboots w"
  by (simp add: reboots_def)

lemma reboot_cmd_simps [simp]:
  "\<not> reboot_cmd (T2Count m v)" "\<not> reboot_cmd (T2Val m s)" "\<not> reboot_cmd (RfcSet pn s t)"
  "\<not> reboot_cmd (KillSig p sig)" "\<not> reboot_cmd SyncDisks" "\<not> reboot_cmd (USleep n)" "\<not> reboot_cmd (SleepSecs n)"
  "\<not> reboot_cmd (Printed st s)" "reboot_cmd (ForkExec ''reboot'')" "reboot_cmd (Shell ''systemctl reboot'')"
  "reboot_cmd (Shell ''reboot -f'')" "\<not> reboot_cmd (Shell (''sh '' @ c))" "\<not> reboot_cmd (Shell (''systemctl -'' @ c))"
  "\<not> reboot_cmd (Shell (''systemctl s'' @ c))"
  by (simp_all add: reboot_cmd_def)

text \<open>An operation that issues no reboot command.\<close>

locale quiet_op = world_op +
  assumes quiet: "reboots (f w) = reboots w"

lemma quiet_opI: "world_op f P \<Longrightarrow> (\<And>w. reboots (f w) = reboots w) \<Longrightarrow> quiet_op f P"
  by (simp add: quiet_op_def quiet_op_axioms_def)

lemma quiet_op_fold: "(\<And>x. quiet_op (g x) P) \<Longrightarrow> quiet_op (\<lambda>w. fold g xs w) P"
proof (rule quiet_opI)
  assume g: "\<And>x. quiet_op (g x) P"
  then show "world_op (\<lambda>w. fold g xs w) P"
    by (intro world_op_fold) (simp add: quiet_op_def)
  show "reboots (fold g xs w) = reboots w" for w
    by (induction xs arbitrary: w) (simp_all add: quiet_op.quiet [OF g])
qed

lemma reboots_files [simp]:
  "reboots (snd (write_file e p ss w)) = reboots w" "reboots (snd (append_file e p ss w)) = reboots w"
  "reboots (snd (unlink e p w)) = reboots w" "reboots (snd (mkdir e p w)) = reboots w"
  by (simp_all add: reboots_def)

lemma reboots_services [simp]:
  "reboots (t2CountNotify e m v w) = reboots w" "reboots (snd (rfc_set_bool_param e n b w)) = reboots w"
  "reboots (snd (rfc_set_int_param e n i w)) = reboots w" "reboots (snd (timestamp_update e sz w)) = reboots w"
  "reboots (snd (compute_cron_time e d sz w)) = reboots w"
  "reboots (touch_file e p w) = reboots w" "reboots (write_rebootcounter e p i w) = reboots w"
  by (simp_all add: t2CountNotify_def rfc_set_bool_param_def rfc_set_int_param_def timestamp_update_def utc_now_def
      Let_def touch_file_def write_rebootcounter_def reboots_cong [OF compute_cron_time_fs(2)]
      split: option.split prod.split)
    (simp add: reboots_def)

lemma cron_shell [simp]: "\<not> reboot_cmd (Shell CRON_REMOVE)" "\<not> reboot_cmd (Shell (cron_add s))"
  by (simp_all add: reboot_cmd_def CRON_REMOVE_def cron_add_def)

interpretation cyclic_quiet: quiet_op "\<lambda>w. snd (handle_cyclic_reboot e s r c oth w)" guard_files for e s r c oth
  by (rule quiet_opI [OF cyclic_op.world_op_axioms])
    (simp add: handle_cyclic_reboot_cases Let_def cyclic_reset_def cyclic_halt_def case_prod_beta)

interpretation stop_quiet: quiet_op "stop_service e svc" "{}" for e svc
  by (rule quiet_opI [OF stop_op.world_op_axioms])
    (simp add: stop_service_def case_prod_beta Let_def reboot_cmd_def secure_system_def)

interpretation script_quiet: quiet_op "run_if_present e s" "{}" for e s
  by (rule quiet_opI [OF script_op.world_op_axioms]) (simp add: run_if_present_def reboot_cmd_def)

interpretation scripts_quiet: quiet_op "device_scripts e" "{}" for e
  by (rule quiet_opI [OF scripts_op.world_op_axioms])
    (simp add: device_scripts_def Let_def script_quiet.quiet split: option.split)

interpretation signal_quiet: quiet_op "\<lambda>w. snd (send_signalcleanup e n sig w)" "{}" for e n sig
proof (rule quiet_opI [OF signal_op.world_op_axioms])
  fix w
  have "reboots (snd (fold (signal_entry e x sig) ds (0, w))) = reboots w" for x ds
  proof -
    obtain ks where ks: "trace (snd (fold (signal_entry e x sig) ds (0, w))) = trace w @ ks"
        "\<forall>ev \<in> set ks. \<exists>pid. 1 < pid \<and> ev = KillSig pid sig"
      using signal_fold [of e x sig ds "(0, w)"] by auto
    then have "filter reboot_cmd ks = []" by (fastforce simp: filter_empty_conv)
    with ks(1) show ?thesis by (simp add: reboots_def)
  qed
  then show "reboots (snd (send_signalcleanup e n sig w)) = reboots w"
    by (simp add: send_signalcleanup_def split: option.split)
qed

lemma sync_transient_trace: "trace (sync_transient_logs e w) = trace w"
proof -
  have "trace (fold (sync_one e t l) ns w) = trace w" for t l ns w
    by (induction ns arbitrary: w) (simp_all add: sync_one_frame)
  then show ?thesis
    by (simp add: sync_transient_logs_def Let_def copy_systime_frame sync_logs_from_temp_def split: option.split)
qed

interpretation bluetooth_quiet: quiet_op "stop_bluetooth e" "{}" for e
  by (rule quiet_opI [OF bluetooth_op.world_op_axioms])
    (simp add: stop_bluetooth_def quiet_op.quiet [OF quiet_op_fold [OF stop_quiet.quiet_op_axioms]])

interpretation cleanup_quiet: quiet_op "cleanup_services e" "log_files e \<union> app_files" for e
  by (rule quiet_opI [OF cleanup_op.world_op_axioms])
    (simp add: cleanup_services_def Let_def bluetooth_quiet.quiet reboots_cong [OF sync_transient_trace]
      scripts_quiet.quiet reboots_cong [OF rdm_cleanup_trace] signal_quiet.quiet)


section \<open>Frames of the run\<close>

definition request_files :: "path set" where
  "request_files = {REBOOTINFO_LOG, REBOOT_INFO_DIR, REBOOT_INFO_FILE, PARODUS_REBOOT_INFO_FILE}"

lemma emit_t2_frame [simp]:
  "fs (emit_t2_for_source e s b w) = fs w" "reboots (emit_t2_for_source e s b w) = reboots w"
  by (simp_all add: emit_t2_for_source_def split: option.split)

lemma emit_t2_trace: "prefix a (trace w) \<Longrightarrow> prefix a (trace (emit_t2_for_source e s b w))"
  by (simp add: emit_t2_for_source_def t2count_op.trace_via split: option.split)

lemma mkdir_frame: "q \<noteq> p \<Longrightarrow> fs (snd (mkdir e p w)) q = fs w q"
  by (simp add: mkdir_def split: option.split)

lemma write_log_simps [simp]:
  "trace (snd (write_rebootinfo_log e p l w)) = trace w" "reboots (snd (write_rebootinfo_log e p l w)) = reboots w"
  by (simp_all add: write_rebootinfo_log_eq)

lemma write_logs_op: "world_op (\<lambda>w. fold (\<lambda>l w. snd (write_rebootinfo_log e p l w)) ls w) {p}"
  by (rule world_op_fold) (rule rebootinfo_log_op.world_op_axioms)

lemma trace_write_logs: "trace (fold (\<lambda>l w. snd (write_rebootinfo_log e p l w)) ls w) = trace w"
  by (induction ls arbitrary: w) simp_all

text \<open>Emptying a log is overwriting it with nothing.\<close>

lemma truncate_eq: "(case fopen_w e p w of Inl _ \<Rightarrow> w | Inr w1 \<Rightarrow> w1) = snd (write_file e p [] w)"
  by (simp add: write_file_def fprints_def split: sum.split)

lemma save_request_unfold:
  "save_request e source crash custom other w =
     (let w1 = snd (write_file e REBOOTINFO_LOG [] (emit_t2_for_source e (Some source) crash w));
          ts = fst (timestamp_update e 64 w1);
          w2 = fold (\<lambda>l w. snd (write_rebootinfo_log e REBOOTINFO_LOG l w)) (log_lines source crash ts custom other)
                 (snd (timestamp_update e 64 w1));
          w3 = snd (mkdir e REBOOT_INFO_DIR w2);
          w4 = snd (write_file e REBOOT_INFO_FILE (render_record (request_record source custom other ts)) w3)
      in (ts, snd (write_file e PARODUS_REBOOT_INFO_FILE [parodus_line ts (categorize source custom) custom source] w4)))"
  unfolding save_request_def truncate_eq by (simp add: Let_def case_prod_beta)

interpretation save_op: quiet_op "\<lambda>w. snd (save_request e s b c oth w)" request_files for e s b c oth
proof
  fix w q assume q: "q \<notin> request_files"
  then show "fs (snd (save_request e s b c oth w)) q = fs w q"
    by (simp add: save_request_unfold Let_def request_files_def write_op.frame mkdir_frame
        world_op.frame [OF write_logs_op] timestamp_op.frame)
next
  fix w show "prefix (trace w) (trace (snd (save_request e s b c oth w)))"
    by (simp add: save_request_unfold Let_def trace_write_logs timestamp_op.trace_via emit_t2_trace)
next
  fix w show "reboots (snd (save_request e s b c oth w)) = reboots w"
    by (simp add: save_request_unfold Let_def reboots_cong [OF trace_write_logs])
qed

interpretation maintenance_op: quiet_op "\<lambda>w. snd (update_maintenance_reboot_flag e (Some r) w)" "{MAINTENANCE_REBOOT_FLAG}" for e r
proof
  fix w q assume "q \<notin> {MAINTENANCE_REBOOT_FLAG}"
  then show "fs (snd (update_maintenance_reboot_flag e (Some r) w)) q = fs w q"
    using unlink_op.frame [of q MAINTENANCE_REBOOT_FLAG e w]
    by (auto simp: update_maintenance_reboot_flag_def dest!: fopen_w_Inr split: sum.split prod.split option.split)
next
  fix w
  have t: "trace (snd (update_maintenance_reboot_flag e (Some r) w)) = trace w"
    using trace_files(3) [of e MAINTENANCE_REBOOT_FLAG w]
    by (auto simp: update_maintenance_reboot_flag_def dest!: fopen_w_Inr split: sum.split prod.split option.split
        simp del: trace_files)
  show "prefix (trace w) (trace (snd (update_maintenance_reboot_flag e (Some r) w)))" by (simp add: t)
  show "reboots (snd (update_maintenance_reboot_flag e (Some r) w)) = reboots w" by (rule reboots_cong [OF t])
qed

interpretation notify_op: quiet_op "notify_pending e" "{}" for e
  by unfold_locales
    (simp_all add: notify_pending_def rfc_set_int_op.frame rfc_set_int_op.trace_grows split: option.split bool.split)

definition prepare_files :: "env \<Rightarrow> path set" where
  "prepare_files e = {MAINTENANCE_REBOOT_FLAG, REBOOTNOW_FLAG} \<union> log_files e \<union> app_files"

interpretation prepare_op: quiet_op "prepare_reboot e r" "prepare_files e" for e r
proof
  fix w q assume "q \<notin> prepare_files e"
  then show "fs (prepare_reboot e r w) q = fs w q"
    by (simp add: prepare_reboot_def Let_def prepare_files_def append_op.frame cleanup_op.frame notify_op.frame
        maintenance_op.frame)
next
  fix w show "prefix (trace w) (trace (prepare_reboot e r w))"
    by (simp add: prepare_reboot_def Let_def cleanup_op.trace_via notify_op.trace_via maintenance_op.trace_grows)
next
  fix w show "reboots (prepare_reboot e r w) = reboots w"
    by (simp add: prepare_reboot_def Let_def cleanup_quiet.quiet notify_op.quiet maintenance_op.quiet)
qed

text \<open>The three stages, as the reboot commands they issue.\<close>

definition escalation :: "env \<Rightarrow> event list" where
  "escalation e = (if 0 < fork_pid e then [ForkExec ''reboot''] else []) @ [Shell ''systemctl reboot'', Shell ''reboot -f'']"

lemma reboot_sequence_simps [simp]:
  "fs (reboot_sequence e w) = fs w" "reboots (reboot_sequence e w) = reboots w @ escalation e"
  by (simp_all add: reboot_sequence_def Let_def secure_system_def escalation_def)

lemma run_request_reboots:
  "reboots (snd (run_request e s b c oth w)) = reboots w @
     (if fst (handle_cyclic_reboot e (Some s) (Some (categorize s c)) (Some c) (Some oth) (snd (save_request e s b c oth w))) = 0
      then [] else escalation e)"
  by (simp add: run_request_def Let_def case_prod_beta prepare_op.quiet cyclic_quiet.quiet save_op.quiet)

lemma pid_guard_quiet [simp]: "reboots (snd (pidfile_write_and_guard e w)) = reboots w"
proof -
  have "trace (snd (pidfile_write_and_guard e w)) = trace w"
    by (auto simp: pidfile_write_and_guard_def pid_create_def Let_def others_run_def
        split: sum.splits if_splits option.splits)
  then show ?thesis by (rule reboots_cong)
qed

lemma cleanup_pidfile_quiet [simp]: "reboots (cleanup_pidfile e w) = reboots w"
  by (simp add: cleanup_pidfile_def)

section \<open>What a run leaves on disk\<close>

definition own_files :: "path set" where
  "own_files = {REBOOTINFO_LOG, REBOOT_INFO_FILE, PARODUS_REBOOT_INFO_FILE, PREVIOUS_REBOOT_INFO_FILE,
     MAINTENANCE_REBOOT_FLAG, REBOOTNOW_FLAG, REBOOTSTOP_FLAG, REBOOT_COUNTER_FILE}"

lemma own_files_no_app: "p \<in> own_files \<Longrightarrow> p \<notin> app_files"
  by (auto simp: own_files_def)

definition own_ok :: "env \<Rightarrow> world \<Rightarrow> bool" where
  "own_ok e w \<longleftrightarrow> (\<forall>p \<in> own_files. writable e p w) \<and> readable e REBOOT_COUNTER_FILE"

lemma append_all_fs:
  assumes "writable e p w" and "fs w p = Some (Reg c)"
  shows "fs (fold (\<lambda>l w. snd (write_rebootinfo_log e p l w)) ls w) p = Some (Reg (c @ concat ls))"
proof -
  have "content (fold (\<lambda>s w. snd (append_file e p [s] w)) ls w) p = Some (c @ concat ls)"
    using store.rd_app_all [OF assms(1), of c ls p] assms(2) by (simp add: content_def)
  then show ?thesis by (simp add: write_rebootinfo_log_eq content_SomeD)
qed

lemma save_request_content:
  assumes "own_ok e w" and "save_request e s b c oth w = (ts, w1)"
  shows "content w1 REBOOTINFO_LOG = Some (concat (log_lines s b ts c oth))"
    and "content w1 REBOOT_INFO_FILE = Some (concat (render_record (request_record s c oth ts)))"
    and "content w1 PARODUS_REBOOT_INFO_FILE = Some (parodus_line ts (categorize s c) c s)"
proof -
  define v1 where "v1 = snd (write_file e REBOOTINFO_LOG [] (emit_t2_for_source e (Some s) b w))"
  define v2 where "v2 = fold (\<lambda>l w. snd (write_rebootinfo_log e REBOOTINFO_LOG l w)) (log_lines s b ts c oth)
                 (snd (timestamp_update e 64 v1))"
  define v3 where "v3 = snd (mkdir e REBOOT_INFO_DIR v2)"
  define v4 where "v4 = snd (write_file e REBOOT_INFO_FILE (render_record (request_record s c oth ts)) v3)"
  have ts: "ts = fst (timestamp_update e 64 v1)"
    and w1: "w1 = snd (write_file e PARODUS_REBOOT_INFO_FILE [parodus_line ts (categorize s c) c s] v4)"
    using assms(2) by (auto simp: save_request_unfold Let_def v1_def v2_def v3_def v4_def)
  have ok: "writable e REBOOTINFO_LOG w" "writable e REBOOT_INFO_FILE w" "writable e PARODUS_REBOOT_INFO_FILE w"
    using assms(1) by (simp_all add: own_ok_def own_files_def)
  have f1: "fs v1 = (fs w)(REBOOTINFO_LOG := Some (Reg []))"
    using ok(1) writable_cong [OF emit_t2_frame(1)] by (simp add: v1_def write_file_writable)
  have f2: "fs v2 REBOOTINFO_LOG = Some (Reg (concat (log_lines s b ts c oth)))"
    unfolding v2_def using ok(1) f1
    by (subst append_all_fs [where c = "[]"]) (simp_all add: writable_def timestamp_op.frame)
  have f2': "fs v2 q = fs w q" if "q \<noteq> REBOOTINFO_LOG" for q
    using that f1 by (simp add: v2_def world_op.frame [OF write_logs_op] timestamp_op.frame)
  have f3: "fs v3 q = fs v2 q" if "q \<noteq> REBOOT_INFO_DIR" for q
    using that by (simp add: v3_def mkdir_frame)
  have ok3: "writable e REBOOT_INFO_FILE v3"
    using ok(2) by (simp add: writable_at [of v3 REBOOT_INFO_FILE w] f2' f3)
  have f4: "fs v4 = (fs v3)(REBOOT_INFO_FILE := Some (Reg (concat (render_record (request_record s c oth ts)))))"
    using ok3 by (simp add: v4_def write_file_writable)
  have ok4: "writable e PARODUS_REBOOT_INFO_FILE v4"
    using ok(3) by (simp add: writable_at [of v4 PARODUS_REBOOT_INFO_FILE w] f2' f3 f4)
  have f5: "fs w1 = (fs v4)(PARODUS_REBOOT_INFO_FILE := Some (Reg (parodus_line ts (categorize s c) c s)))"
    using ok4 by (simp add: w1 write_file_writable)
  show "content w1 REBOOTINFO_LOG = Some (concat (log_lines s b ts c oth))"
    "content w1 REBOOT_INFO_FILE = Some (concat (render_record (request_record s c oth ts)))"
    "content w1 PARODUS_REBOOT_INFO_FILE = Some (parodus_line ts (categorize s c) c s)"
    by (simp_all add: content_def f5 f4 f3 f2)
qed

lemma own_ok_frame:
  assumes "own_ok e w" and "\<And>q. q \<in> own_files \<Longrightarrow> fs v q = fs w q"
  shows "own_ok e v"
  using assms by (simp add: own_ok_def writable_def)

lemma own_ok_guard: "own_ok e w \<Longrightarrow> guard_ok e w"
  by (simp add: own_ok_def own_files_def guard_ok_def)

text \<open>The state in which the guard's verdict is known and the record for the next run is saved.\<close>

definition after_guard :: "env \<Rightarrow> string \<Rightarrow> bool \<Rightarrow> string \<Rightarrow> string \<Rightarrow> world \<Rightarrow> int \<times> string \<times> world" where
  "after_guard e s b c oth w =
     (let (ts, w1) = save_request e s b c oth w;
          (rc, w2) = handle_cyclic_reboot e (Some s) (Some (categorize s c)) (Some c) (Some oth) w1
      in (rc, ts, snd (write_file e PREVIOUS_REBOOT_INFO_FILE (render_record (request_record s c oth ts)) w2)))"

lemma run_request_after:
  "run_request e s b c oth w = (case after_guard e s b c oth w of (rc, ts, w3) \<Rightarrow>
     (0, if rc = 0 then w3 else reboot_sequence e (prepare_reboot e (categorize s c) w3)))"
  by (simp add: run_request_def after_guard_def Let_def case_prod_beta)

lemma after_guard_content:
  assumes "own_ok e w" and "after_guard e s b c oth w = (rc, ts, w3)"
  shows "content w3 REBOOTINFO_LOG = Some (concat (log_lines s b ts c oth))"
    and "content w3 REBOOT_INFO_FILE = Some (concat (render_record (request_record s c oth ts)))"
    and "content w3 PARODUS_REBOOT_INFO_FILE = Some (parodus_line ts (categorize s c) c s)"
    and "content w3 PREVIOUS_REBOOT_INFO_FILE = Some (concat (render_record (request_record s c oth ts)))"
    and "guard_ok e w3" and "fs w3 MAINTENANCE_REBOOT_FLAG = fs w MAINTENANCE_REBOOT_FLAG"
proof -
  obtain w1 where s1: "save_request e s b c oth w = (ts, w1)"
    using assms(2) by (auto simp: after_guard_def case_prod_beta Let_def prod_eq_iff)
  define w2 where "w2 = snd (handle_cyclic_reboot e (Some s) (Some (categorize s c)) (Some c) (Some oth) w1)"
  have w3: "w3 = snd (write_file e PREVIOUS_REBOOT_INFO_FILE (render_record (request_record s c oth ts)) w2)"
    using assms(2) s1 by (auto simp: after_guard_def case_prod_beta Let_def w2_def)
  have f1: "fs w1 q = fs w q" if "q \<notin> request_files" for q
    using save_op.frame [OF that, of e s b c oth w] s1 by simp
  have f2: "fs w2 q = fs w1 q" if "q \<notin> guard_files" for q
    using that by (simp add: w2_def cyclic_op.frame)
  have f3: "fs w3 q = fs w2 q" if "q \<noteq> PREVIOUS_REBOOT_INFO_FILE" for q
    using that by (simp add: w3 write_op.frame)
  note frames = request_files_def guard_files_def f1 f2 f3
  have g1: "guard_ok e w1"
    using own_ok_guard [OF assms(1)] by (simp add: guard_ok_def writable_at [of w1 _ w] f1 request_files_def)
  have g2: "guard_ok e w2" unfolding w2_def by (rule handle_guard_ok [OF g1])
  then show "guard_ok e w3"
    by (simp add: guard_ok_def writable_at [of w3 _ w2] f3)
  have "writable e PREVIOUS_REBOOT_INFO_FILE w" using assms(1) by (simp add: own_ok_def own_files_def)
  then have "writable e PREVIOUS_REBOOT_INFO_FILE w2"
    by (simp add: writable_at [of w2 _ w] frames)
  then show "content w3 PREVIOUS_REBOOT_INFO_FILE = Some (concat (render_record (request_record s c oth ts)))"
    by (simp add: w3 store.rd_put)
  show "content w3 REBOOTINFO_LOG = Some (concat (log_lines s b ts c oth))"
    "content w3 REBOOT_INFO_FILE = Some (concat (render_record (request_record s c oth ts)))"
    "content w3 PARODUS_REBOOT_INFO_FILE = Some (parodus_line ts (categorize s c) c s)"
    using save_request_content [OF assms(1) s1] by (simp_all add: content_def frames)
  show "fs w3 MAINTENANCE_REBOOT_FLAG = fs w MAINTENANCE_REBOOT_FLAG"
    by (simp add: frames)
qed

lemma maintenance_flag_fs:
  assumes "writable e MAINTENANCE_REBOOT_FLAG w" and "r \<noteq> []"
  shows "update_maintenance_reboot_flag e (Some r) w =
    (0, w\<lparr>fs := (fs w)(MAINTENANCE_REBOOT_FLAG := if r = ''MAINTENANCE_REBOOT'' then Some (Reg []) else None)\<rparr>)"
proof (cases "r = ''MAINTENANCE_REBOOT''")
  case True
  then show ?thesis using assms by (simp add: update_maintenance_reboot_flag_def fopen_w_def writable_def)
next
  case False
  have "unlink e MAINTENANCE_REBOOT_FLAG w = (None, w\<lparr>fs := (fs w)(MAINTENANCE_REBOOT_FLAG := None)\<rparr>) \<or>
      unlink e MAINTENANCE_REBOOT_FLAG w = (Some ENOENT, w\<lparr>fs := (fs w)(MAINTENANCE_REBOOT_FLAG := None)\<rparr>)"
    using assms(1) unlink_writable [OF assms(1)]
    by (auto simp: unlink_def writable_def fun_upd_idem split: option.splits node.splits)
  with False assms(2) show ?thesis by (auto simp: update_maintenance_reboot_flag_def)
qed

lemma categorize_nonempty: "categorize s c \<noteq> []"
  by (simp add: categorize_def)

lemma regular_writable: "writable e p w \<Longrightarrow> content v p = Some x \<Longrightarrow> writable e p v"
  by (auto simp: writable_def dest: content_SomeD)

lemma after_guard_own_ok:
  assumes "own_ok e w" and "after_guard e s b c oth w = (rc, ts, w3)"
  shows "own_ok e w3"
proof -
  note cs = after_guard_content [OF assms]
  have wr: "writable e REBOOTINFO_LOG w" "writable e REBOOT_INFO_FILE w" "writable e PARODUS_REBOOT_INFO_FILE w"
      "writable e PREVIOUS_REBOOT_INFO_FILE w" "writable e MAINTENANCE_REBOOT_FLAG w" "readable e REBOOT_COUNTER_FILE"
    using assms(1) by (simp_all add: own_ok_def own_files_def)
  have "writable e REBOOTINFO_LOG w3" "writable e REBOOT_INFO_FILE w3" "writable e PARODUS_REBOOT_INFO_FILE w3"
      "writable e PREVIOUS_REBOOT_INFO_FILE w3" "writable e MAINTENANCE_REBOOT_FLAG w3"
    using regular_writable [OF wr(1) cs(1)] regular_writable [OF wr(2) cs(2)] regular_writable [OF wr(3) cs(3)]
      regular_writable [OF wr(4) cs(4)] writable_at [OF cs(6)] wr(5) by simp_all
  with cs(5) wr(6) show ?thesis by (simp add: own_ok_def own_files_def guard_ok_def)
qed

text \<open>The preparation of the reboot on the program's own files.\<close>

lemma prepare_reboot_own:
  assumes "own_ok e w" and "log_files e \<inter> own_files = {}" and "r \<noteq> []"
  shows "q \<in> own_files \<Longrightarrow> fs (prepare_reboot e r w) q =
    (if q = MAINTENANCE_REBOOT_FLAG then (if r = ''MAINTENANCE_REBOOT'' then Some (Reg []) else None)
     else if q = REBOOTNOW_FLAG then Some (Reg (case content w q of None \<Rightarrow> [] | Some c \<Rightarrow> c)) else fs w q)"
proof -
  assume q: "q \<in> own_files"
  define v1 where "v1 = snd (update_maintenance_reboot_flag e (Some r) w)"
  define v3 where "v3 = cleanup_services e (notify_pending e v1)"
  have f1: "fs v1 = (fs w)(MAINTENANCE_REBOOT_FLAG := if r = ''MAINTENANCE_REBOOT'' then Some (Reg []) else None)"
    using maintenance_flag_fs [OF _ assms(3)] assms(1) by (simp add: v1_def own_ok_def own_files_def)
  have f3: "fs v3 p = fs v1 p" if "p \<in> own_files" for p
    using that assms(2) own_files_no_app [OF that] unfolding v3_def by (subst cleanup_op.frame) (auto simp: notify_op.frame)
  have now: "fs v3 REBOOTNOW_FLAG = fs w REBOOTNOW_FLAG"
    using f3 [of REBOOTNOW_FLAG] f1 by (simp add: own_files_def)
  then have "writable e REBOOTNOW_FLAG v3" and "content v3 REBOOTNOW_FLAG = content w REBOOTNOW_FLAG"
    using assms(1) by (simp_all add: own_ok_def writable_def own_files_def content_def)
  moreover have "prepare_reboot e r w = touch_file e (Some REBOOTNOW_FLAG) v3"
    by (simp add: prepare_reboot_def Let_def touch_file_def v1_def v3_def)
  ultimately show ?thesis
    using f3 [OF q] f1 by (auto simp: touch_file_fs)
qed

section \<open>The granted request\<close>

definition parsed_request :: "env \<Rightarrow> string list \<Rightarrow> opts option" where
  "parsed_request e args =
     (case option_loop (getopt_scan (getenv e ''POSIXLY_CORRECT'' \<noteq> None) [] args) default_opts of
        Inl _ \<Rightarrow> None | Inr opt \<Rightarrow> if o_source opt = None then None else Some opt)"

text \<open>Admitted by the PID guard, with a source, and not deferred by the reboot-loop guard.\<close>

definition reboot_granted :: "env \<Rightarrow> string list \<Rightarrow> world \<Rightarrow> bool" where
  "reboot_granted e args w \<longleftrightarrow> fst (pidfile_write_and_guard e w) = 0 \<and>
     (case parsed_request e args of None \<Rightarrow> False
      | Some opt \<Rightarrow> fst (after_guard e (the (o_source opt)) (is_crash opt) (custom_reason opt) (other_reason opt)
                     (snd (pidfile_write_and_guard e w))) \<noteq> 0)"

lemma rebootnow_body_parsed:
  "rebootnow_body e args w = (case parsed_request e args of
      Some opt \<Rightarrow> run_request e (the (o_source opt)) (is_crash opt) (custom_reason opt) (other_reason opt) w
    | None \<Rightarrow> (case option_loop (getopt_scan (getenv e ''POSIXLY_CORRECT'' \<noteq> None) [] args) default_opts of
        Inl (rc, out) \<Rightarrow> (rc, usage out w) | Inr opt \<Rightarrow> (1, usage Stderr w)))"
  by (auto simp: rebootnow_body_def parsed_request_def split: sum.split option.split)

lemma run_request_reboots_after:
  "reboots (snd (run_request e s b c oth w)) =
     reboots w @ (if fst (after_guard e s b c oth w) = 0 then [] else escalation e)"
  by (simp add: run_request_reboots after_guard_def Let_def case_prod_beta)

lemma granted_reboots:
  "reboots (snd (rebootnow_main e args w)) = reboots w @ (if reboot_granted e args w then escalation e else [])"
proof -
  have body: "reboots (snd (rebootnow_body e args v)) = reboots v @ (case parsed_request e args of None \<Rightarrow> []
      | Some opt \<Rightarrow> if fst (after_guard e (the (o_source opt)) (is_crash opt) (custom_reason opt) (other_reason opt) v) = 0
          then [] else escalation e)" for v
    by (simp add: rebootnow_body_parsed run_request_reboots_after usage_def split: option.split sum.split)
  show ?thesis
    by (simp add: rebootnow_main_def reboot_granted_def case_prod_beta Let_def body split: option.split)
qed

section \<open>Properties\<close>

text \<open>
  C1. The device is rebooted exactly when the request is granted: over a whole run of
  \<^verbatim>\<open>rebootnow\<close>, whatever the environment does, the reboot commands issued are the escalation
  \<^verbatim>\<open>reboot\<close>, \<^verbatim>\<open>systemctl reboot\<close>, \<^verbatim>\<open>reboot -f\<close>, in this order and once each (the first of them
  only if the child for it can be forked), if the PID guard
  admits the run, the options name a source and the loop guard does not defer; and none otherwise.
\<close>

theorem reboot_exactly_when_granted:
  "reboots (snd (rebootnow_main e args w)) = reboots w @ (if reboot_granted e args w then escalation e else [])"
  by (rule granted_reboots)

text \<open>
  C22. A second instance leaves no trace: while the process named in the PID file is a running
  rebootnow, another run ends with status 1, changes no file and performs no action at all.
\<close>

theorem second_instance_harmless:
  assumes "fs w PID_FILE = Some (Reg c)" and "pid_running e c w" and "interleave e (ticks w) (fs w) = fs w"
  shows "fst (rebootnow_main e args w) = 1 \<and> fs (snd (rebootnow_main e args w)) = fs w \<and>
    trace (snd (rebootnow_main e args w)) = trace w"
  using pid_guard_locked [OF assms] by (simp add: rebootnow_main_def case_prod_beta Let_def)

theorem second_instance_harmless_witness:
  "fst (rebootnow_main calm_env [''-s'', ''XFS''] pid_world) = 1 \<and>
   trace (snd (rebootnow_main calm_env [''-s'', ''XFS''] pid_world)) = []"
  using second_instance_harmless [OF pid_world_running(2,1), of "[''-s'', ''XFS'']"]
  by (simp add: pid_world_def calm_env_def empty_world_def)

text \<open>
  C2. Everything about the reboot is on disk before the first reboot command: when a granted
  request runs with its files writable, the run is the reboot sequence, which touches no file,
  applied to a state in which the record, the copy for the next run and the parodus line hold
  the request with one time stamp, the marker for the next boot exists, and the maintenance flag
  exists exactly for a maintenance reboot; the log held the five lines before the housekeeping.
\<close>

theorem metadata_before_reboot:
  assumes "own_ok e w" and "log_files e \<inter> own_files = {}"
    and "after_guard e s b c oth w = (rc, ts, w3)" and "rc \<noteq> 0"
  shows "\<exists>w4. run_request e s b c oth w = (0, reboot_sequence e w4) \<and> fs (reboot_sequence e w4) = fs w4 \<and>
    content w3 REBOOTINFO_LOG = Some (concat (log_lines s b ts c oth)) \<and> w4 = prepare_reboot e (categorize s c) w3 \<and>
    content w4 REBOOT_INFO_FILE = Some (concat (render_record (request_record s c oth ts))) \<and>
    content w4 PREVIOUS_REBOOT_INFO_FILE = Some (concat (render_record (request_record s c oth ts))) \<and>
    content w4 PARODUS_REBOOT_INFO_FILE = Some (parodus_line ts (categorize s c) c s) \<and>
    access_ok REBOOTNOW_FLAG w4 \<and>
    (access_ok MAINTENANCE_REBOOT_FLAG w4 \<longleftrightarrow> categorize s c = ''MAINTENANCE_REBOOT'')"
proof -
  let ?r = "categorize s c"
  note cs = after_guard_content [OF assms(1,3)]
  note prep = prepare_reboot_own [OF after_guard_own_ok [OF assms(1,3)] assms(2) categorize_nonempty]
  show ?thesis
    using cs assms(3,4)
    by (intro exI [of _ "prepare_reboot e ?r w3"]) (simp add: run_request_after content_def own_files_def access_ok_def prep)
qed

lemma calm_own_ok: "own_ok calm_env empty_world"
  by (simp add: own_ok_def writable_def readable_def calm_env_def empty_world_def)

lemma calm_readable: "readable calm_env p"
  by (simp add: readable_def calm_env_def)

lemma calm_no_logs: "log_files calm_env = {}"
  by (simp add: log_files_def calm_env_def)

lemma unarmed_proceeds:
  assumes "fs w REBOOTNOW_FLAG = None"
  shows "fst (after_guard e s b c oth w) = 1"
  using assms save_op.frame [of REBOOTNOW_FLAG e s b c oth w]
  by (simp add: after_guard_def case_prod_beta Let_def handle_cyclic_reboot_cases access_ok_def request_files_def)

theorem metadata_before_reboot_witness:
  "\<exists>ts w4. run_request calm_env ''XFS'' False ''Unknown'' ''Unknown'' empty_world = (0, reboot_sequence calm_env w4) \<and>
    content w4 REBOOT_INFO_FILE = Some (concat (render_record (request_record ''XFS'' ''Unknown'' ''Unknown'' ts))) \<and>
    access_ok REBOOTNOW_FLAG w4"
proof -
  let ?a = "after_guard calm_env ''XFS'' False ''Unknown'' ''Unknown'' empty_world"
  have a: "?a = (fst ?a, fst (snd ?a), snd (snd ?a))" by simp
  have "fst ?a \<noteq> 0" by (simp add: unarmed_proceeds empty_world_def)
  from metadata_before_reboot [OF calm_own_ok _ a this] show ?thesis
    by (auto simp: calm_no_logs)
qed

text \<open>
  C23. The saved record can be read back, when the texts of the request hold no double quote and
  no zero byte and the record is shorter than the 4096 bytes of the read buffer: after a run on
  writable files, granted or deferred, the reader of the loop guard finds in
  \<^verbatim>\<open>previousreboot.info\<close> exactly the source, category, custom and other reason of the request,
  cut to the sizes of its arrays. A text with a double quote is not read back.
\<close>

theorem saved_record_readable:
  assumes "own_ok e w" and "log_files e \<inter> own_files = {}" and "readable e PREVIOUS_REBOOT_INFO_FILE"
    and "after_guard e s b c oth w = (rc, ts, w3)" and "quotable (request_record s c oth ts)"
    and "length (concat (render_record (request_record s c oth ts))) < 4096"
  shows "read_previous_reboot_info e 128 128 128 256 64 empty_prev (snd (run_request e s b c oth w)) =
    (0, truncated 128 128 128 256 64 (request_record s c oth ts))"
proof -
  have p: "PREVIOUS_REBOOT_INFO_FILE \<notin> prepare_files e"
    using assms(2) by (auto simp: prepare_files_def own_files_def)
  have "content (snd (run_request e s b c oth w)) PREVIOUS_REBOOT_INFO_FILE = content w3 PREVIOUS_REBOOT_INFO_FILE"
    using prepare_op.content_frame [OF p] assms(4) by (simp add: run_request_after content_def)
  with after_guard_content(4) [OF assms(1,4)]
  have "content (snd (run_request e s b c oth w)) PREVIOUS_REBOOT_INFO_FILE = Some (concat (render_record (request_record s c oth ts)))"
    by simp
  from main_record.read_back [OF this assms(5,6,3)] show ?thesis by simp
qed

lemma calm_stamp: "fst (snd (after_guard calm_env s b c oth empty_world)) = ''Mon Jan 05 23:45:07 UTC 2026''"
proof -
  have "strftime_utc tm0 = ''Mon Jan 05 23:45:07 UTC 2026''"
    by (simp add: strftime_utc_def tm0_def day_name_def month_name_def pad0_def show_nat.simps)
  then show ?thesis
    by (simp add: after_guard_def case_prod_beta Let_def save_request_unfold timestamp_update_def utc_now_def calm_env_def)
qed

theorem saved_record_readable_witness:
  "p_src (snd (read_previous_reboot_info calm_env 128 128 128 256 64 empty_prev
      (snd (run_request calm_env ''XFS'' False ''Unknown'' ''disk'' empty_world)))) = ''XFS''"
proof -
  let ?a = "after_guard calm_env ''XFS'' False ''Unknown'' ''disk'' empty_world"
  let ?r = "request_record ''XFS'' ''Unknown'' ''disk'' ''Mon Jan 05 23:45:07 UTC 2026''"
  have a: "?a = (fst ?a, ''Mon Jan 05 23:45:07 UTC 2026'', snd (snd ?a))"
    using calm_stamp by (simp add: prod_eq_iff)
  have q: "quotable ?r" by (simp add: quotable_def request_record_def categorize_def)
  have l: "length (concat (render_record ?r)) < 4096"
    by (simp add: render_record_def request_record_def categorize_def)
  from saved_record_readable [OF calm_own_ok _ _ a q l] show ?thesis
    by (simp add: calm_no_logs calm_readable truncated_def request_record_def)
qed

text \<open>
  Options are taken literally: whatever texts follow \<^verbatim>\<open>-s\<close>, \<^verbatim>\<open>-r\<close> and \<^verbatim>\<open>-o\<close>, even ones that
  look like options, become the source, custom and other reason; an added \<^verbatim>\<open>-c\<close> is refused
  with status 1 and the usage text on the error stream.
\<close>

lemma options_parsed:
  "option_loop (getopt_scan px [] [''-s'', s, ''-r'', c, ''-o'', oth]) default_opts =
     Inr \<lparr>o_source = Some s, is_crash = False, custom_reason = c, other_reason = oth\<rparr> \<and>
   option_loop (getopt_scan px [] [''-c'', s, ''-r'', c, ''-o'', oth]) default_opts =
     Inr \<lparr>o_source = Some s, is_crash = True, custom_reason = c, other_reason = oth\<rparr> \<and>
   option_loop (getopt_scan px [] [''-s'', s, ''-c'', c]) default_opts = Inl (1, Stderr)"
  by (simp add: takes_arg_def default_opts_def)

lemma check_string_value_iff: "check_string_value xs (Some n) \<longleftrightarrow> (\<exists>x \<in> set xs. sublist n x)"
  by (simp add: check_string_value_def strstr_None_iff list_ex_iff)

lemma ops_not_app: "list_all (\<lambda>s. \<not> list_ex (\<lambda>x. sublist s x) APP_TRIGGERED_REASONS) OPS_TRIGGERED_REASONS"
  by code_simp

lemma maintenance_not_others:
  "list_all (\<lambda>s. \<not> list_ex (\<lambda>x. sublist s x) (APP_TRIGGERED_REASONS @ OPS_TRIGGERED_REASONS)) MAINTENANCE_TRIGGERED_REASONS"
  by code_simp

lemma categorize_listed:
  "(s \<in> set APP_TRIGGERED_REASONS \<longrightarrow>
      categorize s c = (if c = ''MAINTENANCE_REBOOT'' then ''MAINTENANCE_REBOOT'' else ''APP_TRIGGERED'')) \<and>
   (s \<in> set OPS_TRIGGERED_REASONS \<longrightarrow> categorize s c = ''OPS_TRIGGERED'') \<and>
   (s \<in> set MAINTENANCE_TRIGGERED_REASONS \<longrightarrow> categorize s c = ''MAINTENANCE_REBOOT'') \<and>
   ((\<forall>x \<in> set (APP_TRIGGERED_REASONS @ OPS_TRIGGERED_REASONS @ MAINTENANCE_TRIGGERED_REASONS). \<not> sublist s x) \<longrightarrow>
      categorize s c = ''FIRMWARE_FAILURE'')"
proof -
  have self: "s \<in> set xs \<Longrightarrow> check_string_value xs (Some s)" for xs
    by (auto simp: check_string_value_iff)
  have ops: "s \<in> set OPS_TRIGGERED_REASONS \<Longrightarrow> \<not> check_string_value APP_TRIGGERED_REASONS (Some s)"
    using ops_not_app by (simp add: check_string_value_iff list_all_iff list_ex_iff)
  have mnt: "s \<in> set MAINTENANCE_TRIGGERED_REASONS \<Longrightarrow>
      \<not> check_string_value APP_TRIGGERED_REASONS (Some s) \<and> \<not> check_string_value OPS_TRIGGERED_REASONS (Some s)"
    using maintenance_not_others by (auto simp: check_string_value_iff list_all_iff list_ex_iff)
  have none: "\<forall>x \<in> set xs. \<not> sublist s x \<Longrightarrow> \<not> check_string_value xs (Some s)" for xs
    by (simp add: check_string_value_iff)
  show ?thesis
    using self ops mnt none by (simp add: categorize_def)
qed

text \<open>
  C31. Every listed source lands in its own category: the application names in
  \<^verbatim>\<open>APP_TRIGGERED\<close> (or \<^verbatim>\<open>MAINTENANCE_REBOOT\<close> when asked for), the operations names in
  \<^verbatim>\<open>OPS_TRIGGERED\<close> and the maintenance names in \<^verbatim>\<open>MAINTENANCE_REBOOT\<close>, although the lists are
  searched for any name that contains the source; and a source contained in no listed name is a
  \<^verbatim>\<open>FIRMWARE_FAILURE\<close>.
\<close>

theorem listed_sources_categorised:
  "(s \<in> set APP_TRIGGERED_REASONS \<longrightarrow>
      categorize s c = (if c = ''MAINTENANCE_REBOOT'' then ''MAINTENANCE_REBOOT'' else ''APP_TRIGGERED'')) \<and>
   (s \<in> set OPS_TRIGGERED_REASONS \<longrightarrow> categorize s c = ''OPS_TRIGGERED'') \<and>
   (s \<in> set MAINTENANCE_TRIGGERED_REASONS \<longrightarrow> categorize s c = ''MAINTENANCE_REBOOT'') \<and>
   ((\<forall>x \<in> set (APP_TRIGGERED_REASONS @ OPS_TRIGGERED_REASONS @ MAINTENANCE_TRIGGERED_REASONS). \<not> sublist s x) \<longrightarrow>
      categorize s c = ''FIRMWARE_FAILURE'')"
  by (fact categorize_listed)

theorem listed_sources_categorised_witness:
  "categorize ''PwrMgr'' ''Unknown'' = ''MAINTENANCE_REBOOT'' \<and> categorize ''XFS'' ''Unknown'' = ''OPS_TRIGGERED''"
  using listed_sources_categorised [of "''PwrMgr''" "''Unknown''"] listed_sources_categorised [of "''XFS''" "''Unknown''"]
  by (simp add: MAINTENANCE_TRIGGERED_REASONS_def OPS_TRIGGERED_REASONS_def)

text \<open>
  The log never overflows its line buffer: the first line, assembled by three bounded
  appends, is the whole text cut to the 1023 bytes the buffer holds, and each of the five lines
  the log receives is that of the request, cut the same way.
\<close>

lemma log_lines_bounded:
  "log_lines s b ts c oth = map (bufcpy 1024) [reason_text s b oth, ''RebootInitiatedBy: '' @ s @ [NL],
     ''RebootTime: '' @ ts @ [NL], ''CustomReason: '' @ c @ [NL], ''OtherReason: '' @ oth @ [NL]] \<and>
   list_all (\<lambda>l. length l < 1024) (log_lines s b ts c oth)"
proof -
  have "length (bufcpy 1024 x) < 1024" for x using length_bufcpy [of 1024 x] by linarith
  then show ?thesis by (simp add: log_lines_def reason_line_eq del: length_bufcpy)
qed

text \<open>
  The maintenance flag on every path: with the flag writable the update succeeds and the
  flag is present exactly for \<^verbatim>\<open>MAINTENANCE_REBOOT\<close>, nothing else changing; without a reason it
  fails and changes nothing; when the flag cannot be created or removed it fails.
\<close>

lemma maintenance_flag_correct:
  "(r \<noteq> [] \<and> writable e MAINTENANCE_REBOOT_FLAG w \<longrightarrow> update_maintenance_reboot_flag e (Some r) w =
     (0, w\<lparr>fs := (fs w)(MAINTENANCE_REBOOT_FLAG := if r = ''MAINTENANCE_REBOOT'' then Some (Reg []) else None)\<rparr>)) \<and>
   update_maintenance_reboot_flag e (Some []) w = (-1, w) \<and> update_maintenance_reboot_flag e None w = (-1, w) \<and>
   (open_w_err e MAINTENANCE_REBOOT_FLAG \<noteq> None \<longrightarrow> update_maintenance_reboot_flag e (Some ''MAINTENANCE_REBOOT'') w = (-1, w)) \<and>
   (unlink_err e MAINTENANCE_REBOOT_FLAG = Some EACCES \<and> r \<noteq> ''MAINTENANCE_REBOOT'' \<longrightarrow>
      update_maintenance_reboot_flag e (Some r) w = (-1, w))"
  by (auto simp: maintenance_flag_fs) (auto simp: update_maintenance_reboot_flag_def fopen_w_def unlink_def)

end
