(* ===== verification/RebootLoop.thy ===== *)
theory RebootLoop
  imports RebootMain
begin

text \<open>
  The reboot-loop guard seen from outside: repeated invocations of the whole program
  \<^verbatim>\<open>rebootnow\<close> with the same arguments. The interface \<open>loop_guard\<close> of the guard is interpreted
  again, with a run of \<open>rebootnow_main\<close> as the request, so that the bound holds for the reboot
  commands the device really receives.
\<close>

section \<open>Time stamps are quotable\<close>






section \<open>One run on a device in a loop\<close>






















section \<open>The whole program\<close>









section \<open>A device in a loop, for the concrete runs\<close>




section \<open>Properties\<close>



end
