(* ===== verification/RebootJson.thy ===== *)
theory RebootJson
  imports CyclicReboot
begin

text \<open>
  \<^verbatim>\<open>reboot-reason-fetcher/src/json.c\<close> and the types of \<^verbatim>\<open>include/update-reboot-info.h\<close>: the
  records the reason fetcher works on, the lock that serialises its instances, and the writers
  of the record of the previous reboot and of the last hard power cycle.
\<close>

section \<open>Types\<close>

record RebootInfo =
  timestamp :: string
  source :: string
  reason :: string
  customReason :: string
  otherReason :: string

record EnvContext =
  soc :: string
  rdkProfile :: string
  buildType :: string
  device_type :: string
  rebootInfoSttSupport :: bool

record HardwareReason =
  rawReason :: string
  mappedReason :: string

record PanicInfo =
  pn_detected :: bool
  panicType :: string
  pn_details :: string

record FirmwareFailure =
  fw_detected :: bool
  maxRebootDetected :: bool
  ecmCrashDetected :: bool
  fw_details :: string
  initiator :: string

definition zero_info :: RebootInfo where
  "zero_info = \<lparr>timestamp = [], source = [], reason = [], customReason = [], otherReason = []\<rparr>"

definition zero_ctx :: EnvContext where
  "zero_ctx = \<lparr>soc = [], rdkProfile = [], buildType = [], device_type = [], rebootInfoSttSupport = False\<rparr>"

definition zero_hw :: HardwareReason where
  "zero_hw = \<lparr>rawReason = [], mappedReason = []\<rparr>"

definition zero_panic :: PanicInfo where
  "zero_panic = \<lparr>pn_detected = False, panicType = [], pn_details = []\<rparr>"

definition zero_fw :: FirmwareFailure where
  "zero_fw = \<lparr>fw_detected = False, maxRebootDetected = False, ecmCrashDetected = False, fw_details = [], initiator = []\<rparr>"

definition SUCCESS :: int where "SUCCESS = 0"
definition ERROR_GENERAL :: int where "ERROR_GENERAL = -1"
definition ERROR_LOCK_FAILED :: int where "ERROR_LOCK_FAILED = -2"
definition ERROR_FILE_NOT_FOUND :: int where "ERROR_FILE_NOT_FOUND = -3"
definition ERROR_PARSE_FAILED :: int where "ERROR_PARSE_FAILED = -4"
definition FAILURE :: int where "FAILURE = -5"

lemmas rc_defs = SUCCESS_def ERROR_GENERAL_def ERROR_LOCK_FAILED_def ERROR_FILE_NOT_FOUND_def
  ERROR_PARSE_FAILED_def FAILURE_def

lemma rc_nonzero [simp]: "ERROR_GENERAL \<noteq> SUCCESS" "ERROR_LOCK_FAILED \<noteq> SUCCESS" "ERROR_FILE_NOT_FOUND \<noteq> SUCCESS"
  "ERROR_PARSE_FAILED \<noteq> SUCCESS" "FAILURE \<noteq> SUCCESS"
  by (simp_all add: rc_defs)

text \<open>
  Sizes of the arrays: every field of a \<open>RebootInfo\<close> is a C string in its array.
\<close>

definition info_fits :: "RebootInfo \<Rightarrow> bool" where
  "info_fits i \<longleftrightarrow> length (timestamp i) < 64 \<and> length (source i) < 128 \<and> length (reason i) < 128 \<and>
     length (customReason i) < 128 \<and> length (otherReason i) < 128"

section \<open>The lock\<close>

text \<open>\<open>open(p, O_CREAT | O_RDWR)\<close>.\<close>

definition open_rw :: "env \<Rightarrow> path \<Rightarrow> world \<Rightarrow> errno + world" where
  "open_rw e p w = (case open_w_err e p of Some er \<Rightarrow> Inl er
     | None \<Rightarrow> (case open_r_err e p of Some er \<Rightarrow> Inl er
         | None \<Rightarrow> if fs w p = Some Dir then Inl EISDIR
                   else if fs w p = None then Inr (w\<lparr>fs := (fs w)(p := Some (Reg []))\<rparr>) else Inr w))"

text \<open>
  The blocking \<open>flock\<close> returns when the lock is granted, or with an error. When the lock is never
  given up the call does not return, which is \<open>None\<close>.
\<close>

definition acquire_lock :: "env \<Rightarrow> path option \<Rightarrow> world \<Rightarrow> (int \<times> world) option" where
  "acquire_lock e lockFile w = (case lockFile of None \<Rightarrow> Some (ERROR_GENERAL, w)
     | Some p \<Rightarrow>
         (let opened = (if g_lock_fd w then Inr w
                        else (case open_rw e p w of Inl er \<Rightarrow> Inl er | Inr w1 \<Rightarrow> Inr (w1\<lparr>g_lock_fd := True\<rparr>)))
          in case opened of Inl _ \<Rightarrow> Some (ERROR_LOCK_FAILED, w)
             | Inr w1 \<Rightarrow> (case flock e of FlockGranted \<Rightarrow> Some (SUCCESS, emit (LockEx p) w1)
                 | FlockError \<Rightarrow> Some (ERROR_LOCK_FAILED, w1) | FlockWaits \<Rightarrow> None)))"

definition release_lock :: "path option \<Rightarrow> world \<Rightarrow> int \<times> world" where
  "release_lock lockFile w = (case lockFile of None \<Rightarrow> (ERROR_GENERAL, w)
     | Some p \<Rightarrow> (SUCCESS, if g_lock_fd w then (emit (LockUn p) w)\<lparr>g_lock_fd := False\<rparr> else w))"

section \<open>The writers\<close>

definition write_reboot_info :: "env \<Rightarrow> path option \<Rightarrow> RebootInfo option \<Rightarrow> world \<Rightarrow> int \<times> world" where
  "write_reboot_info e path info w = (case (path, info) of
       (Some p, Some i) \<Rightarrow>
         (case write_file e p [''{'' @ [NL],
              [DQ] @ ''timestamp'' @ [DQ] @ '':'' @ [DQ] @ timestamp i @ [DQ] @ '','' @ [NL],
              [DQ] @ ''source'' @ [DQ] @ '':'' @ [DQ] @ source i @ [DQ] @ '','' @ [NL],
              [DQ] @ ''reason'' @ [DQ] @ '':'' @ [DQ] @ reason i @ [DQ] @ '','' @ [NL],
              [DQ] @ ''customReason'' @ [DQ] @ '':'' @ [DQ] @ customReason i @ [DQ] @ '','' @ [NL],
              [DQ] @ ''otherReason'' @ [DQ] @ '':'' @ [DQ] @ otherReason i @ [DQ] @ [NL],
              ''}'' @ [NL]] w of
            (Some _, w1) \<Rightarrow> (ERROR_GENERAL, w1) | (None, w1) \<Rightarrow> (SUCCESS, w1))
     | _ \<Rightarrow> (ERROR_GENERAL, w))"

definition write_hardpower :: "env \<Rightarrow> path option \<Rightarrow> string option \<Rightarrow> world \<Rightarrow> int \<times> world" where
  "write_hardpower e path ts w = (case (path, ts) of
       (Some p, Some t) \<Rightarrow>
         (case write_file e p [''{'' @ [NL],
              [DQ] @ ''lastHardPowerReset'' @ [DQ] @ '':'' @ [DQ] @ t @ [DQ] @ [NL],
              ''}'' @ [NL]] w of
            (Some _, w1) \<Rightarrow> (ERROR_GENERAL, w1) | (None, w1) \<Rightarrow> (SUCCESS, w1))
     | _ \<Rightarrow> (ERROR_GENERAL, w))"

section \<open>The record in the layout of the helper\<close>

definition info_record :: "RebootInfo \<Rightarrow> prev_info" where
  "info_record i = \<lparr>p_src = source i, p_rsn = reason i, p_cus = customReason i, p_oth = otherReason i, p_ts = timestamp i\<rparr>"

lemma write_reboot_info_ok:
  assumes "writable e p w"
  shows "write_reboot_info e (Some p) (Some i) w = (SUCCESS, w\<lparr>fs := (fs w)(p := Some (Reg (record_text (info_record i))))\<rparr>)"
  using assms by (simp add: write_reboot_info_def write_file_writable record_text_def info_record_def json_kv_def)

interpretation info_op: world_op "\<lambda>w. snd (write_reboot_info e (Some p) (Some i) w)" "{p}" for e p i
proof unfold_locales
  fix w q assume "q \<notin> {p}"
  then have "fs (snd (write_file e p ss w)) q = fs w q" for ss by (rule write_op.frame)
  then show "fs (snd (write_reboot_info e (Some p) (Some i) w)) q = fs w q"
    by (simp add: write_reboot_info_def case_prod_beta split: option.split)
qed (simp add: write_reboot_info_def case_prod_beta split: option.split)

interpretation hardpower_op: world_op "\<lambda>w. snd (write_hardpower e (Some p) (Some t) w)" "{p}" for e p t
proof unfold_locales
  fix w q assume "q \<notin> {p}"
  then have "fs (snd (write_file e p ss w)) q = fs w q" for ss by (rule write_op.frame)
  then show "fs (snd (write_hardpower e (Some p) (Some t) w)) q = fs w q"
    by (simp add: write_hardpower_def case_prod_beta split: option.split)
qed (simp add: write_hardpower_def case_prod_beta split: option.split)

section \<open>The lock as an interface\<close>

text \<open>Whether the last lock event of the trace is an acquisition.\<close>

fun last_lock :: "event list \<Rightarrow> bool" where
  "last_lock [] = False"
| "last_lock (LockEx p # evs) = True"
| "last_lock (LockUn p # evs) = False"
| "last_lock (ev # evs) = last_lock evs"

definition lock_held :: "world \<Rightarrow> bool" where
  "lock_held w \<longleftrightarrow> g_lock_fd w \<and> last_lock (rev (trace w))"

definition lock_free :: "world \<Rightarrow> bool" where
  "lock_free w \<longleftrightarrow> \<not> last_lock (rev (trace w))"

text \<open>
  What the program relies on: an acquisition that succeeds holds the lock, one that fails does
  not, and a release always succeeds and leaves the lock free, also when it was not held.
\<close>

locale exclusive_lock =
  fixes acq :: "'w \<Rightarrow> (int \<times> 'w) option"
    and rel :: "'w \<Rightarrow> int \<times> 'w"
    and held :: "'w \<Rightarrow> bool"
    and free :: "'w \<Rightarrow> bool"
  assumes acq_held: "acq w = Some (SUCCESS, v) \<Longrightarrow> held v"
    and acq_failed: "acq w = Some (rc, v) \<Longrightarrow> rc \<noteq> SUCCESS \<Longrightarrow> free w \<Longrightarrow> free v"
    and rel_ok: "fst (rel w) = SUCCESS"
    and rel_held: "held w \<Longrightarrow> free (snd (rel w))"
    and rel_free: "free w \<Longrightarrow> free (snd (rel w))"
begin

text \<open>Work that keeps the lock, bracketed by the two operations, leaves it free on every path.\<close>

lemma bracket:
  assumes "free w" and "acq w = Some (rc, u)" and "rc = SUCCESS \<Longrightarrow> held (body u)"
  shows "free (if rc = SUCCESS then snd (rel (body u)) else u)"
  using assms acq_failed rel_held by simp

end

lemma open_rw_trace: "open_rw e p w = Inr w1 \<Longrightarrow> trace w1 = trace w"
  by (auto simp: open_rw_def split: option.splits if_splits)

interpretation lock: exclusive_lock "acquire_lock e (Some p)" "release_lock (Some p)" lock_held lock_free for e p
proof unfold_locales
  fix w v rc
  show "acquire_lock e (Some p) w = Some (SUCCESS, v) \<Longrightarrow> lock_held v"
    by (auto simp: acquire_lock_def lock_held_def Let_def emit_def split: sum.splits if_splits flock_answer.splits)
  show "acquire_lock e (Some p) w = Some (rc, v) \<Longrightarrow> rc \<noteq> SUCCESS \<Longrightarrow> lock_free w \<Longrightarrow> lock_free v"
    by (auto simp: acquire_lock_def lock_free_def Let_def open_rw_trace split: sum.splits if_splits flock_answer.splits)
  show "fst (release_lock (Some p) w) = SUCCESS" by (simp add: release_lock_def)
  show "lock_held w \<Longrightarrow> lock_free (snd (release_lock (Some p) w))"
    and "lock_free w \<Longrightarrow> lock_free (snd (release_lock (Some p) w))"
    by (simp_all add: release_lock_def lock_held_def lock_free_def)
qed

end
