(* ===== verification/LogParser.thy ===== *)
theory LogParser
  imports RebootJson
begin

text \<open>
  \<^verbatim>\<open>reboot-reason-fetcher/src/log_parser.c\<close>: the device properties, with their fallback to the
  properties file, the gate on the time-synchronisation flag, and the hardware reset reason of
  Broadcom devices. \<open>getDevicePropertyData\<close> of the environment is the third-party reader of the
  properties; it fills a buffer of 128 bytes.
\<close>

section \<open>Definitions\<close>

definition property :: "env \<Rightarrow> string \<Rightarrow> string option" where
  "property e k = map_option (bufcpy 128) (getDevicePropertyData e k)"

definition clamp64 :: "string \<Rightarrow> string option \<Rightarrow> string" where
  "clamp64 old v = (case v of None \<Rightarrow> old | Some b \<Rightarrow> bufcpy 64 b)"

text \<open>One line of the properties file, as a key and a value.\<close>

definition split_property :: "string \<Rightarrow> (string \<times> string) option" where
  "split_property line = (case strchr line (CHR ''='') of None \<Rightarrow> None
     | Some eq \<Rightarrow>
         (let key = take (length line - length eq) line; val = tl eq;
              val = (case strchr val NL of None \<Rightarrow> val | Some nl \<Rightarrow> take (length val - length nl) val)
          in Some (key, val)))"

definition scan_property :: "string \<Rightarrow> EnvContext \<Rightarrow> EnvContext" where
  "scan_property line ctx = (case split_property line of None \<Rightarrow> ctx
     | Some (key, val) \<Rightarrow>
         if soc ctx = [] \<and> key = ''SOC'' then ctx\<lparr>soc := bufcpy 64 val\<rparr>
         else if rdkProfile ctx = [] \<and> key = ''RDK_PROFILE'' then ctx\<lparr>rdkProfile := bufcpy 64 val\<rparr>
         else if device_type ctx = [] \<and> (key = ''DEVICE_TYPE'' \<or> key = ''DEVICE_NAME'') then ctx\<lparr>device_type := bufcpy 64 val\<rparr>
         else ctx)"

definition parse_device_properties :: "env \<Rightarrow> EnvContext option \<Rightarrow> world \<Rightarrow> int \<times> EnvContext option" where
  "parse_device_properties e ctx w = (case ctx of None \<Rightarrow> (ERROR_GENERAL, None)
     | Some _ \<Rightarrow>
         (let c = zero_ctx;
              c = c\<lparr>soc := clamp64 (soc c) (property e ''SOC'')\<rparr>;
              c = c\<lparr>rdkProfile := clamp64 (rdkProfile c) (property e ''RDK_PROFILE'')\<rparr>;
              c = c\<lparr>buildType := clamp64 (buildType c) (property e ''BUILD_TYPE'')\<rparr>;
              c = c\<lparr>device_type := clamp64 (device_type c) (property e ''DEVICE_TYPE'')\<rparr>;
              c = (case property e ''REBOOT_INFO_STT_SUPPORT'' of None \<Rightarrow> c
                   | Some b \<Rightarrow> c\<lparr>rebootInfoSttSupport := strcasecmp_eq b ''true''\<rparr>)
          in if soc c = [] \<or> device_type c = [] \<or> rdkProfile c = [] then
               (case fopen_r e DEVICE_PROPERTIES_PATH w of
                  Inr bytes \<Rightarrow> (SUCCESS, Some (fold scan_property (fgets_lines 256 bytes) c))
                | Inl _ \<Rightarrow> (FAILURE, Some c))
             else (SUCCESS, Some c)))"

definition free_env_context :: "EnvContext option \<Rightarrow> EnvContext option" where
  "free_env_context ctx = (case ctx of None \<Rightarrow> None | Some _ \<Rightarrow> Some zero_ctx)"

definition update_reboot_info :: "EnvContext option \<Rightarrow> world \<Rightarrow> int" where
  "update_reboot_info ctx w = (case ctx of None \<Rightarrow> 0
     | Some _ \<Rightarrow> if \<not> access_ok STT_FLAG w then 0 else 1)"

definition read_file_data :: "env \<Rightarrow> path \<Rightarrow> nat \<Rightarrow> world \<Rightarrow> int \<times> string" where
  "read_file_data e p buflen w = (case fopen_r e p w of Inl _ \<Rightarrow> (ERROR_GENERAL, [])
     | Inr bytes \<Rightarrow> (SUCCESS, cstr (take (buflen - 1) bytes)))"

text \<open>\<open>access(p, R_OK)\<close>.\<close>

definition access_r_ok :: "env \<Rightarrow> path \<Rightarrow> world \<Rightarrow> bool" where
  "access_r_ok e p w \<longleftrightarrow> access_ok p w \<and> open_r_err e p \<noteq> Some EACCES"

definition read_brcm_previous_reboot_reason :: "env \<Rightarrow> HardwareReason option \<Rightarrow> world \<Rightarrow> int \<times> HardwareReason option" where
  "read_brcm_previous_reboot_reason e hw w = (case hw of None \<Rightarrow> (ERROR_GENERAL, None)
     | Some h \<Rightarrow>
         if \<not> access_r_ok e BRCM_REBOOT_FILE w then (FAILURE, Some (h\<lparr>mappedReason := bufcpy 128 ''UNKNOWN''\<rparr>))
         else (let (rc, buf) = read_file_data e BRCM_REBOOT_FILE 512 w in
           if rc \<noteq> SUCCESS \<or> buf = [] then (FAILURE, Some h)
           else (let raw_len = strcspn buf [NL];
                     raw_len = (if 128 \<le> raw_len then 127 else raw_len);
                     raw = map toupper (take raw_len buf);
                     primary_len = strcspn raw [CHR '','', NL];
                     primary_len = (if 128 \<le> primary_len then 127 else primary_len)
                 in (SUCCESS, Some (h\<lparr>rawReason := raw, mappedReason := take primary_len raw\<rparr>)))))"

definition get_hardware_reason ::
    "env \<Rightarrow> EnvContext option \<Rightarrow> HardwareReason option \<Rightarrow> RebootInfo option \<Rightarrow> world \<Rightarrow>
     int \<times> HardwareReason option \<times> RebootInfo option" where
  "get_hardware_reason e ctx hw info w = (case (ctx, hw, info) of
       (Some c, Some _, Some _) \<Rightarrow>
         (let h = Some zero_hw;
              (rc, h) = (if soc c = ''BRCM'' then read_brcm_previous_reboot_reason e h w else (FAILURE, h))
          in if soc c = ''BRCM'' \<and> rc = SUCCESS then (SUCCESS, h, info)
             else (SUCCESS, map_option (\<lambda>h. if mappedReason h = [] then h\<lparr>mappedReason := ''UNKNOWN''\<rparr> else h) h, info))
     | _ \<Rightarrow> (ERROR_GENERAL, hw, info))"

section \<open>Lemmas\<close>

lemma toupper_idem [simp]: "toupper (toupper c) = toupper c"
proof -
  have "(of_char (char_of (n - 32) :: char) :: nat) = n - 32" if "n \<le> 122" for n :: nat
    using that by simp
  then show ?thesis by (auto simp: toupper_def Let_def)
qed

lemma strcspn_take: "set (take (strcspn s r) s) \<inter> set r = {}"
proof -
  have "take (strcspn s r) s = takeWhile (\<lambda>c. c \<notin> set r) s"
    by (simp add: strcspn_def takeWhile_eq_take [symmetric])
  then show ?thesis by (auto dest: set_takeWhileD)
qed

text \<open>Every field of the context stays within its array.\<close>

definition ctx_fits :: "EnvContext \<Rightarrow> bool" where
  "ctx_fits c \<longleftrightarrow> length (soc c) < 64 \<and> length (rdkProfile c) < 64 \<and> length (buildType c) < 64 \<and> length (device_type c) < 64"

lemma scan_property_fits: "ctx_fits c \<Longrightarrow> ctx_fits (scan_property line c)"
  by (auto simp: scan_property_def ctx_fits_def bufcpy_less split: option.split)

lemma scan_all_fits: "ctx_fits c \<Longrightarrow> ctx_fits (fold scan_property ls c)"
  by (induction ls arbitrary: c) (auto simp: scan_property_fits)

text \<open>A property already known is never overwritten by the file.\<close>

lemma scan_property_keeps:
  "soc c \<noteq> [] \<Longrightarrow> soc (scan_property l c) = soc c"
  "rdkProfile c \<noteq> [] \<Longrightarrow> rdkProfile (scan_property l c) = rdkProfile c"
  "device_type c \<noteq> [] \<Longrightarrow> device_type (scan_property l c) = device_type c"
  "buildType (scan_property l c) = buildType c"
  by (auto simp: scan_property_def split: option.split)

lemma scan_all_keeps:
  "soc c \<noteq> [] \<Longrightarrow> soc (fold scan_property ls c) = soc c"
  "rdkProfile c \<noteq> [] \<Longrightarrow> rdkProfile (fold scan_property ls c) = rdkProfile c"
  "device_type c \<noteq> [] \<Longrightarrow> device_type (fold scan_property ls c) = device_type c"
  "buildType (fold scan_property ls c) = buildType c"
  by (induction ls arbitrary: c) (simp_all add: scan_property_keeps)

lemma clamp64_fits: "length old < 64 \<Longrightarrow> length (clamp64 old v) < 64"
  by (simp add: clamp64_def bufcpy_less split: option.split)

section \<open>Properties\<close>

text \<open>
  The device context never leaves its arrays, and the two sources of properties agree on
  precedence: whatever the property service and the properties file hold, every field is shorter
  than its 64-byte array, and a property the service knows keeps the service's value, cut to the
  array; only the missing ones come from the file.
\<close>

lemma device_properties_safe:
  "parse_device_properties e (Some c0) w = (rc, Some c) \<Longrightarrow>
     ctx_fits c \<and> rc \<in> {SUCCESS, FAILURE} \<and>
     (property e ''SOC'' = Some v \<and> v \<noteq> [] \<longrightarrow> soc c = bufcpy 64 v) \<and>
     (property e ''RDK_PROFILE'' = Some v \<and> v \<noteq> [] \<longrightarrow> rdkProfile c = bufcpy 64 v) \<and>
     (property e ''DEVICE_TYPE'' = Some v \<and> v \<noteq> [] \<longrightarrow> device_type c = bufcpy 64 v)"
proof -
  assume p: "parse_device_properties e (Some c0) w = (rc, Some c)"
  define d where "d = (let c = zero_ctx;
              c = c\<lparr>soc := clamp64 (soc c) (property e ''SOC'')\<rparr>;
              c = c\<lparr>rdkProfile := clamp64 (rdkProfile c) (property e ''RDK_PROFILE'')\<rparr>;
              c = c\<lparr>buildType := clamp64 (buildType c) (property e ''BUILD_TYPE'')\<rparr>;
              c = c\<lparr>device_type := clamp64 (device_type c) (property e ''DEVICE_TYPE'')\<rparr>
          in (case property e ''REBOOT_INFO_STT_SUPPORT'' of None \<Rightarrow> c
                   | Some b \<Rightarrow> c\<lparr>rebootInfoSttSupport := strcasecmp_eq b ''true''\<rparr>))"
  have d: "soc d = clamp64 [] (property e ''SOC'')" "rdkProfile d = clamp64 [] (property e ''RDK_PROFILE'')"
      "buildType d = clamp64 [] (property e ''BUILD_TYPE'')" "device_type d = clamp64 [] (property e ''DEVICE_TYPE'')"
    by (simp_all add: d_def zero_ctx_def Let_def split: option.split)
  then have fd: "ctx_fits d" by (simp add: ctx_fits_def clamp64_fits)
  have "c = d \<or> (\<exists>ls. c = fold scan_property ls d)" and rc: "rc \<in> {SUCCESS, FAILURE}"
    using p unfolding parse_device_properties_def option.case Let_def
    unfolding d_def Let_def by (auto split: if_splits sum.splits)
  then obtain ls where c: "c = fold scan_property ls d" by (metis fold_simps(1))
  have val: "clamp64 [] (Some v) = bufcpy 64 v" for v by (simp add: clamp64_def)
  have ne: "v \<noteq> [] \<Longrightarrow> bufcpy 64 v \<noteq> []" for v by (simp add: bufcpy_def)
  show ?thesis
    using scan_all_fits [OF fd, of ls] rc d val ne scan_all_keeps [where c = d and ls = ls] by (auto simp: c)
qed

lemma first_line_copied:
  "take (if 128 \<le> strcspn b [NL] then 127 else strcspn b [NL]) b = bufcpy 128 (takeWhile (\<lambda>x. x \<noteq> NL) b)"
proof -
  define l where "l = takeWhile (\<lambda>x. x \<noteq> NL) b"
  have t: "take (length l) b = l" by (simp add: l_def takeWhile_eq_take [symmetric])
  have "(if 128 \<le> strcspn b [NL] then 127 else strcspn b [NL]) = min 127 (length l)" by (simp add: strcspn_def l_def)
  then have "take (if 128 \<le> strcspn b [NL] then 127 else strcspn b [NL]) b = take 127 (take (length l) b)"
    by (simp only: take_take)
  then show ?thesis by (simp add: t bufcpy_def l_def [symmetric])
qed

lemma upper_line:
  assumes "NL \<notin> set l"
  shows "NL \<notin> set (map toupper (bufcpy n l))"
proof -
  have up: "toupper x \<noteq> NL" if "x \<noteq> NL" for x
    using that by (auto simp: toupper_def Let_def dest!: arg_cong [of _ NL "of_char :: char \<Rightarrow> nat"])
  have no: "x \<noteq> NL" if "x \<in> set (bufcpy n l)" for x
    using that assms by (auto simp: bufcpy_def dest: in_set_takeD)
  have "x \<noteq> NL" if x: "x \<in> toupper ` set (bufcpy n l)" for x
    using x by (rule imageE) (simp add: up [OF no])
  then show ?thesis by auto
qed

text \<open>
  The hardware reason of a Broadcom device is the first line of the kernel's file in upper
  case, cut to the array, and its primary part is what precedes the first comma; on every other
  device, and when the file cannot be read, the reason is \<^verbatim>\<open>UNKNOWN\<close>. The call succeeds on all
  of these paths.
\<close>

lemma hardware_reason_correct:
  "get_hardware_reason e (Some c) (Some h0) (Some i) w = (SUCCESS, Some
     (if soc c = ''BRCM'' \<and> access_r_ok e BRCM_REBOOT_FILE w \<and> fst (read_file_data e BRCM_REBOOT_FILE 512 w) = SUCCESS \<and>
         snd (read_file_data e BRCM_REBOOT_FILE 512 w) \<noteq> [] then
        (let line = takeWhile (\<lambda>x. x \<noteq> NL) (snd (read_file_data e BRCM_REBOOT_FILE 512 w));
             raw = map toupper (bufcpy 128 line)
         in \<lparr>rawReason = raw, mappedReason = takeWhile (\<lambda>x. x \<noteq> CHR '','') raw\<rparr>)
      else \<lparr>rawReason = [], mappedReason = ''UNKNOWN''\<rparr>), Some i)"
proof (cases "soc c = ''BRCM'' \<and> access_r_ok e BRCM_REBOOT_FILE w \<and> fst (read_file_data e BRCM_REBOOT_FILE 512 w) = SUCCESS \<and>
         snd (read_file_data e BRCM_REBOOT_FILE 512 w) \<noteq> []")
  case True
  define buf where "buf = snd (read_file_data e BRCM_REBOOT_FILE 512 w)"
  define line where "line = takeWhile (\<lambda>x. x \<noteq> NL) buf"
  have rf: "read_file_data e BRCM_REBOOT_FILE 512 w = (SUCCESS, buf)" using True by (simp add: buf_def prod_eq_iff)
  note raw = first_line_copied [of buf, folded line_def]
  define r where "r = map toupper (bufcpy 128 line)"
  have "NL \<notin> set line" by (auto simp: line_def dest: set_takeWhileD)
  from upper_line [OF this] have nl: "NL \<notin> set r" by (simp add: r_def)
  have lr: "length r < 128" by (simp add: r_def bufcpy_less)
  have pr: "takeWhile (\<lambda>x. x \<notin> set [CHR '','', NL]) r = takeWhile (\<lambda>x. x \<noteq> CHR '','') r"
    using nl by (intro takeWhile_cong) auto
  have ln: "strcspn r [CHR '','', NL] = length (takeWhile (\<lambda>x. x \<noteq> CHR '','') r)"
    unfolding strcspn_def pr ..
  have lt: "length (takeWhile (\<lambda>x. x \<noteq> CHR '','') r) < 128" using length_takeWhile_le lr by (rule le_less_trans)
  show ?thesis
    using True lt
    by (simp add: get_hardware_reason_def read_brcm_previous_reboot_reason_def rf raw Let_def zero_hw_def
        r_def [symmetric] line_def [symmetric] ln takeWhile_eq_take [symmetric])
next
  case False
  then show ?thesis
    by (auto simp: get_hardware_reason_def read_brcm_previous_reboot_reason_def zero_hw_def Let_def
        split: prod.splits if_splits)
qed

end
