(* ===== verification/Classify.thy ===== *)
theory Classify
  imports LogParser
begin

text \<open>
  \<^verbatim>\<open>reboot-reason-fetcher/src/reboot_reason_classify.c\<close>: the evidence about the previous boot
  (kernel panics, firmware failures, the hardware register) and the classification of the
  reboot from it. The parameters that may be NULL are options; output structures are returned.
\<close>

section \<open>Classification lists\<close>

definition FETCHER_APP_TRIGGERED_REASONS :: "string list" where
  "FETCHER_APP_TRIGGERED_REASONS = [
    ''Servicemanager'', ''systemservice_legacy'', ''WarehouseReset'', ''WarehouseService'',
    ''HrvInitWHReset'', ''HrvColdInitReset'', ''HtmlDiagnostics'', ''InstallTDK'', ''StartTDK'',
    ''TR69Agent'', ''SystemServices'', ''Bsu_GUI'', ''SNMP'', ''CVT_CDL'', ''Nxserver'',
    ''DRM_Netflix_Initialize'', ''hrvinit'', ''PaceMFRLibrary'']"

definition FETCHER_OPS_TRIGGERED_REASONS :: "string list" where
  "FETCHER_OPS_TRIGGERED_REASONS = [
    ''ScheduledReboot'', ''RebootSTB.sh'', ''FactoryReset'', ''UpgradeReboot_restore'', ''XFS'',
    ''wait_for_pci0_ready'', ''websocketproxyinit'', ''NSC_IR_EventReboot'',
    ''host_interface_dma_bus_wait'', ''usbhotplug'', ''Receiver_MDVRSet'',
    ''Receiver_VidiPath_Enabled'', ''Receiver_Toggle_Optimus'', ''S04init_ticket'',
    ''Network-Service'', ''monitorMfrMgr.sh'', ''vlAPI_Caller_Upgrade'', ''ImageUpgrade_rmf_osal'',
    ''ImageUpgrade_mfr_api'', ''ImageUpgrade_userInitiatedFWDnld.sh'', ''ClearSICache'',
    ''tr69hostIfReset'', ''hostIf_utils'', ''hostifDeviceInfo'', ''HAL_SYS_Reboot'',
    ''UpgradeReboot_deviceInitiatedFWDnld.sh'', ''UpgradeReboot_rdkvfwupgrader'',
    ''UpgradeReboot_ipdnl.sh'', ''PowerMgr_Powerreset'', ''PowerMgr_coldFactoryReset'',
    ''DeepSleepMgr'', ''PowerMgr_CustomerReset'', ''PowerMgr_PersonalityReset'',
    ''Power_Thermmgr'', ''PowerMgr_Plat'', ''HAL_CDL_notify_mgr_event'',
    ''vldsg_estb_poll_ecm_operational_state'', ''SASWatchDog'', ''BP3_Provisioning'',
    ''eMMC_FW_UPGRADE'', ''BOOTLOADER_UPGRADE'', ''cdl_service'', ''docsis_mode_check.sh'',
    ''Receiver'', ''CANARY_Update'', ''BRCM_Image_Validate'', ''tch_nvram.sh'',
    ''boot_FSR'', ''BCMCommandHandler'']"

definition FETCHER_MAINTENANCE_TRIGGERED_REASONS :: "string list" where
  "FETCHER_MAINTENANCE_TRIGGERED_REASONS = [''AutoReboot.sh'', ''PwrMgr'']"

definition is_app_triggered :: "string option \<Rightarrow> bool" where
  "is_app_triggered r = (case r of None \<Rightarrow> False | Some x \<Rightarrow> list_ex (\<lambda>n. x = n) FETCHER_APP_TRIGGERED_REASONS)"

definition is_ops_triggered :: "string option \<Rightarrow> bool" where
  "is_ops_triggered r = (case r of None \<Rightarrow> False | Some x \<Rightarrow> list_ex (\<lambda>n. x = n) FETCHER_OPS_TRIGGERED_REASONS)"

definition is_maintenance_triggered :: "string option \<Rightarrow> bool" where
  "is_maintenance_triggered r =
     (case r of None \<Rightarrow> False | Some x \<Rightarrow> list_ex (\<lambda>n. x = n) FETCHER_MAINTENANCE_TRIGGERED_REASONS)"

section \<open>Kernel panics\<close>

definition panic_signatures :: "string list" where
  "panic_signatures = [''Kernel panic - not syncing'', ''Kernel Panic'', ''Kernel Oops'',
     ''Oops - undefined instruction'', ''Oops - bad syscall'', ''branch through zero'',
     ''unknown data abort code'', ''Illegal memory access'']"

text \<open>The first signature in the first line that holds one.\<close>

fun find_panic :: "string list \<Rightarrow> (string \<times> string) option" where
  "find_panic [] = None"
| "find_panic (line # lines) = (case find (\<lambda>s. strstr line s \<noteq> None) panic_signatures of
     Some s \<Rightarrow> Some (s, line) | None \<Rightarrow> find_panic lines)"

definition upto_nl :: "string \<Rightarrow> string" where
  "upto_nl s = takeWhile (\<lambda>c. c \<noteq> NL) s"

definition search_panic_in_file :: "env \<Rightarrow> path \<Rightarrow> PanicInfo \<Rightarrow> world \<Rightarrow> bool \<times> PanicInfo" where
  "search_panic_in_file e filepath pin w = (case fopen_r e filepath w of Inl _ \<Rightarrow> (False, pin)
     | Inr bytes \<Rightarrow> (case find_panic (fgets_lines 512 bytes) of None \<Rightarrow> (False, pin)
         | Some (s, line) \<Rightarrow> (True, \<lparr>pn_detected = True, panicType = bufcpy 128 s, pn_details = upto_nl (bufcpy 512 line)\<rparr>)))"

definition pstore_entry :: "env \<Rightarrow> string \<Rightarrow> world \<Rightarrow> world" where
  "pstore_entry e name w =
     (if name \<noteq> [] \<and> hd name = CHR ''.'' then w
      else (let name_len = (if 255 < length name then 255 else length name) in
        if 256 \<le> length PSTORE_DIR + 1 + name_len + 1 then w
        else if 256 \<le> length ''/opt/logs/'' + name_len + length ''.log'' + 1 then w
        else (let src = bufcpy 256 (PSTORE_DIR @ ''/'' @ take (256 - length PSTORE_DIR - 2) name);
                  dst = bufcpy 256 (''/opt/logs/'' @ take (256 - length ''/opt/logs/'' - length ''.log'' - 1) name @ ''.log'')
              in case fopen_r e src w of Inl _ \<Rightarrow> w
                 | Inr bytes \<Rightarrow> (case fopen_w e dst w of Inl _ \<Rightarrow> w
                     | Inr w1 \<Rightarrow> fprints e dst (chunks 4096 bytes) w1))))"

definition copy_pstore_logs_to_opt :: "env \<Rightarrow> world \<Rightarrow> world" where
  "copy_pstore_logs_to_opt e w = (case opendir e PSTORE_DIR w of None \<Rightarrow> w
     | Some names \<Rightarrow> fold (pstore_entry e) names w)"

definition PREVIOUS_KERNEL_OOPS_DUMP :: string where
  "PREVIOUS_KERNEL_OOPS_DUMP = ''PREVIOUS_KERNEL_OOPS_DUMP''"

text \<open>\<open>strftime\<close> into 64 bytes at the current time.\<close>

definition stamp_now :: "env \<Rightarrow> world \<Rightarrow> string \<times> world" where
  "stamp_now e w = (let ((t, ms), w1) = utc_now e w; s = strftime_utc t in (if length s < 64 then s else [], w1))"

definition annotate_panic :: "env \<Rightarrow> world \<Rightarrow> world" where
  "annotate_panic e w = (case fopen_a e KERNEL_LOG_FILE w of Inl _ \<Rightarrow> w
     | Inr w1 \<Rightarrow> (let (ts, w2) = stamp_now e w1
                  in snd (fputs e KERNEL_LOG_FILE (ts @ '' PreviousRebootReason: kernel_panic!'' @ [NL]) w2)))"

definition detect_kernel_panic ::
    "env \<Rightarrow> EnvContext option \<Rightarrow> PanicInfo option \<Rightarrow> world \<Rightarrow> int \<times> PanicInfo option \<times> world" where
  "detect_kernel_panic e ctx panicInfo w = (case (ctx, panicInfo) of
       (Some c, Some _) \<Rightarrow>
         if soc c = ''BRCM'' then
           (case fopen_r e KERNEL_LOG_FILE w of Inl _ \<Rightarrow> (SUCCESS, Some zero_panic, w)
            | Inr bytes \<Rightarrow>
                if list_ex (\<lambda>line. strstr line PREVIOUS_KERNEL_OOPS_DUMP \<noteq> None) (fgets_lines 512 bytes)
                then (SUCCESS, Some (snd (search_panic_in_file e KERNEL_LOG_FILE zero_panic w)), w)
                else (SUCCESS, Some zero_panic, w))
         else if rdkProfile c = ''TV'' then
           (let (hit, p) = search_panic_in_file e PSTORE_CONSOLE_LOG_FILE zero_panic w in
            if hit then (SUCCESS, Some p, annotate_panic e (copy_pstore_logs_to_opt e w))
            else (SUCCESS, Some p, w))
         else (SUCCESS, Some zero_panic, w)
     | _ \<Rightarrow> (ERROR_GENERAL, panicInfo, w))"

section \<open>Firmware failures\<close>

definition search_string_in_file :: "env \<Rightarrow> path \<Rightarrow> string \<Rightarrow> world \<Rightarrow> bool" where
  "search_string_in_file e filepath str w = (case fopen_r e filepath w of Inl _ \<Rightarrow> False
     | Inr bytes \<Rightarrow> list_ex (\<lambda>line. strstr line str \<noteq> None) (fgets_lines 512 bytes))"

definition MAX_REBOOT_STRING :: string where "MAX_REBOOT_STRING = ''Box has rebooted 10 times''"
definition ECM_CRASH_STRING :: string where "ECM_CRASH_STRING = ''**** CRASH ****''"

text \<open>The telemetry of the fetcher passes its marker on unchecked.\<close>

definition fetcher_t2CountNotify :: "env \<Rightarrow> string \<Rightarrow> int \<Rightarrow> world \<Rightarrow> world" where
  "fetcher_t2CountNotify e marker val w = (if t2_enabled e then emit (T2Count marker val) w else w)"

definition fetcher_t2ValNotify :: "env \<Rightarrow> string \<Rightarrow> string \<Rightarrow> world \<Rightarrow> world" where
  "fetcher_t2ValNotify e marker val w = (if t2_enabled e then emit (T2Val marker val) w else w)"

definition check_firmware_failure ::
    "env \<Rightarrow> EnvContext option \<Rightarrow> FirmwareFailure option \<Rightarrow> world \<Rightarrow> int \<times> FirmwareFailure option \<times> world" where
  "check_firmware_failure e ctx fwFailure w = (case (ctx, fwFailure) of
       (Some c, Some _) \<Rightarrow>
         (let f = zero_fw;
              is_mediaclient = prefix ''mediaclient'' (device_type c);
              max_reboot_log = (if is_mediaclient then UIMGR_LOG_FILE else OCAPRI_LOG_FILE);
              source_name = (if is_mediaclient then ''UiMgr'' else ''OcapRI'');
              (f, w) = (if search_string_in_file e max_reboot_log MAX_REBOOT_STRING w then
                  (f\<lparr>maxRebootDetected := True, fw_detected := True,
                     fw_details := bufcpy 128 (source_name @ '': Reboot due to STB reached maximum (10) reboots''),
                     initiator := bufcpy 128 source_name\<rparr>,
                   fetcher_t2CountNotify e ''SYST_ERR_10Times_reboot'' 1 w)
                else (f, w));
              f = (if \<not> is_mediaclient \<and> search_string_in_file e ECM_CRASH_LOG_FILE ECM_CRASH_STRING w then
                  (let f = f\<lparr>ecmCrashDetected := True, fw_detected := True\<rparr>;
                       f = (if maxRebootDetected f then f
                            else f\<lparr>fw_details := bufcpy 128 ''EcmLogger: ECM crash detected''\<rparr>)
                   in f\<lparr>initiator := bufcpy 128 ''EcmLogger''\<rparr>)
                else f)
          in (SUCCESS, Some f, w))
     | _ \<Rightarrow> (ERROR_GENERAL, fwFailure, w))"

section \<open>The hardware register\<close>

text \<open>
  One row per branch of the cascade, in its order: the substrings it tests, and the source,
  reason and other reason it copies.
\<close>

definition hw_table :: "(string list \<times> string \<times> string \<times> string) list" where
  "hw_table = [
    ([''SOFTWARE_MASTER_RESET'', ''SOFTWARE_RESET'', ''SOFTWARE_REBOOT'', ''SW_RESET'', ''SOFTWARE''],
      ''SoftwareReboot'', ''SOFTWARE_MASTER_RESET'', ''Reboot due to user triggered reboot command''),
    ([''WATCHDOG''], ''WatchDog'', ''WATCHDOG_TIMER_RESET'', ''Reboot due to watch dog timer reset''),
    ([''KERNEL_PANIC'', ''KERNEL_PANIC_RESET''], ''Kernel'', ''KERNEL_PANIC'',
      ''Reboot due to Kernel Panic captured by Oops Dump''),
    ([''POWER_ON'', ''HARDWARE''], ''PowerOn'', ''POWER_ON_RESET'', ''Reboot due to unplug of power cable from the STB''),
    ([''MAIN_CHIP_INPUT_RESET''], ''Main Chip'', ''MAIN_CHIP_INPUT_RESET'',
      ''Reboot due to chip'' @ [CHR 0x27] @ ''s main reset input has been asserted''),
    ([''MAIN_CHIP_RESET_INPUT''], ''Main Chip'', ''MAIN_CHIP_RESET_INPUT'',
      ''Reboot due to chip'' @ [CHR 0x27] @ ''s main reset input has been asserted''),
    ([''TAP_IN_SYSTEM_RESET''], ''Tap-In System'', ''TAP_IN_SYSTEM_RESET'',
      ''Reboot due to the chip'' @ [CHR 0x27] @ ''s TAP in-system reset has been asserted''),
    ([''FRONT_PANEL_4SEC_RESET'', ''FRONT_PANEL_RESET''], ''FrontPanel Button'', ''FRONT_PANEL_RESET'',
      ''Reboot due to the front panel 4 second reset has been asserted''),
    ([''S3_WAKEUP_RESET''], ''Standby Wakeup'', ''S3_WAKEUP_RESET'', ''Reboot due to the chip woke up from deep standby''),
    ([''SMARTCARD_INSERT_RESET''], ''SmartCard Insert'', ''SMARTCARD_INSERT_RESET'',
      ''Reboot due to the smartcard insert reset has occurred''),
    ([''OVERTEMP'', ''OVERHEAT''], ''OverTemperature'', ''OVERTEMP_RESET'',
      ''Reboot due to chip temperature is above threshold (125*C)''),
    ([''OVERVOLTAGE''], ''OverVoltage'', ''OVERVOLTAGE_RESET'', ''Reboot due to chip voltage is above threshold''),
    ([''UNDERVOLTAGE'', ''UNDERVOLTAGE_0_RESET'', ''UNDERVOLTAGE_1_RESET''], ''LowVoltage'', ''UNDERVOLTAGE_RESET'',
      ''Reboot due to chip voltage is below threshold''),
    ([''PCIE_0_HOT_BOOT_RESET'', ''PCIE_1_HOT_BOOT_RESET'', ''PCIE_HOT_BOOT_RESET''], ''PCIE Boot'', ''PCIE_HOT_BOOT_RESET'',
      ''Reboot due to PCIe hot boot reset has occurred''),
    ([''SECURITY_MASTER_RESET''], ''SecurityReboot'', ''SECURITY_MASTER_RESET'',
      ''Reboot due to security master reset has occurred''),
    ([''CPU_EJTAG_RESET''], ''CPU EJTAG'', ''CPU_EJTAG_RESET'', ''Reboot due to CPU EJTAG reset has occurred''),
    ([''SCPU_EJTAG_RESET''], ''SCPU EJTAG'', ''SCPU_EJTAG_RESET'', ''Reboot due to SCPU EJTAG reset has occurred''),
    ([''GEN_WATCHDOG_1_RESET'', ''GEN_WATCHDOG_RESET''], ''GEN WatchDog'', ''GEN_WATCHDOG_RESET'',
      ''Reboot due to gen_watchdog_1 timeout reset has occurred''),
    ([''AUX_CHIP_EDGE_RESET_0'', ''AUX_CHIP_EDGE_RESET_1'', ''AUX_CHIP_EDGE_RESET''], ''Aux Chip Edge'', ''AUX_CHIP_EDGE_RESET'',
      ''Reboot due to the auxiliary edge-triggered chip reset has occurred''),
    ([''AUX_CHIP_LEVEL_RESET_0'', ''AUX_CHIP_LEVEL_RESET_1'', ''AUX_CHIP_LEVEL_RESET''], ''Aux Chip Level'',
      ''AUX_CHIP_LEVEL_RESET'', ''Reboot due to the auxiliary level-triggered chip reset has occurred''),
    ([''MPM_RESET''], ''MPM'', ''MPM_RESET'', ''Reboot due to the MPM reset has occurred'')]"

definition row_matches :: "string \<Rightarrow> string list \<times> string \<times> string \<times> string \<Rightarrow> bool" where
  "row_matches hw row = list_ex (\<lambda>p. strstr hw p \<noteq> None) (fst row)"

definition map_hardware_reason :: "env \<Rightarrow> string \<Rightarrow> RebootInfo \<Rightarrow> world \<Rightarrow> RebootInfo \<times> world" where
  "map_hardware_reason e hw info w = (case find (row_matches hw) hw_table of
       Some (ps, src, rsn, oth) \<Rightarrow>
         (info\<lparr>source := src, reason := rsn, otherReason := oth\<rparr>,
          if src = ''SoftwareReboot'' then fetcher_t2CountNotify e ''Test_SWReset'' 1 w else w)
     | None \<Rightarrow> (info\<lparr>source := ''Unknown'', reason := bufcpy 128 hw, otherReason := bufcpy 128 hw\<rparr>, w))"

definition update_kernel_log :: "env \<Rightarrow> EnvContext option \<Rightarrow> RebootInfo option \<Rightarrow> world \<Rightarrow> world" where
  "update_kernel_log e ctx info w = (case (ctx, info) of
       (Some c, Some i) \<Rightarrow>
         if (soc c = ''RTK'' \<or> soc c = ''REALTEK'') \<and> reason i \<noteq> [] then
           (let lower = map tolower (bufcpy 128 (reason i))
            in snd (append_file e KERNEL_LOG_FILE [''PreviousRebootReason: '' @ lower @ [NL]] w))
         else w
     | _ \<Rightarrow> w)"

section \<open>Classification\<close>

definition HW_PREFIX :: string where "HW_PREFIX = ''Hardware Register - ''"

definition hw_custom :: "string \<Rightarrow> string" where
  "hw_custom r = bufcpy 128 (HW_PREFIX @ take (128 - 1 - length HW_PREFIX) r)"

text \<open>The outcome when no evidence of any kind was found.\<close>

definition hard_power :: "RebootInfo \<Rightarrow> RebootInfo" where
  "hard_power i = i\<lparr>customReason := bufcpy 128 ''Hardware Register - NULL'', source := ''Hard Power Reset'',
     reason := ''HARD_POWER'', otherReason := ''No information found''\<rparr>"

definition classify_hardware :: "env \<Rightarrow> EnvContext \<Rightarrow> HardwareReason \<Rightarrow> RebootInfo \<Rightarrow> world \<Rightarrow> RebootInfo \<times> world" where
  "classify_hardware e c h i w =
     (let (i, w) = map_hardware_reason e (mappedReason h) i w in
      if soc c = ''BRCM'' \<or> soc c = ''BROADCOM'' then
        (if rawReason h \<noteq> [] then (i\<lparr>customReason := hw_custom (map toupper (bufcpy 512 (rawReason h)))\<rparr>, w)
         else if mappedReason h = ''UNKNOWN'' then (hard_power i, w)
         else (i\<lparr>customReason := hw_custom (mappedReason h)\<rparr>, w))
      else if mappedReason h = ''UNKNOWN'' \<or> mappedReason h = [] then (hard_power i, w)
      else (i\<lparr>customReason := hw_custom (if reason i \<noteq> [] then reason i else mappedReason h)\<rparr>, w))"

definition classify_reboot_reason ::
    "env \<Rightarrow> RebootInfo option \<Rightarrow> EnvContext option \<Rightarrow> HardwareReason option \<Rightarrow> PanicInfo option \<Rightarrow>
     FirmwareFailure option \<Rightarrow> world \<Rightarrow> int \<times> RebootInfo option \<times> world" where
  "classify_reboot_reason e info ctx hwReason panicInfo fwFailure w = (case (info, ctx) of
       (Some i, Some c) \<Rightarrow>
         (let fw = (case fwFailure of Some f \<Rightarrow> fw_detected f | None \<Rightarrow> False);
              pn = (case panicInfo of Some p \<Rightarrow> pn_detected p | None \<Rightarrow> False)
          in
          if fw then
            (let f = the fwFailure;
                 i = i\<lparr>source := if initiator f \<noteq> [] then bufcpy 128 (initiator f) else ''FirmwareFailure''\<rparr>;
                 i = i\<lparr>reason := ''FIRMWARE_FAILURE''\<rparr>;
                 i = (if fw_details f \<noteq> [] then i\<lparr>otherReason := bufcpy 128 (fw_details f)\<rparr> else i)
             in (SUCCESS, Some (i\<lparr>customReason := []\<rparr>), w))
          else if customReason i \<noteq> [] then
            (if customReason i = ''MAINTENANCE_REBOOT'' then (SUCCESS, Some (i\<lparr>reason := ''MAINTENANCE_REBOOT''\<rparr>), w)
             else if is_app_triggered (Some (customReason i)) then (SUCCESS, Some (i\<lparr>reason := ''APP_TRIGGERED''\<rparr>), w)
             else if is_ops_triggered (Some (customReason i)) then (SUCCESS, Some (i\<lparr>reason := ''OPS_TRIGGERED''\<rparr>), w)
             else if is_maintenance_triggered (Some (customReason i)) then
               (SUCCESS, Some (i\<lparr>reason := ''MAINTENANCE_REBOOT''\<rparr>), w)
             else (SUCCESS, Some (i\<lparr>reason := ''FIRMWARE_FAILURE'', source := if source i = [] then ''Unknown'' else source i\<rparr>), w))
          else if pn then
            (SUCCESS, Some (i\<lparr>source := ''Kernel'', reason := ''KERNEL_PANIC'',
               customReason := bufcpy 128 ''Hardware Register - KERNEL_PANIC'',
               otherReason := ''Reboot due to Kernel Panic captured by Oops Dump''\<rparr>), w)
          else if (case hwReason of Some h \<Rightarrow> mappedReason h \<noteq> [] | None \<Rightarrow> False) then
            (let (i, w) = classify_hardware e c (the hwReason) i w in (SUCCESS, Some i, w))
          else if source i = [] then
            (if \<not> pn \<and> \<not> fw then
               (SUCCESS, Some (i\<lparr>source := ''SoftwareReboot'', reason := ''SOFTWARE_MASTER_RESET'',
                  customReason := ''SOFTWARE_MASTER_RESET'', otherReason := ''Reboot due to user triggered reboot command''\<rparr>),
                fetcher_t2CountNotify e ''Test_SWReset'' 1 w)
             else
               (SUCCESS, Some (i\<lparr>source := ''Unknown'', reason := ''UNKNOWN'', customReason := ''UNKNOWN'',
                  otherReason := ''Reboot reason could not be determined''\<rparr>), w))
          else (SUCCESS, Some i, w))
     | _ \<Rightarrow> (ERROR_GENERAL, info, w))"

section \<open>The lists as an interface\<close>

locale trigger_list =
  fixes test :: "string option \<Rightarrow> bool"
    and names :: "string list"
  assumes test_Some: "test (Some x) \<longleftrightarrow> x \<in> set names"
    and test_None: "\<not> test None"
begin

lemma test_iff: "test r \<longleftrightarrow> (\<exists>x \<in> set names. r = Some x)"
  by (cases r) (auto simp: test_Some test_None)

lemma test_disjoint:
  assumes "trigger_list other others" and "set names \<inter> set others = {}"
  shows "\<not> (test r \<and> other r)"
  using assms trigger_list.test_iff [OF assms(1)] test_iff by auto

end

interpretation app_list: trigger_list is_app_triggered FETCHER_APP_TRIGGERED_REASONS
  by unfold_locales (auto simp: is_app_triggered_def list_ex_iff)

interpretation ops_list: trigger_list is_ops_triggered FETCHER_OPS_TRIGGERED_REASONS
  by unfold_locales (auto simp: is_ops_triggered_def list_ex_iff)

interpretation maintenance_list: trigger_list is_maintenance_triggered FETCHER_MAINTENANCE_TRIGGERED_REASONS
  by unfold_locales (auto simp: is_maintenance_triggered_def list_ex_iff)

lemma lists_disjoint:
  "set FETCHER_APP_TRIGGERED_REASONS \<inter> set FETCHER_OPS_TRIGGERED_REASONS = {}"
  "set FETCHER_OPS_TRIGGERED_REASONS \<inter> set FETCHER_MAINTENANCE_TRIGGERED_REASONS = {}"
  "set FETCHER_APP_TRIGGERED_REASONS \<inter> set FETCHER_MAINTENANCE_TRIGGERED_REASONS = {}"
  by code_simp+

section \<open>The table\<close>

text \<open>Every text of the table fits the array it is copied into, and none is empty.\<close>

lemma hw_table_fits:
  "list_all (\<lambda>(ps, s, r, oth). length s < 128 \<and> length r < 128 \<and> length oth < 128 \<and> s \<noteq> [] \<and> r \<noteq> [] \<and> oth \<noteq> []) hw_table"
  by (simp add: hw_table_def)

lemma find_in_set: "find P xs = Some x \<Longrightarrow> x \<in> set xs \<and> P x"
  by (induction xs) (auto split: if_splits)

lemma map_hardware_fits:
  assumes "info_fits i" and "map_hardware_reason e hw i w = (j, v)"
  shows "info_fits j" and "hw \<noteq> [] \<Longrightarrow> source j \<noteq> [] \<and> reason j \<noteq> [] \<and> otherReason j \<noteq> []"
    and "customReason j = customReason i \<and> timestamp j = timestamp i"
proof -
  have row: "length s < 128 \<and> length r < 128 \<and> length oth < 128 \<and> s \<noteq> [] \<and> r \<noteq> [] \<and> oth \<noteq> []"
    if "find (row_matches hw) hw_table = Some (ps, s, r, oth)" for ps s r oth
    using hw_table_fits find_in_set [OF that] by (auto simp: list_all_iff)
  show "info_fits j" "hw \<noteq> [] \<Longrightarrow> source j \<noteq> [] \<and> reason j \<noteq> [] \<and> otherReason j \<noteq> []"
    "customReason j = customReason i \<and> timestamp j = timestamp i"
    using assms row
    by (auto simp: map_hardware_reason_def info_fits_def bufcpy_less split: option.splits)
      (simp_all add: bufcpy_def)
qed

lemma hw_custom_fits: "length (hw_custom r) < 128" "hw_custom r \<noteq> []"
  by (simp_all add: hw_custom_def bufcpy_less) (simp add: bufcpy_def HW_PREFIX_def)

lemma hard_power_fits: "info_fits i \<Longrightarrow> info_fits (hard_power i)"
  by (simp add: hard_power_def info_fits_def)

lemma classify_hardware_fits:
  assumes "info_fits i" and "mappedReason h \<noteq> []" and "classify_hardware e c h i w = (j, v)"
  shows "info_fits j" and "source j \<noteq> [] \<and> reason j \<noteq> [] \<and> customReason j \<noteq> [] \<and> timestamp j = timestamp i"
proof -
  obtain k u where m: "map_hardware_reason e (mappedReason h) i w = (k, u)" by fastforce
  note k = map_hardware_fits [OF assms(1) m]
  have "j = hard_power k \<or> (\<exists>r. j = k\<lparr>customReason := hw_custom r\<rparr>)"
    using assms(3) by (simp add: classify_hardware_def m Let_def split: if_splits) blast+
  then have "info_fits j \<and> source j \<noteq> [] \<and> reason j \<noteq> [] \<and> customReason j \<noteq> [] \<and> timestamp j = timestamp k"
  proof
    assume "j = hard_power k"
    then show ?thesis using hard_power_fits [OF k(1)] by (simp add: hard_power_def)
  next
    assume "\<exists>r. j = k\<lparr>customReason := hw_custom r\<rparr>"
    then show ?thesis using k(1,2) assms(2) hw_custom_fits by (auto simp: info_fits_def)
  qed
  then show "info_fits j" "source j \<noteq> [] \<and> reason j \<noteq> [] \<and> customReason j \<noteq> [] \<and> timestamp j = timestamp i"
    using k(3) by auto
qed

text \<open>The evidence by kind, in the order of precedence.\<close>

definition fw_hit :: "FirmwareFailure option \<Rightarrow> bool" where
  "fw_hit fw = (case fw of Some f \<Rightarrow> fw_detected f | None \<Rightarrow> False)"

definition panic_hit :: "PanicInfo option \<Rightarrow> bool" where
  "panic_hit pn = (case pn of Some p \<Rightarrow> pn_detected p | None \<Rightarrow> False)"

definition hw_hit :: "HardwareReason option \<Rightarrow> bool" where
  "hw_hit h = (case h of Some x \<Rightarrow> mappedReason x \<noteq> [] | None \<Rightarrow> False)"

definition custom_category :: "string \<Rightarrow> string" where
  "custom_category x = (if x = ''MAINTENANCE_REBOOT'' then ''MAINTENANCE_REBOOT''
     else if is_app_triggered (Some x) then ''APP_TRIGGERED''
     else if is_ops_triggered (Some x) then ''OPS_TRIGGERED''
     else if is_maintenance_triggered (Some x) then ''MAINTENANCE_REBOOT''
     else ''FIRMWARE_FAILURE'')"

lemma classify_firmware:
  "fw_hit fw \<Longrightarrow> classify_reboot_reason e (Some i) (Some c) hwr pn fw w =
     (SUCCESS, Some (i\<lparr>source := if initiator (the fw) \<noteq> [] then bufcpy 128 (initiator (the fw)) else ''FirmwareFailure'',
        reason := ''FIRMWARE_FAILURE'', customReason := [],
        otherReason := if fw_details (the fw) \<noteq> [] then bufcpy 128 (fw_details (the fw)) else otherReason i\<rparr>), w)"
  by (auto simp: classify_reboot_reason_def fw_hit_def Let_def split: option.splits)

lemma classify_custom:
  "\<not> fw_hit fw \<Longrightarrow> customReason i \<noteq> [] \<Longrightarrow> classify_reboot_reason e (Some i) (Some c) hwr pn fw w =
     (SUCCESS, Some (i\<lparr>reason := custom_category (customReason i),
        source := if custom_category (customReason i) = ''FIRMWARE_FAILURE'' \<and> source i = [] then ''Unknown'' else source i\<rparr>), w)"
  by (cases i) (simp add: classify_reboot_reason_def fw_hit_def custom_category_def Let_def split: option.splits)

lemma classify_panic:
  "\<not> fw_hit fw \<Longrightarrow> customReason i = [] \<Longrightarrow> panic_hit pn \<Longrightarrow> classify_reboot_reason e (Some i) (Some c) hwr pn fw w =
     (SUCCESS, Some (i\<lparr>source := ''Kernel'', reason := ''KERNEL_PANIC'', customReason := ''Hardware Register - KERNEL_PANIC'',
        otherReason := ''Reboot due to Kernel Panic captured by Oops Dump''\<rparr>), w)"
  by (auto simp: classify_reboot_reason_def fw_hit_def panic_hit_def Let_def split: option.splits)

lemma classify_register:
  "\<not> fw_hit fw \<Longrightarrow> customReason i = [] \<Longrightarrow> \<not> panic_hit pn \<Longrightarrow> hw_hit hwr \<Longrightarrow>
   classify_reboot_reason e (Some i) (Some c) hwr pn fw w =
     (SUCCESS, Some (fst (classify_hardware e c (the hwr) i w)), snd (classify_hardware e c (the hwr) i w))"
  by (auto simp: classify_reboot_reason_def fw_hit_def panic_hit_def hw_hit_def Let_def case_prod_beta split: option.splits)

lemma classify_nothing:
  "\<not> fw_hit fw \<Longrightarrow> customReason i = [] \<Longrightarrow> \<not> panic_hit pn \<Longrightarrow> \<not> hw_hit hwr \<Longrightarrow>
   classify_reboot_reason e (Some i) (Some c) hwr pn fw w =
     (if source i = [] then
        (SUCCESS, Some (i\<lparr>source := ''SoftwareReboot'', reason := ''SOFTWARE_MASTER_RESET'',
           customReason := ''SOFTWARE_MASTER_RESET'', otherReason := ''Reboot due to user triggered reboot command''\<rparr>),
         fetcher_t2CountNotify e ''Test_SWReset'' 1 w)
      else (SUCCESS, Some i, w))"
  by (auto simp: classify_reboot_reason_def fw_hit_def panic_hit_def hw_hit_def Let_def split: option.splits)

lemmas classify_cases = classify_firmware classify_custom classify_panic classify_register classify_nothing

lemma custom_category_fits: "length (custom_category x) < 128" "custom_category x \<noteq> []"
  by (simp_all add: custom_category_def)

lemma classify_fits:
  assumes "info_fits i"
  shows "\<exists>j v. classify_reboot_reason e (Some i) (Some c) hwr pn fw w = (SUCCESS, Some j, v) \<and> info_fits j \<and>
    timestamp j = timestamp i \<and> (source i = [] \<and> customReason i = [] \<longrightarrow> source j \<noteq> [] \<and> reason j \<noteq> [])"
proof -
  consider (fw) "fw_hit fw" | (custom) "\<not> fw_hit fw" "customReason i \<noteq> []"
    | (panic) "\<not> fw_hit fw" "customReason i = []" "panic_hit pn"
    | (hw) "\<not> fw_hit fw" "customReason i = []" "\<not> panic_hit pn" "hw_hit hwr"
    | (none) "\<not> fw_hit fw" "customReason i = []" "\<not> panic_hit pn" "\<not> hw_hit hwr"
    by blast
  then show ?thesis
  proof cases
    case fw
    have ne: "x \<noteq> [] \<Longrightarrow> bufcpy 128 x \<noteq> []" for x by (simp add: bufcpy_def)
    show ?thesis using assms ne by (simp add: classify_firmware [OF fw] info_fits_def bufcpy_less)
  next
    case custom
    then show ?thesis using assms custom_category_fits by (auto simp: classify_custom info_fits_def)
  next
    case panic
    then show ?thesis using assms by (simp add: classify_panic info_fits_def)
  next
    case hw
    obtain h where h: "hwr = Some h" "mappedReason h \<noteq> []" using hw(4) by (auto simp: hw_hit_def split: option.splits)
    obtain j v where jv: "classify_hardware e c h i w = (j, v)" by fastforce
    from classify_hardware_fits [OF assms h(2) jv] show ?thesis
      using hw h jv by (simp add: classify_register)
  next
    case none
    then show ?thesis using assms by (simp add: classify_nothing info_fits_def)
  qed
qed

section \<open>Properties\<close>

text \<open>
  C12. Classification is total and stays in bounds: for every combination of evidence, present or
  absent, the call succeeds, the copies never exceed the arrays of the record and the time stamp
  is kept; starting from a blank record, as the program does, a source and a reason are always
  given.
\<close>

theorem classify_total:
  assumes "info_fits i"
  shows "\<exists>j v. classify_reboot_reason e (Some i) (Some c) hwr pn fw w = (SUCCESS, Some j, v) \<and> info_fits j \<and>
    timestamp j = timestamp i \<and> (source i = [] \<and> customReason i = [] \<longrightarrow> source j \<noteq> [] \<and> reason j \<noteq> [])"
  using classify_fits [OF assms] by blast

theorem classify_total_witness:
  "\<exists>j v. classify_reboot_reason calm_env (Some zero_info) (Some zero_ctx) None None None empty_world = (SUCCESS, Some j, v) \<and>
     reason j \<noteq> []"
  using classify_total [of zero_info calm_env zero_ctx None None None empty_world]
  by (auto simp: info_fits_def zero_info_def)

definition pstore_src :: "string \<Rightarrow> path" where "pstore_src n = PSTORE_DIR @ ''/'' @ n"
definition pstore_dst :: "string \<Rightarrow> path" where "pstore_dst n = ''/opt/logs/'' @ n @ ''.log''"

definition copied :: "string \<Rightarrow> bool" where
  "copied n \<longleftrightarrow> (n = [] \<or> hd n \<noteq> CHR ''.'') \<and> length n < 240"

text \<open>A name that is long or hidden is skipped; any other is copied byte by byte.\<close>

lemma pstore_entry_unfold:
  "pstore_entry e n w = (if copied n then
     (case fopen_r e (pstore_src n) w of Inl _ \<Rightarrow> w
      | Inr bytes \<Rightarrow> (case fopen_w e (pstore_dst n) w of Inl _ \<Rightarrow> w
          | Inr w1 \<Rightarrow> fprints e (pstore_dst n) (chunks 4096 bytes) w1)) else w)"
proof (cases "copied n")
  case True
  have src: "bufcpy 256 (PSTORE_DIR @ ''/'' @ take (256 - length PSTORE_DIR - 2) n) = pstore_src n"
    using True by (simp add: pstore_src_def PSTORE_DIR_def copied_def)
  have dst: "bufcpy 256 (''/opt/logs/'' @ take (256 - length ''/opt/logs/'' - length ''.log'' - 1) n @ ''.log'') = pstore_dst n"
    using True by (simp add: pstore_dst_def copied_def)
  have nlen: "(if 255 < length n then 255 else length n) = length n" using True by (simp add: copied_def)
  have go: "\<not> (n \<noteq> [] \<and> hd n = CHR ''.'')" "\<not> 256 \<le> length PSTORE_DIR + 1 + length n + 1"
      "\<not> 256 \<le> length ''/opt/logs/'' + length n + length ''.log'' + 1"
    using True by (auto simp: copied_def PSTORE_DIR_def)
  show ?thesis
    unfolding pstore_entry_def nlen Let_def src dst by (simp only: go True if_False if_True)
next
  case False
  then show ?thesis by (auto simp: pstore_entry_def Let_def copied_def PSTORE_DIR_def)
qed

lemma pstore_entry_copies:
  assumes "copied n" and "writable e (pstore_dst n) w" and "readable e (pstore_src n)" and "content w (pstore_src n) = Some c"
  shows "content (pstore_entry e n w) (pstore_dst n) = Some c"
proof -
  have r: "fopen_r e (pstore_src n) w = Inr c"
    using assms(3) content_SomeD [OF assms(4)] by (simp add: fopen_r_def readable_def)
  have "fopen_w e (pstore_dst n) w = Inr (w\<lparr>fs := (fs w)(pstore_dst n := Some (Reg []))\<rparr>)"
    using assms(2) by (simp add: fopen_w_def writable_def)
  then show ?thesis
    using assms(1,2) r by (simp add: pstore_entry_unfold writable_def fprints_unlimited [where c = "[]"] concat_chunks)
qed

interpretation pstore_op: world_op "pstore_entry e n" "{pstore_dst n}" for e n
proof (rule world_opI)
  fix w q assume "q \<notin> {pstore_dst n}"
  then show "fs (pstore_entry e n w) q = fs w q"
    by (auto simp: pstore_entry_unfold fprints_op.frame fopen_w_def split: sum.split option.split)
next
  fix w show "prefix (trace w) (trace (pstore_entry e n w))"
    by (auto simp: pstore_entry_unfold fopen_w_def split: sum.split option.split)
qed

lemma pstore_dst_inj: "pstore_dst m = pstore_dst n \<longleftrightarrow> m = n"
  by (simp add: pstore_dst_def)

lemma pstore_src_dst: "pstore_src m \<noteq> pstore_dst n"
  by (simp add: pstore_src_def pstore_dst_def PSTORE_DIR_def)

lemma copy_all:
  assumes "distinct names" and "n \<in> set names" and "copied n" and "writable e (pstore_dst n) w"
    and "readable e (pstore_src n)" and "content w (pstore_src n) = Some c"
  shows "content (fold (pstore_entry e) names w) (pstore_dst n) = Some c"
  using assms
proof (induction names arbitrary: w)
  case Nil
  then show ?case by simp
next
  case (Cons m names)
  let ?v = "pstore_entry e m w"
  show ?case
  proof (cases "m = n")
    case True
    have "world_op (\<lambda>w. fold (pstore_entry e) names w) {p. \<exists>k \<in> set names. p = pstore_dst k}"
      by (rule world_op_fold, rule world_op_mono [OF pstore_op.world_op_axioms]) auto
    moreover have "pstore_dst n \<notin> {p. \<exists>k \<in> set names. p = pstore_dst k}"
      using Cons.prems(1) True by (auto simp: pstore_dst_inj)
    ultimately have "content (fold (pstore_entry e) names ?v) (pstore_dst n) = content ?v (pstore_dst n)"
      by (rule world_op.content_frame)
    then show ?thesis using pstore_entry_copies [OF Cons.prems(3-6)] True by simp
  next
    case False
    have same: "fs ?v (pstore_dst n) = fs w (pstore_dst n)" "content ?v (pstore_src n) = content w (pstore_src n)"
      using False pstore_src_dst by (auto intro!: pstore_op.frame pstore_op.content_frame simp: pstore_dst_inj)
    have "content (fold (pstore_entry e) names ?v) (pstore_dst n) = Some c"
      by (rule Cons.IH) (use Cons.prems False same in \<open>simp_all add: writable_def\<close>)
    then show ?thesis by simp
  qed
qed

text \<open>
  Panic logs survive the next boot: when the persistent store is copied, every entry that
  is not hidden and whose name is shorter than 240 characters is found, byte for byte, under
  \<^verbatim>\<open>/opt/logs\<close> with the suffix \<^verbatim>\<open>.log\<close>.
\<close>

lemma pstore_copied:
  assumes "opendir e PSTORE_DIR w = Some names" and "distinct names" and "n \<in> set names" and "copied n"
    and "writable e (pstore_dst n) w" and "readable e (pstore_src n)" and "content w (pstore_src n) = Some c"
  shows "content (copy_pstore_logs_to_opt e w) (pstore_dst n) = Some c"
  using copy_all [OF assms(2-7)] assms(1) by (simp add: copy_pstore_logs_to_opt_def)

lemma find_panic_Some:
  "find_panic ls = Some (s, l) \<Longrightarrow> s \<in> set panic_signatures \<and> l \<in> set ls \<and> sublist s l"
  by (induction ls) (auto split: option.splits simp: strstr_None_iff dest!: find_in_set)

lemma find_panic_None:
  "find_panic ls = None \<longleftrightarrow> (\<forall>l \<in> set ls. \<forall>s \<in> set panic_signatures. \<not> sublist s l)"
  by (induction ls) (auto split: option.splits simp: find_None_iff strstr_None_iff dest: find_in_set)

lemma search_panic_iff:
  "fst (search_panic_in_file e p q w) \<longleftrightarrow> (\<exists>bytes. fopen_r e p w = Inr bytes \<and>
     (\<exists>l \<in> set (fgets_lines 512 bytes). \<exists>s \<in> set panic_signatures. sublist s l))"
  by (auto simp: search_panic_in_file_def find_panic_None split: sum.split option.splits dest!: find_panic_Some)

lemma zero_panic_quiet [simp]: "\<not> pn_detected zero_panic"
  by (simp add: zero_panic_def)

lemma search_panic_detected: "pn_detected (snd (search_panic_in_file e p zero_panic w)) = fst (search_panic_in_file e p zero_panic w)"
  by (auto simp: search_panic_in_file_def zero_panic_def split: sum.split option.split)

text \<open>
  C37. A kernel panic is reported on sound evidence: on a Broadcom device exactly when the kernel
  log can be read, holds the oops marker, and has a line with a panic signature; the reported type
  is one of the signatures. Nothing but the report changes.
\<close>

theorem brcm_panic_evidence:
  assumes "soc c = ''BRCM''"
  shows "\<exists>p. detect_kernel_panic e (Some c) (Some p0) w = (SUCCESS, Some p, w) \<and>
    (pn_detected p \<longleftrightarrow> (\<exists>bytes. fopen_r e KERNEL_LOG_FILE w = Inr bytes \<and>
       (\<exists>l \<in> set (fgets_lines 512 bytes). sublist PREVIOUS_KERNEL_OOPS_DUMP l) \<and>
       (\<exists>l \<in> set (fgets_lines 512 bytes). \<exists>s \<in> set panic_signatures. sublist s l))) \<and>
    (pn_detected p \<longrightarrow> panicType p \<in> set panic_signatures)"
proof -
  have len: "s \<in> set panic_signatures \<Longrightarrow> bufcpy 128 s = s" for s by (auto simp: panic_signatures_def)
  have ty: "pn_detected (snd (search_panic_in_file e KERNEL_LOG_FILE zero_panic w)) \<Longrightarrow>
      panicType (snd (search_panic_in_file e KERNEL_LOG_FILE zero_panic w)) \<in> set panic_signatures"
    by (auto simp: search_panic_in_file_def zero_panic_def len split: sum.splits option.splits dest!: find_panic_Some)
  show ?thesis
    using assms ty search_panic_iff [of e KERNEL_LOG_FILE zero_panic w]
    by (auto simp: detect_kernel_panic_def search_panic_detected list_ex_iff strstr_None_iff
        split: sum.split if_splits)
qed

text \<open>A device whose kernel log holds the marker and a panic, and one without a log.\<close>

definition panic_log :: string where
  "panic_log = ''PREVIOUS_KERNEL_OOPS_DUMP'' @ [NL] @ ''Kernel panic - not syncing: VFS'' @ [NL]"

definition panic_world :: world where
  "panic_world = empty_world\<lparr>fs := (fs empty_world)(KERNEL_LOG_FILE := Some (Reg panic_log))\<rparr>"

lemma panic_log_evidence:
  "\<exists>l \<in> set (fgets_lines 512 panic_log). sublist PREVIOUS_KERNEL_OOPS_DUMP l"
  "\<exists>l \<in> set (fgets_lines 512 panic_log). \<exists>s \<in> set panic_signatures. sublist s l"
  by code_simp+

theorem brcm_panic_evidence_witness:
  "(\<exists>p. detect_kernel_panic calm_env (Some (zero_ctx\<lparr>soc := ''BRCM''\<rparr>)) (Some zero_panic) panic_world = (SUCCESS, Some p, panic_world) \<and>
     pn_detected p \<and> panicType p \<in> set panic_signatures) \<and>
   (\<exists>p. detect_kernel_panic calm_env (Some (zero_ctx\<lparr>soc := ''BRCM''\<rparr>)) (Some zero_panic) empty_world = (SUCCESS, Some p, empty_world) \<and>
     \<not> pn_detected p)"
proof
  have "fopen_r calm_env KERNEL_LOG_FILE panic_world = Inr panic_log" by (simp add: fopen_r_def calm_env_def panic_world_def)
  then show "\<exists>p. detect_kernel_panic calm_env (Some (zero_ctx\<lparr>soc := ''BRCM''\<rparr>)) (Some zero_panic) panic_world = (SUCCESS, Some p, panic_world) \<and>
      pn_detected p \<and> panicType p \<in> set panic_signatures"
    using brcm_panic_evidence [of "zero_ctx\<lparr>soc := ''BRCM''\<rparr>" calm_env zero_panic panic_world] panic_log_evidence
    by auto
  show "\<exists>p. detect_kernel_panic calm_env (Some (zero_ctx\<lparr>soc := ''BRCM''\<rparr>)) (Some zero_panic) empty_world = (SUCCESS, Some p, empty_world) \<and>
      \<not> pn_detected p"
    using brcm_panic_evidence [of "zero_ctx\<lparr>soc := ''BRCM''\<rparr>" calm_env zero_panic empty_world]
    by (auto simp: fopen_r_def calm_env_def empty_world_def)
qed

lemma find_before: "find P xs = Some y \<Longrightarrow> i < length xs \<Longrightarrow> P (xs ! i) \<Longrightarrow> y \<in> set (take (Suc i) xs)"
proof (induction xs arbitrary: i)
  case (Cons x xs)
  then show ?case by (cases i) (auto split: if_splits)
qed simp

text \<open>A row behind a row that catches all of its patterns is never reached.\<close>

lemma row_shadowed:
  assumes "find (row_matches hw) hw_table = Some (ps, s, r, oth)" and "i < length hw_table"
    and "\<And>p. p \<in> set ps \<Longrightarrow> \<exists>q \<in> set (fst (hw_table ! i)). sublist q p"
  shows "(ps, s, r, oth) \<in> set (take (Suc i) hw_table)"
proof -
  obtain p where p: "p \<in> set ps" "sublist p hw"
    using find_in_set [OF assms(1)] by (auto simp: row_matches_def list_ex_iff strstr_None_iff)
  with assms(3) obtain q where "q \<in> set (fst (hw_table ! i))" "sublist q p" by blast
  with p have "row_matches hw (hw_table ! i)"
    by (auto simp: row_matches_def list_ex_iff strstr_None_iff intro: sublist_order.order.trans)
  then show ?thesis by (rule find_before [OF assms(1,2)])
qed

lemma hw_table_rows:
  "hw_table ! Suc 0 = ([''WATCHDOG''], ''WatchDog'', ''WATCHDOG_TIMER_RESET'', ''Reboot due to watch dog timer reset'')"
  "hw_table ! 15 = ([''CPU_EJTAG_RESET''], ''CPU EJTAG'', ''CPU_EJTAG_RESET'', ''Reboot due to CPU EJTAG reset has occurred'')"
  "length hw_table = 21"
  by (simp_all add: hw_table_def)

lemma hw_table_order:
  "list_all (\<lambda>(ps, s, r, oth). r \<noteq> ''GEN_WATCHDOG_RESET'') (take (Suc 1) hw_table)"
  "list_all (\<lambda>(ps, s, r, oth). r \<noteq> ''SCPU_EJTAG_RESET'') (take (Suc 15) hw_table)"
  "list_all (\<lambda>(ps, s, r, oth). r = ''GEN_WATCHDOG_RESET'' \<longrightarrow> ps = [''GEN_WATCHDOG_1_RESET'', ''GEN_WATCHDOG_RESET'']) hw_table"
  "list_all (\<lambda>(ps, s, r, oth). r = ''SCPU_EJTAG_RESET'' \<longrightarrow> ps = [''SCPU_EJTAG_RESET'']) hw_table"
  by (simp_all add: hw_table_def)

lemma watchdog_inside:
  "sublist ''WATCHDOG'' ''GEN_WATCHDOG_1_RESET''" "sublist ''WATCHDOG'' ''GEN_WATCHDOG_RESET''"
  "sublist ''CPU_EJTAG_RESET'' ''SCPU_EJTAG_RESET''"
  by code_simp+

lemma row_never_odd:
  assumes f: "find (row_matches hw) hw_table = Some (ps, s, r, oth)"
  shows "r \<noteq> ''GEN_WATCHDOG_RESET''" and "r \<noteq> ''SCPU_EJTAG_RESET''"
proof -
  have m: "(ps, s, r, oth) \<in> set hw_table" using find_in_set [OF f] by simp
  show "r \<noteq> ''GEN_WATCHDOG_RESET''"
  proof
    assume r: "r = ''GEN_WATCHDOG_RESET''"
    then have "ps = [''GEN_WATCHDOG_1_RESET'', ''GEN_WATCHDOG_RESET'']"
      using m hw_table_order(3) by (auto simp: list_all_iff)
    then have "(ps, s, r, oth) \<in> set (take (Suc 1) hw_table)"
      using row_shadowed [OF f, of 1] watchdog_inside by (auto simp: hw_table_rows)
    then show False using hw_table_order(1) r by (auto simp: list_all_iff)
  qed
  show "r \<noteq> ''SCPU_EJTAG_RESET''"
  proof
    assume r: "r = ''SCPU_EJTAG_RESET''"
    then have "ps = [''SCPU_EJTAG_RESET'']"
      using m hw_table_order(4) by (auto simp: list_all_iff)
    then have "(ps, s, r, oth) \<in> set (take (Suc 15) hw_table)"
      using row_shadowed [OF f, of 15] watchdog_inside by (auto simp: hw_table_rows)
    then show False using hw_table_order(2) r by (auto simp: list_all_iff)
  qed
qed

lemma bufcpy_short: "bufcpy n s = t \<Longrightarrow> length t < n - 1 \<Longrightarrow> s = t"
  by (auto simp: bufcpy_def min_def split: if_splits)

lemma self_row:
  "find (row_matches ''SCPU_EJTAG_RESET'') hw_table \<noteq> None" "find (row_matches ''GEN_WATCHDOG_RESET'') hw_table \<noteq> None"
proof -
  have m: "find P xs \<noteq> None" if "i < length xs" "P (xs ! i)" for P and xs :: "'z list" and i
    using that by (meson find_None_iff nth_mem)
  show "find (row_matches ''SCPU_EJTAG_RESET'') hw_table \<noteq> None"
    by (rule m [of 15]) (use watchdog_inside in \<open>simp_all add: hw_table_rows row_matches_def strstr_None_iff\<close>)
  show "find (row_matches ''GEN_WATCHDOG_RESET'') hw_table \<noteq> None"
    by (rule m [of 1]) (use watchdog_inside in \<open>simp_all add: hw_table_rows row_matches_def strstr_None_iff\<close>)
qed

text \<open>
  C39. Two branches of the register cascade can never be taken: no register text whatever is
  reported as \<^verbatim>\<open>GEN_WATCHDOG_RESET\<close> or \<^verbatim>\<open>SCPU_EJTAG_RESET\<close>, because the earlier tests for
  \<^verbatim>\<open>WATCHDOG\<close> and \<^verbatim>\<open>CPU_EJTAG_RESET\<close> catch every text that holds those names.
\<close>

theorem unreachable_register_reasons:
  "reason (fst (map_hardware_reason e hw i w)) \<notin> {''GEN_WATCHDOG_RESET'', ''SCPU_EJTAG_RESET''}"
proof (cases "find (row_matches hw) hw_table")
  case None
  have "bufcpy 128 hw \<noteq> ''GEN_WATCHDOG_RESET''" "bufcpy 128 hw \<noteq> ''SCPU_EJTAG_RESET''"
    using bufcpy_short [of 128 hw] self_row None by fastforce+
  with None show ?thesis by (simp add: map_hardware_reason_def)
next
  case (Some row)
  then obtain ps s r oth where "find (row_matches hw) hw_table = Some (ps, s, r, oth)" by (cases row) auto
  with row_never_odd [OF this] show ?thesis by (simp add: map_hardware_reason_def)
qed

lemma canonical_rows:
  "list_all (\<lambda>(ps, s, r, oth). r \<in> {''SCPU_EJTAG_RESET'', ''GEN_WATCHDOG_RESET''} \<or> find (row_matches r) hw_table = Some (ps, s, r, oth)) hw_table"
  by code_simp

text \<open>
  C38. The register reasons are canonical: every reason the cascade can report, fed back as a
  register text, is reported as itself with the same source and explanation.
\<close>

theorem register_reasons_canonical:
  assumes "map_hardware_reason e hw i w = (j, v)" and "find (row_matches hw) hw_table \<noteq> None"
  shows "\<exists>u. map_hardware_reason e (reason j) i w = (j, u)"
proof -
  obtain ps s r oth where f: "find (row_matches hw) hw_table = Some (ps, s, r, oth)"
    using assms(2) by (metis not_Some_eq prod_cases4)
  then have "find (row_matches r) hw_table = Some (ps, s, r, oth)"
    using canonical_rows find_in_set [OF f] row_never_odd [OF f] by (fastforce simp: list_all_iff)
  then show ?thesis using assms(1) f by (auto simp: map_hardware_reason_def)
qed

theorem register_reasons_canonical_witness:
  "\<exists>u. map_hardware_reason calm_env ''MPM_RESET'' zero_info empty_world =
     (fst (map_hardware_reason calm_env ''MPM_RESET,X'' zero_info empty_world), u)"
proof -
  have f: "find (row_matches ''MPM_RESET,X'') hw_table = Some ([''MPM_RESET''], ''MPM'', ''MPM_RESET'', ''Reboot due to the MPM reset has occurred'')"
    by code_simp
  have "reason (fst (map_hardware_reason calm_env ''MPM_RESET,X'' zero_info empty_world)) = ''MPM_RESET''"
    by (simp add: map_hardware_reason_def f)
  with register_reasons_canonical [OF prod.collapse [symmetric], of "''MPM_RESET,X''" calm_env zero_info empty_world] f
  show ?thesis by simp
qed

lemma unknown_no_row: "find (row_matches ''UNKNOWN'') hw_table = None"
  by code_simp

text \<open>A boot without evidence is a hard power reset, on every platform.\<close>

lemma no_evidence_hard_power:
  assumes "\<not> fw_hit fw" and "\<not> panic_hit pn" and "\<not> (soc c = ''BRCM'' \<and> access_r_ok e BRCM_REBOOT_FILE w)"
    and "get_hardware_reason e (Some c) (Some h0) (Some i) w = (rc, hwr, j)" and "customReason i = []"
  shows "classify_reboot_reason e (Some i) (Some c) hwr pn fw w = (SUCCESS, Some (hard_power i), w)"
proof -
  have hwr: "hwr = Some \<lparr>rawReason = [], mappedReason = ''UNKNOWN''\<rparr>"
    using assms(3,4)
    by (auto simp: get_hardware_reason_def read_brcm_previous_reboot_reason_def zero_hw_def Let_def split: if_splits prod.splits)
  have "classify_hardware e c \<lparr>rawReason = [], mappedReason = ''UNKNOWN''\<rparr> i w = (hard_power i, w)"
    by (simp add: classify_hardware_def map_hardware_reason_def unknown_no_row hard_power_def)
  then show ?thesis
    using assms by (simp add: hwr classify_register hw_hit_def)
qed

text \<open>
  Firmware failures are found where the platform keeps its logs: on a media client the
  reboot counter of the user interface manager alone decides, on any other device that of the
  tuner stack or a modem crash; the modem crash takes over the initiator but keeps the details of
  an exhausted reboot counter, and every text fits its array.
\<close>

lemma firmware_failure_evidence:
  "\<exists>f v. check_firmware_failure e (Some c) (Some f0) w = (SUCCESS, Some f, v) \<and> fs v = fs w \<and>
     (let media = prefix ''mediaclient'' (device_type c);
          many = search_string_in_file e (if media then UIMGR_LOG_FILE else OCAPRI_LOG_FILE) MAX_REBOOT_STRING w;
          ecm = \<not> media \<and> search_string_in_file e ECM_CRASH_LOG_FILE ECM_CRASH_STRING w
      in (fw_detected f \<longleftrightarrow> many \<or> ecm) \<and>
         initiator f = (if ecm then ''EcmLogger'' else if many then (if media then ''UiMgr'' else ''OcapRI'') else []) \<and>
         fw_details f = (if many then (if media then ''UiMgr'' else ''OcapRI'') @ '': Reboot due to STB reached maximum (10) reboots''
           else if ecm then ''EcmLogger: ECM crash detected'' else []) \<and>
         length (fw_details f) < 128 \<and> length (initiator f) < 128)"
proof -
  have cong: "search_string_in_file e p s (fetcher_t2CountNotify e m v w) = search_string_in_file e p s w" for p s m v
    using fopen_r_cong [of "fetcher_t2CountNotify e m v w" p w e] by (simp add: search_string_in_file_def fetcher_t2CountNotify_def)
  show ?thesis
    by (simp add: check_firmware_failure_def zero_fw_def Let_def cong) (simp add: fetcher_t2CountNotify_def)
qed

end
