(* ===== verification/ParodusLog.thy ===== *)
theory ParodusLog
  imports RebootJson
begin

text \<open>
  \<^verbatim>\<open>reboot-reason-fetcher/src/parodus_log_update.c\<close>: the hand-over of the previous reboot to the
  parodus service (the log line and the file it reads), the note for Realtek devices, and the
  copy of the last key press.
\<close>

section \<open>Definitions\<close>

definition get_timestamp_string :: "env \<Rightarrow> nat \<Rightarrow> world \<Rightarrow> string \<times> world" where
  "get_timestamp_string e sz w = (let (tms, w1) = utc_now e w in (bufcpy sz (iso8601_ms tms), w1))"

definition append_kernel_reason :: "env \<Rightarrow> EnvContext option \<Rightarrow> RebootInfo option \<Rightarrow> world \<Rightarrow> int \<times> world" where
  "append_kernel_reason e ctx info w = (case (ctx, info) of
       (Some c, Some i) \<Rightarrow>
         if soc c \<noteq> ''RTK'' \<and> soc c \<noteq> ''REALTEK'' then (SUCCESS, w)
         else (let kernel_reset_reason = map tolower (bufcpy 128 (reason i));
                   (ts, w) = get_timestamp_string e 64 w
               in case append_file e KERNEL_REASON_LOG [ts @ '': Kernel reboot reason: '' @ kernel_reset_reason @ [NL]] w of
                    (Some _, w1) \<Rightarrow> (ERROR_GENERAL, w1) | (None, w1) \<Rightarrow> (SUCCESS, w1))
     | _ \<Rightarrow> (ERROR_GENERAL, w))"

definition UPDATE_NAME :: string where "UPDATE_NAME = ''update_previous_reboot_info''"

definition update_parodus_log :: "env \<Rightarrow> RebootInfo option \<Rightarrow> world \<Rightarrow> int \<times> world" where
  "update_parodus_log e info w = (case info of None \<Rightarrow> (ERROR_GENERAL, w)
     | Some i \<Rightarrow>
         (let (ts, w) = get_timestamp_string e 64 w
          in case append_file e PARODUS_LOG
               [ts @ '' '' @ UPDATE_NAME @ '': Updating previous reboot info to Parodus'' @ [NL],
                ts @ '' '' @ UPDATE_NAME @ '': PreviousRebootInfo:'' @ timestamp i @ '','' @ reason i @ '','' @
                  customReason i @ '','' @ source i @ [NL]] w of
               (Some _, w1) \<Rightarrow> (ERROR_GENERAL, w1) | (None, w1) \<Rightarrow> (SUCCESS, w1)))"

definition handle_parodus_reboot_file :: "env \<Rightarrow> RebootInfo option \<Rightarrow> path option \<Rightarrow> world \<Rightarrow> int \<times> world" where
  "handle_parodus_reboot_file e info destPath w = (case (info, destPath) of
       (Some i, Some dest) \<Rightarrow>
         (case fopen_r e PARODUS_REBOOT_INFO_FILE w of
            Inr bytes \<Rightarrow>
              (let buf = cstr (take (512 - 1) bytes) in
               case fopen_w e dest w of Inl _ \<Rightarrow> (ERROR_GENERAL, w)
               | Inr w1 \<Rightarrow>
                   (let w = fprints e dest ([buf] @ (if buf \<noteq> [] \<and> last buf \<noteq> NL then [[NL]] else [])) w1;
                        (ts, w) = get_timestamp_string e 64 w;
                        w = snd (append_file e PARODUS_LOG
                              [ts @ '' '' @ UPDATE_NAME @ '': Updating previous reboot info to Parodus'' @ [NL],
                               ts @ '' '' @ UPDATE_NAME @ '': '' @ buf @ [NL]] w);
                        w = snd (unlink e PARODUS_REBOOT_INFO_FILE w)
                    in (SUCCESS, w)))
          | Inl er \<Rightarrow>
              if er \<noteq> ENOENT then (ERROR_GENERAL, w)
              else if reason i = [] \<and> customReason i = [] \<and> source i = [] then (SUCCESS, w)
              else (case write_file e dest [''PreviousRebootInfo:'' @ timestamp i @ '','' @ reason i @ '','' @
                      customReason i @ '','' @ source i @ [NL]] w of
                      (Some _, w1) \<Rightarrow> (ERROR_GENERAL, w1) | (None, w1) \<Rightarrow> (SUCCESS, w1)))
     | _ \<Rightarrow> (ERROR_GENERAL, w))"

text \<open>A directory can be opened for reading, but the first \<open>read\<close> of it fails.\<close>

definition copy_keypress_info :: "env \<Rightarrow> path option \<Rightarrow> path option \<Rightarrow> world \<Rightarrow> int \<times> world" where
  "copy_keypress_info e srcPath destPath w = (case (srcPath, destPath) of
       (Some src, Some dest) \<Rightarrow>
         (case fopen_r e src w of
            Inl er \<Rightarrow> if er = ENOENT then (SUCCESS, w) else (ERROR_GENERAL, w)
          | Inr bytes \<Rightarrow>
              (case fopen_w e dest w of Inl _ \<Rightarrow> (ERROR_GENERAL, w)
               | Inr w1 \<Rightarrow>
                   (let (written, w2) = copy_chunks e dest 4096 (if src = dest then [] else bytes) w1;
                        ret = (if written then SUCCESS else ERROR_GENERAL);
                        ret = (if is_dir src w then ERROR_GENERAL else ret)
                    in (ret, w2))))
     | _ \<Rightarrow> (ERROR_GENERAL, w))"

section \<open>Frames\<close>

lemma get_timestamp_simps [simp]:
  "fs (snd (get_timestamp_string e n w)) = fs w" "trace (snd (get_timestamp_string e n w)) = trace w"
  "g_lock_fd (snd (get_timestamp_string e n w)) = g_lock_fd w"
  by (simp_all add: get_timestamp_string_def utc_now_def)

interpretation parodus_log_op: world_op "\<lambda>w. snd (update_parodus_log e (Some i) w)" "{PARODUS_LOG}" for e i
proof unfold_locales
  fix w q assume q: "q \<notin> {PARODUS_LOG}"
  have "fs (snd (append_file e PARODUS_LOG ss v)) q = fs v q" for ss v using q by (rule append_op.frame)
  then show "fs (snd (update_parodus_log e (Some i) w)) q = fs w q"
    by (simp add: update_parodus_log_def case_prod_beta Let_def split: option.split)
qed (simp add: update_parodus_log_def case_prod_beta Let_def split: option.split)

definition parodus_files :: "path \<Rightarrow> path set" where
  "parodus_files dest = {dest, PARODUS_LOG, PARODUS_REBOOT_INFO_FILE}"

interpretation parodus_file_op: world_op "\<lambda>w. snd (handle_parodus_reboot_file e (Some i) (Some dest) w)" "parodus_files dest"
  for e i dest
proof unfold_locales
  fix w q assume q: "q \<notin> parodus_files dest"
  have "fs (snd (write_file e dest ss v)) q = fs v q" "fs (snd (append_file e PARODUS_LOG ss v)) q = fs v q"
      "fs (snd (unlink e PARODUS_REBOOT_INFO_FILE v)) q = fs v q" "fs (fprints e dest ss v) q = fs v q" for ss v
    using q by (simp_all add: parodus_files_def write_op.frame append_op.frame unlink_op.frame fprints_op.frame)
  then show "fs (snd (handle_parodus_reboot_file e (Some i) (Some dest) w)) q = fs w q"
    using q by (auto simp: handle_parodus_reboot_file_def case_prod_beta Let_def parodus_files_def 
        split: option.split sum.split dest!: fopen_w_Inr)
next
  fix w show "prefix (trace w) (trace (snd (handle_parodus_reboot_file e (Some i) (Some dest) w)))"
    by (auto simp: handle_parodus_reboot_file_def case_prod_beta Let_def split: option.split sum.split dest!: fopen_w_Inr)
qed

interpretation keypress_op: world_op "\<lambda>w. snd (copy_keypress_info e (Some src) (Some dest) w)" "{dest}" for e src dest
proof unfold_locales
  fix w q assume "q \<notin> {dest}"
  then show "fs (snd (copy_keypress_info e (Some src) (Some dest) w)) q = fs w q"
    by (auto simp: copy_keypress_info_def Let_def split: sum.split prod.split dest!: fopen_w_Inr copy_chunks_frame)
next
  fix w show "prefix (trace w) (trace (snd (copy_keypress_info e (Some src) (Some dest) w)))"
    by (auto simp: copy_keypress_info_def Let_def split: sum.split prod.split dest!: fopen_w_Inr copy_chunks_frame)
qed

section \<open>Properties\<close>

text \<open>The file of the service, without and with its final newline.\<close>

definition handed_line :: "string \<Rightarrow> string" where
  "handed_line buf = (if buf = [] \<or> last buf = NL then buf else buf @ [NL])"

lemma handover_line:
  assumes "writable e dest w" and "writable e PARODUS_LOG w" and "writable e PARODUS_REBOOT_INFO_FILE w"
    and "readable e PARODUS_REBOOT_INFO_FILE" and "dest \<noteq> PARODUS_LOG" and "dest \<noteq> PARODUS_REBOOT_INFO_FILE"
    and Some: "content w PARODUS_REBOOT_INFO_FILE = Some bytes" and "handle_parodus_reboot_file e (Some i) (Some dest) w = (rc, v)"
  shows "rc = SUCCESS \<and> content v dest = Some (handed_line (cstr (take 511 bytes))) \<and> content v PARODUS_REBOOT_INFO_FILE = None \<and>
    (\<exists>ts. content v PARODUS_LOG = Some ((case content w PARODUS_LOG of None \<Rightarrow> [] | Some l \<Rightarrow> l) @
       ts @ '' update_previous_reboot_info: Updating previous reboot info to Parodus'' @ [NL] @
       ts @ '' update_previous_reboot_info: '' @ cstr (take 511 bytes) @ [NL]))"
proof -
  define buf where "buf = cstr (take 511 bytes)"
  define out where "out = handed_line buf"
  define w2 where "w2 = w\<lparr>fs := (fs w)(dest := Some (Reg out))\<rparr>"
  define ts where "ts = fst (get_timestamp_string e 64 w2)"
  define w3 where "w3 = snd (get_timestamp_string e 64 w2)"
  define ls where "ls = [ts @ '' '' @ UPDATE_NAME @ '': Updating previous reboot info to Parodus'' @ [NL],
                               ts @ '' '' @ UPDATE_NAME @ '': '' @ buf @ [NL]]"
  have r: "fopen_r e PARODUS_REBOOT_INFO_FILE w = Inr bytes"
    using Some assms(4) by (simp add: fopen_r_def readable_def content_SomeD)
  have o: "fopen_w e dest w = Inr (w\<lparr>fs := (fs w)(dest := Some (Reg []))\<rparr>)"
    using assms(1) by (simp add: fopen_w_def writable_def)
  have p: "fprints e dest ([buf] @ (if buf \<noteq> [] \<and> last buf \<noteq> NL then [[NL]] else [])) (w\<lparr>fs := (fs w)(dest := Some (Reg []))\<rparr>) = w2"
    using assms(1) by (simp add: fprints_unlimited [where c = "[]"] writable_def w2_def out_def handed_line_def)
  have f3: "fs w3 = (fs w)(dest := Some (Reg out))" by (simp add: w3_def w2_def)
  have wl: "writable e PARODUS_LOG w3" "writable e PARODUS_REBOOT_INFO_FILE (snd (append_file e PARODUS_LOG ls w3))"
    using assms(2,3,5,6) f3 append_op.frame [of PARODUS_REBOOT_INFO_FILE PARODUS_LOG e ls w3]
    by (simp_all add: writable_def)
  have res: "handle_parodus_reboot_file e (Some i) (Some dest) w =
      (SUCCESS, snd (unlink e PARODUS_REBOOT_INFO_FILE (snd (append_file e PARODUS_LOG ls w3))))"
    using r o p
    by (simp add: handle_parodus_reboot_file_def Let_def case_prod_beta buf_def [symmetric] w3_def ts_def ls_def)
  have c: "content w3 PARODUS_LOG = content w PARODUS_LOG" using assms(5) by (simp add: content_def f3)
  have v: "v = snd (unlink e PARODUS_REBOOT_INFO_FILE (snd (append_file e PARODUS_LOG ls w3)))" "rc = SUCCESS"
    using res assms(8) by simp_all
  have "content v dest = Some out" "content v PARODUS_REBOOT_INFO_FILE = None"
    "content v PARODUS_LOG = Some ((case content w PARODUS_LOG of None \<Rightarrow> [] | Some l \<Rightarrow> l) @ concat ls)"
    using wl assms(5,6) c by (simp_all add: v store.rd_rm store.rd_app content_def [of w3 dest] f3 split: option.split)
  then show ?thesis
    using v(2) by (auto simp: buf_def [symmetric] out_def ls_def UPDATE_NAME_def)
qed

text \<open>
  The hand-over to parodus: when rebootnow left its line, the service's file receives it,
  cut to the 511 bytes of the buffer and ended by a newline, the hand-over is noted in the log,
  and the line is consumed; when there is none, the file receives the line of the record at
  hand, unless the record is blank, in which case nothing changes.
\<close>

lemma parodus_handover:
  assumes "writable e dest w" and "writable e PARODUS_LOG w" and "writable e PARODUS_REBOOT_INFO_FILE w"
    and "readable e PARODUS_REBOOT_INFO_FILE" and "dest \<noteq> PARODUS_LOG" and "dest \<noteq> PARODUS_REBOOT_INFO_FILE"
    and "handle_parodus_reboot_file e (Some i) (Some dest) w = (rc, v)"
  shows "rc = SUCCESS \<and> (case content w PARODUS_REBOOT_INFO_FILE of
      Some bytes \<Rightarrow>
        (let buf = cstr (take 511 bytes) in
         content v dest = Some (if buf = [] \<or> last buf = NL then buf else buf @ [NL]) \<and>
         content v PARODUS_REBOOT_INFO_FILE = None \<and>
         (\<exists>ts. content v PARODUS_LOG = Some ((case content w PARODUS_LOG of None \<Rightarrow> [] | Some l \<Rightarrow> l) @
            ts @ '' update_previous_reboot_info: Updating previous reboot info to Parodus'' @ [NL] @
            ts @ '' update_previous_reboot_info: '' @ buf @ [NL])))
    | None \<Rightarrow>
        if reason i = [] \<and> customReason i = [] \<and> source i = [] then v = w
        else content v dest = Some (''PreviousRebootInfo:'' @ timestamp i @ '','' @ reason i @ '','' @ customReason i @
               '','' @ source i @ [NL]) \<and> content v PARODUS_LOG = content w PARODUS_LOG)"
proof (cases "content w PARODUS_REBOOT_INFO_FILE")
  case None
  then have "fopen_r e PARODUS_REBOOT_INFO_FILE w = Inl ENOENT"
    using assms(3,4) by (auto simp: fopen_r_def readable_def content_def writable_def split: option.splits node.splits)
  then show ?thesis
    using None assms(1,5,7) by (auto simp: handle_parodus_reboot_file_def write_file_writable split: if_splits)
next
  case (Some bytes)
  with handover_line [OF assms(1-6) Some assms(7)] show ?thesis
    by (simp add: Let_def handed_line_def)
qed

text \<open>The copy between two files that can be opened.\<close>

lemma keypress_run:
  assumes "src \<noteq> dest" and "content w src = Some c" and "readable e src" and "open_w_err e dest = None" and "fs w dest \<noteq> Some Dir"
  shows "copy_keypress_info e (Some src) (Some dest) w =
    (if c = [] \<or> size_max e dest = None \<or> length c \<le> the (size_max e dest) then SUCCESS else ERROR_GENERAL,
     w\<lparr>fs := (fs w)(dest := Some (Reg (case size_max e dest of None \<Rightarrow> c | Some k \<Rightarrow> take k c)))\<rparr>)"
proof -
  let ?w = "w\<lparr>fs := (fs w)(dest := Some (Reg []))\<rparr>"
  have "\<not> is_dir src w" using assms(2) by (auto simp: is_dir_def content_def)
  moreover have "fopen_r e src w = Inr c" "fopen_w e dest w = Inr ?w"
    using assms by (auto simp: fopen_r_def fopen_w_def readable_def dest!: content_SomeD)
  ultimately have e: "copy_keypress_info e (Some src) (Some dest) w =
      (case copy_chunks e dest 4096 c ?w of (ok, w2) \<Rightarrow> (if ok then SUCCESS else ERROR_GENERAL, w2))"
    using assms(1) by (simp add: copy_keypress_info_def Let_def split: prod.split)
  show ?thesis
  proof (cases "c = []")
    case True
    then show ?thesis using e by (simp split: option.split)
  next
    case False
    then have "copy_chunks e dest 4096 c ?w = fputs e dest c ?w" by (intro copy_chunks_eq) simp_all
    then show ?thesis using e False by (simp add: fputs_def split: option.split)
  qed
qed

text \<open>
  The key press file is copied exactly or the call says so: when the source can be read and
  the target created, the call succeeds exactly when the whole file was written, and then the
  target holds the same bytes; a missing source is no error and changes nothing; an unreadable
  source or target is an error and changes nothing.
\<close>

lemma keypress_copied:
  assumes "src \<noteq> dest" and "copy_keypress_info e (Some src) (Some dest) w = (rc, v)"
  shows "(content w src = Some c \<and> readable e src \<and> open_w_err e dest = None \<and> fs w dest \<noteq> Some Dir \<longrightarrow>
      (rc = SUCCESS \<longleftrightarrow> c = [] \<or> size_max e dest = None \<or> length c \<le> the (size_max e dest)) \<and>
      (rc = SUCCESS \<longrightarrow> content v dest = Some c)) \<and>
    (fs w src = None \<and> readable e src \<longrightarrow> rc = SUCCESS \<and> v = w) \<and>
    (open_r_err e src \<noteq> None \<and> open_r_err e src \<noteq> Some ENOENT \<longrightarrow> rc = ERROR_GENERAL \<and> v = w) \<and>
    (open_w_err e dest \<noteq> None \<and> fs w src \<noteq> None \<and> readable e src \<longrightarrow> rc = ERROR_GENERAL \<and> v = w)"
proof -
  have ok: "ERROR_GENERAL \<noteq> SUCCESS" by simp
  show ?thesis
    using assms(2) keypress_run [OF assms(1), of w c e] ok
    by (auto simp: fopen_r_def fopen_w_def readable_def split: option.splits if_splits)
      (auto simp: copy_keypress_info_def fopen_r_def fopen_w_def readable_def split: option.splits node.splits)
qed

end
