(* ===== verification/BootupChecker.thy ===== *)
theory BootupChecker
  imports RebootJson
begin

text \<open>
  \<^verbatim>\<open>reboot-reason-fetcher/src/bootup_reason_checker.c\<close>: where the log of the previous boot is, how
  the older text format is parsed, and the five \<open>Previous...\<close> lines this program leaves in
  \<^verbatim>\<open>rebootInfo.log\<close> for the rest of the system.
\<close>

section \<open>Values of the record\<close>

definition fetcher_extract_json_value :: "string option \<Rightarrow> string option \<Rightarrow> string \<Rightarrow> nat \<Rightarrow> int \<times> string" where
  "fetcher_extract_json_value buf key out outsz = (case (buf, key) of
       (Some b, Some k) \<Rightarrow>
         if outsz = 0 then (-1, out)
         else (let pattern = bufcpy 128 ([DQ] @ k @ [DQ, CHR '':'', DQ]) in
           (case strstr b pattern of None \<Rightarrow> (-1, out)
            | Some p \<Rightarrow> (let p = drop (length pattern) p in
                (case strchr p DQ of None \<Rightarrow> (-1, out)
                 | Some q \<Rightarrow> (let len = length p - length q;
                                  len = (if outsz \<le> len then outsz - 1 else len)
                              in (0, take len p))))))
     | _ \<Rightarrow> (-1, out))"

lemma fetcher_extract_eq: "fetcher_extract_json_value = extract_json_value"
  by (intro ext) (simp add: fetcher_extract_json_value_def extract_json_value_def)

section \<open>The log of the previous boot\<close>

definition logfile_path_check :: "nat \<Rightarrow> string option \<Rightarrow> string option \<Rightarrow> string option" where
  "logfile_path_check dst_len left right = (case (left, right) of
       (Some l, Some r) \<Rightarrow>
         if dst_len = 0 then None
         else if dst_len < length l + 1 + length r + 1 then None
         else Some (l @ ''/'' @ r)
     | _ \<Rightarrow> None)"

text \<open>
  The walk over the sub-directories: the log beside the first \<^verbatim>\<open>last_reboot\<close> marker, if it is
  there; a marker without a log ends the walk.
\<close>

fun find_marked :: "path \<Rightarrow> string list \<Rightarrow> world \<Rightarrow> path option" where
  "find_marked prev_logs [] w = None"
| "find_marked prev_logs (n # names) w =
     (if n \<noteq> [] \<and> hd n = CHR ''.'' then find_marked prev_logs names w
      else case logfile_path_check 256 (Some prev_logs) (Some n) of None \<Rightarrow> find_marked prev_logs names w
      | Some subdir \<Rightarrow>
          if \<not> is_dir subdir w then find_marked prev_logs names w
          else case logfile_path_check 256 (Some subdir) (Some ''last_reboot'') of None \<Rightarrow> find_marked prev_logs names w
          | Some marker \<Rightarrow>
              if access_ok marker w then
                (case logfile_path_check 256 (Some subdir) (Some ''rebootInfo.log'') of None \<Rightarrow> None
                 | Some candidate \<Rightarrow> if access_ok candidate w then Some candidate else None)
              else find_marked prev_logs names w)"

fun find_bak :: "path \<Rightarrow> nat list \<Rightarrow> world \<Rightarrow> path option" where
  "find_bak prev_logs [] w = None"
| "find_bak prev_logs (i # is) w =
     (case logfile_path_check 256 (Some prev_logs) (Some (''bak'' @ [digit_char i] @ ''_rebootInfo.log'')) of
        None \<Rightarrow> find_bak prev_logs is w
      | Some bak \<Rightarrow> if access_ok bak w then Some bak else find_bak prev_logs is w)"

text \<open>The output buffer is a string with its size, or null; the result carries what is in it then.\<close>

definition find_previous_reboot_log :: "env \<Rightarrow> path option \<Rightarrow> nat \<Rightarrow> world \<Rightarrow> int \<times> path" where
  "find_previous_reboot_log e out_path len w = (case out_path of None \<Rightarrow> (ERROR_GENERAL, [])
     | Some old \<Rightarrow> if len = 0 then (ERROR_GENERAL, old)
      else (let log_base = (case getenv e ''LOG_PATH'' of None \<Rightarrow> ''/opt/logs'' | Some b \<Rightarrow> if b = [] then ''/opt/logs'' else b) in
        case logfile_path_check 256 (Some log_base) (Some ''PreviousLogs'') of None \<Rightarrow> (ERROR_GENERAL, [])
        | Some prev_logs \<Rightarrow>
            (case (case opendir e prev_logs w of None \<Rightarrow> None | Some names \<Rightarrow> find_marked prev_logs names w) of
               Some candidate \<Rightarrow> (SUCCESS, bufcpy len candidate)
             | None \<Rightarrow>
                 (case logfile_path_check 256 (Some prev_logs) (Some ''rebootInfo.log'') of None \<Rightarrow> (ERROR_GENERAL, [])
                  | Some candidate \<Rightarrow>
                      if access_ok candidate w then
                        (case find_bak prev_logs [1, 2, 3] w of
                           Some bak \<Rightarrow> (SUCCESS, bufcpy len bak)
                         | None \<Rightarrow> (SUCCESS, bufcpy len candidate))
                      else (ERROR_FILE_NOT_FOUND, [])))))"

section \<open>The older log format\<close>

definition blank :: "char \<Rightarrow> bool" where
  "blank c \<longleftrightarrow> c = SP \<or> c = TAB"

definition blank_or_eol :: "char \<Rightarrow> bool" where
  "blank_or_eol c \<longleftrightarrow> c = SP \<or> c = TAB \<or> c = NL \<or> c = CR"

text \<open>The new initiator and other reason.\<close>

definition resolve_hal_sys_reboot :: "string option \<Rightarrow> string \<Rightarrow> nat \<Rightarrow> string \<Rightarrow> nat \<Rightarrow> string \<times> string" where
  "resolve_hal_sys_reboot rebootReasonLine src srcLen oth orLen = (case rebootReasonLine of None \<Rightarrow> (src, oth)
     | Some line \<Rightarrow>
         (case strstr line ''Triggered from '' of None \<Rightarrow> (src, oth)
          | Some t \<Rightarrow>
              (let trigger = drop (length ''Triggered from '') t in
               case strchr trigger SP of
                 None \<Rightarrow> (rstrip blank_or_eol (bufcpy srcLen trigger), oth)
               | Some space \<Rightarrow>
                   (let initLen = length trigger - length space;
                        initLen = (if srcLen \<le> initLen then srcLen - 1 else initLen);
                        new_src = take initLen trigger;
                        rest = dropWhile (\<lambda>c. c = SP) (tl space);
                        endRest = (case strchr rest (CHR ''('') of Some paren \<Rightarrow> length rest - length paren | None \<Rightarrow> length rest);
                        body = rstrip blank (take endRest rest)
                    in if orLen = 0 then (new_src, oth)
                       else (new_src, take (if orLen \<le> length body then orLen - 1 else length body) body)))))"

definition getVal :: "string \<Rightarrow> string \<Rightarrow> nat \<Rightarrow> string" where
  "getVal line prefx output_size =
     (let value = dropWhile blank (drop (length prefx) line)
      in rstrip blank_or_eol (bufcpy output_size value))"

record legacy =
  lg_info :: RebootInfo
  found_fields :: nat
  raw_fields :: nat
  rawInitiatedBy :: string
  rawTime :: string
  rawCustom :: string
  rawOther :: string
  rawRebootReason :: string

definition legacy_line :: "string \<Rightarrow> legacy \<Rightarrow> legacy" where
  "legacy_line line g =
     (case strstr line ''PreviousRebootInitiatedBy:'' of
        Some l \<Rightarrow> g\<lparr>lg_info := (lg_info g)\<lparr>source := getVal l ''PreviousRebootInitiatedBy:'' 128\<rparr>, found_fields := found_fields g + 1\<rparr>
      | None \<Rightarrow> (case strstr line ''PreviousRebootTime:'' of
        Some l \<Rightarrow> g\<lparr>lg_info := (lg_info g)\<lparr>timestamp := getVal l ''PreviousRebootTime:'' 64\<rparr>, found_fields := found_fields g + 1\<rparr>
      | None \<Rightarrow> (case strstr line ''PreviousCustomReason:'' of
        Some l \<Rightarrow> g\<lparr>lg_info := (lg_info g)\<lparr>customReason := getVal l ''PreviousCustomReason:'' 128\<rparr>, found_fields := found_fields g + 1\<rparr>
      | None \<Rightarrow> (case strstr line ''PreviousOtherReason:'' of
        Some l \<Rightarrow> g\<lparr>lg_info := (lg_info g)\<lparr>otherReason := getVal l ''PreviousOtherReason:'' 128\<rparr>, found_fields := found_fields g + 1\<rparr>
      | None \<Rightarrow> (case strstr line ''RebootInitiatedBy:'' of
        Some l \<Rightarrow> g\<lparr>rawInitiatedBy := getVal l ''RebootInitiatedBy:'' 128, raw_fields := raw_fields g + 1\<rparr>
      | None \<Rightarrow> (case strstr line ''RebootTime:'' of
        Some l \<Rightarrow> g\<lparr>rawTime := getVal l ''RebootTime:'' 64, raw_fields := raw_fields g + 1\<rparr>
      | None \<Rightarrow> (case strstr line ''CustomReason:'' of
        Some l \<Rightarrow> g\<lparr>rawCustom := getVal l ''CustomReason:'' 128, raw_fields := raw_fields g + 1\<rparr>
      | None \<Rightarrow> (case strstr line ''OtherReason:'' of
        Some l \<Rightarrow> g\<lparr>rawOther := getVal l ''OtherReason:'' 128, raw_fields := raw_fields g + 1\<rparr>
      | None \<Rightarrow>
          if strstr line ''RebootReason:'' \<noteq> None \<and> strstr line ''HAL_SYS_Reboot'' = None
          then g\<lparr>rawRebootReason := bufcpy 512 line\<rparr> else g))))))))"

fun legacy_scan :: "string list \<Rightarrow> legacy \<Rightarrow> legacy" where
  "legacy_scan [] g = g"
| "legacy_scan (line # lines) g =
     (let g = legacy_line line g in if 4 \<le> found_fields g then g else legacy_scan lines g)"

definition parse_legacy_log :: "env \<Rightarrow> path option \<Rightarrow> RebootInfo option \<Rightarrow> world \<Rightarrow> int \<times> RebootInfo option" where
  "parse_legacy_log e logPath info w = (case (logPath, info) of
       (Some p, Some i) \<Rightarrow>
         (case fopen_r e p w of Inl _ \<Rightarrow> (ERROR_FILE_NOT_FOUND, info)
          | Inr bytes \<Rightarrow>
              (let g = legacy_scan (fgets_lines 512 bytes)
                     \<lparr>lg_info = i, found_fields = 0, raw_fields = 0, rawInitiatedBy = [], rawTime = [], rawCustom = [],
                      rawOther = [], rawRebootReason = []\<rparr>
               in if found_fields g = 0 \<and> 0 < raw_fields g then
                    (let (init, oth) = (if rawInitiatedBy g = ''HAL_SYS_Reboot'' \<and> rawRebootReason g \<noteq> []
                           then resolve_hal_sys_reboot (Some (rawRebootReason g)) (rawInitiatedBy g) 128 (rawOther g) 128
                           else (rawInitiatedBy g, rawOther g))
                     in (SUCCESS, Some ((lg_info g)\<lparr>source := bufcpy 128 init, timestamp := bufcpy 64 (rawTime g),
                           customReason := bufcpy 128 (rawCustom g), otherReason := bufcpy 128 oth\<rparr>)))
                  else if found_fields g = 0 then (FAILURE, Some (lg_info g))
                  else (SUCCESS, Some (lg_info g))))
     | _ \<Rightarrow> (ERROR_GENERAL, info))"

section \<open>The lines about the previous reboot\<close>

definition format_iso8601_ms :: "env \<Rightarrow> nat \<Rightarrow> world \<Rightarrow> string \<times> world" where
  "format_iso8601_ms e out_len w =
     (if out_len = 0 then ([], w)
      else if \<not> gettimeofday_ok e (ticks w) then ([], w\<lparr>ticks := Suc (ticks w)\<rparr>)
      else (let (tms, w1) = utc_now e w in (bufcpy out_len (iso8601_ms tms), w1)))"

text \<open>The file is the open \<^verbatim>\<open>rebootInfo.log\<close>.\<close>

definition write_previous_line :: "env \<Rightarrow> path option \<Rightarrow> string option \<Rightarrow> string option \<Rightarrow> world \<Rightarrow> int \<times> world" where
  "write_previous_line e fp key val w = (case (fp, key) of
       (Some p, Some k) \<Rightarrow>
         (let (ts, w) = format_iso8601_ms e 64 w
          in (SUCCESS, snd (fputs e p (ts @ '' '' @ k @ '': '' @ (case val of None \<Rightarrow> [] | Some v \<Rightarrow> v) @ [NL]) w)))
     | _ \<Rightarrow> (ERROR_GENERAL, w))"

fun reason_in_lines :: "nat \<Rightarrow> string list \<Rightarrow> string option" where
  "reason_in_lines out_len [] = None"
| "reason_in_lines out_len (line # lines) =
     (let trimmed = dropWhile blank line in
      if strstr trimmed ''PreviousRebootReason:'' \<noteq> None then reason_in_lines out_len lines
      else (case (if prefix ''RebootReason:'' trimmed then Some trimmed else strstr trimmed ''RebootReason:'') of
              None \<Rightarrow> reason_in_lines out_len lines
            | Some pos \<Rightarrow>
                (let val = dropWhile blank (drop (length ''RebootReason:'') pos)
                 in Some (rstrip (\<lambda>c. c = NL \<or> c = CR) (bufcpy out_len (''RebootReason: '' @ val))))))"

definition load_previous_reboot_reason_line :: "env \<Rightarrow> nat \<Rightarrow> world \<Rightarrow> int \<times> string" where
  "load_previous_reboot_reason_line e out_len w =
     (if out_len = 0 then (ERROR_GENERAL, [])
      else (let (rc, path) = find_previous_reboot_log e (Some []) 256 w in
        if rc \<noteq> SUCCESS then (ERROR_FILE_NOT_FOUND, [])
        else (case fopen_r e path w of Inl _ \<Rightarrow> (ERROR_FILE_NOT_FOUND, [])
              | Inr bytes \<Rightarrow> (case reason_in_lines out_len (fgets_lines 512 bytes) of
                    None \<Rightarrow> (ERROR_FILE_NOT_FOUND, []) | Some l \<Rightarrow> (SUCCESS, l)))))"

definition json_info :: "string \<Rightarrow> RebootInfo" where
  "json_info buf =
     \<lparr>timestamp = snd (fetcher_extract_json_value (Some buf) (Some ''timestamp'') [] 64),
      source = snd (fetcher_extract_json_value (Some buf) (Some ''source'') [] 128),
      reason = snd (fetcher_extract_json_value (Some buf) (Some ''reason'') [] 128),
      customReason = snd (fetcher_extract_json_value (Some buf) (Some ''customReason'') [] 128),
      otherReason = snd (fetcher_extract_json_value (Some buf) (Some ''otherReason'') [] 128)\<rparr>"

text \<open>The record the lines are taken from: the moved record, else the older log, else a blank one.\<close>

definition previous_info :: "env \<Rightarrow> path option \<Rightarrow> world \<Rightarrow> RebootInfo" where
  "previous_info e jsonPath w =
     (let no_reboot_info = (jsonPath = None);
          (infoToUse, loaded) = (case jsonPath of None \<Rightarrow> (zero_info, False)
             | Some p \<Rightarrow> (case fopen_r e p w of Inl _ \<Rightarrow> (zero_info, False)
                 | Inr bytes \<Rightarrow> (json_info (cstr (take (512 - 1) bytes)), True)))
      in if \<not> loaded \<and> \<not> no_reboot_info then
           (let (rc, path) = find_previous_reboot_log e (Some []) 256 w in
            if rc = SUCCESS then
              (case parse_legacy_log e (Some path) (Some infoToUse) w of (_, Some i) \<Rightarrow> i | (_, None) \<Rightarrow> infoToUse)
            else infoToUse)
         else infoToUse)"

definition previous_reason :: "env \<Rightarrow> path option \<Rightarrow> world \<Rightarrow> string" where
  "previous_reason e jsonPath w = (if jsonPath \<noteq> None then
       (let (rc, l) = load_previous_reboot_reason_line e 512 w in if rc \<noteq> SUCCESS then [] else l)
     else [])"

definition previous_fields :: "RebootInfo \<Rightarrow> string \<Rightarrow> (string \<times> string) list" where
  "previous_fields i r = [(''PreviousRebootReason'', r), (''PreviousRebootInitiatedBy'', source i),
     (''PreviousRebootTime'', timestamp i), (''PreviousCustomReason'', customReason i),
     (''PreviousOtherReason'', otherReason i)]"

text \<open>The fallback record is accepted and ignored, as in the source.\<close>

definition update_previous_reboot_log_fields :: "env \<Rightarrow> path option \<Rightarrow> RebootInfo option \<Rightarrow> world \<Rightarrow> int \<times> world" where
  "update_previous_reboot_log_fields e jsonPath fallbackInfo w =
     (let infoToUse = previous_info e jsonPath w;
          previousReason = previous_reason e jsonPath w
      in case fopen_w e REBOOTINFO_LOG w of Inl _ \<Rightarrow> (ERROR_GENERAL, w)
         | Inr w \<Rightarrow> (SUCCESS, fold (\<lambda>(key, val) w. snd (write_previous_line e (Some REBOOTINFO_LOG) (Some key) (Some val) w))
             (previous_fields infoToUse previousReason) w))"

section \<open>The five lines\<close>

definition iso_stamp :: "env \<Rightarrow> nat \<Rightarrow> string" where
  "iso_stamp e n = (if gettimeofday_ok e n then bufcpy 64 (iso8601_ms (utc_clock e n)) else [])"

text \<open>The line for a key and its value, written at the given reading of the clock.\<close>

definition previous_line :: "env \<Rightarrow> nat \<Rightarrow> string \<times> string \<Rightarrow> string" where
  "previous_line e n kv = iso_stamp e n @ '' '' @ fst kv @ '': '' @ snd kv @ [NL]"

lemma format_iso8601_ms_eq: "format_iso8601_ms e 64 w = (iso_stamp e (ticks w), w\<lparr>ticks := Suc (ticks w)\<rparr>)"
  by (simp add: format_iso8601_ms_def iso_stamp_def utc_now_def)

lemma write_previous_line_ok:
  assumes "fs w p = Some (Reg c)" and "size_max e p = None"
  shows "write_previous_line e (Some p) (Some k) (Some v) w = (SUCCESS, w\<lparr>fs := (fs w)(p := Some (Reg (c @ previous_line e (ticks w) (k, v)))),
     ticks := Suc (ticks w)\<rparr>)"
  using assms by (simp add: write_previous_line_def format_iso8601_ms_eq fputs_unlimited previous_line_def)

lemma write_previous_lines:
  assumes "fs w p = Some (Reg c)" and "size_max e p = None"
  shows "fold (\<lambda>(k, v) w. snd (write_previous_line e (Some p) (Some k) (Some v) w)) kvs w =
    w\<lparr>fs := (fs w)(p := Some (Reg (c @ concat (map (\<lambda>(n, kv). previous_line e (ticks w + n) kv) (enumerate 0 kvs))))),
      ticks := ticks w + length kvs\<rparr>"
  using assms
proof (induction kvs arbitrary: w c)
  case Nil
  then show ?case by (simp add: fun_upd_idem)
next
  case (Cons kv kvs)
  let ?w = "w\<lparr>fs := (fs w)(p := Some (Reg (c @ previous_line e (ticks w) kv))), ticks := Suc (ticks w)\<rparr>"
  obtain k v where kv: "kv = (k, v)" by (cases kv)
  have m: "map (\<lambda>(n, kv). previous_line e (Suc (ticks w + n)) kv) (enumerate 0 kvs) =
      map (\<lambda>(n, kv). previous_line e (ticks w + n) kv) (enumerate (Suc 0) kvs)"
    by (rule nth_equalityI) (simp_all add: nth_enumerate_eq)
  have "fold (\<lambda>(k, v) w. snd (write_previous_line e (Some p) (Some k) (Some v) w)) (kv # kvs) w =
      fold (\<lambda>(k, v) w. snd (write_previous_line e (Some p) (Some k) (Some v) w)) kvs ?w"
    using Cons.prems by (simp add: write_previous_line_ok kv)
  also have "\<dots> = ?w\<lparr>fs := (fs ?w)(p := Some (Reg ((c @ previous_line e (ticks w) kv) @
      concat (map (\<lambda>(n, kv). previous_line e (ticks ?w + n) kv) (enumerate 0 kvs))))), ticks := ticks ?w + length kvs\<rparr>"
    by (rule Cons.IH) (use Cons.prems in simp_all)
  finally show ?case by (simp add: kv m fun_upd_def cong: if_cong)
qed

definition previous_text :: "env \<Rightarrow> nat \<Rightarrow> RebootInfo \<Rightarrow> string \<Rightarrow> string" where
  "previous_text e n i r = concat (map (\<lambda>(m, kv). previous_line e (n + m) kv) (enumerate 0 (previous_fields i r)))"

lemma update_fields_ok:
  assumes "writable e REBOOTINFO_LOG w"
  shows "update_previous_reboot_log_fields e jp fb w = (SUCCESS,
    w\<lparr>fs := (fs w)(REBOOTINFO_LOG := Some (Reg (previous_text e (ticks w) (previous_info e jp w) (previous_reason e jp w)))),
      ticks := ticks w + 5\<rparr>)"
  using assms
  by (simp add: update_previous_reboot_log_fields_def Let_def fopen_w_def writable_def previous_text_def
      write_previous_lines [where c = "[]"]) (simp add: previous_fields_def)

interpretation previous_line_op: world_op "\<lambda>w. snd (write_previous_line e (Some p) (Some k) (Some v) w)" "{p}" for e p k v
proof unfold_locales
  fix w q assume q: "q \<notin> {p}"
  then have "fs (snd (fputs e p s u)) q = fs u q" for s u by (rule fputs_op.frame)
  then show "fs (snd (write_previous_line e (Some p) (Some k) (Some v) w)) q = fs w q"
    by (simp add: write_previous_line_def format_iso8601_ms_eq)
qed (simp add: write_previous_line_def format_iso8601_ms_eq)

lemma fopen_w_fields:
  "snd (update_previous_reboot_log_fields e jp fb w) = (case fopen_w e REBOOTINFO_LOG w of Inl _ \<Rightarrow> w
     | Inr v \<Rightarrow> fold (\<lambda>kv w. snd (write_previous_line e (Some REBOOTINFO_LOG) (Some (fst kv)) (Some (snd kv)) w))
         (previous_fields (previous_info e jp w) (previous_reason e jp w)) v)"
  by (simp add: update_previous_reboot_log_fields_def Let_def case_prod_unfold split: sum.split)

interpretation fields_op: world_op "\<lambda>w. snd (update_previous_reboot_log_fields e jp fb w)" "{REBOOTINFO_LOG}" for e jp fb
proof -
  have f: "world_op (\<lambda>w. fold (\<lambda>kv w. snd (write_previous_line e (Some REBOOTINFO_LOG) (Some (fst kv)) (Some (snd kv)) w)) kvs w)
      {REBOOTINFO_LOG}" for kvs
    by (rule world_op_fold) (rule previous_line_op.world_op_axioms)
  show "world_op (\<lambda>w. snd (update_previous_reboot_log_fields e jp fb w)) {REBOOTINFO_LOG}"
  proof unfold_locales
    fix w q assume "q \<notin> {REBOOTINFO_LOG}"
    then show "fs (snd (update_previous_reboot_log_fields e jp fb w)) q = fs w q"
      unfolding fopen_w_fields
      by (auto simp: world_op.frame [OF f] split: sum.split dest!: fopen_w_Inr)
  next
    fix w show "prefix (trace w) (trace (snd (update_previous_reboot_log_fields e jp fb w)))"
      unfolding fopen_w_fields
      by (auto intro: world_op.trace_via [OF f] split: sum.split dest!: fopen_w_Inr)
  qed
qed

section \<open>Bounds\<close>

lemma rstrip_length: "length (rstrip p s) \<le> length s"
  using rstrip_prefix [of p s] by (rule prefix_length_le)

lemma rstrip_bufcpy_fits: "0 < n \<Longrightarrow> length (rstrip p (bufcpy n s)) < n"
  using rstrip_length [of p "bufcpy n s"] bufcpy_less [of n s] by linarith

lemma getVal_fits: "0 < n \<Longrightarrow> length (getVal l p n) < n"
  by (simp add: getVal_def rstrip_bufcpy_fits)

lemma extract_fits: "length out < sz \<Longrightarrow> length (snd (extract_json_value (Some b) (Some k) out sz)) < sz"
  by (auto simp: extract_json_value_def Let_def split: option.split)

lemma json_info_fits: "info_fits (json_info b)"
  by (simp add: info_fits_def json_info_def fetcher_extract_eq extract_fits)

lemma zero_info_fits: "info_fits zero_info"
  by (simp add: info_fits_def zero_info_def)

lemma legacy_line_fits: "info_fits (lg_info g) \<Longrightarrow> info_fits (lg_info (legacy_line line g))"
  by (auto simp: legacy_line_def info_fits_def getVal_fits split: option.split)

lemma legacy_scan_fits: "info_fits (lg_info g) \<Longrightarrow> info_fits (lg_info (legacy_scan ls g))"
  by (induction ls arbitrary: g) (auto simp: Let_def legacy_line_fits)

lemma parse_legacy_fits:
  assumes "info_fits i" and "parse_legacy_log e (Some p) (Some i) w = (rc, Some j)"
  shows "info_fits j"
proof (cases "fopen_r e p w")
  case (Inl er)
  with assms show ?thesis by (simp add: parse_legacy_log_def)
next
  case (Inr bytes)
  define g where "g = legacy_scan (fgets_lines 512 bytes) \<lparr>lg_info = i, found_fields = 0, raw_fields = 0, rawInitiatedBy = [],
    rawTime = [], rawCustom = [], rawOther = [], rawRebootReason = []\<rparr>"
  have "info_fits (lg_info g)" unfolding g_def by (rule legacy_scan_fits) (simp add: assms(1))
  with assms(2) Inr show ?thesis
    by (auto simp: parse_legacy_log_def g_def [symmetric] Let_def info_fits_def bufcpy_less split: prod.splits if_splits)
qed

lemma previous_info_fits: "info_fits (previous_info e jp w)"
  by (auto simp: previous_info_def Let_def json_info_fits zero_info_fits intro: parse_legacy_fits [OF zero_info_fits]
      split: option.split sum.split prod.split)

lemma reason_in_lines_fits: "0 < n \<Longrightarrow> reason_in_lines n ls = Some l \<Longrightarrow> length l < n"
  by (induction ls) (auto simp: Let_def rstrip_bufcpy_fits split: if_splits option.splits)

lemma previous_reason_fits: "length (previous_reason e jp w) < 512"
  by (auto simp: previous_reason_def load_previous_reboot_reason_line_def Let_def reason_in_lines_fits
      split: option.split sum.split prod.split)

section \<open>The record read back\<close>

definition info_of :: "prev_info \<Rightarrow> RebootInfo" where
  "info_of r = \<lparr>timestamp = bufcpy 64 (p_ts r), source = bufcpy 128 (p_src r), reason = bufcpy 128 (p_rsn r),
     customReason = bufcpy 128 (p_cus r), otherReason = bufcpy 128 (p_oth r)\<rparr>"

lemma json_info_record:
  assumes "quotable r" and "length (record_text r) < 512"
  shows "json_info (cstr (take (512 - 1) (record_text r))) = info_of r"
proof -
  have "take (512 - 1) (record_text r) = record_text r" using assms(2) by simp
  then show ?thesis
    by (simp add: json_info_def info_of_def fetcher_extract_eq record_text_no_nul extract_record assms(1))
qed

section \<open>Which log\<close>

definition log_base :: "env \<Rightarrow> path" where
  "log_base e = (case getenv e ''LOG_PATH'' of None \<Rightarrow> ''/opt/logs'' | Some b \<Rightarrow> if b = [] then ''/opt/logs'' else b)"

definition prev_logs :: "env \<Rightarrow> path" where
  "prev_logs e = log_base e @ ''/PreviousLogs''"

text \<open>A visible sub-directory with the marker of the last reboot, whose path fits the buffer.\<close>

definition marked :: "path \<Rightarrow> world \<Rightarrow> string \<Rightarrow> bool" where
  "marked d w n \<longleftrightarrow> \<not> prefix ''.'' n \<and> length (d @ ''/'' @ n @ ''/last_reboot'') < 256 \<and>
     is_dir (d @ ''/'' @ n) w \<and> access_ok (d @ ''/'' @ n @ ''/last_reboot'') w"

lemma path_check_Some:
  "logfile_path_check 256 (Some l) (Some r) = (if length l + length r + 1 < 256 then Some (l @ ''/'' @ r) else None)"
  by (simp add: logfile_path_check_def)

lemma find_marked_eq:
  "find_marked d names w = (case find (marked d w) names of None \<Rightarrow> None
     | Some n \<Rightarrow> (let p = d @ ''/'' @ n @ ''/rebootInfo.log'' in if length p < 256 \<and> access_ok p w then Some p else None))"
proof (induction names)
  case Nil
  show ?case by simp
next
  case (Cons n names)
  have h: "prefix ''.'' n \<longleftrightarrow> n \<noteq> [] \<and> hd n = CHR ''.''" by (cases n) auto
  show ?case
  proof (cases "marked d w n")
    case True
    then show ?thesis by (auto simp: path_check_Some h marked_def Let_def)
  next
    case False
    then have "find_marked d (n # names) w = find_marked d names w"
      by (auto simp: path_check_Some h marked_def)
    with False Cons show ?thesis by simp
  qed
qed

definition bak_log :: "path \<Rightarrow> nat \<Rightarrow> path" where
  "bak_log d i = d @ ''/bak'' @ [digit_char i] @ ''_rebootInfo.log''"

lemma find_bak_eq:
  "length d \<le> 235 \<Longrightarrow> find_bak d is w = find (\<lambda>p. access_ok p w) (map (bak_log d) is)"
  by (induction "is") (simp_all add: path_check_Some bak_log_def)

definition marked_log :: "env \<Rightarrow> world \<Rightarrow> path option" where
  "marked_log e w = (case opendir e (prev_logs e) w of None \<Rightarrow> None
     | Some names \<Rightarrow> (case find (marked (prev_logs e) w) names of None \<Rightarrow> None
         | Some n \<Rightarrow> (let p = prev_logs e @ ''/'' @ n @ ''/rebootInfo.log''
                     in if length p < 256 \<and> access_ok p w then Some p else None)))"

definition flat_logs :: "env \<Rightarrow> path list" where
  "flat_logs e = map (bak_log (prev_logs e)) [1, 2, 3] @ [prev_logs e @ ''/rebootInfo.log'']"

lemma find_prev_unfold:
  assumes "length (prev_logs e) \<le> 235"
  shows "find_previous_reboot_log e (Some []) 256 w = (case marked_log e w of Some p \<Rightarrow> (SUCCESS, p)
    | None \<Rightarrow> if access_ok (prev_logs e @ ''/rebootInfo.log'') w
        then (SUCCESS, the (find (\<lambda>p. access_ok p w) (flat_logs e))) else (ERROR_FILE_NOT_FOUND, []))"
proof -
  have d: "logfile_path_check 256 (Some (log_base e)) (Some ''PreviousLogs'') = Some (prev_logs e)"
    using assms by (simp add: path_check_Some prev_logs_def)
  have m: "(case opendir e (prev_logs e) w of None \<Rightarrow> None | Some names \<Rightarrow> find_marked (prev_logs e) names w) = marked_log e w"
    by (simp add: marked_log_def find_marked_eq split: option.split)
  have ml: "bufcpy 256 p = p" if "marked_log e w = Some p" for p
    using that by (auto simp: marked_log_def Let_def split: option.splits if_splits)
  have fl: "length p < 256" if "p \<in> set (flat_logs e)" for p
    using that assms by (auto simp: flat_logs_def bak_log_def)
  have f: "logfile_path_check 256 (Some (prev_logs e)) (Some ''rebootInfo.log'') = Some (prev_logs e @ ''/rebootInfo.log'')"
    using assms by (simp add: path_check_Some)
  have b: "bufcpy 256 (prev_logs e @ ''/rebootInfo.log'') = prev_logs e @ ''/rebootInfo.log''"
    "\<And>i. bufcpy 256 (bak_log (prev_logs e) i) = bak_log (prev_logs e) i"
    using assms by (simp_all add: bak_log_def)
  show ?thesis
    unfolding find_previous_reboot_log_def Let_def log_base_def [symmetric] d option.case m f find_bak_eq [OF assms]
    by (auto simp: flat_logs_def b ml split: option.split)
qed

text \<open>The choice of the design documents: a marked log, else the first of the backups and the flat log.\<close>

definition documented_log :: "env \<Rightarrow> world \<Rightarrow> path option" where
  "documented_log e w = (case marked_log e w of Some p \<Rightarrow> Some p | None \<Rightarrow> find (\<lambda>p. access_ok p w) (flat_logs e))"

lemma find_prev_documented:
  assumes "length (prev_logs e) \<le> 235"
  shows "find_previous_reboot_log e (Some []) 256 w = (case documented_log e w of Some p \<Rightarrow> (SUCCESS, p) | None \<Rightarrow> (ERROR_FILE_NOT_FOUND, [])) \<longleftrightarrow>
    \<not> (marked_log e w = None \<and> \<not> access_ok (prev_logs e @ ''/rebootInfo.log'') w \<and>
       list_ex (\<lambda>i. access_ok (bak_log (prev_logs e) i) w) [1, 2, 3])"
  unfolding find_prev_unfold [OF assms]
  by (auto simp: documented_log_def flat_logs_def rc_defs split: option.split)

lemma find_prev_access:
  assumes "length (prev_logs e) \<le> 235" and "find_previous_reboot_log e (Some []) 256 w = (SUCCESS, p)"
  shows "access_ok p w"
  using assms(2) unfolding find_prev_unfold [OF assms(1)]
  by (auto simp: marked_log_def flat_logs_def Let_def split: option.splits if_splits)

lemma write_previous_quiet [simp]:
  "trace (snd (write_previous_line e p k v w)) = trace w" "g_lock_fd (snd (write_previous_line e p k v w)) = g_lock_fd w"
  by (simp_all add: write_previous_line_def format_iso8601_ms_eq split: option.split)

lemma fold_previous_quiet:
  "trace (fold (\<lambda>kv w. snd (write_previous_line e p (Some (fst kv)) (Some (snd kv)) w)) kvs w) = trace w"
  "g_lock_fd (fold (\<lambda>kv w. snd (write_previous_line e p (Some (fst kv)) (Some (snd kv)) w)) kvs w) = g_lock_fd w"
  by (induction kvs arbitrary: w) simp_all

lemma fields_quiet [simp]:
  "trace (snd (update_previous_reboot_log_fields e jp fb w)) = trace w"
  "g_lock_fd (snd (update_previous_reboot_log_fields e jp fb w)) = g_lock_fd w"
  unfolding fopen_w_fields by (auto simp: fold_previous_quiet split: sum.split dest!: fopen_w_Inr)

section \<open>Properties\<close>

text \<open>
  C24. Which log of the previous boot is chosen, when the name of the log directory has at most
  235 bytes and so leaves room for the longest file name in the path buffer: the log beside the
  first marker in the order of the directory, if that log is there; else, and only when the flat
  log exists, the first existing backup of the three, and the flat log itself if there is none;
  else the call reports \<^verbatim>\<open>ERROR_FILE_NOT_FOUND\<close>. What it returns exists, uncut. The design documents
  look for the backups before the flat log and without asking for it; the code follows them
  except exactly where a backup exists without the flat log, which it does not find.
\<close>

theorem previous_log_found:
  assumes "length (prev_logs e) \<le> 235"
  shows "find_previous_reboot_log e (Some []) 256 w = (case marked_log e w of Some p \<Rightarrow> (SUCCESS, p)
      | None \<Rightarrow> if access_ok (prev_logs e @ ''/rebootInfo.log'') w
          then (SUCCESS, the (find (\<lambda>p. access_ok p w) (flat_logs e))) else (ERROR_FILE_NOT_FOUND, [])) \<and>
    (find_previous_reboot_log e (Some []) 256 w = (case documented_log e w of Some p \<Rightarrow> (SUCCESS, p) | None \<Rightarrow> (ERROR_FILE_NOT_FOUND, [])) \<longleftrightarrow>
       \<not> (marked_log e w = None \<and> \<not> access_ok (prev_logs e @ ''/rebootInfo.log'') w \<and>
          list_ex (\<lambda>i. access_ok (bak_log (prev_logs e) i) w) [1, 2, 3])) \<and>
    (fst (find_previous_reboot_log e (Some []) 256 w) = SUCCESS \<longrightarrow> access_ok (snd (find_previous_reboot_log e (Some []) 256 w)) w)"
  using find_prev_unfold [OF assms] find_prev_access [OF assms, of w "snd (find_previous_reboot_log e (Some []) 256 w)"]
    find_prev_documented [OF assms, of w]
  by (simp add: prod_eq_iff)

text \<open>A device that rebooted fast: a flat log with its second backup, and a marker without a log.\<close>

definition bak_world :: world where
  "bak_world = empty_world\<lparr>fs := (\<lambda>_. None)(''/opt/logs/PreviousLogs'' := Some Dir, ''/opt/logs/PreviousLogs/rebootInfo.log'' := Some (Reg ''flat''),
     ''/opt/logs/PreviousLogs/bak2_rebootInfo.log'' := Some (Reg ''bak2''), ''/opt/logs/PreviousLogs/0105'' := Some Dir,
     ''/opt/logs/PreviousLogs/0105/last_reboot'' := Some (Reg []))\<rparr>"

definition bak_env :: env where
  "bak_env = calm_env\<lparr>dirents := (\<lambda>_. [''.'', ''..'', ''0105'', ''rebootInfo.log''])\<rparr>"

lemma bak_logs: "prev_logs bak_env = ''/opt/logs/PreviousLogs''"
  by (simp add: prev_logs_def log_base_def bak_env_def calm_env_def)

lemma bak_unmarked: "marked_log bak_env bak_world = None"
  by (simp add: marked_log_def bak_logs Let_def access_ok_def bak_world_def empty_world_def split: option.split)

text \<open>A backup without the flat log: it is not found.\<close>

definition lone_bak_world :: world where
  "lone_bak_world = empty_world\<lparr>fs := (fs empty_world)(''/opt/logs/PreviousLogs/bak1_rebootInfo.log'' := Some (Reg ''bak1''))\<rparr>"

theorem previous_log_found_witness:
  "find_previous_reboot_log bak_env (Some []) 256 bak_world = (SUCCESS, ''/opt/logs/PreviousLogs/bak2_rebootInfo.log'') \<and>
   find_previous_reboot_log bak_env (Some []) 256 lone_bak_world = (ERROR_FILE_NOT_FOUND, [])"
proof
  have "length (prev_logs bak_env) \<le> 235" by (simp add: bak_logs)
  note f = previous_log_found [OF this, of bak_world, THEN conjunct1]
  show "find_previous_reboot_log bak_env (Some []) 256 bak_world = (SUCCESS, ''/opt/logs/PreviousLogs/bak2_rebootInfo.log'')"
    unfolding f bak_unmarked bak_logs flat_logs_def
    by (simp add: access_ok_def bak_world_def bak_log_def)
next
  have "length (prev_logs bak_env) \<le> 235" by (simp add: bak_logs)
  note f = previous_log_found [OF this, of lone_bak_world, THEN conjunct1]
  show "find_previous_reboot_log bak_env (Some []) 256 lone_bak_world = (ERROR_FILE_NOT_FOUND, [])"
    unfolding f by (simp add: marked_log_def bak_logs opendir_def is_dir_def access_ok_def lone_bak_world_def empty_world_def)
qed

text \<open>
  C25. The lines about the previous reboot: on a writable log the call succeeds and the log then
  holds exactly the five \<open>Previous...\<close> lines, each with its own time stamp, with the values of
  the record chosen and of the reason line; nothing else changes but the clock. The values fit
  the arrays they come from whatever the record file and the older logs hold. When the log
  cannot be opened the call fails and nothing changes.
\<close>

theorem previous_lines_written:
  "(writable e REBOOTINFO_LOG w \<longrightarrow> update_previous_reboot_log_fields e jp fb w = (SUCCESS,
      w\<lparr>fs := (fs w)(REBOOTINFO_LOG := Some (Reg (previous_text e (ticks w) (previous_info e jp w) (previous_reason e jp w)))),
        ticks := ticks w + 5\<rparr>)) \<and>
   info_fits (previous_info e jp w) \<and> length (previous_reason e jp w) < 512 \<and>
   (open_w_err e REBOOTINFO_LOG \<noteq> None \<longrightarrow> update_previous_reboot_log_fields e jp fb w = (ERROR_GENERAL, w))"
  using update_fields_ok previous_info_fits previous_reason_fits
  by (auto simp: update_previous_reboot_log_fields_def fopen_w_def Let_def)

theorem previous_lines_written_witness:
  "content (snd (update_previous_reboot_log_fields calm_env None None empty_world)) REBOOTINFO_LOG \<noteq> None \<and>
   update_previous_reboot_log_fields (calm_env\<lparr>open_w_err := (\<lambda>_. Some EACCES)\<rparr>) None None empty_world = (ERROR_GENERAL, empty_world)"
proof
  have "writable calm_env REBOOTINFO_LOG empty_world" by (simp add: writable_def calm_env_def empty_world_def)
  then have "update_previous_reboot_log_fields calm_env None None empty_world = (SUCCESS,
      empty_world\<lparr>fs := (fs empty_world)(REBOOTINFO_LOG := Some (Reg (previous_text calm_env (ticks empty_world)
        (previous_info calm_env None empty_world) (previous_reason calm_env None empty_world)))), ticks := ticks empty_world + 5\<rparr>)"
    using previous_lines_written [of calm_env empty_world None None] by blast
  then show "content (snd (update_previous_reboot_log_fields calm_env None None empty_world)) REBOOTINFO_LOG \<noteq> None"
    by (simp add: content_def)
  show "update_previous_reboot_log_fields (calm_env\<lparr>open_w_err := (\<lambda>_. Some EACCES)\<rparr>) None None empty_world = (ERROR_GENERAL, empty_world)"
    using previous_lines_written [of "calm_env\<lparr>open_w_err := (\<lambda>_. Some EACCES)\<rparr>" empty_world None None] by simp
qed

lemma resolve_steps:
  assumes "SP \<notin> set x" and "length x < 128" and "words \<noteq> []" and "\<not> blank (hd words)"
  shows "resolve_hal_sys_reboot (Some (''RebootReason: Triggered from '' @ x @ replicate (Suc m) SP @ words @ z)) src 128 oth 128 =
    (x, bufcpy 128 (rstrip blank (case strchr (words @ z) (CHR ''('') of None \<Rightarrow> words @ z
       | Some q \<Rightarrow> take (length (words @ z) - length q) (words @ z))))"
proof -
  have s: "strstr (''RebootReason: Triggered from '' @ y) ''Triggered from '' = Some (''Triggered from '' @ y)" for y
    by (simp add: strstr.simps)
  note c = strchr_append [OF assms(1), of "replicate m SP @ words @ z"]
  have d: "dropWhile (\<lambda>c. c = SP) (replicate m SP @ words @ z) = words @ z"
    by (rule dropWhile_lead) (use assms(3,4) in \<open>auto simp: blank_def\<close>)
  show ?thesis
    unfolding resolve_hal_sys_reboot_def option.case s
    using assms(2) by (simp add: c d Let_def bufcpy_def split: option.split)
qed

text \<open>
  C32. The real initiator of a reboot by the system daemon is recovered from the reason line: the
  word after the phrase becomes the initiator, and what follows it up to an opening parenthesis,
  without the blanks around it, the other reason. Without a parenthesis the other reason keeps
  the newline that ends the line.
\<close>

theorem hal_initiator_resolved:
  assumes "SP \<notin> set x" and "length x < 128" and "words \<noteq> []" and "\<not> blank (hd words)" and "\<not> blank (last words)"
    and "CHR ''('' \<notin> set words" and "length words < 127"
  shows "resolve_hal_sys_reboot (Some (''RebootReason: Triggered from '' @ x @ replicate (Suc m) SP @ words @
        replicate n SP @ ''('' @ rest)) src 128 oth 128 = (x, words) \<and>
    resolve_hal_sys_reboot (Some (''RebootReason: Triggered from '' @ x @ replicate (Suc m) SP @ words @ [NL])) src 128 oth 128 =
      (x, words @ [NL])"
proof
  have p: "CHR ''('' \<notin> set (words @ replicate n SP)" using assms(6) by auto
  have c: "strchr (words @ replicate n SP @ CHR ''('' # rest) (CHR ''('') = Some (CHR ''('' # rest)"
    using strchr_append [OF p] by simp
  have r: "rstrip blank (words @ replicate n SP) = words"
    by (rule rstrip_trail) (use assms(5) in \<open>auto simp: blank_def\<close>)
  show "resolve_hal_sys_reboot (Some (''RebootReason: Triggered from '' @ x @ replicate (Suc m) SP @ words @
        replicate n SP @ ''('' @ rest)) src 128 oth 128 = (x, words)"
    using assms(7) c r unfolding resolve_steps [OF assms(1-4)] by simp
next
  have "strchr (words @ [NL]) (CHR ''('') = None" using assms(6) by (simp add: strchr_None_iff)
  then show "resolve_hal_sys_reboot (Some (''RebootReason: Triggered from '' @ x @ replicate (Suc m) SP @ words @ [NL])) src 128 oth 128 =
      (x, words @ [NL])"
    using assms(7) unfolding resolve_steps [OF assms(1-4)] by (simp add: rstrip_id blank_def)
qed

theorem hal_initiator_resolved_witness:
  "resolve_hal_sys_reboot (Some (''RebootReason: Triggered from '' @ ''dsMgr'' @ replicate (Suc 0) SP @ ''standby timeout'' @
      replicate 1 SP @ ''('' @ ''auto)'')) [] 128 [] 128 = (''dsMgr'', ''standby timeout'')"
  using hal_initiator_resolved [of "''dsMgr''" "''standby timeout''" 0 1 "''auto)''" "[]" "[]"] by (simp add: blank_def)

end
