(* ===== verification/FetcherMain.thy ===== *)
theory FetcherMain
  imports Classify ParodusLog BootupChecker
begin

text \<open>
  \<^verbatim>\<open>reboot-reason-fetcher/src/rebootreason_main.c\<close>: the program \<^verbatim>\<open>update_prev_reboot_info\<close>,
  which runs once at boot. It takes the lock, moves the record left by \<^verbatim>\<open>rebootnow\<close> to its place
  or, when there is none, waits for the log backup and derives the reason from the evidence,
  writes the lines about the previous reboot, and leaves a sentinel for the log upload.

  The wait is a \<open>partial_function\<close>: \<open>None\<close> is a run that never ends, in that loop or in the
  blocking \<^verbatim>\<open>flock\<close>.
\<close>

section \<open>Waiting for the log backup\<close>

definition BACKUP_LOGS_SYNC_TIMEOUT_S :: nat where "BACKUP_LOGS_SYNC_TIMEOUT_S = 60"

definition BACKUP_LOGS_DONE_FILENAME :: string where "BACKUP_LOGS_DONE_FILENAME = ''.backup_logs_done''"

text \<open>The events of one \<open>read\<close>; an event without a name has the empty one.\<close>

fun wakeup_found :: "string list \<Rightarrow> bool" where
  "wakeup_found [] = False"
| "wakeup_found (n # names) = (if n \<noteq> [] \<and> n = BACKUP_LOGS_DONE_FILENAME then True else wakeup_found names)"

definition monotonic :: "env \<Rightarrow> world \<Rightarrow> nat option \<times> world" where
  "monotonic e w = (mono_clock e (ticks w), w\<lparr>ticks := Suc (ticks w)\<rparr>)"

text \<open>One \<open>select\<close> and the \<open>read\<close> after it; the other processes run meanwhile.\<close>

definition select_events :: "env \<Rightarrow> world \<Rightarrow> wakeup \<times> world" where
  "select_events e w = (inotify_wait e (ticks w), others_run e w)"

definition past :: "nat \<Rightarrow> nat option \<Rightarrow> bool" where
  "past deadline now = (case now of None \<Rightarrow> False | Some t \<Rightarrow> deadline \<le> t)"

partial_function (option) wait_loop :: "env \<Rightarrow> nat \<Rightarrow> world \<Rightarrow> (bool \<times> world) option" where
  "wait_loop e deadline w =
     (if past deadline (fst (monotonic e w)) then Some (False, snd (monotonic e w))
      else case select_events e (snd (monotonic e w)) of (ret, w1) \<Rightarrow>
        (case ret of
           SelFail er \<Rightarrow> if er = EINTR then wait_loop e deadline w1 else Some (False, w1)
         | SelTimeout \<Rightarrow> wait_loop e deadline w1
         | ReadFail \<Rightarrow> wait_loop e deadline w1
         | Names names \<Rightarrow> if wakeup_found names then Some (True, w1) else wait_loop e deadline w1))"

text \<open>The other processes may run between setting the watch and looking again.\<close>

definition wait_for_backup_logs_done :: "env \<Rightarrow> world \<Rightarrow> world option" where
  "wait_for_backup_logs_done e w =
     (if access_ok BACKUP_LOGS_DONE_FLAG w then Some w
      else if \<not> inotify_init_ok e then Some w
      else if \<not> inotify_watch_ok e then Some w
      else (let w = others_run e w in
        if access_ok BACKUP_LOGS_DONE_FLAG w then Some w
        else (case monotonic e w of
            (None, w) \<Rightarrow> Some w
          | (Some now, w) \<Rightarrow> map_option snd (wait_loop e (now + BACKUP_LOGS_SYNC_TIMEOUT_S) w))))"

section \<open>Helpers\<close>

definition get_current_timestamp :: "env \<Rightarrow> nat \<Rightarrow> world \<Rightarrow> string \<times> world" where
  "get_current_timestamp e sz w = (let ((t, ms), w1) = utc_now e w; s = strftime_utc t in
     (if length s < sz then s else [], w1))"

definition check_dir_exists :: "env \<Rightarrow> path \<Rightarrow> world \<Rightarrow> int \<times> world" where
  "check_dir_exists e p w = (case mkdir e p w of
       (None, w1) \<Rightarrow> (SUCCESS, w1)
     | (Some er, w1) \<Rightarrow>
         if er = EEXIST then (if is_dir p w1 then (SUCCESS, w1) else (ERROR_GENERAL, w1))
         else (ERROR_GENERAL, w1))"

text \<open>The pieces of the file, in the order they are sent to the logger.\<close>

definition log_reason :: "env \<Rightarrow> path \<Rightarrow> world \<Rightarrow> string list" where
  "log_reason e p w = (case fopen_r e p w of Inl _ \<Rightarrow> [] | Inr bytes \<Rightarrow> fgets_lines 256 bytes)"

section \<open>The sources of the reason\<close>

text \<open>Without a record: an error code ends the work, a record goes on.\<close>

definition legacy_sources :: "env \<Rightarrow> EnvContext option \<Rightarrow> RebootInfo \<Rightarrow> world \<Rightarrow> ((int + RebootInfo) \<times> world) option" where
  "legacy_sources e ctx info w = (case wait_for_backup_logs_done e w of None \<Rightarrow> None
     | Some w \<Rightarrow> Some
         (let (info, w) = (if timestamp info = [] then
                (let (ts, w) = get_current_timestamp e 64 w in (info\<lparr>timestamp := ts\<rparr>, w))
              else (info, w));
              (_, panicInfo, w) = detect_kernel_panic e ctx (Some zero_panic) w;
              (_, fwFailure, w) = check_firmware_failure e ctx (Some zero_fw) w;
              (_, hwReason, info1) = get_hardware_reason e ctx (Some zero_hw) (Some info) w;
              (rc, info', w) = classify_reboot_reason e info1 ctx hwReason panicInfo fwFailure w
          in if rc \<noteq> SUCCESS then (Inl ERROR_GENERAL, w) else (Inr (the info'), w)))"

text \<open>The flag is \<^verbatim>\<open>has_reboot_info\<close>.\<close>

definition record_sources :: "env \<Rightarrow> EnvContext option \<Rightarrow> RebootInfo \<Rightarrow> world \<Rightarrow> ((int + bool \<times> RebootInfo) \<times> world) option" where
  "record_sources e ctx info w = (case rename_file e REBOOT_INFO_FILE PREVIOUS_REBOOT_INFO_FILE w of
       (None, w) \<Rightarrow>
         (let logged = log_reason e PREVIOUS_REBOOT_INFO_FILE w;
              (_, w) = handle_parodus_reboot_file e (Some info) (Some PREVIOUS_PARODUSREBOOT_INFO_FILE) w
          in Some (Inr (True, info), w))
     | (Some er, w) \<Rightarrow>
         if er = ENOENT then
           (case legacy_sources e ctx info w of None \<Rightarrow> None
            | Some (Inl ret, w) \<Rightarrow> Some (Inl ret, w)
            | Some (Inr info, w) \<Rightarrow> Some (Inr (False, info), w))
         else Some (Inr (False, info), w))"

section \<open>The program\<close>

definition power_reason :: "string \<Rightarrow> bool" where
  "power_reason r \<longleftrightarrow> strstr r ''POWER_ON'' \<noteq> None \<or> strstr r ''HARD_POWER'' \<noteq> None \<or> strstr r ''UNKNOWN_RESET'' \<noteq> None"

definition persist_info :: "env \<Rightarrow> RebootInfo \<Rightarrow> world \<Rightarrow> int \<times> world" where
  "persist_info e info w = (case write_reboot_info e (Some PREVIOUS_REBOOT_INFO_FILE) (Some info) w of (rc, w) \<Rightarrow>
     if rc \<noteq> SUCCESS then (ERROR_GENERAL, w)
     else (let w = snd (update_parodus_log e (Some info) w);
               w = snd (handle_parodus_reboot_file e (Some info) (Some PREVIOUS_PARODUSREBOOT_INFO_FILE) w);
               w = (if power_reason (reason info)
                    then snd (write_hardpower e (Some PREVIOUS_HARD_REBOOT_INFO_FILE) (Some (timestamp info)) w) else w)
           in (SUCCESS, w)))"

definition report_info :: "env \<Rightarrow> EnvContext option \<Rightarrow> bool \<Rightarrow> RebootInfo \<Rightarrow> world \<Rightarrow> int \<times> world" where
  "report_info e ctx has_reboot_info info w =
     (let w = update_kernel_log e ctx (Some info) w;
          w = snd (update_previous_reboot_log_fields e (if has_reboot_info then Some PREVIOUS_REBOOT_INFO_FILE else None) (Some info) w);
          (ret, w) = (if has_reboot_info then (SUCCESS, w) else persist_info e info w)
      in if ret \<noteq> SUCCESS then (ret, w)
         else (SUCCESS, snd (copy_keypress_info e (Some KEYPRESS_INFO_FILE) (Some PREVIOUS_KEYPRESS_INFO_FILE) w)))"

text \<open>Between taking and releasing the lock.\<close>

definition fetcher_body :: "env \<Rightarrow> world \<Rightarrow> (int \<times> world) option" where
  "fetcher_body e w = (case parse_device_properties e (Some zero_ctx) w of (rc, ctx) \<Rightarrow>
     if rc \<noteq> SUCCESS then Some (ERROR_PARSE_FAILED, w)
     else if update_reboot_info ctx w = 0 then Some (SUCCESS, w)
     else (case check_dir_exists e REBOOT_INFO_DIR w of (rc, w) \<Rightarrow>
       if rc \<noteq> SUCCESS then Some (ERROR_GENERAL, w)
       else (case get_current_timestamp e 64 w of (ts, w) \<Rightarrow>
         (case record_sources e ctx (zero_info\<lparr>timestamp := ts\<rparr>) w of None \<Rightarrow> None
          | Some (Inl ret, w) \<Rightarrow> Some (ret, w)
          | Some (Inr (has_reboot_info, info), w) \<Rightarrow> Some (report_info e ctx has_reboot_info info w)))))"

definition write_sentinel :: "env \<Rightarrow> world \<Rightarrow> world" where
  "write_sentinel e w = (case fopen_a e PATH_FLAG_INVOCATION w of Inl _ \<Rightarrow> w | Inr w1 \<Rightarrow> w1)"

definition fetcher_main :: "env \<Rightarrow> world \<Rightarrow> (int \<times> world) option" where
  "fetcher_main e w =
     (if \<not> logger_ok e then Some (ERROR_GENERAL, emit (Printed Stdout (''REBOOTINFO : ERROR - Extended logger init failed'' @ [NL])) w)
      else (case acquire_lock e (Some LOCK_DIR) w of None \<Rightarrow> None
      | Some (rc, w) \<Rightarrow>
        if rc \<noteq> SUCCESS then Some (ERROR_LOCK_FAILED, w)
        else (case fetcher_body e w of None \<Rightarrow> None
          | Some (ret, w) \<Rightarrow>
              (case release_lock (Some LOCK_DIR) w of (rc, w) \<Rightarrow>
                Some (if rc \<noteq> SUCCESS \<and> ret = SUCCESS then ERROR_GENERAL else ret, write_sentinel e w)))))"

section \<open>The wait ends\<close>

text \<open>The monotonic clock passes every time, and can be read from some point on.\<close>

definition clock_advances :: "env \<Rightarrow> bool" where
  "clock_advances e \<longleftrightarrow> (\<forall>t. \<exists>n. \<forall>m \<ge> n. past t (mono_clock e m))"

lemma wakeup_found_iff: "wakeup_found names \<longleftrightarrow> BACKUP_LOGS_DONE_FILENAME \<in> set names"
  by (induction names) (auto simp: BACKUP_LOGS_DONE_FILENAME_def)

lemmas wait_steps = monotonic_def select_events_def others_run_def

text \<open>
  Why a wait ended, read off its last step: the sentinel was announced; or the deadline had
  passed, or \<open>select\<close> failed for another reason than an interruption.
\<close>

definition end_reason :: "env \<Rightarrow> nat \<Rightarrow> nat \<Rightarrow> bool \<Rightarrow> bool" where
  "end_reason e deadline n found = (if found then (\<exists>names. inotify_wait e n = Names names \<and> BACKUP_LOGS_DONE_FILENAME \<in> set names)
     else past deadline (mono_clock e n) \<or> (\<exists>er. inotify_wait e n = SelFail er \<and> er \<noteq> EINTR))"

text \<open>A path the other processes leave alone.\<close>

definition stable :: "env \<Rightarrow> path \<Rightarrow> bool" where
  "stable e q \<longleftrightarrow> (\<forall>n f. interleave e n f q = f q)"

lemma others_stable: "stable e q \<Longrightarrow> fs (others_run e w) q = fs w q"
  by (simp add: stable_def others_run_def)

lemma wait_loop_ends:
  assumes "\<forall>m \<ge> n. past deadline (mono_clock e m)"
  shows "\<exists>found v. wait_loop e deadline w = Some (found, v) \<and>
    end_reason e deadline (ticks v - 1) found \<and> trace v = trace w \<and> g_lock_fd v = g_lock_fd w \<and> ticks w < ticks v \<and>
    (\<forall>q. stable e q \<longrightarrow> fs v q = fs w q)"
proof (induction "n - ticks w" arbitrary: w rule: less_induct)
  case less
  show ?case
  proof (cases "past deadline (mono_clock e (ticks w))")
    case True
    then show ?thesis by (auto simp: wait_loop.simps [of e deadline w] wait_steps end_reason_def)
  next
    case False
    with assms have lt: "ticks w < n" by (meson not_le)
    define u where "u = others_run e (w\<lparr>ticks := Suc (ticks w)\<rparr>)"
    have u: "ticks u = Suc (Suc (ticks w))" "trace u = trace w" "g_lock_fd u = g_lock_fd w"
        "\<forall>q. stable e q \<longrightarrow> fs u q = fs w q"
      by (simp_all add: u_def others_run_def stable_def)
    have step: "wait_loop e deadline w = (case inotify_wait e (Suc (ticks w)) of
        SelFail er \<Rightarrow> if er = EINTR then wait_loop e deadline u else Some (False, u)
      | SelTimeout \<Rightarrow> wait_loop e deadline u | ReadFail \<Rightarrow> wait_loop e deadline u
      | Names names \<Rightarrow> if wakeup_found names then Some (True, u) else wait_loop e deadline u)"
      using False by (simp add: wait_loop.simps [of e deadline w] monotonic_def select_events_def u_def cong: if_cong option.case_cong split: wakeup.split)
    have "n - ticks u < n - ticks w" using lt u(1) by linarith
    from less [OF this] obtain found v where v: "wait_loop e deadline u = Some (found, v)"
        "end_reason e deadline (ticks v - 1) found" "trace v = trace u" "g_lock_fd v = g_lock_fd u" "ticks u < ticks v"
        "\<forall>q. stable e q \<longrightarrow> fs v q = fs u q"
      by blast
    have "wait_loop e deadline w = wait_loop e deadline u \<or>
        (\<exists>b. wait_loop e deadline w = Some (b, u) \<and> end_reason e deadline (Suc (ticks w)) b)"
      unfolding step by (cases "inotify_wait e (Suc (ticks w))") (auto simp: end_reason_def wakeup_found_iff)
    then show ?thesis
    proof
      assume "wait_loop e deadline w = wait_loop e deadline u"
      with v u show ?thesis by simp
    next
      assume "\<exists>b. wait_loop e deadline w = Some (b, u) \<and> end_reason e deadline (Suc (ticks w)) b"
      with u show ?thesis by auto
    qed
  qed
qed

lemma wait_returns:
  assumes "clock_advances e"
  shows "\<exists>v. wait_for_backup_logs_done e w = Some v \<and> trace v = trace w \<and> g_lock_fd v = g_lock_fd w \<and>
    (\<forall>q. stable e q \<longrightarrow> fs v q = fs w q)"
proof -
  have w: "\<exists>v. map_option snd (wait_loop e d u) = Some v \<and> trace v = trace u \<and> g_lock_fd v = g_lock_fd u \<and>
      (\<forall>q. stable e q \<longrightarrow> fs v q = fs u q)" for d u
  proof -
    obtain n where "\<forall>m \<ge> n. past d (mono_clock e m)" using assms unfolding clock_advances_def by blast
    from wait_loop_ends [OF this, of u] show ?thesis by auto
  qed
  define u where "u = others_run e w"
  have u: "trace u = trace w" "g_lock_fd u = g_lock_fd w" "\<forall>q. stable e q \<longrightarrow> fs u q = fs w q"
    by (simp_all add: u_def others_stable)
  show ?thesis
  proof (cases "mono_clock e (ticks u)")
    case None
    with u show ?thesis by (simp add: wait_for_backup_logs_done_def monotonic_def Let_def u_def [symmetric])
  next
    case (Some now)
    with u w [of "now + BACKUP_LOGS_SYNC_TIMEOUT_S" "u\<lparr>ticks := Suc (ticks u)\<rparr>"] show ?thesis
      by (simp add: wait_for_backup_logs_done_def monotonic_def Let_def u_def [symmetric])
  qed
qed

section \<open>The lock stays with the program\<close>

text \<open>
  What every step of the program between taking and releasing the lock keeps: the descriptor,
  and who holds the lock.
\<close>

locale lock_neutral =
  fixes f :: "world \<Rightarrow> world"
  assumes keeps_fd: "g_lock_fd (f w) = g_lock_fd w"
    and keeps_last: "last_lock (rev (trace (f w))) = last_lock (rev (trace w))"
begin

lemma keeps_held: "lock_held (f w) = lock_held w"
  by (simp add: lock_held_def keeps_fd keeps_last)

end

lemma lock_neutralI: "(\<And>w. trace (f w) = trace w \<and> g_lock_fd (f w) = g_lock_fd w) \<Longrightarrow> lock_neutral f"
  by unfold_locales simp_all

lemma lock_neutral_fold: "(\<And>x. lock_neutral (g x)) \<Longrightarrow> lock_neutral (\<lambda>w. fold g xs w)"
  by (induction xs) (simp_all add: lock_neutral_def)

interpretation kernel_log_lock: lock_neutral "update_kernel_log e c i" for e c i
  by (rule lock_neutralI) (simp add: update_kernel_log_def Let_def split: option.split)

interpretation fields_lock: lock_neutral "\<lambda>w. snd (update_previous_reboot_log_fields e jp fb w)" for e jp fb
  by unfold_locales simp_all

interpretation keypress_lock: lock_neutral "\<lambda>w. snd (copy_keypress_info e src dest w)" for e src dest
  by (rule lock_neutralI)
    (auto simp: copy_keypress_info_def Let_def split: option.split sum.split prod.split dest!: fopen_w_Inr copy_chunks_frame)

interpretation parodus_lock: lock_neutral "\<lambda>w. snd (handle_parodus_reboot_file e i dest w)" for e i dest
  by (rule lock_neutralI)
    (auto simp: handle_parodus_reboot_file_def case_prod_beta Let_def split: option.split sum.split dest!: fopen_w_Inr)

interpretation parodus_log_lock: lock_neutral "\<lambda>w. snd (update_parodus_log e i w)" for e i
  by (rule lock_neutralI) (simp add: update_parodus_log_def case_prod_beta Let_def split: option.split)

interpretation info_lock: lock_neutral "\<lambda>w. snd (write_reboot_info e p i w)" for e p i
  by (rule lock_neutralI) (simp add: write_reboot_info_def case_prod_beta split: option.split)

interpretation hardpower_lock: lock_neutral "\<lambda>w. snd (write_hardpower e p t w)" for e p t
  by (rule lock_neutralI) (simp add: write_hardpower_def case_prod_beta split: option.split)

interpretation pstore_lock: lock_neutral "pstore_entry e n" for e n
  by (rule lock_neutralI) (auto simp: pstore_entry_def Let_def split: sum.split dest!: fopen_w_Inr)

interpretation annotate_lock: lock_neutral "annotate_panic e" for e
  by (rule lock_neutralI)
    (auto simp: annotate_panic_def stamp_now_def utc_now_def Let_def case_prod_beta split: sum.split dest!: fopen_a_Inr)

interpretation copy_pstore_lock: lock_neutral "copy_pstore_logs_to_opt e" for e
proof -
  have f: "lock_neutral (\<lambda>w. fold (pstore_entry e) names w)" for names
    by (rule lock_neutral_fold) (rule pstore_lock.lock_neutral_axioms)
  show "lock_neutral (copy_pstore_logs_to_opt e)"
    by unfold_locales
      (simp_all add: copy_pstore_logs_to_opt_def lock_neutral.keeps_fd [OF f] lock_neutral.keeps_last [OF f] split: option.split)
qed

interpretation panic_lock: lock_neutral "\<lambda>w. snd (snd (detect_kernel_panic e c p w))" for e c p
  by unfold_locales
    (simp_all add: detect_kernel_panic_def case_prod_beta annotate_lock.keeps_fd annotate_lock.keeps_last
      copy_pstore_lock.keeps_fd copy_pstore_lock.keeps_last split: option.split sum.split)

interpretation firmware_lock: lock_neutral "\<lambda>w. snd (snd (check_firmware_failure e c f w))" for e c f
  by unfold_locales
    (simp_all add: check_firmware_failure_def fetcher_t2CountNotify_def Let_def case_prod_beta split: option.split)

lemma map_hardware_lock:
  "g_lock_fd (snd (map_hardware_reason e hw i w)) = g_lock_fd w"
  "last_lock (rev (trace (snd (map_hardware_reason e hw i w)))) = last_lock (rev (trace w))"
  by (simp_all add: map_hardware_reason_def fetcher_t2CountNotify_def split: option.split prod.split)

lemma classify_hardware_lock:
  "g_lock_fd (snd (classify_hardware e c h i w)) = g_lock_fd w"
  "last_lock (rev (trace (snd (classify_hardware e c h i w)))) = last_lock (rev (trace w))"
  by (simp_all add: classify_hardware_def case_prod_beta Let_def map_hardware_lock)

lemma classify_lock_cases:
  "g_lock_fd (snd (snd (classify_reboot_reason e (Some i) (Some c) h p f w))) = g_lock_fd w \<and>
   last_lock (rev (trace (snd (snd (classify_reboot_reason e (Some i) (Some c) h p f w))))) = last_lock (rev (trace w))"
proof (cases "fw_hit f \<or> customReason i \<noteq> [] \<or> panic_hit p")
  case True
  then have "snd (snd (classify_reboot_reason e (Some i) (Some c) h p f w)) = w"
    by (cases "fw_hit f"; cases "customReason i = []") (simp_all add: classify_cases)
  then show ?thesis by simp
next
  case False
  then show ?thesis
    by (cases "hw_hit h") (simp_all add: classify_cases classify_hardware_lock fetcher_t2CountNotify_def)
qed

interpretation classify_lock: lock_neutral "\<lambda>w. snd (snd (classify_reboot_reason e i c h p f w))" for e i c h p f
proof -
  have n: "classify_reboot_reason e None d h p f w = (ERROR_GENERAL, None, w)" for d w
    unfolding classify_reboot_reason_def by (simp only: option.case prod.case)
  have m: "classify_reboot_reason e (Some j) None h p f w = (ERROR_GENERAL, Some j, w)" for j w
    unfolding classify_reboot_reason_def by (simp only: option.case prod.case)
  show "lock_neutral (\<lambda>w. snd (snd (classify_reboot_reason e i c h p f w)))"
    by (cases i; cases c) (simp_all add: classify_lock_cases lock_neutral_def m n)
qed

interpretation stamp_lock: lock_neutral "\<lambda>w. snd (get_current_timestamp e n w)" for e n
  by unfold_locales (simp_all add: get_current_timestamp_def utc_now_def Let_def case_prod_beta)

interpretation dir_lock: lock_neutral "\<lambda>w. snd (check_dir_exists e p w)" for e p
proof -
  have "snd (check_dir_exists e p w) = snd (mkdir e p w)" for w
    by (simp add: check_dir_exists_def case_prod_beta split: option.split)
  then show "lock_neutral (\<lambda>w. snd (check_dir_exists e p w))" by unfold_locales simp_all
qed

interpretation persist_lock: lock_neutral "\<lambda>w. snd (persist_info e i w)" for e i
  by unfold_locales
    (simp_all add: persist_info_def case_prod_beta Let_def info_lock.keeps_fd info_lock.keeps_last parodus_lock.keeps_fd
      parodus_lock.keeps_last parodus_log_lock.keeps_fd parodus_log_lock.keeps_last hardpower_lock.keeps_fd hardpower_lock.keeps_last)

interpretation report_lock: lock_neutral "\<lambda>w. snd (report_info e c b i w)" for e c b i
  by unfold_locales
    (simp_all add: report_info_def case_prod_beta Let_def kernel_log_lock.keeps_fd kernel_log_lock.keeps_last
      persist_lock.keeps_fd persist_lock.keeps_last keypress_lock.keeps_fd keypress_lock.keeps_last)

section \<open>What the search for evidence may touch\<close>

definition evidence_files :: "path set" where
  "evidence_files = insert KERNEL_LOG_FILE (range pstore_dst)"

lemma copy_pstore_frame: "q \<notin> range pstore_dst \<Longrightarrow> fs (copy_pstore_logs_to_opt e w) q = fs w q"
proof -
  assume q: "q \<notin> range pstore_dst"
  have "world_op (\<lambda>w. fold (pstore_entry e) names w) (range pstore_dst)" for names
    by (rule world_op_fold) (rule world_op_mono [OF pstore_op.world_op_axioms], auto)
  from world_op.frame [OF this q] show ?thesis by (simp add: copy_pstore_logs_to_opt_def split: option.split)
qed

lemma annotate_frame: "q \<noteq> KERNEL_LOG_FILE \<Longrightarrow> fs (annotate_panic e w) q = fs w q"
  by (auto simp: annotate_panic_def stamp_now_def utc_now_def Let_def case_prod_beta fputs_op.frame
      split: sum.split dest!: fopen_a_Inr)

lemma panic_frame: "q \<notin> evidence_files \<Longrightarrow> fs (snd (snd (detect_kernel_panic e c p w))) q = fs w q"
  by (simp add: evidence_files_def detect_kernel_panic_def case_prod_beta annotate_frame copy_pstore_frame
      split: option.split sum.split)

lemma firmware_fs: "fs (snd (snd (check_firmware_failure e c f w))) = fs w"
  by (simp add: check_firmware_failure_def fetcher_t2CountNotify_def Let_def case_prod_beta split: option.split)

lemma map_hardware_fs: "fs (snd (map_hardware_reason e hw i w)) = fs w"
  by (simp add: map_hardware_reason_def fetcher_t2CountNotify_def split: option.split prod.split)

lemma classify_fs: "fs (snd (snd (classify_reboot_reason e (Some i) (Some c) h p f w))) = fs w"
proof (cases "fw_hit f \<or> customReason i \<noteq> [] \<or> panic_hit p")
  case True
  then have "snd (snd (classify_reboot_reason e (Some i) (Some c) h p f w)) = w"
    by (cases "fw_hit f"; cases "customReason i = []") (simp_all add: classify_cases)
  then show ?thesis by simp
next
  case False
  then show ?thesis
    by (cases "hw_hit h")
      (simp_all add: classify_cases classify_hardware_def case_prod_beta Let_def map_hardware_fs fetcher_t2CountNotify_def)
qed

text \<open>Nor does it make a directory.\<close>

lemma pstore_no_dir: "fs (pstore_entry e n w) q = Some Dir \<Longrightarrow> fs w q = Some Dir"
proof -
  assume d: "fs (pstore_entry e n w) q = Some Dir"
  have c: "content (fprints e p ss v) p \<noteq> None" if "content v p \<noteq> None" for p ss v
    using that unfolding fprints_def
    by (induction ss arbitrary: v) (auto simp: fputs_def split: option.split)
  have "fs (fprints e p ss (w\<lparr>fs := (fs w)(p := Some (Reg []))\<rparr>)) p \<noteq> Some Dir" for p ss
    using c [of "w\<lparr>fs := (fs w)(p := Some (Reg []))\<rparr>" p ss] by (auto simp: content_def)
  with d show ?thesis
    by (cases "q = pstore_dst n")
      (auto simp: fprints_op.frame pstore_entry_unfold fopen_w_def split: sum.splits option.splits if_splits)
qed

lemma panic_no_dir:
  assumes "fs (snd (snd (detect_kernel_panic e c p w))) q = Some Dir" and "q \<noteq> KERNEL_LOG_FILE"
  shows "fs w q = Some Dir"
proof -
  have f: "fs (fold (pstore_entry e) names v) q = Some Dir \<Longrightarrow> fs v q = Some Dir" for names v
    by (induction names arbitrary: v) (auto dest: pstore_no_dir)
  have "fs (copy_pstore_logs_to_opt e w) q = Some Dir \<Longrightarrow> fs w q = Some Dir"
    using f by (auto simp: copy_pstore_logs_to_opt_def split: option.splits)
  with assms show ?thesis
    by (auto simp: detect_kernel_panic_def case_prod_beta annotate_frame split: option.splits sum.splits if_splits)
qed

lemma opt_secure_no_evidence [simp]:
  "PREVIOUS_REBOOT_INFO_FILE \<notin> evidence_files" "PREVIOUS_HARD_REBOOT_INFO_FILE \<notin> evidence_files"
  by (auto simp: evidence_files_def pstore_dst_def PREVIOUS_REBOOT_INFO_FILE_def PREVIOUS_HARD_REBOOT_INFO_FILE_def KERNEL_LOG_FILE_def)

section \<open>The program returns\<close>

lemma stamp_fs: "fs (snd (get_current_timestamp e n w)) = fs w"
  by (simp add: get_current_timestamp_def utc_now_def Let_def case_prod_beta)

lemma stamp_fits: "0 < n \<Longrightarrow> length (fst (get_current_timestamp e n w)) < n"
  by (simp add: get_current_timestamp_def utc_now_def Let_def case_prod_beta)

lemma fresh_info:
  assumes "get_current_timestamp e 64 w = (ts, v)"
  shows "info_fits (zero_info\<lparr>timestamp := ts\<rparr>)" "source (zero_info\<lparr>timestamp := ts\<rparr>) = []" "customReason (zero_info\<lparr>timestamp := ts\<rparr>) = []"
  using stamp_fits [of 64 e w] assms by (simp_all add: info_fits_def zero_info_def)

lemma rename_quiet: "rename_file e p q w = (r, v) \<Longrightarrow> trace v = trace w \<and> g_lock_fd v = g_lock_fd w"
  using trace_files(5) [of e p q w] lock_files(5) [of e p q w] by simp

text \<open>The device context is always there, whatever the properties hold.\<close>

lemma parse_Some: "\<exists>c. snd (parse_device_properties e (Some c0) w) = Some c"
  by (auto simp: parse_device_properties_def Let_def split: sum.split)

lemma legacy_sources_run:
  assumes "wait_for_backup_logs_done e w = Some u" and "info_fits info" and "source info = []" and "customReason info = []"
  shows "\<exists>i v. legacy_sources e (Some c) info w = Some (Inr i, v) \<and> lock_held v = lock_held u \<and>
    info_fits i \<and> source i \<noteq> [] \<and> reason i \<noteq> [] \<and> (\<forall>q. q \<notin> evidence_files \<longrightarrow> fs v q = fs u q) \<and>
    (\<forall>q. fs v q = Some Dir \<longrightarrow> q \<noteq> KERNEL_LOG_FILE \<longrightarrow> fs u q = Some Dir)"
proof -
  define st where "st = (if timestamp info = [] then
      (let (ts, u) = get_current_timestamp e 64 u in (info\<lparr>timestamp := ts\<rparr>, u)) else (info, u))"
  have st: "lock_held (snd st) = lock_held u" "fs (snd st) = fs u" "info_fits (fst st)" "source (fst st) = []" "customReason (fst st) = []"
    using assms(2-) stamp_fits [of 64 e u]
    by (simp_all add: st_def case_prod_beta Let_def stamp_lock.keeps_held stamp_fs info_fits_def)
  obtain r1 p w1 where 1: "detect_kernel_panic e (Some c) (Some zero_panic) (snd st) = (r1, p, w1)" by (metis prod_cases3)
  obtain r2 f w2 where 2: "check_firmware_failure e (Some c) (Some zero_fw) w1 = (r2, f, w2)" by (metis prod_cases3)
  obtain r3 h where 3: "get_hardware_reason e (Some c) (Some zero_hw) (Some (fst st)) w2 = (r3, h, Some (fst st))"
    using hardware_reason_correct by blast
  obtain i w3 where 4: "classify_reboot_reason e (Some (fst st)) (Some c) h p f w2 = (SUCCESS, Some i, w3)" and
      i: "info_fits i" "source i \<noteq> []" "reason i \<noteq> []"
    using classify_fits [OF st(3), of e c h p f w2] st(4,5) by auto
  have "lock_held w3 = lock_held u"
    using classify_lock.keeps_held [of e "Some (fst st)" "Some c" h p f w2] firmware_lock.keeps_held [of e "Some c" "Some zero_fw" w1]
      panic_lock.keeps_held [of e "Some c" "Some zero_panic" "snd st"] st 1 2 4 by simp
  moreover have "fs w3 q = fs u q" if "q \<notin> evidence_files" for q
    using that panic_frame [of q e "Some c" "Some zero_panic" "snd st"] firmware_fs [of e "Some c" "Some zero_fw" w1]
      classify_fs [of e "fst st" c h p f w2] st(2) 1 2 4 by simp
  moreover have "fs w3 q = Some Dir \<longrightarrow> q \<noteq> KERNEL_LOG_FILE \<longrightarrow> fs u q = Some Dir" for q
    using panic_no_dir [of e "Some c" "Some zero_panic" "snd st" q] firmware_fs [of e "Some c" "Some zero_fw" w1]
      classify_fs [of e "fst st" c h p f w2] st(2) 1 2 4 by simp
  moreover have "legacy_sources e (Some c) info w = Some (Inr i, w3)"
    unfolding legacy_sources_def assms(1) option.case st_def [symmetric]
    using 1 2 3 4 by (simp add: case_prod_beta Let_def)
  ultimately show ?thesis using i by blast
qed

lemma record_sources_ok:
  assumes "clock_advances e" and "info_fits info" and "source info = []" and "customReason info = []"
  shows "\<exists>b i v. record_sources e (Some c) info w = Some (Inr (b, i), v) \<and> lock_held v = lock_held w"
proof -
  obtain r u where r: "rename_file e REBOOT_INFO_FILE PREVIOUS_REBOOT_INFO_FILE w = (r, u)" by fastforce
  have u: "lock_held u = lock_held w" using rename_quiet [OF r] by (simp add: lock_held_def)
  show ?thesis
  proof (cases "r = Some ENOENT")
    case True
    obtain v where v: "wait_for_backup_logs_done e u = Some v" "trace v = trace u" "g_lock_fd v = g_lock_fd u"
      using wait_returns [OF assms(1)] by blast
    obtain i x where "legacy_sources e (Some c) info u = Some (Inr i, x)" "lock_held x = lock_held v"
      using legacy_sources_run [OF v(1) assms(2-)] by blast
    with True r u v show ?thesis by (auto simp: record_sources_def lock_held_def)
  next
    case False
    with r u show ?thesis
      by (auto simp: record_sources_def Let_def case_prod_beta parodus_lock.keeps_held split: option.split)
  qed
qed

lemma report_codes: "fst (report_info e c b i w) \<in> {SUCCESS, ERROR_GENERAL}"
  by (simp add: report_info_def persist_info_def case_prod_beta Let_def)

definition fetcher_codes :: "int set" where
  "fetcher_codes = {SUCCESS, ERROR_GENERAL, ERROR_LOCK_FAILED, ERROR_PARSE_FAILED}"

lemma body_ok:
  assumes "clock_advances e"
  shows "\<exists>ret v. fetcher_body e w = Some (ret, v) \<and> lock_held v = lock_held w \<and> ret \<in> fetcher_codes - {ERROR_LOCK_FAILED}"
proof -
  obtain rc c where p: "parse_device_properties e (Some zero_ctx) w = (rc, Some c)"
    using parse_Some [of e zero_ctx w] by (metis prod.collapse)
  obtain rd w1 where d: "check_dir_exists e REBOOT_INFO_DIR w = (rd, w1)" by fastforce
  obtain ts w2 where t: "get_current_timestamp e 64 w1 = (ts, w2)" by fastforce
  obtain b i w3 where r: "record_sources e (Some c) (zero_info\<lparr>timestamp := ts\<rparr>) w2 = Some (Inr (b, i), w3)" "lock_held w3 = lock_held w2"
    using record_sources_ok [OF assms fresh_info [OF t]] by blast
  have l: "lock_held w1 = lock_held w" "lock_held w2 = lock_held w1"
    using dir_lock.keeps_held [of e REBOOT_INFO_DIR w] stamp_lock.keeps_held [of e 64 w1] d t by simp_all
  have c: "ERROR_GENERAL \<in> fetcher_codes - {ERROR_LOCK_FAILED}" "ERROR_PARSE_FAILED \<in> fetcher_codes - {ERROR_LOCK_FAILED}"
      "SUCCESS \<in> fetcher_codes - {ERROR_LOCK_FAILED}"
    by (simp_all add: fetcher_codes_def rc_defs)
  obtain ret v where v: "report_info e (Some c) b i w3 = (ret, v)" by fastforce
  have "lock_held v = lock_held w" "ret \<in> {SUCCESS, ERROR_GENERAL}"
    using report_lock.keeps_held [of e "Some c" b i w3] report_codes [of e "Some c" b i w3] r(2) l v by simp_all
  with c p d t r l v show ?thesis
    by (auto simp: fetcher_body_def)
qed

text \<open>
  The lock is taken; and the state in which the program goes on once \<^verbatim>\<open>flock\<close> has answered.
\<close>

definition lock_taken :: "env \<Rightarrow> world \<Rightarrow> bool" where
  "lock_taken e w \<longleftrightarrow> (case acquire_lock e (Some LOCK_DIR) w of None \<Rightarrow> False | Some (rc, _) \<Rightarrow> rc = SUCCESS)"

definition locked :: "env \<Rightarrow> world \<Rightarrow> world" where
  "locked e w = (case acquire_lock e (Some LOCK_DIR) w of None \<Rightarrow> w | Some (_, v) \<Rightarrow> v)"

lemma lock_takenD: "lock_taken e w \<Longrightarrow> acquire_lock e (Some LOCK_DIR) w = Some (SUCCESS, locked e w)"
  by (auto simp: lock_taken_def locked_def split: option.splits)

lemma acquire_cases:
  obtains (waits) "acquire_lock e (Some LOCK_DIR) w = None"
  | (taken) "lock_taken e w" "acquire_lock e (Some LOCK_DIR) w = Some (SUCCESS, locked e w)"
  | (failed) rc where "\<not> lock_taken e w" "rc \<noteq> SUCCESS" "acquire_lock e (Some LOCK_DIR) w = Some (rc, locked e w)"
  by (cases "acquire_lock e (Some LOCK_DIR) w") (auto simp: lock_taken_def locked_def)

text \<open>The only wait without an end: the lock file is open and another process keeps its lock.\<close>

lemma acquire_waits_iff:
  "acquire_lock e (Some p) w = None \<longleftrightarrow> flock e = FlockWaits \<and> (g_lock_fd w \<or> (\<exists>u. open_rw e p w = Inr u))"
  by (auto simp: acquire_lock_def Let_def split: sum.splits if_splits flock_answer.splits)

lemma lock_answered: "flock e \<noteq> FlockWaits \<Longrightarrow> acquire_lock e (Some p) w \<noteq> None"
  by (simp add: acquire_waits_iff)

lemma main_waits: "logger_ok e \<Longrightarrow> acquire_lock e (Some LOCK_DIR) w = None \<Longrightarrow> fetcher_main e w = None"
  by (simp add: fetcher_main_def)

lemma main_unfold:
  assumes "logger_ok e" and "lock_taken e w"
  shows "fetcher_main e w = (case fetcher_body e (locked e w) of None \<Rightarrow> None
     | Some (ret, v) \<Rightarrow> Some (ret, write_sentinel e (snd (release_lock (Some LOCK_DIR) v))))"
  using assms(1) lock_takenD [OF assms(2)]
  by (auto simp: fetcher_main_def case_prod_beta lock.rel_ok split: option.split)

lemma acquire_frame: "p \<noteq> LOCK_DIR \<Longrightarrow> fs (locked e w) p = fs w p"
  by (auto simp: locked_def acquire_lock_def open_rw_def Let_def split: option.splits sum.splits flock_answer.splits)

lemma sentinel_quiet [simp]: "trace (write_sentinel e w) = trace w"
  by (auto simp: write_sentinel_def split: sum.split dest!: fopen_a_Inr)

lemma sentinel_there: "open_w_err e PATH_FLAG_INVOCATION = None \<Longrightarrow> access_ok PATH_FLAG_INVOCATION (write_sentinel e w)"
  by (auto simp: write_sentinel_def fopen_a_def access_ok_def)

lemma sentinel_frame: "p \<noteq> PATH_FLAG_INVOCATION \<Longrightarrow> fs (write_sentinel e w) p = fs w p"
  by (auto simp: write_sentinel_def split: sum.split dest!: fopen_a_Inr)

lemma main_returns:
  assumes "clock_advances e" and "logger_ok e \<Longrightarrow> acquire_lock e (Some LOCK_DIR) w \<noteq> None"
  shows "\<exists>ret v. fetcher_main e w = Some (ret, v) \<and> ret \<in> fetcher_codes"
proof (cases "logger_ok e")
  case True
  obtain ret v where b: "fetcher_body e (locked e w) = Some (ret, v)" "ret \<in> fetcher_codes"
    using body_ok [OF assms(1)] by blast
  show ?thesis
  proof (cases rule: acquire_cases [where e = e and w = w])
    case waits
    with True assms(2) show ?thesis by blast
  next
    case taken
    with b True show ?thesis by (simp add: main_unfold)
  next
    case failed
    with True show ?thesis by (simp add: fetcher_main_def fetcher_codes_def)
  qed
next
  case False
  then show ?thesis by (auto simp: fetcher_main_def fetcher_codes_def)
qed

section \<open>Properties\<close>

text \<open>
  C19. The wait for the log backup ends, and for a good reason: when the monotonic clock advances
  without bound, the loop returns, and its last step either announced the sentinel, which is
  then reported as found, or found the deadline passed or a failure of \<^verbatim>\<open>select\<close> other than an
  interruption. Interruptions, heartbeats, short reads and events about other files never end it.
\<close>

theorem wait_ends_for_reason:
  assumes "clock_advances e"
  shows "\<exists>found v. wait_loop e deadline w = Some (found, v) \<and> ticks w < ticks v \<and>
    (if found then \<exists>names. inotify_wait e (ticks v - 1) = Names names \<and> BACKUP_LOGS_DONE_FILENAME \<in> set names
     else past deadline (mono_clock e (ticks v - 1)) \<or> (\<exists>er. inotify_wait e (ticks v - 1) = SelFail er \<and> er \<noteq> EINTR)) \<and>
    trace v = trace w"
proof -
  obtain n where "\<forall>m \<ge> n. past deadline (mono_clock e m)" using assms unfolding clock_advances_def by blast
  from wait_loop_ends [OF this, of w] show ?thesis unfolding end_reason_def by blast
qed

lemma calm_advances: "clock_advances calm_env"
  unfolding clock_advances_def
proof
  fix t
  have "\<forall>m \<ge> t. past t (mono_clock calm_env m)" by (simp add: past_def calm_env_def)
  then show "\<exists>n. \<forall>m \<ge> n. past t (mono_clock calm_env m)" by blast
qed

theorem wait_ends_for_reason_witness:
  "\<exists>found v. wait_loop calm_env 60 empty_world = Some (found, v) \<and> \<not> found"
proof -
  obtain found v where "wait_loop calm_env 60 empty_world = Some (found, v)"
      "if found then \<exists>names. inotify_wait calm_env (ticks v - 1) = Names names \<and> BACKUP_LOGS_DONE_FILENAME \<in> set names
       else past 60 (mono_clock calm_env (ticks v - 1)) \<or> (\<exists>er. inotify_wait calm_env (ticks v - 1) = SelFail er \<and> er \<noteq> EINTR)"
    using wait_ends_for_reason [OF calm_advances, of 60 empty_world] by blast
  then show ?thesis by (cases found) (auto simp: calm_env_def)
qed

lemma calm_returns: "\<exists>ret v. fetcher_main calm_env w = Some (ret, v)"
proof -
  have "flock calm_env \<noteq> FlockWaits" by (simp add: calm_env_def)
  from main_returns [OF calm_advances lock_answered [OF this], of w] show ?thesis by blast
qed

text \<open>
  C9. The reason fetcher waits for nothing but the lock: on a device whose monotonic clock
  advances, the program fails to return in exactly one case, the blocking \<^verbatim>\<open>flock\<close> on its open
  lock file while another process never gives that lock up, where the design documents have the
  program end at once. In every other case, whatever the
  files, the services and the other processes do, and however long the log backup takes, it ends
  with one of its documented codes.
\<close>

theorem fetcher_returns:
  assumes "clock_advances e"
  shows "(fetcher_main e w = None \<longleftrightarrow>
      logger_ok e \<and> flock e = FlockWaits \<and> (g_lock_fd w \<or> (\<exists>u. open_rw e LOCK_DIR w = Inr u))) \<and>
    (\<forall>ret v. fetcher_main e w = Some (ret, v) \<longrightarrow> ret \<in> {SUCCESS, ERROR_GENERAL, ERROR_LOCK_FAILED, ERROR_PARSE_FAILED})"
proof (cases "logger_ok e \<and> acquire_lock e (Some LOCK_DIR) w = None")
  case True
  then show ?thesis using main_waits acquire_waits_iff by auto
next
  case False
  then obtain ret v where "fetcher_main e w = Some (ret, v)" "ret \<in> fetcher_codes"
    using main_returns [OF assms, of w] by blast
  with False show ?thesis using acquire_waits_iff unfolding fetcher_codes_def by auto
qed

text \<open>The calm device returns; with the lock kept by another process it never does.\<close>

theorem fetcher_returns_witness:
  "(\<exists>ret v. fetcher_main calm_env empty_world = Some (ret, v) \<and>
      ret \<in> {SUCCESS, ERROR_GENERAL, ERROR_LOCK_FAILED, ERROR_PARSE_FAILED}) \<and>
   fetcher_main (calm_env\<lparr>flock := FlockWaits\<rparr>) empty_world = None"
proof -
  have c: "clock_advances (calm_env\<lparr>flock := FlockWaits\<rparr>)" using calm_advances by (simp add: clock_advances_def)
  have "fetcher_main calm_env empty_world \<noteq> None"
    using fetcher_returns [OF calm_advances, of empty_world] by (simp add: calm_env_def)
  then show ?thesis
    using fetcher_returns [OF calm_advances, of empty_world] fetcher_returns [OF c, of empty_world]
    by (auto simp: calm_env_def empty_world_def open_rw_def)
qed

text \<open>
  C8. The lock is never left behind and the log upload is never left waiting: on every path the
  lock is free when the program ends; once it had been taken, the sentinel of the invocation
  exists, whatever the outcome, provided it can be created; when the logger or the lock fails, no
  file but the lock file is touched, and these are the only runs that end without a sentinel of
  their own.
\<close>

theorem lock_and_sentinel:
  assumes "clock_advances e" and "lock_free w" and "fetcher_main e w = Some (ret, v)"
  shows "lock_free v \<and>
    (logger_ok e \<and> lock_taken e w \<and> open_w_err e PATH_FLAG_INVOCATION = None \<longrightarrow>
       access_ok PATH_FLAG_INVOCATION v) \<and>
    (ret = ERROR_LOCK_FAILED \<longleftrightarrow> logger_ok e \<and> \<not> lock_taken e w) \<and>
    (\<not> logger_ok e \<or> ret = ERROR_LOCK_FAILED \<longrightarrow> (\<forall>p. p \<noteq> LOCK_DIR \<longrightarrow> fs v p = fs w p))"
proof (cases "logger_ok e \<and> lock_taken e w")
  case True
  define u where "u = locked e w"
  obtain r x where b: "fetcher_body e u = Some (r, x)" "lock_held x = lock_held u" "r \<in> fetcher_codes - {ERROR_LOCK_FAILED}"
    using body_ok [OF assms(1)] by blast
  have "lock_free (snd (release_lock (Some LOCK_DIR) x))"
    using lock.acq_held [OF lock_takenD] True b(2) by (intro lock.rel_held) (simp add: u_def)
  moreover have "ret = r" "v = write_sentinel e (snd (release_lock (Some LOCK_DIR) x))"
    using assms(3) True b(1) by (simp_all add: main_unfold u_def [symmetric])
  ultimately show ?thesis using True b(3) sentinel_there by (simp add: lock_free_def)
next
  case False
  then consider "\<not> logger_ok e" | "logger_ok e" "\<not> lock_taken e w" by blast
  then show ?thesis
  proof cases
    case 1
    with assms(2,3) show ?thesis by (auto simp: fetcher_main_def lock_free_def rc_defs)
  next
    case 2
    then obtain rc where rc: "rc \<noteq> SUCCESS" "acquire_lock e (Some LOCK_DIR) w = Some (rc, locked e w)"
      using assms(3) main_waits by (cases rule: acquire_cases [where e = e and w = w]) auto
    with assms(3) 2(1) have "ret = ERROR_LOCK_FAILED" "v = locked e w" by (auto simp: fetcher_main_def)
    with 2 assms(2) rc show ?thesis using lock.acq_failed [OF rc(2,1)] acquire_frame by simp
  qed
qed

theorem lock_and_sentinel_witness:
  "\<exists>ret v. fetcher_main calm_env empty_world = Some (ret, v) \<and> lock_free v \<and> access_ok PATH_FLAG_INVOCATION v"
proof -
  obtain ret v where r: "fetcher_main calm_env empty_world = Some (ret, v)" using calm_returns by blast
  have "lock_free empty_world" by (simp add: lock_free_def empty_world_def)
  moreover have "lock_taken calm_env empty_world"
    by (simp add: lock_taken_def acquire_lock_def open_rw_def calm_env_def empty_world_def)
  ultimately show ?thesis
    using lock_and_sentinel [OF calm_advances _ r] r by (simp add: calm_env_def)
qed

end
