(* ===== verification/FetcherRuns.thy ===== *)
theory FetcherRuns
  imports FetcherMain
begin

text \<open>
  Whole runs of \<^verbatim>\<open>update_prev_reboot_info\<close>: what the files hold afterwards when there was no
  record, on a cold boot, and when \<^verbatim>\<open>rebootnow\<close> had left one.
\<close>

section \<open>What is recorded\<close>

definition hardpower_text :: "string \<Rightarrow> string" where
  "hardpower_text ts = ''{'' @ [NL] @ [DQ] @ ''lastHardPowerReset'' @ [DQ] @ '':'' @ [DQ] @ ts @ [DQ] @ [NL] @ ''}'' @ [NL]"

lemma write_hardpower_ok:
  assumes "writable e p w"
  shows "write_hardpower e (Some p) (Some t) w = (SUCCESS, w\<lparr>fs := (fs w)(p := Some (Reg (hardpower_text t)))\<rparr>)"
  using assms by (simp add: write_hardpower_def write_file_writable hardpower_text_def)

interpretation kernel_log_op: world_op "update_kernel_log e c i" "{KERNEL_LOG_FILE}" for e c i
proof unfold_locales
  fix w q assume "q \<notin> {KERNEL_LOG_FILE}"
  then have "fs (snd (append_file e KERNEL_LOG_FILE ss w)) q = fs w q" for ss by (rule append_op.frame)
  then show "fs (update_kernel_log e c i w) q = fs w q"
    by (simp add: update_kernel_log_def Let_def split: option.split)
qed (simp add: update_kernel_log_def Let_def split: option.split)

lemma persist_ok:
  assumes "writable e PREVIOUS_REBOOT_INFO_FILE w" and "writable e PREVIOUS_HARD_REBOOT_INFO_FILE w"
  shows "fst (persist_info e i w) = SUCCESS \<and>
    content (snd (persist_info e i w)) PREVIOUS_REBOOT_INFO_FILE = Some (record_text (info_record i)) \<and>
    content (snd (persist_info e i w)) PREVIOUS_HARD_REBOOT_INFO_FILE =
      (if power_reason (reason i) then Some (hardpower_text (timestamp i)) else content w PREVIOUS_HARD_REBOOT_INFO_FILE)"
proof -
  define w1 where "w1 = w\<lparr>fs := (fs w)(PREVIOUS_REBOOT_INFO_FILE := Some (Reg (record_text (info_record i))))\<rparr>"
  define w2 where "w2 = snd (update_parodus_log e (Some i) w1)"
  define w3 where "w3 = snd (handle_parodus_reboot_file e (Some i) (Some PREVIOUS_PARODUSREBOOT_INFO_FILE) w2)"
  have f: "p \<notin> insert PARODUS_LOG (parodus_files PREVIOUS_PARODUSREBOOT_INFO_FILE) \<Longrightarrow> fs w3 p = fs w1 p" for p
    by (simp add: w3_def w2_def parodus_file_op.frame parodus_log_op.frame)
  have h: "fs w3 PREVIOUS_HARD_REBOOT_INFO_FILE = fs w PREVIOUS_HARD_REBOOT_INFO_FILE"
    and r: "fs w3 PREVIOUS_REBOOT_INFO_FILE = Some (Reg (record_text (info_record i)))"
    by (simp_all add: f parodus_files_def w1_def)
  have p: "persist_info e i w = (SUCCESS, if power_reason (reason i)
      then snd (write_hardpower e (Some PREVIOUS_HARD_REBOOT_INFO_FILE) (Some (timestamp i)) w3) else w3)"
    by (simp add: persist_info_def write_reboot_info_ok [OF assms(1)] w1_def [symmetric] w2_def [symmetric] w3_def [symmetric])
  have "writable e PREVIOUS_HARD_REBOOT_INFO_FILE w3" using assms(2) writable_at [OF h] by simp
  with h r show ?thesis
    unfolding p by (simp add: write_hardpower_ok) (simp add: content_def)
qed

lemma report_legacy:
  assumes "writable e PREVIOUS_REBOOT_INFO_FILE w" and "writable e PREVIOUS_HARD_REBOOT_INFO_FILE w"
  shows "fst (report_info e c False i w) = SUCCESS \<and>
    content (snd (report_info e c False i w)) PREVIOUS_REBOOT_INFO_FILE = Some (record_text (info_record i)) \<and>
    content (snd (report_info e c False i w)) PREVIOUS_HARD_REBOOT_INFO_FILE =
      (if power_reason (reason i) then Some (hardpower_text (timestamp i)) else content w PREVIOUS_HARD_REBOOT_INFO_FILE)"
proof -
  define u where "u = snd (update_previous_reboot_log_fields e None (Some i) (update_kernel_log e c (Some i) w))"
  have f: "p \<noteq> REBOOTINFO_LOG \<Longrightarrow> p \<noteq> KERNEL_LOG_FILE \<Longrightarrow> fs u p = fs w p" for p
    by (simp add: u_def fields_op.frame kernel_log_op.frame)
  have w: "writable e PREVIOUS_REBOOT_INFO_FILE u" "writable e PREVIOUS_HARD_REBOOT_INFO_FILE u"
    using assms by (simp_all add: writable_at [OF f])
  have c: "content u PREVIOUS_HARD_REBOOT_INFO_FILE = content w PREVIOUS_HARD_REBOOT_INFO_FILE"
    by (simp add: content_def f)
  have "report_info e c False i w = (SUCCESS, snd (copy_keypress_info e (Some KEYPRESS_INFO_FILE) (Some PREVIOUS_KEYPRESS_INFO_FILE)
      (snd (persist_info e i u))))"
    using persist_ok [OF w, of i] by (simp add: report_info_def case_prod_beta Let_def u_def)
  with persist_ok [OF w, of i] c show ?thesis by (simp add: keypress_op.content_frame)
qed

section \<open>Runs that reach the record\<close>

text \<open>
  A device on which the program gets as far as the record: the logger and the lock work, the
  properties are complete, the time is set, and the directory of the record exists.
\<close>

definition fetcher_ready :: "env \<Rightarrow> EnvContext \<Rightarrow> world \<Rightarrow> bool" where
  "fetcher_ready e c w \<longleftrightarrow> logger_ok e \<and> lock_taken e w \<and>
     parse_device_properties e (Some zero_ctx) w = (SUCCESS, Some c) \<and> access_ok STT_FLAG w \<and> is_dir REBOOT_INFO_DIR w"

lemma parse_cong:
  assumes "fs v DEVICE_PROPERTIES_PATH = fs w DEVICE_PROPERTIES_PATH"
  shows "parse_device_properties e c v = parse_device_properties e c w"
  unfolding parse_device_properties_def fopen_r_cong [OF assms] ..

lemma body_to_record:
  assumes "parse_device_properties e (Some zero_ctx) w = (SUCCESS, Some c)" and "access_ok STT_FLAG w" and "is_dir REBOOT_INFO_DIR w"
  shows "\<exists>ts v. get_current_timestamp e 64 w = (ts, v) \<and> fs v = fs w \<and> fetcher_body e w =
    (case record_sources e (Some c) (zero_info\<lparr>timestamp := ts\<rparr>) v of None \<Rightarrow> None | Some (Inl ret, x) \<Rightarrow> Some (ret, x)
     | Some (Inr (b, i), x) \<Rightarrow> Some (report_info e (Some c) b i x))"
proof -
  obtain ts v where t: "get_current_timestamp e 64 w = (ts, v)" by fastforce
  have d: "check_dir_exists e REBOOT_INFO_DIR w = (SUCCESS, w)"
    using assms(3) by (simp add: check_dir_exists_def mkdir_def is_dir_def)
  have "update_reboot_info (Some c) w \<noteq> 0" using assms(2) by (simp add: update_reboot_info_def)
  with assms(1) d t have "fetcher_body e w =
    (case record_sources e (Some c) (zero_info\<lparr>timestamp := ts\<rparr>) v of None \<Rightarrow> None | Some (Inl ret, x) \<Rightarrow> Some (ret, x)
     | Some (Inr (b, i), x) \<Rightarrow> Some (report_info e (Some c) b i x))"
    by (simp add: fetcher_body_def)
  moreover have "fs v = fs w" using stamp_fs [of e 64 w] t by simp
  ultimately show ?thesis using t by blast
qed

text \<open>The whole run on a ready device, from the state in which the lock is held.\<close>

lemma main_to_record:
  assumes "fetcher_ready e c w"
  shows "\<exists>ts v. length ts < 64 \<and> (\<forall>p. p \<noteq> LOCK_DIR \<longrightarrow> fs v p = fs w p) \<and>
    fs v LOCK_DIR = fs (locked e w) LOCK_DIR \<and> fetcher_main e w =
    (case record_sources e (Some c) (zero_info\<lparr>timestamp := ts\<rparr>) v of None \<Rightarrow> None
     | Some (Inl ret, x) \<Rightarrow> Some (ret, write_sentinel e (snd (release_lock (Some LOCK_DIR) x)))
     | Some (Inr (b, i), x) \<Rightarrow> Some (fst (report_info e (Some c) b i x),
         write_sentinel e (snd (release_lock (Some LOCK_DIR) (snd (report_info e (Some c) b i x))))))"
proof -
  define u where "u = locked e w"
  have f: "p \<noteq> LOCK_DIR \<Longrightarrow> fs u p = fs w p" for p by (simp add: u_def acquire_frame)
  have p: "parse_device_properties e (Some zero_ctx) u = (SUCCESS, Some c)"
    using assms by (simp add: fetcher_ready_def parse_cong [OF f])
  have a: "access_ok STT_FLAG u" "is_dir REBOOT_INFO_DIR u"
    using assms by (simp_all add: fetcher_ready_def access_ok_def is_dir_def f)
  from body_to_record [OF p a] obtain ts v where b: "get_current_timestamp e 64 u = (ts, v)" "fs v = fs u" "fetcher_body e u =
    (case record_sources e (Some c) (zero_info\<lparr>timestamp := ts\<rparr>) v of None \<Rightarrow> None | Some (Inl ret, x) \<Rightarrow> Some (ret, x)
     | Some (Inr (b, i), x) \<Rightarrow> Some (report_info e (Some c) b i x))"
    by blast
  have "fetcher_main e w = (case fetcher_body e u of None \<Rightarrow> None
     | Some (ret, v) \<Rightarrow> Some (ret, write_sentinel e (snd (release_lock (Some LOCK_DIR) v))))"
    using assms main_unfold unfolding fetcher_ready_def u_def by blast
  then have "fetcher_main e w =
    (case record_sources e (Some c) (zero_info\<lparr>timestamp := ts\<rparr>) v of None \<Rightarrow> None
     | Some (Inl ret, x) \<Rightarrow> Some (ret, write_sentinel e (snd (release_lock (Some LOCK_DIR) x)))
     | Some (Inr (b, i), x) \<Rightarrow> Some (fst (report_info e (Some c) b i x),
         write_sentinel e (snd (release_lock (Some LOCK_DIR) (snd (report_info e (Some c) b i x))))))"
    unfolding b(3) by (simp add: case_prod_beta split: option.split sum.split)
  moreover have "length ts < 64" using stamp_fits [of 64 e u] b(1) by simp
  moreover have "\<forall>p. p \<noteq> LOCK_DIR \<longrightarrow> fs v p = fs w p" using b(2) f by simp
  moreover have "fs v LOCK_DIR = fs (locked e w) LOCK_DIR" using b(2) by (simp add: u_def)
  ultimately show ?thesis by blast
qed

lemma release_fs: "fs (snd (release_lock p w)) = fs w"
  by (simp add: release_lock_def split: option.split)

lemma closing_content: "p \<noteq> PATH_FLAG_INVOCATION \<Longrightarrow> content (write_sentinel e (snd (release_lock (Some LOCK_DIR) w))) p = content w p"
  by (simp add: content_def sentinel_frame release_fs)

text \<open>
  C10. Every boot without a record leaves one: when \<^verbatim>\<open>rebootnow\<close> left nothing, a run on a ready
  device whose record and hard power files can be written and are left alone by other processes
  ends successfully, and the record of the previous reboot then holds a record with a source and
  a reason that fits its arrays; the hard power file is rewritten with its time exactly for the
  reasons that mean a loss of power, and is untouched otherwise.
\<close>

theorem boot_always_recorded:
  assumes "fetcher_ready e c w" and "clock_advances e" and "fs w REBOOT_INFO_FILE = None"
    and "writable e PREVIOUS_REBOOT_INFO_FILE w" and "writable e PREVIOUS_HARD_REBOOT_INFO_FILE w"
    and "stable e PREVIOUS_REBOOT_INFO_FILE" and "stable e PREVIOUS_HARD_REBOOT_INFO_FILE"
  shows "\<exists>i v. fetcher_main e w = Some (SUCCESS, v) \<and> info_fits i \<and> source i \<noteq> [] \<and> reason i \<noteq> [] \<and>
    content v PREVIOUS_REBOOT_INFO_FILE = Some (record_text (info_record i)) \<and>
    content v PREVIOUS_HARD_REBOOT_INFO_FILE =
      (if power_reason (reason i) then Some (hardpower_text (timestamp i)) else content w PREVIOUS_HARD_REBOOT_INFO_FILE)"
proof -
  obtain ts u where ts: "length ts < 64" and f: "\<forall>p. p \<noteq> LOCK_DIR \<longrightarrow> fs u p = fs w p" and m: "fetcher_main e w =
    (case record_sources e (Some c) (zero_info\<lparr>timestamp := ts\<rparr>) u of None \<Rightarrow> None
     | Some (Inl ret, x) \<Rightarrow> Some (ret, write_sentinel e (snd (release_lock (Some LOCK_DIR) x)))
     | Some (Inr (b, i), x) \<Rightarrow> Some (fst (report_info e (Some c) b i x),
         write_sentinel e (snd (release_lock (Some LOCK_DIR) (snd (report_info e (Some c) b i x))))))"
    using main_to_record [OF assms(1)] by blast
  obtain x where x: "wait_for_backup_logs_done e u = Some x" "\<forall>q. stable e q \<longrightarrow> fs x q = fs u q"
    using wait_returns [OF assms(2)] by blast
  have z: "info_fits (zero_info\<lparr>timestamp := ts\<rparr>)" "source (zero_info\<lparr>timestamp := ts\<rparr>) = []" "customReason (zero_info\<lparr>timestamp := ts\<rparr>) = []"
    using ts by (simp_all add: info_fits_def zero_info_def)
  obtain i y where y: "legacy_sources e (Some c) (zero_info\<lparr>timestamp := ts\<rparr>) u = Some (Inr i, y)"
      "info_fits i" "source i \<noteq> []" "reason i \<noteq> []" "\<forall>q. q \<notin> evidence_files \<longrightarrow> fs y q = fs x q"
    using legacy_sources_run [OF x(1) z, of c] by blast
  have s: "fs y PREVIOUS_REBOOT_INFO_FILE = fs w PREVIOUS_REBOOT_INFO_FILE"
    "fs y PREVIOUS_HARD_REBOOT_INFO_FILE = fs w PREVIOUS_HARD_REBOOT_INFO_FILE"
    using y(5) x(2) f assms(6,7) by simp_all
  have "rename_file e REBOOT_INFO_FILE PREVIOUS_REBOOT_INFO_FILE u = (Some ENOENT, u)"
    using assms(3) f by (simp add: rename_file_def)
  then have "record_sources e (Some c) (zero_info\<lparr>timestamp := ts\<rparr>) u = Some (Inr (False, i), y)"
    using y(1) by (simp add: record_sources_def)
  moreover have "writable e PREVIOUS_REBOOT_INFO_FILE y" "writable e PREVIOUS_HARD_REBOOT_INFO_FILE y"
    using assms(4,5) s writable_at by blast+
  note r = report_legacy [OF this, of "Some c" i]
  moreover have "content y PREVIOUS_HARD_REBOOT_INFO_FILE = content w PREVIOUS_HARD_REBOOT_INFO_FILE"
    using s(2) by (simp add: content_def)
  ultimately show ?thesis using m y(2-4) by (auto simp: closing_content)
qed

text \<open>A television whose properties the service knows.\<close>

definition tv_env :: env where
  "tv_env = calm_env\<lparr>getDevicePropertyData := (\<lambda>k. if k = ''SOC'' then Some ''RTK'' else if k = ''RDK_PROFILE'' then Some ''TV''
     else Some ''hybrid'')\<rparr>"

definition tv_world :: world where
  "tv_world = empty_world\<lparr>fs := (\<lambda>_. None)(REBOOT_INFO_DIR := Some Dir, STT_FLAG := Some (Reg []))\<rparr>"

definition tv_ctx :: EnvContext where
  "tv_ctx = the (snd (parse_device_properties tv_env (Some zero_ctx) tv_world))"

lemma tv_ready: "fetcher_ready tv_env tv_ctx tv_world"
  by (simp add: fetcher_ready_def tv_ctx_def tv_env_def calm_env_def tv_world_def lock_taken_def acquire_lock_def open_rw_def access_ok_def is_dir_def
      parse_device_properties_def property_def clamp64_def zero_ctx_def Let_def empty_world_def)

lemma tv_advances: "clock_advances tv_env"
  using calm_advances by (simp add: clock_advances_def tv_env_def)

lemma tv_files: "writable tv_env p tv_world \<longleftrightarrow> p \<noteq> REBOOT_INFO_DIR" "stable tv_env p"
  by (auto simp: writable_def tv_env_def calm_env_def tv_world_def empty_world_def stable_def)

theorem boot_always_recorded_witness:
  "\<exists>i v. fetcher_main tv_env tv_world = Some (SUCCESS, v) \<and> content v PREVIOUS_REBOOT_INFO_FILE = Some (record_text (info_record i))"
proof -
  have "fs tv_world REBOOT_INFO_FILE = None" by (simp add: tv_world_def)
  then show ?thesis using boot_always_recorded [OF tv_ready tv_advances] by (auto simp: tv_files)
qed

section \<open>A cold boot\<close>

text \<open>No log speaks of a panic or a firmware failure, and there is no readable register.\<close>

definition no_evidence :: "env \<Rightarrow> EnvContext \<Rightarrow> world \<Rightarrow> bool" where
  "no_evidence e c w \<longleftrightarrow>
     \<not> (soc c = ''BRCM'' \<and> (search_string_in_file e KERNEL_LOG_FILE PREVIOUS_KERNEL_OOPS_DUMP w \<or> access_r_ok e BRCM_REBOOT_FILE w)) \<and>
     \<not> fst (search_panic_in_file e PSTORE_CONSOLE_LOG_FILE zero_panic w) \<and>
     \<not> search_string_in_file e (if prefix ''mediaclient'' (device_type c) then UIMGR_LOG_FILE else OCAPRI_LOG_FILE) MAX_REBOOT_STRING w \<and>
     \<not> search_string_in_file e ECM_CRASH_LOG_FILE ECM_CRASH_STRING w"

definition evidence_sources :: "path set" where
  "evidence_sources = {KERNEL_LOG_FILE, BRCM_REBOOT_FILE, PSTORE_CONSOLE_LOG_FILE, UIMGR_LOG_FILE, OCAPRI_LOG_FILE, ECM_CRASH_LOG_FILE}"

lemma no_evidence_cong:
  assumes "\<And>p. p \<in> evidence_sources \<Longrightarrow> fs v p = fs w p"
  shows "no_evidence e c v = no_evidence e c w"
proof -
  have "p \<in> evidence_sources \<Longrightarrow> fopen_r e p v = fopen_r e p w" for p by (rule fopen_r_cong) (rule assms)
  then have "p \<in> evidence_sources \<Longrightarrow> search_string_in_file e p s v = search_string_in_file e p s w"
    and "p \<in> evidence_sources \<Longrightarrow> search_panic_in_file e p z v = search_panic_in_file e p z w" for p s z
    by (simp_all add: search_string_in_file_def search_panic_in_file_def)
  moreover have "access_r_ok e BRCM_REBOOT_FILE v = access_r_ok e BRCM_REBOOT_FILE w"
    by (simp add: access_r_ok_def access_ok_def assms evidence_sources_def)
  ultimately show ?thesis by (simp add: no_evidence_def evidence_sources_def)
qed

lemma quiet_search: "fst (search_panic_in_file e p z w) \<or> snd (search_panic_in_file e p z w) = z"
  by (simp add: search_panic_in_file_def split: sum.split option.split prod.split)

lemma quiet_panic:
  assumes "no_evidence e c w"
  shows "detect_kernel_panic e (Some c) (Some p) w = (SUCCESS, Some zero_panic, w)"
  using assms quiet_search [of e PSTORE_CONSOLE_LOG_FILE zero_panic w]
  by (auto simp: no_evidence_def detect_kernel_panic_def search_string_in_file_def case_prod_beta split: sum.splits)

lemma quiet_firmware:
  assumes "no_evidence e c w"
  shows "check_firmware_failure e (Some c) (Some f) w = (SUCCESS, Some zero_fw, w)"
  using assms by (auto simp: no_evidence_def check_firmware_failure_def Let_def)

lemma cold_sources:
  assumes "no_evidence e c w" and "access_ok BACKUP_LOGS_DONE_FLAG w" and "customReason i = []"
  shows "\<exists>ts v. legacy_sources e (Some c) i w = Some (Inr (hard_power (i\<lparr>timestamp := ts\<rparr>)), v) \<and> fs v = fs w"
proof -
  have wt: "wait_for_backup_logs_done e w = Some w" using assms(2) by (simp add: wait_for_backup_logs_done_def)
  define st where "st = (if timestamp i = [] then
      (let (ts, u) = get_current_timestamp e 64 w in (i\<lparr>timestamp := ts\<rparr>, u)) else (i, w))"
  obtain ts where st: "fst st = i\<lparr>timestamp := ts\<rparr>" and fs: "fs (snd st) = fs w"
    by (cases "timestamp i = []") (auto simp: st_def Let_def case_prod_beta stamp_fs intro: that [of "timestamp i"])
  have ne: "no_evidence e c (snd st)" using assms(1) no_evidence_cong [of "snd st" w e c] fs by simp
  have nr: "\<not> (soc c = ''BRCM'' \<and> access_r_ok e BRCM_REBOOT_FILE (snd st))" using ne by (simp add: no_evidence_def)
  obtain rc h where h: "get_hardware_reason e (Some c) (Some zero_hw) (Some (fst st)) (snd st) = (rc, h, Some (fst st))"
    using hardware_reason_correct by blast
  have "classify_reboot_reason e (Some (fst st)) (Some c) h (Some zero_panic) (Some zero_fw) (snd st) =
      (SUCCESS, Some (hard_power (fst st)), snd st)"
    by (rule no_evidence_hard_power [OF _ _ nr h]) (simp_all add: fw_hit_def zero_fw_def panic_hit_def zero_panic_def st assms(3))
  then have "legacy_sources e (Some c) i w = Some (Inr (hard_power (fst st)), snd st)"
    unfolding legacy_sources_def wt option.case st_def [symmetric]
    using quiet_panic [OF ne] quiet_firmware [OF ne] h by (simp add: case_prod_beta Let_def)
  with st fs show ?thesis by auto
qed

lemma cold_run:
  assumes "fetcher_ready e c w" and "no_evidence e c w" and "access_ok BACKUP_LOGS_DONE_FLAG w" and "fs w REBOOT_INFO_FILE = None"
    and "writable e PREVIOUS_REBOOT_INFO_FILE w" and "writable e PREVIOUS_HARD_REBOOT_INFO_FILE w"
  shows "\<exists>ts v. fetcher_main e w = Some (SUCCESS, v) \<and>
    content v PREVIOUS_REBOOT_INFO_FILE = Some (record_text \<lparr>p_src = ''Hard Power Reset'', p_rsn = ''HARD_POWER'',
      p_cus = ''Hardware Register - NULL'', p_oth = ''No information found'', p_ts = ts\<rparr>) \<and>
    content v PREVIOUS_HARD_REBOOT_INFO_FILE = Some (hardpower_text ts)"
proof -
  obtain t u where f: "\<forall>p. p \<noteq> LOCK_DIR \<longrightarrow> fs u p = fs w p" and m: "fetcher_main e w =
    (case record_sources e (Some c) (zero_info\<lparr>timestamp := t\<rparr>) u of None \<Rightarrow> None
     | Some (Inl ret, x) \<Rightarrow> Some (ret, write_sentinel e (snd (release_lock (Some LOCK_DIR) x)))
     | Some (Inr (b, i), x) \<Rightarrow> Some (fst (report_info e (Some c) b i x),
         write_sentinel e (snd (release_lock (Some LOCK_DIR) (snd (report_info e (Some c) b i x))))))"
    using main_to_record [OF assms(1)] by blast
  have "fs u p = fs w p" if "p \<in> evidence_sources" for p using f that by (auto simp: evidence_sources_def)
  from no_evidence_cong [OF this] have ne: "no_evidence e c u" using assms(2) by simp
  have ac: "access_ok BACKUP_LOGS_DONE_FLAG u" using assms(3) f by (simp add: access_ok_def)
  obtain ts x where x: "legacy_sources e (Some c) (zero_info\<lparr>timestamp := t\<rparr>) u =
      Some (Inr (hard_power (zero_info\<lparr>timestamp := ts\<rparr>)), x)" "fs x = fs u"
    using cold_sources [OF ne ac, of "zero_info\<lparr>timestamp := t\<rparr>"] by (auto simp: zero_info_def)
  define i where "i = hard_power (zero_info\<lparr>timestamp := ts\<rparr>)"
  have i: "info_record i = \<lparr>p_src = ''Hard Power Reset'', p_rsn = ''HARD_POWER'',
      p_cus = ''Hardware Register - NULL'', p_oth = ''No information found'', p_ts = ts\<rparr>" "timestamp i = ts" "power_reason (reason i)"
    by (simp_all add: i_def hard_power_def info_record_def zero_info_def power_reason_def strstr.simps)
  have "rename_file e REBOOT_INFO_FILE PREVIOUS_REBOOT_INFO_FILE u = (Some ENOENT, u)"
    using assms(4) f by (simp add: rename_file_def)
  then have "record_sources e (Some c) (zero_info\<lparr>timestamp := t\<rparr>) u = Some (Inr (False, i), x)"
    using x(1) by (simp add: record_sources_def i_def)
  moreover have "writable e PREVIOUS_REBOOT_INFO_FILE x" "writable e PREVIOUS_HARD_REBOOT_INFO_FILE x"
    using assms(5,6) x(2) f by (simp_all add: writable_def)
  note r = report_legacy [OF this, of "Some c" i]
  ultimately show ?thesis using m i by (auto simp: closing_content)
qed

text \<open>
  C11. A cold boot is recorded as a loss of power: when nothing was left by \<^verbatim>\<open>rebootnow\<close>, the log
  backup is complete and no log and no register holds any evidence, a run on a ready device
  records \<^verbatim>\<open>HARD_POWER\<close> from \<^verbatim>\<open>Hard Power Reset\<close> with the custom reason
  \<^verbatim>\<open>Hardware Register - NULL\<close>, and writes the same time as the last hard power cycle.
\<close>

theorem cold_boot_recorded:
  assumes "fetcher_ready e c w" and "no_evidence e c w" and "access_ok BACKUP_LOGS_DONE_FLAG w" and "fs w REBOOT_INFO_FILE = None"
    and "writable e PREVIOUS_REBOOT_INFO_FILE w" and "writable e PREVIOUS_HARD_REBOOT_INFO_FILE w"
  shows "\<exists>ts v. fetcher_main e w = Some (SUCCESS, v) \<and>
    content v PREVIOUS_REBOOT_INFO_FILE = Some (record_text \<lparr>p_src = ''Hard Power Reset'', p_rsn = ''HARD_POWER'',
      p_cus = ''Hardware Register - NULL'', p_oth = ''No information found'', p_ts = ts\<rparr>) \<and>
    content v PREVIOUS_HARD_REBOOT_INFO_FILE = Some (hardpower_text ts)"
  by (rule cold_run [OF assms])

theorem cold_boot_recorded_witness:
  "\<exists>ts v. fetcher_main tv_env (tv_world\<lparr>fs := (fs tv_world)(BACKUP_LOGS_DONE_FLAG := Some (Reg []))\<rparr>) = Some (SUCCESS, v) \<and>
     content v PREVIOUS_HARD_REBOOT_INFO_FILE = Some (hardpower_text ts)"
proof -
  let ?w = "tv_world\<lparr>fs := (fs tv_world)(BACKUP_LOGS_DONE_FLAG := Some (Reg []))\<rparr>"
  have r: "fetcher_ready tv_env tv_ctx ?w"
    using tv_ready parse_cong [of ?w tv_world tv_env "Some zero_ctx"]
    by (auto simp: fetcher_ready_def access_ok_def is_dir_def lock_taken_def acquire_lock_def open_rw_def tv_env_def calm_env_def tv_world_def empty_world_def)
  have n: "no_evidence tv_env tv_ctx ?w"
    by (simp add: no_evidence_def search_string_in_file_def search_panic_in_file_def fopen_r_def tv_env_def calm_env_def
        tv_world_def access_r_ok_def access_ok_def)
  show ?thesis
    using cold_boot_recorded [OF r n] by (auto simp: access_ok_def tv_world_def writable_def tv_env_def calm_env_def empty_world_def)
qed

section \<open>A boot with a record\<close>

text \<open>The choice of the older log, and its reason line, depend only on the files below its directory.\<close>

lemma marked_log_cong:
  assumes "\<And>p. prefix (prev_logs e) p \<Longrightarrow> fs v p = fs w p"
  shows "marked_log e v = marked_log e w"
proof -
  have "marked (prev_logs e) v = marked (prev_logs e) w"
    by (simp add: fun_eq_iff marked_def is_dir_def access_ok_def assms)
  moreover have "opendir e (prev_logs e) v = opendir e (prev_logs e) w"
    by (simp add: opendir_def is_dir_def assms)
  ultimately show ?thesis by (simp add: marked_log_def Let_def access_ok_def assms split: option.split)
qed

lemma find_prev_cong:
  assumes "\<And>p. prefix (prev_logs e) p \<Longrightarrow> fs v p = fs w p" and "length (prev_logs e) \<le> 235"
  shows "find_previous_reboot_log e (Some []) 256 v = find_previous_reboot_log e (Some []) 256 w"
proof -
  have "find (\<lambda>p. access_ok p v) (flat_logs e) = find (\<lambda>p. access_ok p w) (flat_logs e)"
    by (rule find_cong) (auto simp: access_ok_def assms(1) flat_logs_def bak_log_def)
  moreover have "access_ok (prev_logs e @ ''/rebootInfo.log'') v = access_ok (prev_logs e @ ''/rebootInfo.log'') w"
    by (simp add: access_ok_def assms(1))
  ultimately show ?thesis
    by (simp add: find_prev_unfold [OF assms(2)] marked_log_cong [OF assms(1)] split: option.split)
qed

lemma find_prev_below:
  assumes "length (prev_logs e) \<le> 235" and "find_previous_reboot_log e (Some []) 256 w = (SUCCESS, p)"
  shows "prefix (prev_logs e) p"
  using assms(2) unfolding find_prev_unfold [OF assms(1)]
  by (auto simp: marked_log_def flat_logs_def bak_log_def Let_def split: option.splits if_splits)

lemma previous_reason_cong:
  assumes "\<And>p. prefix (prev_logs e) p \<Longrightarrow> fs v p = fs w p" and "length (prev_logs e) \<le> 235"
  shows "previous_reason e jp v = previous_reason e jp w"
proof -
  obtain rc q where q: "find_previous_reboot_log e (Some []) 256 w = (rc, q)" by fastforce
  have "rc = SUCCESS \<Longrightarrow> fopen_r e q v = fopen_r e q w"
    using find_prev_below [OF assms(2)] q by (intro fopen_r_cong assms(1)) simp
  with q find_prev_cong [OF assms] show ?thesis
    by (simp add: previous_reason_def load_previous_reboot_reason_line_def)
qed

lemma plain_base: "getenv e ''LOG_PATH'' = None \<Longrightarrow> prev_logs e = ''/opt/logs/PreviousLogs''"
  by (simp add: prev_logs_def log_base_def)

lemma not_below:
  "\<not> prefix ''/opt/logs/PreviousLogs'' LOCK_DIR" "\<not> prefix ''/opt/logs/PreviousLogs'' REBOOT_INFO_FILE"
  "\<not> prefix ''/opt/logs/PreviousLogs'' PREVIOUS_REBOOT_INFO_FILE" "\<not> prefix ''/opt/logs/PreviousLogs'' PARODUS_LOG"
  "\<not> prefix ''/opt/logs/PreviousLogs'' PARODUS_REBOOT_INFO_FILE" "\<not> prefix ''/opt/logs/PreviousLogs'' PREVIOUS_PARODUSREBOOT_INFO_FILE"
  by (simp_all add: LOCK_DIR_def REBOOT_INFO_FILE_def PREVIOUS_REBOOT_INFO_FILE_def PARODUS_LOG_def PARODUS_REBOOT_INFO_FILE_def
      PREVIOUS_PARODUSREBOOT_INFO_FILE_def)

text \<open>The work on a moved record: only the hand-over, the log and the key press copy.\<close>

lemma report_moved:
  assumes "writable e REBOOTINFO_LOG w" and "readable e PREVIOUS_REBOOT_INFO_FILE"
    and "content w PREVIOUS_REBOOT_INFO_FILE = Some rtext" and "reason i = []" and "report_info e c True i w = (ret, v)"
  shows "ret = SUCCESS \<and> content v REBOOTINFO_LOG = Some (previous_text e (ticks w) (json_info (cstr (take 511 rtext)))
      (previous_reason e (Some PREVIOUS_REBOOT_INFO_FILE) w)) \<and>
    (\<forall>q. q \<notin> {REBOOTINFO_LOG, PREVIOUS_KEYPRESS_INFO_FILE} \<longrightarrow> fs v q = fs w q)"
proof -
  define u where "u = snd (update_previous_reboot_log_fields e (Some PREVIOUS_REBOOT_INFO_FILE) (Some i) w)"
  have k: "update_kernel_log e c (Some i) w = w"
    using assms(4) by (simp add: update_kernel_log_def split: option.split)
  have "fopen_r e PREVIOUS_REBOOT_INFO_FILE w = Inr rtext"
    using assms(2,3) by (simp add: fopen_r_def readable_def content_SomeD)
  then have p: "previous_info e (Some PREVIOUS_REBOOT_INFO_FILE) w = json_info (cstr (take 511 rtext))"
    by (simp add: previous_info_def)
  have l: "content u REBOOTINFO_LOG = Some (previous_text e (ticks w) (json_info (cstr (take 511 rtext)))
      (previous_reason e (Some PREVIOUS_REBOOT_INFO_FILE) w))"
    by (simp add: u_def update_fields_ok [OF assms(1)] p content_def)
  have r: "ret = SUCCESS" "v = snd (copy_keypress_info e (Some KEYPRESS_INFO_FILE) (Some PREVIOUS_KEYPRESS_INFO_FILE) u)"
    using assms(5) by (simp_all add: report_info_def k u_def Let_def)
  have "fs v q = fs w q" if "q \<notin> {REBOOTINFO_LOG, PREVIOUS_KEYPRESS_INFO_FILE}" for q
    using that by (simp add: r(2) keypress_op.frame u_def fields_op.frame)
  with r l show ?thesis by (simp add: keypress_op.content_frame)
qed

definition parodus_ok :: "env \<Rightarrow> world \<Rightarrow> bool" where
  "parodus_ok e w \<longleftrightarrow> writable e PREVIOUS_PARODUSREBOOT_INFO_FILE w \<and> writable e PARODUS_LOG w \<and>
     writable e PARODUS_REBOOT_INFO_FILE w \<and> readable e PARODUS_REBOOT_INFO_FILE"

lemma moved_parodus_line:
  assumes "parodus_ok e w" and "content w PARODUS_REBOOT_INFO_FILE = Some line" and "\<forall>p \<in> parodus_files PREVIOUS_PARODUSREBOOT_INFO_FILE. fs m p = fs w p"
  shows "content (snd (handle_parodus_reboot_file e (Some i) (Some PREVIOUS_PARODUSREBOOT_INFO_FILE) m)) PREVIOUS_PARODUSREBOOT_INFO_FILE =
    Some (handed_line (cstr (take 511 line)))"
proof -
  have "writable e PREVIOUS_PARODUSREBOOT_INFO_FILE m" "writable e PARODUS_LOG m" "writable e PARODUS_REBOOT_INFO_FILE m"
    "content m PARODUS_REBOOT_INFO_FILE = Some line"
    using assms by (simp_all add: parodus_ok_def writable_def content_def parodus_files_def)
  with handover_line [OF this(1-3) _ _ _ this(4) prod.collapse [symmetric], of i] assms(1) show ?thesis
    by (simp add: parodus_ok_def)
qed

text \<open>The files of a run that moves a record.\<close>

definition moved_record_files :: "path set" where
  "moved_record_files = {REBOOT_INFO_FILE, PREVIOUS_REBOOT_INFO_FILE, REBOOTINFO_LOG, PREVIOUS_KEYPRESS_INFO_FILE, PATH_FLAG_INVOCATION} \<union>
     parodus_files PREVIOUS_PARODUSREBOOT_INFO_FILE"

lemma moved_record:
  assumes "fetcher_ready e c w" and "fs w REBOOT_INFO_FILE = Some (Reg rtext)"
    and "writable e PREVIOUS_REBOOT_INFO_FILE w" and "readable e PREVIOUS_REBOOT_INFO_FILE" and "writable e REBOOTINFO_LOG w"
    and "getenv e ''LOG_PATH'' = None" and "rename_err e REBOOT_INFO_FILE = None"
  shows "\<exists>n v. fetcher_main e w = Some (SUCCESS, v) \<and> content v PREVIOUS_REBOOT_INFO_FILE = Some rtext \<and> fs v REBOOT_INFO_FILE = None \<and>
    content v REBOOTINFO_LOG = Some (previous_text e n (json_info (cstr (take 511 rtext))) (previous_reason e (Some PREVIOUS_REBOOT_INFO_FILE) w)) \<and>
    fs v LOCK_DIR = fs (locked e w) LOCK_DIR \<and>
    (\<forall>q. q \<notin> moved_record_files \<longrightarrow> q \<noteq> LOCK_DIR \<longrightarrow> fs v q = fs w q) \<and>
    (parodus_ok e w \<longrightarrow> (\<forall>line. content w PARODUS_REBOOT_INFO_FILE = Some line \<longrightarrow>
       content v PREVIOUS_PARODUSREBOOT_INFO_FILE = Some (handed_line (cstr (take 511 line)))))"
proof -
  obtain ts u where f: "\<forall>p. p \<noteq> LOCK_DIR \<longrightarrow> fs u p = fs w p" "fs u LOCK_DIR = fs (locked e w) LOCK_DIR"
    and m: "fetcher_main e w =
    (case record_sources e (Some c) (zero_info\<lparr>timestamp := ts\<rparr>) u of None \<Rightarrow> None
     | Some (Inl ret, x) \<Rightarrow> Some (ret, write_sentinel e (snd (release_lock (Some LOCK_DIR) x)))
     | Some (Inr (b, i), x) \<Rightarrow> Some (fst (report_info e (Some c) b i x),
         write_sentinel e (snd (release_lock (Some LOCK_DIR) (snd (report_info e (Some c) b i x))))))"
    using main_to_record [OF assms(1)] by blast
  let ?i = "zero_info\<lparr>timestamp := ts\<rparr>"
  define m1 where "m1 = u\<lparr>fs := (fs u)(REBOOT_INFO_FILE := None, PREVIOUS_REBOOT_INFO_FILE := Some (Reg rtext))\<rparr>"
  define x where "x = snd (handle_parodus_reboot_file e (Some ?i) (Some PREVIOUS_PARODUSREBOOT_INFO_FILE) m1)"
  have "rename_file e REBOOT_INFO_FILE PREVIOUS_REBOOT_INFO_FILE u = (None, m1)"
    using assms(2,3,7) f by (simp add: rename_file_def writable_def m1_def)
  then have s: "record_sources e (Some c) ?i u = Some (Inr (True, ?i), x)"
    by (simp add: record_sources_def x_def case_prod_beta)
  have fx: "fs x q = fs m1 q" if "q \<notin> parodus_files PREVIOUS_PARODUSREBOOT_INFO_FILE" for q
    using that by (simp add: x_def parodus_file_op.frame)
  have c: "fs x PREVIOUS_REBOOT_INFO_FILE = Some (Reg rtext)" "fs x REBOOT_INFO_FILE = None"
      "fs x LOCK_DIR = fs (locked e w) LOCK_DIR" "fs x REBOOTINFO_LOG = fs w REBOOTINFO_LOG"
    using f by (simp_all add: fx parodus_files_def m1_def)
  have o: "fs x q = fs w q" if "q \<notin> moved_record_files" "q \<noteq> LOCK_DIR" for q
    using that f(1) fx [of q] by (auto simp: moved_record_files_def m1_def)
  have b: "fs x p = fs w p" if "prefix (prev_logs e) p" for p
  proof -
    have "p \<notin> {LOCK_DIR, REBOOT_INFO_FILE, PREVIOUS_REBOOT_INFO_FILE, PARODUS_LOG, PARODUS_REBOOT_INFO_FILE, PREVIOUS_PARODUSREBOOT_INFO_FILE}"
      using that not_below by (auto simp: plain_base [OF assms(6)])
    then show ?thesis using fx [of p] f by (simp add: parodus_files_def m1_def)
  qed
  have pr: "previous_reason e (Some PREVIOUS_REBOOT_INFO_FILE) x = previous_reason e (Some PREVIOUS_REBOOT_INFO_FILE) w"
    by (rule previous_reason_cong) (simp_all add: b plain_base [OF assms(6)])
  have pl: "content x PREVIOUS_PARODUSREBOOT_INFO_FILE = Some (handed_line (cstr (take 511 line)))"
    if "parodus_ok e w" and "content w PARODUS_REBOOT_INFO_FILE = Some line" for line
    unfolding x_def by (rule moved_parodus_line [OF that]) (use f in \<open>auto simp: parodus_files_def m1_def\<close>)
  obtain ret v where v: "report_info e (Some c) True ?i x = (ret, v)" by fastforce
  have "writable e REBOOTINFO_LOG x" using assms(5) writable_at [OF c(4)] by simp
  from report_moved [OF this assms(4) _ _ v, of rtext] c pr
  have "ret = SUCCESS" "content v REBOOTINFO_LOG = Some (previous_text e (ticks x) (json_info (cstr (take 511 rtext)))
      (previous_reason e (Some PREVIOUS_REBOOT_INFO_FILE) w))" "\<forall>q. q \<notin> {REBOOTINFO_LOG, PREVIOUS_KEYPRESS_INFO_FILE} \<longrightarrow> fs v q = fs x q"
    by (simp_all add: zero_info_def content_def)
  with m s v c pl o show ?thesis
    by (auto simp: closing_content sentinel_frame release_fs content_def moved_record_files_def)
qed

section \<open>A second run in the same boot\<close>

lemma ready_again:
  assumes "fetcher_ready e c w" and "writable e LOCK_DIR w" and "readable e LOCK_DIR"
    and "fs v LOCK_DIR = fs (locked e w) LOCK_DIR"
    and "\<And>q. q \<notin> moved_record_files \<Longrightarrow> q \<noteq> LOCK_DIR \<Longrightarrow> fs v q = fs w q"
  shows "fetcher_ready e c v"
proof -
  have flock: "flock e = FlockGranted"
    using assms(1) by (auto simp: fetcher_ready_def lock_taken_def acquire_lock_def Let_def split: option.splits sum.splits if_splits flock_answer.splits)
  have "fs v LOCK_DIR \<noteq> Some Dir"
    using assms(2,4) by (auto simp: locked_def acquire_lock_def open_rw_def writable_def Let_def
        split: option.splits sum.splits if_splits flock_answer.splits)
  with flock assms(2,3) have "lock_taken e v"
    by (simp add: lock_taken_def acquire_lock_def open_rw_def writable_def readable_def Let_def)
  moreover have "fs v STT_FLAG = fs w STT_FLAG" "fs v REBOOT_INFO_DIR = fs w REBOOT_INFO_DIR"
      "fs v DEVICE_PROPERTIES_PATH = fs w DEVICE_PROPERTIES_PATH"
    by (rule assms(5); simp add: moved_record_files_def parodus_files_def)+
  ultimately show ?thesis
    using assms(1) parse_cong [of v w e] by (simp add: fetcher_ready_def access_ok_def is_dir_def)
qed

text \<open>
  C17. Nothing keeps the program from running twice in one boot, and the second run destroys what
  the first one recorded: on a device where a record was left and no log and no register holds
  evidence of its own, the first run moves the record intact and the second replaces it by a loss
  of power that never happened, which it also notes as the last hard power cycle.
\<close>

theorem second_run_overwrites:
  assumes "fetcher_ready e c w" and "fs w REBOOT_INFO_FILE = Some (Reg t)" and "rename_err e REBOOT_INFO_FILE = None"
    and "writable e PREVIOUS_REBOOT_INFO_FILE w" and "readable e PREVIOUS_REBOOT_INFO_FILE" and "writable e REBOOTINFO_LOG w"
    and "writable e PREVIOUS_HARD_REBOOT_INFO_FILE w" and "getenv e ''LOG_PATH'' = None" and "no_evidence e c w"
    and "access_ok BACKUP_LOGS_DONE_FLAG w" and "writable e LOCK_DIR w" and "readable e LOCK_DIR"
  shows "\<exists>v1 v2 ts. fetcher_main e w = Some (SUCCESS, v1) \<and> content v1 PREVIOUS_REBOOT_INFO_FILE = Some t \<and>
    fetcher_main e v1 = Some (SUCCESS, v2) \<and>
    content v2 PREVIOUS_REBOOT_INFO_FILE = Some (record_text \<lparr>p_src = ''Hard Power Reset'', p_rsn = ''HARD_POWER'',
      p_cus = ''Hardware Register - NULL'', p_oth = ''No information found'', p_ts = ts\<rparr>) \<and>
    content v2 PREVIOUS_HARD_REBOOT_INFO_FILE = Some (hardpower_text ts)"
proof -
  obtain v1 where v1: "fetcher_main e w = Some (SUCCESS, v1)" "content v1 PREVIOUS_REBOOT_INFO_FILE = Some t" "fs v1 REBOOT_INFO_FILE = None"
      "fs v1 LOCK_DIR = fs (locked e w) LOCK_DIR"
      and o: "\<And>q. q \<notin> moved_record_files \<Longrightarrow> q \<noteq> LOCK_DIR \<Longrightarrow> fs v1 q = fs w q"
    using moved_record [OF assms(1,2,4,5,6,8,3)] by blast
  note keep = moved_record_files_def parodus_files_def evidence_sources_def
  have r: "fetcher_ready e c v1" by (rule ready_again [OF assms(1,11,12) v1(4) o])
  have "fs v1 p = fs w p" if "p \<in> evidence_sources" for p using that o [of p] by (auto simp: keep)
  from no_evidence_cong [OF this] have n: "no_evidence e c v1" using assms(9) by simp
  have b: "access_ok BACKUP_LOGS_DONE_FLAG v1" using assms(10) o [of BACKUP_LOGS_DONE_FLAG] by (simp add: access_ok_def keep)
  have p: "writable e PREVIOUS_REBOOT_INFO_FILE v1" using assms(4) v1(2) by (auto simp: writable_def content_def)
  have h: "writable e PREVIOUS_HARD_REBOOT_INFO_FILE v1"
    using assms(7) o [of PREVIOUS_HARD_REBOOT_INFO_FILE] by (simp add: writable_def keep)
  from cold_run [OF r n b v1(3) p h] v1(1,2) show ?thesis by blast
qed

text \<open>The television, with a record and nothing else.\<close>

definition twice_world :: world where
  "twice_world = tv_world\<lparr>fs := (fs tv_world)(BACKUP_LOGS_DONE_FLAG := Some (Reg []), REBOOT_INFO_FILE := Some (Reg ''record''))\<rparr>"

theorem second_run_overwrites_witness:
  "\<exists>v1 v2 ts. fetcher_main tv_env twice_world = Some (SUCCESS, v1) \<and> content v1 PREVIOUS_REBOOT_INFO_FILE = Some ''record'' \<and>
     fetcher_main tv_env v1 = Some (SUCCESS, v2) \<and> content v2 PREVIOUS_HARD_REBOOT_INFO_FILE = Some (hardpower_text ts)"
proof -
  have r: "fetcher_ready tv_env tv_ctx twice_world"
    using tv_ready parse_cong [of twice_world tv_world tv_env "Some zero_ctx"]
    by (auto simp: fetcher_ready_def access_ok_def is_dir_def lock_taken_def acquire_lock_def open_rw_def tv_env_def calm_env_def tv_world_def empty_world_def
        twice_world_def)
  have n: "no_evidence tv_env tv_ctx twice_world"
    by (simp add: no_evidence_def search_string_in_file_def search_panic_in_file_def fopen_r_def tv_env_def calm_env_def
        tv_world_def twice_world_def access_r_ok_def access_ok_def)
  show ?thesis
    using second_run_overwrites [OF r _ _ _ _ _ _ _ n]
    by (auto simp: access_ok_def tv_world_def twice_world_def writable_def readable_def tv_env_def calm_env_def empty_world_def)
qed

section \<open>A record that cannot be moved\<close>

text \<open>The files that are written once the record is known.\<close>

definition report_files :: "path set" where
  "report_files = {KERNEL_LOG_FILE, REBOOTINFO_LOG, PREVIOUS_REBOOT_INFO_FILE, PREVIOUS_HARD_REBOOT_INFO_FILE, PREVIOUS_KEYPRESS_INFO_FILE,
     PARODUS_LOG, PARODUS_REBOOT_INFO_FILE, PREVIOUS_PARODUSREBOOT_INFO_FILE}"

lemma persist_frame: "q \<notin> report_files \<Longrightarrow> fs (snd (persist_info e i w)) q = fs w q"
  by (simp add: persist_info_def case_prod_beta Let_def report_files_def hardpower_op.frame parodus_file_op.frame parodus_files_def
      parodus_log_op.frame info_op.frame)

lemma report_frame: "q \<notin> report_files \<Longrightarrow> fs (snd (report_info e c b i w)) q = fs w q"
  using persist_frame [of q e i]
  by (simp add: report_info_def case_prod_beta Let_def report_files_def keypress_op.frame fields_op.frame kernel_log_op.frame)

text \<open>
  C18. A record that cannot be moved is lost to the reader: when the rename fails for another
  reason than a missing file, the run still ends successfully, the record of the request stays
  where it was, and the record of the previous reboot is overwritten by one with a time stamp and
  nothing else, whatever it held before.
\<close>

theorem failed_move_blanks_record:
  assumes "fetcher_ready e c w" and "fs w REBOOT_INFO_FILE = Some (Reg t)" and "rename_err e REBOOT_INFO_FILE = Some er"
    and "er \<noteq> ENOENT" and "writable e PREVIOUS_REBOOT_INFO_FILE w" and "writable e PREVIOUS_HARD_REBOOT_INFO_FILE w"
  shows "\<exists>ts v. fetcher_main e w = Some (SUCCESS, v) \<and> content v REBOOT_INFO_FILE = Some t \<and>
    content v PREVIOUS_REBOOT_INFO_FILE = Some (record_text \<lparr>p_src = [], p_rsn = [], p_cus = [], p_oth = [], p_ts = ts\<rparr>)"
proof -
  obtain ts u where f: "\<forall>p. p \<noteq> LOCK_DIR \<longrightarrow> fs u p = fs w p" and m: "fetcher_main e w =
    (case record_sources e (Some c) (zero_info\<lparr>timestamp := ts\<rparr>) u of None \<Rightarrow> None
     | Some (Inl ret, x) \<Rightarrow> Some (ret, write_sentinel e (snd (release_lock (Some LOCK_DIR) x)))
     | Some (Inr (b, i), x) \<Rightarrow> Some (fst (report_info e (Some c) b i x),
         write_sentinel e (snd (release_lock (Some LOCK_DIR) (snd (report_info e (Some c) b i x))))))"
    using main_to_record [OF assms(1)] by blast
  define i where "i = zero_info\<lparr>timestamp := ts\<rparr>"
  have "rename_file e REBOOT_INFO_FILE PREVIOUS_REBOOT_INFO_FILE u = (Some er, u)"
    using assms(2,3) f by (simp add: rename_file_def)
  then have s: "record_sources e (Some c) i u = Some (Inr (False, i), u)"
    using assms(4) by (simp add: record_sources_def)
  have w: "writable e PREVIOUS_REBOOT_INFO_FILE u" "writable e PREVIOUS_HARD_REBOOT_INFO_FILE u"
    using assms(5,6) f by (simp_all add: writable_def)
  have k: "content (snd (report_info e (Some c) False i u)) REBOOT_INFO_FILE = Some t"
    using assms(2) f by (simp add: content_def report_frame report_files_def)
  have "info_record i = \<lparr>p_src = [], p_rsn = [], p_cus = [], p_oth = [], p_ts = ts\<rparr>"
    by (simp add: i_def info_record_def zero_info_def)
  with m s k report_legacy [OF w, of "Some c" i] show ?thesis
    by (auto simp: closing_content i_def)
qed

text \<open>A television whose file system refuses the rename.\<close>

definition stuck_env :: env where
  "stuck_env = tv_env\<lparr>rename_err := (\<lambda>_. Some EIO)\<rparr>"

definition stuck_world :: world where
  "stuck_world = tv_world\<lparr>fs := (fs tv_world)(REBOOT_INFO_FILE := Some (Reg ''record''))\<rparr>"

lemma stuck_properties: "parse_device_properties stuck_env (Some zero_ctx) stuck_world = parse_device_properties tv_env (Some zero_ctx) tv_world"
proof -
  have "fs stuck_world DEVICE_PROPERTIES_PATH = fs tv_world DEVICE_PROPERTIES_PATH" by (simp add: stuck_world_def)
  then have "fopen_r stuck_env DEVICE_PROPERTIES_PATH stuck_world = fopen_r tv_env DEVICE_PROPERTIES_PATH tv_world"
    by (simp only: fopen_r_def) (simp add: stuck_env_def)
  moreover have "property stuck_env = property tv_env" by (simp add: fun_eq_iff property_def stuck_env_def)
  ultimately show ?thesis by (simp only: parse_device_properties_def)
qed

theorem failed_move_blanks_record_witness:
  "\<exists>ts v. fetcher_main stuck_env stuck_world = Some (SUCCESS, v) \<and> content v REBOOT_INFO_FILE = Some ''record'' \<and>
     content v PREVIOUS_REBOOT_INFO_FILE = Some (record_text \<lparr>p_src = [], p_rsn = [], p_cus = [], p_oth = [], p_ts = ts\<rparr>)"
proof -
  have r: "fetcher_ready stuck_env tv_ctx stuck_world"
    using tv_ready stuck_properties
    by (auto simp: fetcher_ready_def access_ok_def is_dir_def lock_taken_def acquire_lock_def open_rw_def stuck_env_def stuck_world_def tv_env_def
        calm_env_def tv_world_def empty_world_def)
  show ?thesis
    by (rule failed_move_blanks_record [OF r, of "''record''" EIO])
      (simp_all add: writable_def stuck_env_def stuck_world_def tv_env_def calm_env_def tv_world_def empty_world_def)
qed

end
