(* ===== verification/LogHandover.thy ===== *)
theory LogHandover
  imports RebootLoop FetcherRuns
begin

text \<open>
  The log between the two programs: the five lines \<^verbatim>\<open>rebootnow\<close> writes to \<^verbatim>\<open>rebootInfo.log\<close> are
  those the parser of the older format and the search for the reason line of
  \<^verbatim>\<open>bootup_reason_checker.c\<close> read at the next boot, once the log is in \<^verbatim>\<open>PreviousLogs\<close>.
\<close>

section \<open>What rebootnow logs is what the fetcher parses\<close>

definition legacy_keys :: "string list" where
  "legacy_keys = [''PreviousRebootInitiatedBy:'', ''PreviousRebootTime:'', ''PreviousCustomReason:'', ''PreviousOtherReason:'',
     ''RebootInitiatedBy:'', ''RebootTime:'', ''CustomReason:'', ''OtherReason:'', ''PreviousRebootReason:'']"

text \<open>A text that can be a value of the log: one line without a key of the log, with no blanks at its ends.\<close>

definition loggable :: "nat \<Rightarrow> string \<Rightarrow> bool" where
  "loggable n x \<longleftrightarrow> length x < n \<and> NL \<notin> set x \<and> NUL \<notin> set x \<and> (x = [] \<or> \<not> blank (hd x) \<and> \<not> blank_or_eol (last x)) \<and>
     list_all (\<lambda>k. \<not> sublist k x) legacy_keys"

lemma getVal_line:
  assumes "loggable n x"
  shows "getVal (key @ SP # x @ [NL]) key n = x"
proof -
  have v: "dropWhile blank (drop (length key) (key @ SP # x @ [NL])) = x @ [NL]"
    using assms by (cases x) (auto simp: loggable_def blank_def)
  have n: "length x < n" using assms by (simp add: loggable_def)
  have l: "rstrip blank_or_eol x = x"
    using assms by (intro rstrip_id) (auto simp: loggable_def)
  have "bufcpy n (x @ [NL]) = x \<or> bufcpy n (x @ [NL]) = x @ [NL]"
    using n by (cases "length x = n - 1") (auto simp: bufcpy_def)
  moreover have "rstrip blank_or_eol (x @ [NL]) = rstrip blank_or_eol x"
    by (simp add: rstrip_def blank_or_eol_def)
  ultimately show ?thesis using l unfolding getVal_def v Let_def by auto
qed

lemma key_line:
  assumes "SP \<notin> set k" and "NL \<notin> set k" and "k \<noteq> []"
  shows "sublist k (a @ SP # x @ [NL]) \<longleftrightarrow> sublist k a \<or> sublist k x"
  using sublist_sep [OF assms(1), of a "x @ [NL]"] sublist_sep [OF assms(2), of x "[]"] assms(3) by simp

lemma no_key: "loggable n x \<Longrightarrow> k \<in> set legacy_keys \<Longrightarrow> \<not> sublist k x"
  by (auto simp: loggable_def list_all_iff)

lemma strstr_line:
  assumes "loggable n x" and "k \<in> set legacy_keys"
  shows "strstr (a @ SP # x @ [NL]) k = None \<longleftrightarrow> \<not> sublist k a"
proof -
  have "SP \<notin> set k" "NL \<notin> set k" "k \<noteq> []" using assms(2) by (auto simp: legacy_keys_def)
  from key_line [OF this, of a x] show ?thesis using no_key [OF assms] by (simp add: strstr_None_iff)
qed

lemma key_names:
  "\<not> sublist ''PreviousRebootInitiatedBy:'' ''RebootInitiatedBy:''" "\<not> sublist ''PreviousRebootTime:'' ''RebootInitiatedBy:''"
  "\<not> sublist ''PreviousCustomReason:'' ''RebootInitiatedBy:''" "\<not> sublist ''PreviousOtherReason:'' ''RebootInitiatedBy:''"
  "\<not> sublist ''PreviousRebootInitiatedBy:'' ''RebootTime:''" "\<not> sublist ''PreviousRebootTime:'' ''RebootTime:''"
  "\<not> sublist ''PreviousCustomReason:'' ''RebootTime:''" "\<not> sublist ''PreviousOtherReason:'' ''RebootTime:''"
  "\<not> sublist ''RebootInitiatedBy:'' ''RebootTime:''"
  "\<not> sublist ''PreviousRebootInitiatedBy:'' ''CustomReason:''" "\<not> sublist ''PreviousRebootTime:'' ''CustomReason:''"
  "\<not> sublist ''PreviousCustomReason:'' ''CustomReason:''" "\<not> sublist ''PreviousOtherReason:'' ''CustomReason:''"
  "\<not> sublist ''RebootInitiatedBy:'' ''CustomReason:''" "\<not> sublist ''RebootTime:'' ''CustomReason:''"
  "\<not> sublist ''PreviousRebootInitiatedBy:'' ''OtherReason:''" "\<not> sublist ''PreviousRebootTime:'' ''OtherReason:''"
  "\<not> sublist ''PreviousCustomReason:'' ''OtherReason:''" "\<not> sublist ''PreviousOtherReason:'' ''OtherReason:''"
  "\<not> sublist ''RebootInitiatedBy:'' ''OtherReason:''" "\<not> sublist ''RebootTime:'' ''OtherReason:''" "\<not> sublist ''CustomReason:'' ''OtherReason:''"
  by code_simp+

lemma strstr_own: "strstr (k @ r) k = Some (k @ r)"
  by (rule strstr_here) simp

lemma raw_lines:
  "loggable 128 s \<Longrightarrow> legacy_line (''RebootInitiatedBy:'' @ SP # s @ [NL]) g = g\<lparr>rawInitiatedBy := s, raw_fields := raw_fields g + 1\<rparr>"
  "loggable 64 t \<Longrightarrow> legacy_line (''RebootTime:'' @ SP # t @ [NL]) g = g\<lparr>rawTime := t, raw_fields := raw_fields g + 1\<rparr>"
  "loggable 128 c \<Longrightarrow> legacy_line (''CustomReason:'' @ SP # c @ [NL]) g = g\<lparr>rawCustom := c, raw_fields := raw_fields g + 1\<rparr>"
  "loggable 128 r \<Longrightarrow> legacy_line (''OtherReason:'' @ SP # r @ [NL]) g = g\<lparr>rawOther := r, raw_fields := raw_fields g + 1\<rparr>"
proof -
  have k: "set legacy_keys = {''PreviousRebootInitiatedBy:'', ''PreviousRebootTime:'', ''PreviousCustomReason:'', ''PreviousOtherReason:'',
     ''RebootInitiatedBy:'', ''RebootTime:'', ''CustomReason:'', ''OtherReason:'', ''PreviousRebootReason:''}"
    by (simp only: legacy_keys_def list.set)
  note n = strstr_line [THEN iffD2]
  show "loggable 128 s \<Longrightarrow> legacy_line (''RebootInitiatedBy:'' @ SP # s @ [NL]) g = g\<lparr>rawInitiatedBy := s, raw_fields := raw_fields g + 1\<rparr>"
    unfolding legacy_line_def strstr_own [of "''RebootInitiatedBy:''"]
    by (simp only: n [of 128 s "''PreviousRebootInitiatedBy:''"] n [of 128 s "''PreviousRebootTime:''"] n [of 128 s "''PreviousCustomReason:''"]
        n [of 128 s "''PreviousOtherReason:''"] key_names k insert_iff simp_thms option.case getVal_line)
  show "loggable 64 t \<Longrightarrow> legacy_line (''RebootTime:'' @ SP # t @ [NL]) g = g\<lparr>rawTime := t, raw_fields := raw_fields g + 1\<rparr>"
    unfolding legacy_line_def strstr_own [of "''RebootTime:''"]
    by (simp only: n [of 64 t "''PreviousRebootInitiatedBy:''"] n [of 64 t "''PreviousRebootTime:''"] n [of 64 t "''PreviousCustomReason:''"]
        n [of 64 t "''PreviousOtherReason:''"] n [of 64 t "''RebootInitiatedBy:''"] key_names k insert_iff simp_thms option.case getVal_line)
  show "loggable 128 c \<Longrightarrow> legacy_line (''CustomReason:'' @ SP # c @ [NL]) g = g\<lparr>rawCustom := c, raw_fields := raw_fields g + 1\<rparr>"
    unfolding legacy_line_def strstr_own [of "''CustomReason:''"]
    by (simp only: n [of 128 c "''PreviousRebootInitiatedBy:''"] n [of 128 c "''PreviousRebootTime:''"] n [of 128 c "''PreviousCustomReason:''"]
        n [of 128 c "''PreviousOtherReason:''"] n [of 128 c "''RebootInitiatedBy:''"] n [of 128 c "''RebootTime:''"]
        key_names k insert_iff simp_thms option.case getVal_line)
  show "loggable 128 r \<Longrightarrow> legacy_line (''OtherReason:'' @ SP # r @ [NL]) g = g\<lparr>rawOther := r, raw_fields := raw_fields g + 1\<rparr>"
    unfolding legacy_line_def strstr_own [of "''OtherReason:''"]
    by (simp only: n [of 128 r "''PreviousRebootInitiatedBy:''"] n [of 128 r "''PreviousRebootTime:''"] n [of 128 r "''PreviousCustomReason:''"]
        n [of 128 r "''PreviousOtherReason:''"] n [of 128 r "''RebootInitiatedBy:''"] n [of 128 r "''RebootTime:''"] n [of 128 r "''CustomReason:''"]
        key_names k insert_iff simp_thms option.case getVal_line)
qed

text \<open>The reason line holds no key; it is kept for the system daemon unless it names it.\<close>

lemma reason_text_no_key:
  assumes "loggable n s" and "loggable m oth" and "k \<in> set legacy_keys"
  shows "\<not> sublist k (reason_text s b oth)"
proof -
  have k: "SP \<notin> set k" "NL \<notin> set k" "k \<noteq> []" using assms(3) by (auto simp: legacy_keys_def)
  have c: "\<not> sublist k ''RebootReason:''" "\<not> sublist k ''Triggered''" "\<not> sublist k ''from''" "\<not> sublist k ''process''"
    "\<not> sublist k ''failure''" "\<not> sublist k ''or''" "\<not> sublist k ''crash..!''"
    using assms(3) by (auto simp: legacy_keys_def) (code_simp+)
  have t: "reason_text s b oth = ''RebootReason:'' @ SP # ''Triggered'' @ SP # ''from'' @ SP # s @ SP # ''process'' @
     (if b then SP # ''failure'' @ SP # ''or'' @ SP # ''crash..!'' else []) @ (if oth = ''Unknown'' then [] else SP # oth) @ [NL]"
    by (simp add: reason_text_def)
  have e: "sublist k (x @ [NL]) \<longleftrightarrow> sublist k x" for x using sublist_sep [OF k(2), of x "[]"] k(3) by simp
  have f: "sublist k (x @ (if oth = ''Unknown'' then [] else SP # oth) @ [NL]) \<longleftrightarrow> sublist k x" for x
    using sublist_sep [OF k(1), of x "oth @ [NL]"] e [of x] e [of oth] no_key [OF assms(2,3)] by simp
  have g: "sublist k (''process'' @ (if b then SP # ''failure'' @ SP # ''or'' @ SP # ''crash..!'' else []) @
      (if oth = ''Unknown'' then [] else SP # oth) @ [NL]) \<longleftrightarrow> False"
    using f [of "''process''"] f [of "''process'' @ SP # ''failure'' @ SP # ''or'' @ SP # ''crash..!''"] c
    by (simp add: sublist_sep [OF k(1)] del: append.simps(2))
  show ?thesis
    unfolding t sublist_sep [OF k(1)] g using c no_key [OF assms(1,3)] by simp
qed

lemma reason_line_kept:
  assumes "loggable 128 s" and "loggable 128 oth"
  shows "legacy_line (reason_text s b oth) g =
    (if sublist ''HAL_SYS_Reboot'' (reason_text s b oth) then g else g\<lparr>rawRebootReason := bufcpy 512 (reason_text s b oth)\<rparr>)"
proof -
  have n: "strstr (reason_text s b oth) k = None" if "k \<in> set legacy_keys" for k
    using reason_text_no_key [OF assms that] by (simp add: strstr_None_iff)
  have k: "set legacy_keys = {''PreviousRebootInitiatedBy:'', ''PreviousRebootTime:'', ''PreviousCustomReason:'', ''PreviousOtherReason:'',
     ''RebootInitiatedBy:'', ''RebootTime:'', ''CustomReason:'', ''OtherReason:'', ''PreviousRebootReason:''}"
    by (simp only: legacy_keys_def list.set)
  have r: "sublist ''RebootReason:'' (reason_text s b oth)"
    by (rule prefix_imp_sublist) (simp add: reason_text_def)
  show ?thesis
    unfolding legacy_line_def
    by (simp only: n k insert_iff simp_thms option.case strstr_None_iff r if_True split: if_split) simp
qed

lemma loggable_plain: "loggable n x \<Longrightarrow> NL \<notin> set x \<and> NUL \<notin> set x \<and> length x < n"
  by (simp add: loggable_def)

definition reason_body :: "string \<Rightarrow> bool \<Rightarrow> string \<Rightarrow> string" where
  "reason_body s b oth = ''RebootReason: Triggered from '' @ s @ '' process'' @
     (if b then '' failure or crash..!'' else []) @ (if oth = ''Unknown'' then [] else '' '' @ oth)"

lemma reason_text_body: "reason_text s b oth = reason_body s b oth @ [NL]"
  by (simp add: reason_text_def reason_body_def)

definition log_bodies :: "string \<Rightarrow> bool \<Rightarrow> string \<Rightarrow> string \<Rightarrow> string \<Rightarrow> string list" where
  "log_bodies s b ts c oth = [reason_body s b oth, ''RebootInitiatedBy:'' @ SP # s, ''RebootTime:'' @ SP # ts,
     ''CustomReason:'' @ SP # c, ''OtherReason:'' @ SP # oth]"

lemma log_bodies_plain:
  assumes "loggable 128 s" and "loggable 128 c" and "loggable 128 oth" and "loggable 64 ts"
  shows "\<forall>x \<in> set (log_bodies s b ts c oth). NL \<notin> set x \<and> NUL \<notin> set x \<and> length x < 511"
  using assms [THEN loggable_plain] by (auto simp: log_bodies_def reason_body_def)

lemma log_lines_bodies:
  assumes "loggable 128 s" and "loggable 128 c" and "loggable 128 oth" and "loggable 64 ts"
  shows "log_lines s b ts c oth = map (\<lambda>x. x @ [NL]) (log_bodies s b ts c oth)"
    and "fgets_lines 512 (concat (log_lines s b ts c oth)) = log_lines s b ts c oth"
proof -
  have "bufcpy 1024 (x @ [NL]) = x @ [NL]" if "x \<in> set (log_bodies s b ts c oth)" for x
    using log_bodies_plain [OF assms, of b] that by (intro bufcpy_id) auto
  then have "map (\<lambda>x. bufcpy 1024 (x @ [NL])) (log_bodies s b ts c oth) = map (\<lambda>x. x @ [NL]) (log_bodies s b ts c oth)"
    by (rule map_cong [OF refl])
  then show l: "log_lines s b ts c oth = map (\<lambda>x. x @ [NL]) (log_bodies s b ts c oth)"
    by (simp add: log_lines_def reason_line_eq log_bodies_def reason_text_body)
  show "fgets_lines 512 (concat (log_lines s b ts c oth)) = log_lines s b ts c oth"
    unfolding l by (rule fgets_lines_concat) (use log_bodies_plain [OF assms, of b] in auto)
qed

lemma reason_read_back:
  assumes "loggable 128 s" and "loggable 128 c" and "loggable 128 oth" and "loggable 64 ts"
  shows "reason_in_lines 512 (fgets_lines 512 (concat (log_lines s b ts c oth))) = Some (reason_body s b oth)"
proof -
  note L = log_lines_bodies [OF assms, of b]
  obtain r where t: "reason_text s b oth = ''RebootReason: '' @ CHR ''T'' # r @ [NL]" "reason_body s b oth = ''RebootReason: '' @ CHR ''T'' # r"
    by (simp add: reason_text_def reason_body_def)
  have p: "strstr (reason_text s b oth) ''PreviousRebootReason:'' = None"
    using reason_text_no_key [OF assms(1,3), of "''PreviousRebootReason:''" b] by (simp add: legacy_keys_def strstr_None_iff)
  have n: "length (reason_text s b oth) < 512"
    using log_bodies_plain [OF assms, of b] by (simp add: log_bodies_def reason_text_body)
  have z: "\<not> (last (reason_body s b oth) = NL \<or> last (reason_body s b oth) = CR)"
    using assms(3) by (auto simp: reason_body_def loggable_def blank_or_eol_def last_append)
  have s: "rstrip (\<lambda>x. x = NL \<or> x = CR) (reason_text s b oth) = reason_body s b oth"
    using rstrip_trail [of "reason_body s b oth" "\<lambda>x. x = NL \<or> x = CR" NL 1] z by (simp add: reason_text_body)
  have "reason_in_lines 512 (reason_text s b oth # ls) = Some (rstrip (\<lambda>x. x = NL \<or> x = CR) (bufcpy 512 (reason_text s b oth)))" for ls
    using p unfolding t(1) by (simp add: blank_def Let_def)
  then show ?thesis
    unfolding L(2) unfolding L(1) using n s by (simp add: log_bodies_def reason_text_body [symmetric])
qed

text \<open>
  C20. The log \<^verbatim>\<open>rebootnow\<close> leaves is understood by the fetcher of the next boot, for texts the
  format can carry: source, custom and other reason shorter than 128 bytes and the time than 64,
  without newline or zero byte, without a blank or line end at either end, and without any of the
  field names the parser looks for. Whatever log of the previous boot holds the five lines of such
  a request, parsing it gives back the source, the time, the custom and the other reason of the
  request, also for a request of the system daemon, and the reason line found in it is the first
  line without its newline.
\<close>

theorem legacy_log_roundtrip:
  assumes "loggable 128 s" and "loggable 128 c" and "loggable 128 oth" and "loggable 64 ts"
    and "fopen_r e p w = Inr (concat (log_lines s b ts c oth))"
  shows "parse_legacy_log e (Some p) (Some i) w =
      (SUCCESS, Some (i\<lparr>source := s, timestamp := ts, customReason := c, otherReason := oth\<rparr>)) \<and>
    reason_in_lines 512 (fgets_lines 512 (concat (log_lines s b ts c oth))) = Some (reason_body s b oth)"
proof
  note L = log_lines_bodies [OF assms(1-4), of b]
  define g0 where "g0 = \<lparr>lg_info = i, found_fields = 0, raw_fields = 0, rawInitiatedBy = [], rawTime = [], rawCustom = [],
    rawOther = [], rawRebootReason = []\<rparr>"
  have hal: "sublist s (reason_text s b oth)" unfolding reason_text_def sublist_def by blast
  define g1 where "g1 = legacy_line (reason_text s b oth) g0"
  have g1: "lg_info g1 = i" "found_fields g1 = 0" "raw_fields g1 = 0" "s = ''HAL_SYS_Reboot'' \<longrightarrow> rawRebootReason g1 = []"
    using hal unfolding g1_def reason_line_kept [OF assms(1,3)] by (auto simp: g0_def)
  define g where "g = g1\<lparr>rawInitiatedBy := s, rawTime := ts, rawCustom := c, rawOther := oth, raw_fields := 4\<rparr>"
  have ll: "log_lines s b ts c oth = [reason_text s b oth, ''RebootInitiatedBy:'' @ SP # s @ [NL], ''RebootTime:'' @ SP # ts @ [NL],
      ''CustomReason:'' @ SP # c @ [NL], ''OtherReason:'' @ SP # oth @ [NL]]"
    unfolding L(1) by (simp add: log_bodies_def reason_text_body)
  have "legacy_scan (log_lines s b ts c oth) g0 = g"
    unfolding ll using g1 assms(1-4)
    by (simp only: legacy_scan.simps Let_def g1_def [symmetric] raw_lines) (simp add: g_def)
  moreover have "length s < 128" "length c < 128" "length oth < 128" "length ts < 64"
    using assms(1-4) by (simp_all add: loggable_def)
  ultimately show "parse_legacy_log e (Some p) (Some i) w =
      (SUCCESS, Some (i\<lparr>source := s, timestamp := ts, customReason := c, otherReason := oth\<rparr>))"
    using g1 by (auto simp: parse_legacy_log_def assms(5) L(2) g0_def [symmetric] Let_def g_def)
qed (rule reason_read_back [OF assms(1-4)])

definition sample_stamp :: string where
  "sample_stamp = ''Mon Jan 05 23:45:07 UTC 2026''"

definition sample_log :: world where
  "sample_log = empty_world\<lparr>fs := [''/opt/logs/PreviousLogs/rebootInfo.log'' \<mapsto>
     Reg (concat (log_lines ''HAL_SYS_Reboot'' True sample_stamp ''Unknown'' ''disk full''))]\<rparr>"

lemma sample_loggable:
  "loggable 128 ''HAL_SYS_Reboot''" "loggable 128 ''Unknown''" "loggable 128 ''disk full''" "loggable 64 sample_stamp"
  by code_simp+

theorem legacy_log_roundtrip_witness:
  "parse_legacy_log calm_env (Some ''/opt/logs/PreviousLogs/rebootInfo.log'') (Some zero_info) sample_log =
     (SUCCESS, Some (zero_info\<lparr>source := ''HAL_SYS_Reboot'', timestamp := sample_stamp, customReason := ''Unknown'', otherReason := ''disk full''\<rparr>))"
proof -
  have "fopen_r calm_env ''/opt/logs/PreviousLogs/rebootInfo.log'' sample_log =
      Inr (concat (log_lines ''HAL_SYS_Reboot'' True sample_stamp ''Unknown'' ''disk full''))"
    by (simp add: fopen_r_def calm_env_def sample_log_def)
  from legacy_log_roundtrip [OF sample_loggable this, of zero_info] show ?thesis by simp
qed

section \<open>From one program to the other\<close>

lemma run_request_kept:
  assumes "own_ok e w" and "log_files e \<inter> own_files = {}" and "after_guard e s b c oth w = (rc, ts, w3)"
  shows "content (snd (run_request e s b c oth w)) REBOOT_INFO_FILE = Some (record_text (request_record s c oth ts))"
    and "content (snd (run_request e s b c oth w)) PARODUS_REBOOT_INFO_FILE = Some (parodus_line ts (categorize s c) c s)"
    and "content (snd (run_request e s b c oth w)) REBOOTINFO_LOG = Some (concat (log_lines s b ts c oth))"
proof -
  note cs = after_guard_content [OF assms(1,3)]
  note prep = prepare_reboot_own [OF after_guard_own_ok [OF assms(1,3)] assms(2) categorize_nonempty]
  have r: "concat (render_record r) = record_text r" for r
    by (simp add: render_record_def record_text_def json_kv_def)
  show "content (snd (run_request e s b c oth w)) REBOOT_INFO_FILE = Some (record_text (request_record s c oth ts))"
    using cs(2) by (simp add: run_request_after assms(3) content_def prep own_files_def r)
  show "content (snd (run_request e s b c oth w)) PARODUS_REBOOT_INFO_FILE = Some (parodus_line ts (categorize s c) c s)"
    using cs(3) by (simp add: run_request_after assms(3) content_def prep own_files_def)
  show "content (snd (run_request e s b c oth w)) REBOOTINFO_LOG = Some (concat (log_lines s b ts c oth))"
    using cs(1) by (simp add: run_request_after assms(3) content_def prep own_files_def)
qed

text \<open>The log of the previous boot is the flat one: no marked directory and no backup.\<close>

definition flat_backup :: "env \<Rightarrow> world \<Rightarrow> bool" where
  "flat_backup e w \<longleftrightarrow> getenv e ''LOG_PATH'' = None \<and> marked_log e w = None \<and>
     (\<forall>i \<in> {1, 2, 3}. \<not> access_ok (bak_log ''/opt/logs/PreviousLogs'' i) w) \<and>
     readable e ''/opt/logs/PreviousLogs/rebootInfo.log''"

lemma flat_backup_found:
  assumes "flat_backup e w" and "content w ''/opt/logs/PreviousLogs/rebootInfo.log'' = Some t"
  shows "find_previous_reboot_log e (Some []) 256 w = (SUCCESS, ''/opt/logs/PreviousLogs/rebootInfo.log'')"
    and "fopen_r e ''/opt/logs/PreviousLogs/rebootInfo.log'' w = Inr t"
proof -
  have p: "prev_logs e = ''/opt/logs/PreviousLogs''" using assms(1) by (simp add: flat_backup_def plain_base)
  then have l: "length (prev_logs e) \<le> 235" by simp
  have a: "access_ok ''/opt/logs/PreviousLogs/rebootInfo.log'' w" using content_SomeD [OF assms(2)] by (simp add: access_ok_def)
  show "find_previous_reboot_log e (Some []) 256 w = (SUCCESS, ''/opt/logs/PreviousLogs/rebootInfo.log'')"
    using assms(1) a unfolding find_prev_unfold [OF l] flat_logs_def p by (simp add: flat_backup_def)
  show "fopen_r e ''/opt/logs/PreviousLogs/rebootInfo.log'' w = Inr t"
    using assms(1) content_SomeD [OF assms(2)] by (simp add: fopen_r_def flat_backup_def readable_def)
qed

lemma logged_reason:
  assumes "loggable 128 s" and "loggable 128 c" and "loggable 128 oth" and "loggable 64 ts" and "flat_backup e w"
    and "content w ''/opt/logs/PreviousLogs/rebootInfo.log'' = Some (concat (log_lines s b ts c oth))"
  shows "previous_reason e (Some p) w = reason_body s b oth"
proof -
  note f = flat_backup_found [OF assms(5,6)]
  show ?thesis
    using reason_read_back [OF assms(1-4), of b] f
    by (simp add: previous_reason_def load_previous_reboot_reason_line_def)
qed

end
