(* ===== verification/Footprint.thy ===== *)
theory Footprint
  imports LogHandover
begin

text \<open>
  What the two programs may touch: the files of a whole run of \<^verbatim>\<open>rebootnow\<close>, and the files and
  events of a whole run of the fetcher, stage by stage.
\<close>

section \<open>rebootnow\<close>







section \<open>The fetcher\<close>


























section \<open>Properties\<close>




end
