(* ===== verification/PidRace.thy ===== *)
theory PidRace
  imports RebootMain
begin

text \<open>
  The PID guard of \<^verbatim>\<open>system_cleanup.c\<close> among several processes. \<open>pidfile_write_and_guard\<close> is taken
  apart into its system calls, which the processes make in any order; the file is an inode with
  bytes and a lock, apart from the path that names it, since a process can hold an unlinked one.
  A process alone behaves as the whole function; an instance that wrote its number undisturbed
  keeps every later one out; and three windows let two instances in.
\<close>

section \<open>The guard, one system call at a time\<close>

text \<open>
  Where a process is inside \<open>pidfile_write_and_guard\<close>, named by what it did last: it created the
  file and has not written yet; it met an existing file, or one that vanished before the second
  open; it opened, locked, wrapped (\<^verbatim>\<open>fdopen\<close>) and read the file; it goes to overwrite a stale one. A number is the
  inode of its descriptor, which need no longer be the file the path names.
\<close>

datatype guard_pc =
    Starting
  | Created nat
  | Existing
  | Missing
  | Opened nat
  | Locked nat
  | Streamed nat
  | Checked nat "int option"
  | Stale nat
  | Emptied nat
  | Rewritten nat
  | Admitted
  | Refused
  | Gone

text \<open>
  The state the processes share: the inode the path names, the bytes and the lock holder of every
  inode, the next free inode; and the place of every process that was ever started.
\<close>

record race =
  named :: "nat option"
  bytes :: "nat \<Rightarrow> string"
  holder :: "nat \<Rightarrow> int option"
  inodes :: nat
  pcs :: "int \<Rightarrow> guard_pc option"

definition move :: "int \<Rightarrow> guard_pc \<Rightarrow> race \<Rightarrow> race" where
  "move p pc s = s\<lparr>pcs := (pcs s)(p \<mapsto> pc)\<rparr>"

definition release :: "int \<Rightarrow> nat \<Rightarrow> race \<Rightarrow> race" where
  "release p n s = s\<lparr>holder := (holder s)(n := if holder s n = Some p then None else holder s n)\<rparr>"

text \<open>A write at the start of the file, which leaves the bytes behind it.\<close>

definition write_front :: "nat \<Rightarrow> string \<Rightarrow> race \<Rightarrow> race" where
  "write_front n t s = s\<lparr>bytes := (bytes s)(n := t @ drop (length t) (bytes s n))\<rparr>"

text \<open>The number \<open>fgets\<close> and \<open>atoi\<close> find in the file, if it is not empty.\<close>

definition read_pid :: "string \<Rightarrow> int option" where
  "read_pid c = (if c = [] then None else Some (atoi (cstr (fst (split_line (32 - 1) c)))))"

text \<open>
  \<^verbatim>\<open>/proc/<pid>/cmdline\<close>: the command lines are given, \<open>None\<close> for one that can never be read, and a
  process that is gone has none.
\<close>

definition runs_rebootnow :: "(int \<Rightarrow> string option) \<Rightarrow> race \<Rightarrow> int \<Rightarrow> bool" where
  "runs_rebootnow cmd s q = (if pcs s q = Some Gone then False
     else case cmd q of None \<Rightarrow> False | Some c \<Rightarrow> has_substr (cstr (take (256 - 1) c)) ''rebootnow'')"

definition excl_create :: "bool \<Rightarrow> int \<Rightarrow> guard_pc \<Rightarrow> race \<Rightarrow> race" where
  "excl_create fault p taken s = (case named s of Some _ \<Rightarrow> move p taken s
     | None \<Rightarrow> if fault then move p Refused s
         else move p (Created (inodes s)) (s\<lparr>named := Some (inodes s), bytes := (bytes s)(inodes s := []),
                holder := (holder s)(inodes s := None), inodes := Suc (inodes s)\<rparr>))"

text \<open>
  The next system call of the process; \<open>fault\<close> says that it fails for a reason outside the model
  (no permission, no space). A failed write is ignored, and a file or command line that cannot be
  read is taken for that of a process that is gone, as in the source.
\<close>

fun guard_call :: "(int \<Rightarrow> string option) \<Rightarrow> bool \<Rightarrow> int \<Rightarrow> guard_pc \<Rightarrow> race \<Rightarrow> race" where
  "guard_call cmd fault p Starting s = excl_create fault p Existing s"
| "guard_call cmd fault p (Created n) s = move p Admitted (if fault then s else write_front n (show_int p) s)"
| "guard_call cmd fault p Existing s = (case named s of None \<Rightarrow> move p Missing s
     | Some n \<Rightarrow> if fault then move p Refused s else move p (Opened n) s)"
| "guard_call cmd fault p Missing s = excl_create fault p Refused s"
| "guard_call cmd fault p (Opened n) s = (if fault \<or> holder s n \<noteq> None \<and> holder s n \<noteq> Some p then move p Refused s
     else move p (Locked n) (s\<lparr>holder := (holder s)(n \<mapsto> p)\<rparr>))"
| "guard_call cmd fault p (Locked n) s = (if fault then move p Refused (release p n s)
     else move p (Streamed n) s)"
| "guard_call cmd fault p (Streamed n) s = move p (Checked n (if fault then None else read_pid (bytes s n))) s"
| "guard_call cmd fault p (Checked n r) s = (case r of None \<Rightarrow> move p (Stale n) s
     | Some q \<Rightarrow> if \<not> fault \<and> runs_rebootnow cmd s q then move p Refused (release p n s) else move p (Stale n) s)"
| "guard_call cmd fault p (Stale n) s = move p (Emptied n) (if fault then s else s\<lparr>bytes := (bytes s)(n := [])\<rparr>)"
| "guard_call cmd fault p (Emptied n) s = move p (Rewritten n) (if fault then s else write_front n (show_int p) s)"
| "guard_call cmd fault p (Rewritten n) s = move p Admitted (release p n s)"
| "guard_call cmd fault p Admitted s = s"
| "guard_call cmd fault p Refused s = s"
| "guard_call cmd fault p Gone s = s"

section \<open>Interleavings\<close>

text \<open>
  What may happen next: a process is launched, makes its next call, gets a signal while it works,
  ends, or is killed. The handler and the exit of an admitted process unlink the path.
\<close>

datatype label = Launch int | Call int bool | Signal int | Exit int | Kill int

definition in_guard :: "guard_pc \<Rightarrow> bool" where
  "in_guard pc \<longleftrightarrow> pc \<noteq> Admitted \<and> pc \<noteq> Refused \<and> pc \<noteq> Gone"

definition unlink_pid :: "race \<Rightarrow> race" where
  "unlink_pid s = s\<lparr>named := None\<rparr>"

fun race_do :: "(int \<Rightarrow> string option) \<Rightarrow> label \<Rightarrow> race \<Rightarrow> race option" where
  "race_do cmd (Launch p) s = (if pcs s p = None then Some (move p Starting s) else None)"
| "race_do cmd (Call p fault) s = (case pcs s p of None \<Rightarrow> None
     | Some pc \<Rightarrow> if in_guard pc then Some (guard_call cmd fault p pc s) else None)"
| "race_do cmd (Signal p) s = (if pcs s p = Some Admitted then Some (unlink_pid s) else None)"
| "race_do cmd (Exit p) s = (if pcs s p = Some Admitted then Some (move p Gone (unlink_pid s))
     else if pcs s p = Some Refused then Some (move p Gone s) else None)"
| "race_do cmd (Kill p) s = (case pcs s p of None \<Rightarrow> None
     | Some pc \<Rightarrow> if pc = Gone then None
         else Some (move p Gone (s\<lparr>holder := (\<lambda>n. if holder s n = Some p then None else holder s n)\<rparr>)))"

fun race_run :: "(int \<Rightarrow> string option) \<Rightarrow> label list \<Rightarrow> race \<Rightarrow> race option" where
  "race_run cmd [] s = Some s"
| "race_run cmd (l # ls) s = (case race_do cmd l s of None \<Rightarrow> None | Some t \<Rightarrow> race_run cmd ls t)"

lemmas race_defs = move_def release_def write_front_def excl_create_def unlink_pid_def in_guard_def


section \<open>An established instance\<close>






definition pid_range :: "int \<Rightarrow> bool" where
  "pid_range p \<longleftrightarrow> - (2 ^ 31) \<le> p \<and> p < 2 ^ 31"


lemma show_int_chars:
  assumes "c \<in> set (show_int p)"
  shows "c \<noteq> NL \<and> c \<noteq> NUL"
proof -
  have "isdigit c \<or> c = CHR ''-''" using assms show_nat_digits by (auto simp: show_int_def split: if_splits)
  then show ?thesis by (auto simp: isdigit_def)
qed

lemma split_line_whole: "NL \<notin> set x \<Longrightarrow> length x \<le> k \<Longrightarrow> split_line k x = (x, [])"
  by (induction k x rule: split_line.induct) auto

lemma read_pid_show:
  assumes "pid_range p"
  shows "read_pid (show_int p) = Some p"
proof -
  have r: "- (2 ^ 31) \<le> p" "p < 2 ^ 31" using assms by (simp_all add: pid_range_def)
  have "split_line 31 (show_int p) = (show_int p, [])"
    using show_int_chars [of NL p] length_show_int32 [OF r] by (intro split_line_whole) auto
  moreover have "cstr (show_int p) = show_int p"
    unfolding cstr_def using show_int_chars by (intro takeWhile_eq_all_conv [THEN iffD2]) auto
  moreover have "atoi (show_int p) = p"
    using strtol_show_int [of "[]" p] r by (simp add: atoi_def saturate_long_id to_int32_id)
  moreover have "show_int p \<noteq> []" by (simp add: show_int_def)
  ultimately show ?thesis by (simp add: read_pid_def)
qed





section \<open>A process alone\<close>

text \<open>The world of the whole-function model and the shared state of the race, at rest.\<close>

definition same_file :: "world \<Rightarrow> race \<Rightarrow> bool" where
  "same_file w s \<longleftrightarrow> fs w PID_FILE = map_option (\<lambda>n. Reg (bytes s n)) (named s)"

definition proc_agrees :: "env \<Rightarrow> (int \<Rightarrow> string option) \<Rightarrow> race \<Rightarrow> world \<Rightarrow> bool" where
  "proc_agrees e cmd s w \<longleftrightarrow> (\<forall>q. runs_rebootnow cmd s q =
     (case fopen_r e (bufcpy 64 (''/proc/'' @ show_int q @ ''/cmdline'')) w of Inl _ \<Rightarrow> False
      | Inr c \<Rightarrow> has_substr (cstr (take (256 - 1) c)) ''rebootnow''))"

definition calls :: "int \<Rightarrow> nat \<Rightarrow> label list" where
  "calls p k = replicate k (Call p False)"

lemma pid_running_race:
  assumes "proc_agrees e cmd s w"
  shows "pid_running e c w = (case read_pid c of None \<Rightarrow> False | Some q \<Rightarrow> runs_rebootnow cmd s q)"
  using assms by (simp add: pid_running_def read_pid_def proc_agrees_def Let_def)

definition guard_undisturbed :: "env \<Rightarrow> race \<Rightarrow> bool" where
  "guard_undisturbed e s \<longleftrightarrow> open_w_err e PID_FILE = None \<and> open_r_err e PID_FILE = None \<and> size_max e PID_FILE = None \<and>
     (\<forall>n f. interleave e n f = f) \<and> pid_lock_free e = (case named s of None \<Rightarrow> True | Some n \<Rightarrow> holder s n = None)"

lemma solo_create:
  assumes "pcs s p = Some Starting" and "named s = None"
  shows "\<exists>t. race_run cmd (calls p 2) s = Some t \<and> pcs t p = Some Admitted \<and> named t = Some (inodes s) \<and>
    bytes t (inodes s) = show_int p \<and> (\<forall>q. q \<noteq> p \<longrightarrow> pcs t q = pcs s q)"
  using assms by (simp add: calls_def numeral_eq_Suc race_defs)

lemma solo_locked:
  assumes "pcs s p = Some Starting" and "named s = Some n" and "holder s n \<noteq> None" and "holder s n \<noteq> Some p"
  shows "\<exists>t. race_run cmd (calls p 3) s = Some t \<and> pcs t p = Some Refused \<and> named t = Some n \<and> bytes t = bytes s"
  using assms by (simp add: calls_def numeral_eq_Suc race_defs)

lemma solo_running:
  assumes "pcs s p = Some Starting" and "named s = Some n" and "holder s n = None" and "read_pid (bytes s n) = Some q"
    and "runs_rebootnow cmd s q"
  shows "\<exists>t. race_run cmd (calls p 6) s = Some t \<and> pcs t p = Some Refused \<and> named t = Some n \<and> bytes t = bytes s"
  using assms by (auto simp: calls_def numeral_eq_Suc race_defs runs_rebootnow_def split: if_splits)

lemma solo_stale:
  assumes "pcs s p = Some Starting" and "named s = Some n" and "holder s n = None"
    and "case read_pid (bytes s n) of None \<Rightarrow> True | Some q \<Rightarrow> \<not> runs_rebootnow cmd s q"
  shows "\<exists>t. race_run cmd (calls p 9) s = Some t \<and> pcs t p = Some Admitted \<and> named t = Some n \<and> bytes t n = show_int p"
  using assms by (auto simp: calls_def numeral_eq_Suc race_defs runs_rebootnow_def split: option.splits)

text \<open>
  C14. The two models of the guard agree: a process that runs through the guard alone, one call at
  a time, ends admitted or refused exactly as \<^verbatim>\<open>pidfile_write_and_guard\<close> returns 0 or -1, and
  leaves the same PID file.
\<close>

theorem solo_guard_refines:
  assumes "guard_undisturbed e s" and "same_file w s" and "proc_agrees e cmd s w" and "pcs s (getpid e) = Some Starting"
    and "\<forall>n. holder s n \<noteq> Some (getpid e)"
  shows "\<exists>k t. race_run cmd (calls (getpid e) k) s = Some t \<and>
    pcs t (getpid e) = Some (if fst (pidfile_write_and_guard e w) = 0 then Admitted else Refused) \<and>
    same_file (snd (pidfile_write_and_guard e w)) t"
proof -
  let ?p = "getpid e"
  have e: "open_w_err e PID_FILE = None" "open_r_err e PID_FILE = None" "size_max e PID_FILE = None" "\<And>n f. interleave e n f = f"
    using assms(1) by (simp_all add: guard_undisturbed_def)
  show ?thesis
  proof (cases "named s")
    case None
    then have "fst (pidfile_write_and_guard e w) = 0 \<and> fs (snd (pidfile_write_and_guard e w)) PID_FILE = Some (Reg (show_int ?p))"
      using assms(2) e by (simp add: same_file_def pidfile_write_and_guard_def pid_create_def fputs_def)
    with solo_create [OF assms(4) None, of cmd] show ?thesis by (fastforce simp: same_file_def)
  next
    case (Some n)
    then have f: "fs w PID_FILE = Some (Reg (bytes s n))" using assms(2) by (simp add: same_file_def)
    have free: "pid_lock_free e = (holder s n = None)" using assms(1) Some by (simp add: guard_undisturbed_def)
    have run: "pid_running e c (others_run e w) = (case read_pid c of None \<Rightarrow> False | Some q \<Rightarrow> runs_rebootnow cmd s q)" for c
      using pid_running_others [of e w c] pid_running_race [OF assms(3)] e(4) by simp
    have guard: "pidfile_write_and_guard e w = (let v = others_run e w in
        if holder s n \<noteq> None \<or> pid_running e (bytes s n) v then (-1, v)
        else (0, v\<lparr>fs := (fs v)(PID_FILE := Some (Reg (show_int ?p)))\<rparr>))"
      using f e free by (simp add: pidfile_write_and_guard_def pid_create_def pid_open_def others_run_def fputs_def Let_def)
    consider (locked) "holder s n \<noteq> None"
      | (running) q where "holder s n = None" "read_pid (bytes s n) = Some q" "runs_rebootnow cmd s q"
      | (stale) "holder s n = None" "case read_pid (bytes s n) of None \<Rightarrow> True | Some q \<Rightarrow> \<not> runs_rebootnow cmd s q"
      by (cases "read_pid (bytes s n)") auto
    then show ?thesis
    proof cases
      case locked
      then show ?thesis using solo_locked [OF assms(4) Some locked, of cmd] assms(5) f guard e(4)
        by (fastforce simp: same_file_def others_run_def)
    next
      case running
      then show ?thesis using solo_running [OF assms(4) Some running] f guard run e(4)
        by (fastforce simp: same_file_def others_run_def)
    next
      case stale
      then show ?thesis using solo_stale [OF assms(4) Some stale] f guard run e(4)
        by (fastforce simp: same_file_def others_run_def split: option.splits)
    qed
  qed
qed

definition idle :: race where
  "idle = \<lparr>named = None, bytes = (\<lambda>_. []), holder = (\<lambda>_. None), inodes = 0, pcs = (\<lambda>_. None)\<rparr>"

theorem solo_guard_refines_witness:
  "\<exists>k t. race_run (\<lambda>_. None) (calls 4242 k) (move 4242 Starting idle) = Some t \<and> pcs t 4242 = Some Admitted"
proof -
  have "guard_undisturbed calm_env (move 4242 Starting idle)" "same_file empty_world (move 4242 Starting idle)"
    "proc_agrees calm_env (\<lambda>_. None) (move 4242 Starting idle) empty_world" "getpid calm_env = 4242"
    by (simp_all add: guard_undisturbed_def same_file_def proc_agrees_def fopen_r_def runs_rebootnow_def calm_env_def empty_world_def idle_def move_def)
  moreover have "fst (pidfile_write_and_guard calm_env empty_world) = 0"
    by (simp add: pidfile_write_and_guard_def pid_create_def empty_world_def calm_env_def)
  ultimately show ?thesis
    using solo_guard_refines [of calm_env "move 4242 Starting idle" empty_world "\<lambda>_. None"] by (auto simp: idle_def move_def)
qed

section \<open>Processes together\<close>




text \<open>The two reads are needed: when either of them fails, a second instance is admitted, whatever the command lines.\<close>

lemma failed_read_admits:
  assumes "p \<noteq> q" and "pid_range p" and "k \<in> {4, 5}"
  shows "\<exists>t. race_run cmd ([Launch p] @ calls p 2 @ [Launch q] @ calls q k @ [Call q True] @ calls q (8 - k)) idle = Some t \<and>
    pcs t p = Some Admitted \<and> pcs t q = Some Admitted"
  using assms read_pid_show [OF assms(2)] by (auto simp: calls_def numeral_eq_Suc race_defs idle_def)

definition rebootnow_cmd :: "int \<Rightarrow> string option" where
  "rebootnow_cmd _ = Some ''rebootnow''"



text \<open>
  C16. The guard has three windows in which two instances are admitted at once, whatever the
  command lines: a second process looks into the file between its exclusive creation and the
  write of the number; a process takes over the file an ending one has just unlinked, and a third
  creates a new one; and the handler of a signal removes the file of a process that goes on.
\<close>

theorem guard_races:
  assumes "p \<noteq> q" and "r \<noteq> p" and "r \<noteq> q" and "pid_range p"
  shows "(\<exists>t. race_run cmd ([Launch p, Call p False, Launch q] @ calls q 9 @ [Call p False]) idle = Some t \<and>
      pcs t p = Some Admitted \<and> pcs t q = Some Admitted) \<and>
    (\<exists>t. race_run cmd ([Launch p] @ calls p 2 @ [Launch q] @ calls q 2 @ [Exit p] @ calls q 7 @ [Launch r] @ calls r 2) idle = Some t \<and>
      pcs t q = Some Admitted \<and> pcs t r = Some Admitted) \<and>
    (\<exists>t. race_run cmd ([Launch p] @ calls p 2 @ [Signal p, Launch q] @ calls q 2) idle = Some t \<and>
      pcs t p = Some Admitted \<and> pcs t q = Some Admitted)"
  using assms read_pid_show [OF assms(4)]
  by (simp add: calls_def numeral_eq_Suc race_defs idle_def read_pid_def [of "[]"] runs_rebootnow_def)

theorem guard_races_witness:
  "\<exists>t. race_run rebootnow_cmd ([Launch 7, Call 7 False, Launch 8] @ calls 8 9 @ [Call 7 False]) idle = Some t \<and>
     pcs t 7 = Some Admitted \<and> pcs t 8 = Some Admitted"
  using guard_races [of 7 8 9 rebootnow_cmd] by (simp add: pid_range_def)

end
