(* ===== verification/TestBase.thy ===== *)
theory TestBase
  imports FetcherMain
begin

text \<open>
  What the replayed unit tests share. A test of \<^verbatim>\<open>src/unittest\<close> is a predicate of the machine it
  runs on: the environment, part of which its mocks replace, and the world, part of which its
  fixture sets up. Its assertions are the conjuncts of the predicate, and the functions under
  test are those of the model; structures a test leaves uninitialised are zeroed. Each test is
  shown to depend on nothing else of the machine, and is then evaluated on one.
\<close>

section \<open>Fixtures\<close>

text \<open>The fixture's own file operations, which the tests require to succeed.\<close>

definition put_file :: "path \<Rightarrow> string \<Rightarrow> world \<Rightarrow> world" where
  "put_file p s w = w\<lparr>fs := (fs w)(p := Some (Reg s))\<rparr>"

definition put_dir :: "path \<Rightarrow> world \<Rightarrow> world" where
  "put_dir p w = w\<lparr>fs := (fs w)(p := Some Dir)\<rparr>"

definition remove_path :: "path \<Rightarrow> world \<Rightarrow> world" where
  "remove_path p w = w\<lparr>fs := (fs w)(p := None)\<rparr>"

text \<open>\<open>rm -rf\<close> of what begins with a path.\<close>

definition clear_tree :: "path \<Rightarrow> world \<Rightarrow> world" where
  "clear_tree p w = w\<lparr>fs := (\<lambda>q. if prefix p q then None else fs w q)\<rparr>"

text \<open>A whole file read back by a test: nothing when it cannot be opened.\<close>

definition read_whole_file :: "path \<Rightarrow> world \<Rightarrow> string" where
  "read_whole_file p w = (case content w p of None \<Rightarrow> [] | Some s \<Rightarrow> s)"

lemma has_substr_mid: "has_substr (a @ n @ b) n"
  by (simp add: has_substr_iff)

lemma fixture_fs [simp]:
  "fs (put_file p s w) q = (if q = p then Some (Reg s) else fs w q)"
  "fs (put_dir p w) q = (if q = p then Some Dir else fs w q)"
  "fs (remove_path p w) q = (if q = p then None else fs w q)"
  by (simp_all add: put_file_def put_dir_def remove_path_def)

section \<open>The machine of a test run\<close>

text \<open>
  Files can be opened and written without limit, except in directories that the tests require
  to be missing.
\<close>

definition missing_dir :: "path \<Rightarrow> bool" where
  "missing_dir p \<longleftrightarrow> prefix ''/this/path/does/not/exist/'' p \<or> prefix ''/invalid/path/'' p"

definition test_env :: "env \<Rightarrow> bool" where
  "test_env e \<longleftrightarrow> (\<forall>p. open_r_err e p = None \<and> unlink_err e p = None \<and> size_max e p = None \<and>
     open_w_err e p = (if missing_dir p then Some ENOENT else None))"

lemma test_env_simps:
  assumes "test_env e"
  shows "open_r_err e p = None" "unlink_err e p = None" "size_max e p = None"
    "open_w_err e p = (if missing_dir p then Some ENOENT else None)"
  using assms by (auto simp: test_env_def)

text \<open>The machine the tests are evaluated on.\<close>

definition plain_env :: env where
  "plain_env = calm_env\<lparr>open_w_err := (\<lambda>p. if missing_dir p then Some ENOENT else None)\<rparr>"

lemma plain_env_ok: "test_env plain_env"
  by (simp add: test_env_def plain_env_def calm_env_def)

text \<open>Two machines look alike to a reader of the paths in a set.\<close>

definition alike :: "path set \<Rightarrow> env \<Rightarrow> world \<Rightarrow> env \<Rightarrow> world \<Rightarrow> bool" where
  "alike P e w e' w' \<longleftrightarrow> (\<forall>p \<in> P. fs w p = fs w' p \<and> open_r_err e p = open_r_err e' p \<and> opendir e p w = opendir e' p w')"

lemma alikeD:
  assumes "alike P e w e' w'" and "p \<in> P"
  shows "fs w p = fs w' p" "fopen_r e p w = fopen_r e' p w'" "opendir e p w = opendir e' p w'"
    "access_ok p w = access_ok p w'" "is_dir p w = is_dir p w'" "access_r_ok e p w = access_r_ok e' p w'"
proof -
  have eqs: "fs w p = fs w' p" "open_r_err e p = open_r_err e' p" "opendir e p w = opendir e' p w'"
    using assms by (simp_all add: alike_def)
  then show "fs w p = fs w' p" "opendir e p w = opendir e' p w'" by simp_all
  show "fopen_r e p w = fopen_r e' p w'" "access_ok p w = access_ok p w'" "is_dir p w = is_dir p w'"
    "access_r_ok e p w = access_r_ok e' p w'"
    by (simp_all only: fopen_r_def access_ok_def is_dir_def access_r_ok_def eqs)
qed

lemma fopen_r_alike: "test_env e \<Longrightarrow> test_env e' \<Longrightarrow> fs w p = fs w' p \<Longrightarrow> fopen_r e p w = fopen_r e' p w'"
  by (simp add: fopen_r_def test_env_simps)

end
