(* ===== verification/ClassifyTests.thy ===== *)
theory ClassifyTests
  imports TestBase
begin

text \<open>
  \<^verbatim>\<open>src/unittest/reboot_classify_gtest.cpp\<close>: the tests of the classification. The redirection of
  \<^verbatim>\<open>/sys/fs/pstore\<close> to a sandbox is the model's own directory.
\<close>

definition classify_setup :: "world \<Rightarrow> world" where
  "classify_setup w = remove_path ECM_CRASH_LOG_FILE (remove_path UIMGR_LOG_FILE (remove_path OCAPRI_LOG_FILE
     (remove_path KERNEL_LOG_FILE w)))"

text \<open>A call of \<open>classify_reboot_reason\<close> that must succeed, with what must hold of the record.\<close>

definition classified :: "env \<Rightarrow> world \<Rightarrow> RebootInfo \<Rightarrow> EnvContext \<Rightarrow> HardwareReason \<Rightarrow> PanicInfo \<Rightarrow> FirmwareFailure \<Rightarrow>
    (RebootInfo \<Rightarrow> bool) \<Rightarrow> bool" where
  "classified e w info ctx hwReason panicInfo fwFailure expected \<longleftrightarrow>
     (case classify_reboot_reason e (Some info) (Some ctx) (Some hwReason) (Some panicInfo) (Some fwFailure) (classify_setup w) of
        (result, i, _) \<Rightarrow> result = SUCCESS \<and> (case i of None \<Rightarrow> False | Some i \<Rightarrow> expected i))"

text \<open>The same for a firmware check and a panic check, on files laid out by the test.\<close>

definition firmware_checked :: "env \<Rightarrow> world \<Rightarrow> EnvContext \<Rightarrow> (FirmwareFailure \<Rightarrow> bool) \<Rightarrow> bool" where
  "firmware_checked e w ctx expected \<longleftrightarrow>
     (case check_firmware_failure e (Some ctx) (Some zero_fw) w of
        (result, f, _) \<Rightarrow> result = SUCCESS \<and> (case f of None \<Rightarrow> False | Some f \<Rightarrow> expected f))"

definition panic_checked :: "env \<Rightarrow> world \<Rightarrow> EnvContext \<Rightarrow> (PanicInfo \<Rightarrow> bool) \<Rightarrow> bool" where
  "panic_checked e w ctx expected \<longleftrightarrow>
     (case detect_kernel_panic e (Some ctx) (Some zero_panic) w of
        (result, p, _) \<Rightarrow> result = SUCCESS \<and> (case p of None \<Rightarrow> False | Some p \<Rightarrow> expected p))"

definition mapping_cases :: "env \<Rightarrow> world \<Rightarrow> (string \<times> string \<times> string) list \<Rightarrow> bool" where
  "mapping_cases e w cases \<longleftrightarrow> list_all (\<lambda>(mapped, expectedSource, expectedReason).
     classified e w zero_info zero_ctx (zero_hw\<lparr>mappedReason := mapped\<rparr>) zero_panic zero_fw
       (\<lambda>i. source i = expectedSource \<and> reason i = expectedReason)) cases"

section \<open>The lists\<close>

definition is_app_triggered_NullInput :: "env \<Rightarrow> world \<Rightarrow> bool" where
  "is_app_triggered_NullInput e w \<longleftrightarrow> \<not> is_app_triggered None"

definition is_app_triggered_ValidReasons :: "env \<Rightarrow> world \<Rightarrow> bool" where
  "is_app_triggered_ValidReasons e w \<longleftrightarrow> list_all (\<lambda>r. is_app_triggered (Some r))
     [''Servicemanager'', ''SystemServices'', ''WarehouseReset'', ''TR69Agent'', ''HrvInitWHReset'', ''InstallTDK'']"

definition is_app_triggered_InvalidReasons :: "env \<Rightarrow> world \<Rightarrow> bool" where
  "is_app_triggered_InvalidReasons e w \<longleftrightarrow> list_all (\<lambda>r. \<not> is_app_triggered (Some r))
     [''UnknownReason'', ''ScheduledReboot'', ''AutoReboot.sh'']"

definition is_ops_triggered_NullInput :: "env \<Rightarrow> world \<Rightarrow> bool" where
  "is_ops_triggered_NullInput e w \<longleftrightarrow> \<not> is_ops_triggered None"

definition is_ops_triggered_ValidReasons :: "env \<Rightarrow> world \<Rightarrow> bool" where
  "is_ops_triggered_ValidReasons e w \<longleftrightarrow> list_all (\<lambda>r. is_ops_triggered (Some r))
     [''ScheduledReboot'', ''FactoryReset'', ''ImageUpgrade_mfr_api'', ''HAL_SYS_Reboot'', ''PowerMgr_Powerreset'', ''DeepSleepMgr'']"

definition is_ops_triggered_InvalidReasons :: "env \<Rightarrow> world \<Rightarrow> bool" where
  "is_ops_triggered_InvalidReasons e w \<longleftrightarrow> list_all (\<lambda>r. \<not> is_ops_triggered (Some r))
     [''UnknownReason'', ''Servicemanager'', ''AutoReboot.sh'']"

definition is_maintenance_triggered_NullInput :: "env \<Rightarrow> world \<Rightarrow> bool" where
  "is_maintenance_triggered_NullInput e w \<longleftrightarrow> \<not> is_maintenance_triggered None"

definition is_maintenance_triggered_ValidReasons :: "env \<Rightarrow> world \<Rightarrow> bool" where
  "is_maintenance_triggered_ValidReasons e w \<longleftrightarrow> list_all (\<lambda>r. is_maintenance_triggered (Some r))
     [''AutoReboot.sh'', ''PwrMgr'']"

definition is_maintenance_triggered_InvalidReasons :: "env \<Rightarrow> world \<Rightarrow> bool" where
  "is_maintenance_triggered_InvalidReasons e w \<longleftrightarrow> list_all (\<lambda>r. \<not> is_maintenance_triggered (Some r))
     [''UnknownReason'', ''Servicemanager'', ''ScheduledReboot'']"

section \<open>Kernel panics\<close>

definition detect_kernel_panic_NullParameters :: "env \<Rightarrow> world \<Rightarrow> bool" where
  "detect_kernel_panic_NullParameters e w \<longleftrightarrow> 
     fst (detect_kernel_panic e None (Some zero_panic) (classify_setup w)) = ERROR_GENERAL \<and>
     fst (detect_kernel_panic e (Some zero_ctx) None (classify_setup w)) = ERROR_GENERAL"

definition detect_kernel_panic_NoPanicDetected :: "env \<Rightarrow> world \<Rightarrow> bool" where
  "detect_kernel_panic_NoPanicDetected e w \<longleftrightarrow> 
     panic_checked e (classify_setup w) (zero_ctx\<lparr>soc := ''BRCM''\<rparr>) (\<lambda>p. \<not> pn_detected p)"

definition detect_kernel_panic_BrcmWithOopsSignature :: "env \<Rightarrow> world \<Rightarrow> bool" where
  "detect_kernel_panic_BrcmWithOopsSignature e w \<longleftrightarrow> 
     panic_checked e (put_file KERNEL_LOG_FILE (''prefix PREVIOUS_KERNEL_OOPS_DUMP marker'' @ [NL] @
         ''Kernel panic - not syncing: Fatal exception'' @ [NL]) (classify_setup w))
       (zero_ctx\<lparr>soc := ''BRCM''\<rparr>) (\<lambda>p. pn_detected p \<and> panicType p \<noteq> [])"

definition detect_kernel_panic_RtkWithoutPstoreFile :: "env \<Rightarrow> world \<Rightarrow> bool" where
  "detect_kernel_panic_RtkWithoutPstoreFile e w \<longleftrightarrow> 
     panic_checked e (classify_setup w) (zero_ctx\<lparr>soc := ''RTK''\<rparr>) (\<lambda>p. \<not> pn_detected p)"

definition detect_kernel_panic_BrcmWithoutOopsMarker :: "env \<Rightarrow> world \<Rightarrow> bool" where
  "detect_kernel_panic_BrcmWithoutOopsMarker e w \<longleftrightarrow> 
     panic_checked e (put_file KERNEL_LOG_FILE (''Kernel panic - not syncing: Fatal exception'' @ [NL]) (classify_setup w))
       (zero_ctx\<lparr>soc := ''BRCM''\<rparr>) (\<lambda>p. \<not> pn_detected p)"

definition detect_kernel_panic_TvPstoreWithoutPanicSignature :: "env \<Rightarrow> world \<Rightarrow> bool" where
  "detect_kernel_panic_TvPstoreWithoutPanicSignature e w \<longleftrightarrow> 
     panic_checked e (put_file PSTORE_CONSOLE_LOG_FILE (''normal boot log line'' @ [NL]) (classify_setup w))
       (zero_ctx\<lparr>rdkProfile := ''TV''\<rparr>) (\<lambda>p. \<not> pn_detected p)"

section \<open>Firmware failures\<close>

definition check_firmware_failure_NullParameters :: "env \<Rightarrow> world \<Rightarrow> bool" where
  "check_firmware_failure_NullParameters e w \<longleftrightarrow> 
     fst (check_firmware_failure e None (Some zero_fw) (classify_setup w)) = ERROR_GENERAL \<and>
     fst (check_firmware_failure e (Some zero_ctx) None (classify_setup w)) = ERROR_GENERAL"

definition check_firmware_failure_NoFailureDetected :: "env \<Rightarrow> world \<Rightarrow> bool" where
  "check_firmware_failure_NoFailureDetected e w \<longleftrightarrow> 
     firmware_checked e (classify_setup w)
       (zero_ctx\<lparr>device_type := ''stb''\<rparr>)
       (\<lambda>f. \<not> fw_detected f \<and> \<not> maxRebootDetected f \<and> \<not> ecmCrashDetected f)"

definition check_firmware_failure_MaxRebootDetectedStb :: "env \<Rightarrow> world \<Rightarrow> bool" where
  "check_firmware_failure_MaxRebootDetectedStb e w \<longleftrightarrow> 
     firmware_checked e (put_file OCAPRI_LOG_FILE (''some line'' @ [NL] @ ''Box has rebooted 10 times'' @ [NL])
         (remove_path ECM_CRASH_LOG_FILE (classify_setup w)))
       (zero_ctx\<lparr>device_type := ''stb''\<rparr>)
       (\<lambda>f. fw_detected f \<and> maxRebootDetected f \<and> initiator f = ''OcapRI'')"

definition check_firmware_failure_MediaClientUsesUiMgr :: "env \<Rightarrow> world \<Rightarrow> bool" where
  "check_firmware_failure_MediaClientUsesUiMgr e w \<longleftrightarrow> 
     firmware_checked e (put_file UIMGR_LOG_FILE (''Box has rebooted 10 times'' @ [NL])
         (remove_path ECM_CRASH_LOG_FILE (classify_setup w)))
       (zero_ctx\<lparr>device_type := ''mediaclient_x1''\<rparr>)
       (\<lambda>f. fw_detected f \<and> maxRebootDetected f \<and> initiator f = ''UiMgr'')"

definition check_firmware_failure_EcmCrashDetected :: "env \<Rightarrow> world \<Rightarrow> bool" where
  "check_firmware_failure_EcmCrashDetected e w \<longleftrightarrow> 
     firmware_checked e (put_file ECM_CRASH_LOG_FILE (''**** CRASH ****'' @ [NL])
         (classify_setup w))
       (zero_ctx\<lparr>device_type := ''stb''\<rparr>)
       (\<lambda>f. fw_detected f \<and> ecmCrashDetected f \<and> initiator f = ''EcmLogger'')"

definition check_firmware_failure_MaxRebootAndEcmCrashTogether :: "env \<Rightarrow> world \<Rightarrow> bool" where
  "check_firmware_failure_MaxRebootAndEcmCrashTogether e w \<longleftrightarrow> 
     firmware_checked e (put_file ECM_CRASH_LOG_FILE (''**** CRASH ****'' @ [NL])
         (put_file OCAPRI_LOG_FILE (''Box has rebooted 10 times'' @ [NL])
         (classify_setup w)))
       (zero_ctx\<lparr>device_type := ''stb''\<rparr>)
       (\<lambda>f. maxRebootDetected f \<and> ecmCrashDetected f \<and> initiator f = ''EcmLogger'' \<and> has_substr (fw_details f) ''OcapRI'')"

definition check_firmware_failure_EcmCrashSkippedForMediaClient :: "env \<Rightarrow> world \<Rightarrow> bool" where
  "check_firmware_failure_EcmCrashSkippedForMediaClient e w \<longleftrightarrow> 
     firmware_checked e (put_file ECM_CRASH_LOG_FILE (''**** CRASH ****'' @ [NL])
         (classify_setup w))
       (zero_ctx\<lparr>device_type := ''mediaclient''\<rparr>)
       (\<lambda>f. \<not> fw_detected f \<and> \<not> ecmCrashDetected f)"

definition check_firmware_failure_EcmLogPresentWithoutCrashString :: "env \<Rightarrow> world \<Rightarrow> bool" where
  "check_firmware_failure_EcmLogPresentWithoutCrashString e w \<longleftrightarrow> 
     firmware_checked e (put_file ECM_CRASH_LOG_FILE (''ecm is healthy'' @ [NL])
         (classify_setup w))
       (zero_ctx\<lparr>device_type := ''stb''\<rparr>)
       (\<lambda>f. \<not> fw_detected f)"

section \<open>Classification\<close>

definition classify_reboot_reason_NullParameters :: "env \<Rightarrow> world \<Rightarrow> bool" where
  "classify_reboot_reason_NullParameters e w \<longleftrightarrow> 
     fst (classify_reboot_reason e None (Some zero_ctx) (Some zero_hw) (Some zero_panic) (Some zero_fw) (classify_setup w)) = ERROR_GENERAL \<and>
     fst (classify_reboot_reason e (Some zero_info) None (Some zero_hw) (Some zero_panic) (Some zero_fw) (classify_setup w)) = ERROR_GENERAL"

definition classify_reboot_reason_FirmwareFailureMaxReboot :: "env \<Rightarrow> world \<Rightarrow> bool" where
  "classify_reboot_reason_FirmwareFailureMaxReboot e w \<longleftrightarrow> 
     classified e w zero_info zero_ctx zero_hw zero_panic (zero_fw\<lparr>fw_detected := True, maxRebootDetected := True\<rparr>)
       (\<lambda>i. source i = ''FirmwareFailure'' \<and> reason i = ''FIRMWARE_FAILURE'' \<and> customReason i = [])"

definition classify_reboot_reason_FirmwareFailureECMCrash :: "env \<Rightarrow> world \<Rightarrow> bool" where
  "classify_reboot_reason_FirmwareFailureECMCrash e w \<longleftrightarrow> 
     classified e w zero_info zero_ctx zero_hw zero_panic (zero_fw\<lparr>fw_detected := True, ecmCrashDetected := True\<rparr>)
       (\<lambda>i. source i = ''FirmwareFailure'' \<and> reason i = ''FIRMWARE_FAILURE'' \<and> customReason i = [])"

definition classify_reboot_reason_KernelPanic :: "env \<Rightarrow> world \<Rightarrow> bool" where
  "classify_reboot_reason_KernelPanic e w \<longleftrightarrow> 
     classified e w zero_info zero_ctx zero_hw (zero_panic\<lparr>pn_detected := True, panicType := ''Kernel panic - not syncing''\<rparr>) zero_fw
       (\<lambda>i. source i = ''Kernel'' \<and> reason i = ''KERNEL_PANIC'' \<and> customReason i = ''Hardware Register - KERNEL_PANIC'')"

definition classify_reboot_reason_AppTriggered :: "env \<Rightarrow> world \<Rightarrow> bool" where
  "classify_reboot_reason_AppTriggered e w \<longleftrightarrow> 
     classified e w (zero_info\<lparr>customReason := ''Servicemanager''\<rparr>) zero_ctx zero_hw zero_panic zero_fw
       (\<lambda>i. reason i = ''APP_TRIGGERED'')"

definition classify_reboot_reason_OpsTriggered :: "env \<Rightarrow> world \<Rightarrow> bool" where
  "classify_reboot_reason_OpsTriggered e w \<longleftrightarrow> 
     classified e w (zero_info\<lparr>customReason := ''ScheduledReboot''\<rparr>) zero_ctx zero_hw zero_panic zero_fw
       (\<lambda>i. reason i = ''OPS_TRIGGERED'')"

definition classify_reboot_reason_MaintenanceTriggered :: "env \<Rightarrow> world \<Rightarrow> bool" where
  "classify_reboot_reason_MaintenanceTriggered e w \<longleftrightarrow> 
     classified e w (zero_info\<lparr>customReason := ''AutoReboot.sh''\<rparr>) zero_ctx zero_hw zero_panic zero_fw
       (\<lambda>i. reason i = ''MAINTENANCE_REBOOT'')"

definition classify_reboot_reason_HardwareReason :: "env \<Rightarrow> world \<Rightarrow> bool" where
  "classify_reboot_reason_HardwareReason e w \<longleftrightarrow> 
     classified e w zero_info zero_ctx (zero_hw\<lparr>mappedReason := ''SOFTWARE_MASTER_RESET''\<rparr>) zero_panic zero_fw
       (\<lambda>i. source i = ''SoftwareReboot'' \<and> reason i = ''SOFTWARE_MASTER_RESET'')"

definition classify_reboot_reason_WatchdogReset :: "env \<Rightarrow> world \<Rightarrow> bool" where
  "classify_reboot_reason_WatchdogReset e w \<longleftrightarrow> 
     classified e w zero_info zero_ctx (zero_hw\<lparr>mappedReason := ''WATCHDOG''\<rparr>) zero_panic zero_fw
       (\<lambda>i. source i = ''WatchDog'' \<and> reason i = ''WATCHDOG_TIMER_RESET'')"

definition classify_reboot_reason_PowerOnReset :: "env \<Rightarrow> world \<Rightarrow> bool" where
  "classify_reboot_reason_PowerOnReset e w \<longleftrightarrow> 
     classified e w zero_info zero_ctx (zero_hw\<lparr>mappedReason := ''POWER_ON''\<rparr>) zero_panic zero_fw
       (\<lambda>i. source i = ''PowerOn'' \<and> reason i = ''POWER_ON_RESET'')"

definition classify_reboot_reason_HardwareMappings_MultipleCases :: "env \<Rightarrow> world \<Rightarrow> bool" where
  "classify_reboot_reason_HardwareMappings_MultipleCases e w \<longleftrightarrow> mapping_cases e w
    [(''SECURITY_MASTER_RESET'', ''SecurityReboot'', ''SECURITY_MASTER_RESET''),
     (''CPU_EJTAG_RESET'', ''CPU EJTAG'', ''CPU_EJTAG_RESET''),
     (''SCPU_EJTAG_RESET'', ''CPU EJTAG'', ''CPU_EJTAG_RESET''),
     (''GEN_WATCHDOG_1_RESET'', ''WatchDog'', ''WATCHDOG_TIMER_RESET''),
     (''AUX_CHIP_EDGE_RESET_0'', ''Aux Chip Edge'', ''AUX_CHIP_EDGE_RESET''),
     (''AUX_CHIP_LEVEL_RESET_1'', ''Aux Chip Level'', ''AUX_CHIP_LEVEL_RESET''),
     (''MPM_RESET'', ''MPM'', ''MPM_RESET''),
     (''OVERVOLTAGE'', ''OverVoltage'', ''OVERVOLTAGE_RESET''),
     (''UNDERVOLTAGE_0_RESET'', ''LowVoltage'', ''UNDERVOLTAGE_RESET'')]"

definition classify_reboot_reason_UnknownCustomDefaultsToFirmwareFailure :: "env \<Rightarrow> world \<Rightarrow> bool" where
  "classify_reboot_reason_UnknownCustomDefaultsToFirmwareFailure e w \<longleftrightarrow> 
     classified e w (zero_info\<lparr>customReason := ''UNLISTED_INITIATOR''\<rparr>) zero_ctx zero_hw zero_panic zero_fw
       (\<lambda>i. reason i = ''FIRMWARE_FAILURE'' \<and> source i = ''Unknown'')"

definition classify_reboot_reason_FallbackToSoftwareReboot :: "env \<Rightarrow> world \<Rightarrow> bool" where
  "classify_reboot_reason_FallbackToSoftwareReboot e w \<longleftrightarrow> 
     classified e w zero_info zero_ctx zero_hw zero_panic zero_fw
       (\<lambda>i. source i = ''SoftwareReboot'' \<and> reason i = ''SOFTWARE_MASTER_RESET'' \<and> customReason i = ''SOFTWARE_MASTER_RESET'')"

definition classify_reboot_reason_HardwareUnknownMapsHardPower :: "env \<Rightarrow> world \<Rightarrow> bool" where
  "classify_reboot_reason_HardwareUnknownMapsHardPower e w \<longleftrightarrow> 
     classified e w zero_info zero_ctx (zero_hw\<lparr>mappedReason := ''UNKNOWN''\<rparr>) zero_panic zero_fw
       (\<lambda>i. source i = ''Hard Power Reset'' \<and> reason i = ''HARD_POWER'' \<and> customReason i = ''Hardware Register - NULL'')"

definition classify_reboot_reason_BrcmRawReasonSetsPrefixedCustomReason :: "env \<Rightarrow> world \<Rightarrow> bool" where
  "classify_reboot_reason_BrcmRawReasonSetsPrefixedCustomReason e w \<longleftrightarrow> 
     classified e w zero_info (zero_ctx\<lparr>soc := ''BRCM''\<rparr>) (zero_hw\<lparr>mappedReason := ''SOFTWARE_MASTER_RESET'', rawReason := ''watchdog_reset''\<rparr>) zero_panic zero_fw
       (\<lambda>i. customReason i = ''Hardware Register - WATCHDOG_RESET'')"

definition classify_reboot_reason_AmlogicBypassWhenReasonPreset :: "env \<Rightarrow> world \<Rightarrow> bool" where
  "classify_reboot_reason_AmlogicBypassWhenReasonPreset e w \<longleftrightarrow> 
     classified e w (zero_info\<lparr>reason := ''PRESET_REASON''\<rparr>) (zero_ctx\<lparr>soc := ''AMLOGIC''\<rparr>) zero_hw zero_panic zero_fw
       (\<lambda>i. reason i = ''SOFTWARE_MASTER_RESET'')"

definition classify_reboot_reason_MtkBypassWhenReasonPreset :: "env \<Rightarrow> world \<Rightarrow> bool" where
  "classify_reboot_reason_MtkBypassWhenReasonPreset e w \<longleftrightarrow> 
     classified e w (zero_info\<lparr>reason := ''MTK_PRESET''\<rparr>) (zero_ctx\<lparr>soc := ''MTK''\<rparr>) zero_hw zero_panic zero_fw
       (\<lambda>i. reason i = ''SOFTWARE_MASTER_RESET'')"

definition classify_reboot_reason_FirmwareFailureWithInitiatorAndDetails :: "env \<Rightarrow> world \<Rightarrow> bool" where
  "classify_reboot_reason_FirmwareFailureWithInitiatorAndDetails e w \<longleftrightarrow> 
     classified e w zero_info zero_ctx zero_hw zero_panic (zero_fw\<lparr>fw_detected := True, initiator := ''EcmLogger'', fw_details := ''EcmLogger: ECM crash detected''\<rparr>)
       (\<lambda>i. source i = ''EcmLogger'' \<and> reason i = ''FIRMWARE_FAILURE'' \<and> otherReason i = ''EcmLogger: ECM crash detected'')"

definition classify_reboot_reason_CustomReasonMaintenanceLiteral :: "env \<Rightarrow> world \<Rightarrow> bool" where
  "classify_reboot_reason_CustomReasonMaintenanceLiteral e w \<longleftrightarrow> 
     classified e w (zero_info\<lparr>customReason := ''MAINTENANCE_REBOOT''\<rparr>) zero_ctx zero_hw zero_panic zero_fw
       (\<lambda>i. reason i = ''MAINTENANCE_REBOOT'')"

definition classify_reboot_reason_BrcmMappedReasonPrefixedWhenRawMissing :: "env \<Rightarrow> world \<Rightarrow> bool" where
  "classify_reboot_reason_BrcmMappedReasonPrefixedWhenRawMissing e w \<longleftrightarrow> 
     classified e w zero_info (zero_ctx\<lparr>soc := ''BRCM''\<rparr>) (zero_hw\<lparr>mappedReason := ''POWER_ON''\<rparr>) zero_panic zero_fw
       (\<lambda>i. customReason i = ''Hardware Register - POWER_ON'')"

definition classify_reboot_reason_BrcmUnknownMappedReasonHardPower :: "env \<Rightarrow> world \<Rightarrow> bool" where
  "classify_reboot_reason_BrcmUnknownMappedReasonHardPower e w \<longleftrightarrow> 
     classified e w zero_info (zero_ctx\<lparr>soc := ''BRCM''\<rparr>) (zero_hw\<lparr>mappedReason := ''UNKNOWN''\<rparr>) zero_panic zero_fw
       (\<lambda>i. source i = ''Hard Power Reset'' \<and> reason i = ''HARD_POWER'' \<and> customReason i = ''Hardware Register - NULL'')"

definition classify_reboot_reason_UnknownMappedReasonNonBrcm :: "env \<Rightarrow> world \<Rightarrow> bool" where
  "classify_reboot_reason_UnknownMappedReasonNonBrcm e w \<longleftrightarrow> 
     classified e w zero_info (zero_ctx\<lparr>soc := ''RTK''\<rparr>) (zero_hw\<lparr>mappedReason := ''UNKNOWN''\<rparr>) zero_panic zero_fw
       (\<lambda>i. source i = ''Hard Power Reset'' \<and> reason i = ''HARD_POWER'')"

definition classify_reboot_reason_HardwareUnknownStringNonEmpty :: "env \<Rightarrow> world \<Rightarrow> bool" where
  "classify_reboot_reason_HardwareUnknownStringNonEmpty e w \<longleftrightarrow> 
     classified e w zero_info zero_ctx (zero_hw\<lparr>mappedReason := ''UNCLASSIFIED_REASON''\<rparr>) zero_panic zero_fw
       (\<lambda>i. source i = ''Unknown'' \<and> reason i = ''UNCLASSIFIED_REASON'')"

definition classify_reboot_reason_HardwareMappings_AdditionalCases :: "env \<Rightarrow> world \<Rightarrow> bool" where
  "classify_reboot_reason_HardwareMappings_AdditionalCases e w \<longleftrightarrow> mapping_cases e w
    [(''MAIN_CHIP_INPUT_RESET'', ''Main Chip'', ''MAIN_CHIP_INPUT_RESET''),
     (''MAIN_CHIP_RESET_INPUT'', ''Main Chip'', ''MAIN_CHIP_RESET_INPUT''),
     (''TAP_IN_SYSTEM_RESET'', ''Tap-In System'', ''TAP_IN_SYSTEM_RESET''),
     (''FRONT_PANEL_4SEC_RESET'', ''FrontPanel Button'', ''FRONT_PANEL_RESET''),
     (''S3_WAKEUP_RESET'', ''Standby Wakeup'', ''S3_WAKEUP_RESET''),
     (''SMARTCARD_INSERT_RESET'', ''SmartCard Insert'', ''SMARTCARD_INSERT_RESET''),
     (''OVERTEMP'', ''OverTemperature'', ''OVERTEMP_RESET''),
     (''PCIE_0_HOT_BOOT_RESET'', ''PCIE Boot'', ''PCIE_HOT_BOOT_RESET'')]"

definition classify_reboot_reason_HardwareMappings_AliasCases :: "env \<Rightarrow> world \<Rightarrow> bool" where
  "classify_reboot_reason_HardwareMappings_AliasCases e w \<longleftrightarrow> mapping_cases e w
    [(''KERNEL_PANIC_RESET'', ''Kernel'', ''KERNEL_PANIC''),
     (''SOFTWARE_RESET'', ''SoftwareReboot'', ''SOFTWARE_MASTER_RESET''),
     (''HARDWARE'', ''PowerOn'', ''POWER_ON_RESET''),
     (''OVERHEAT'', ''OverTemperature'', ''OVERTEMP_RESET''),
     (''UNDERVOLTAGE_1_RESET'', ''LowVoltage'', ''UNDERVOLTAGE_RESET''),
     (''PCIE_1_HOT_BOOT_RESET'', ''PCIE Boot'', ''PCIE_HOT_BOOT_RESET''),
     (''AUX_CHIP_EDGE_RESET'', ''Aux Chip Edge'', ''AUX_CHIP_EDGE_RESET''),
     (''AUX_CHIP_LEVEL_RESET'', ''Aux Chip Level'', ''AUX_CHIP_LEVEL_RESET'')]"

definition classify_reboot_reason_UnknownWhenPanicFlagSetButNotDetectedEarlier :: "env \<Rightarrow> world \<Rightarrow> bool" where
  "classify_reboot_reason_UnknownWhenPanicFlagSetButNotDetectedEarlier e w \<longleftrightarrow> 
     classified e w zero_info zero_ctx zero_hw (zero_panic\<lparr>pn_detected := True\<rparr>) zero_fw
       (\<lambda>i. source i = ''Kernel'' \<and> reason i = ''KERNEL_PANIC'')"

definition classify_reboot_reason_HardwareMappings_RemainingCases :: "env \<Rightarrow> world \<Rightarrow> bool" where
  "classify_reboot_reason_HardwareMappings_RemainingCases e w \<longleftrightarrow> mapping_cases e w
    [(''KERNEL_PANIC_RESET'', ''Kernel'', ''KERNEL_PANIC''),
     (''HARDWARE'', ''PowerOn'', ''POWER_ON_RESET''),
     (''MAIN_CHIP_INPUT_RESET'', ''Main Chip'', ''MAIN_CHIP_INPUT_RESET''),
     (''MAIN_CHIP_RESET_INPUT'', ''Main Chip'', ''MAIN_CHIP_RESET_INPUT''),
     (''TAP_IN_SYSTEM_RESET'', ''Tap-In System'', ''TAP_IN_SYSTEM_RESET''),
     (''FRONT_PANEL_4SEC_RESET'', ''FrontPanel Button'', ''FRONT_PANEL_RESET''),
     (''FRONT_PANEL_RESET'', ''FrontPanel Button'', ''FRONT_PANEL_RESET''),
     (''S3_WAKEUP_RESET'', ''Standby Wakeup'', ''S3_WAKEUP_RESET''),
     (''SMARTCARD_INSERT_RESET'', ''SmartCard Insert'', ''SMARTCARD_INSERT_RESET''),
     (''OVERTEMP'', ''OverTemperature'', ''OVERTEMP_RESET''),
     (''OVERHEAT'', ''OverTemperature'', ''OVERTEMP_RESET''),
     (''PCIE_0_HOT_BOOT_RESET'', ''PCIE Boot'', ''PCIE_HOT_BOOT_RESET''),
     (''PCIE_1_HOT_BOOT_RESET'', ''PCIE Boot'', ''PCIE_HOT_BOOT_RESET''),
     (''AUX_CHIP_EDGE_RESET_1'', ''Aux Chip Edge'', ''AUX_CHIP_EDGE_RESET''),
     (''AUX_CHIP_LEVEL_RESET_0'', ''Aux Chip Level'', ''AUX_CHIP_LEVEL_RESET''),
     (''UNDERVOLTAGE_1_RESET'', ''LowVoltage'', ''UNDERVOLTAGE_RESET''),
     (''NOT_A_KNOWN_REGISTER'', ''Unknown'', ''NOT_A_KNOWN_REGISTER'')]"

definition classify_reboot_reason_UnknownCustomKeepsExistingSource :: "env \<Rightarrow> world \<Rightarrow> bool" where
  "classify_reboot_reason_UnknownCustomKeepsExistingSource e w \<longleftrightarrow> 
     classified e w (zero_info\<lparr>customReason := ''UNLISTED_INITIATOR'', source := ''SomeDaemon''\<rparr>) zero_ctx zero_hw zero_panic zero_fw
       (\<lambda>i. reason i = ''FIRMWARE_FAILURE'' \<and> source i = ''SomeDaemon'')"

definition classify_reboot_reason_FirmwareFailureWithoutDetailsKeepsOtherReason :: "env \<Rightarrow> world \<Rightarrow> bool" where
  "classify_reboot_reason_FirmwareFailureWithoutDetailsKeepsOtherReason e w \<longleftrightarrow> 
     classified e w (zero_info\<lparr>otherReason := ''PreExistingDetail''\<rparr>) zero_ctx zero_hw zero_panic (zero_fw\<lparr>fw_detected := True\<rparr>)
       (\<lambda>i. source i = ''FirmwareFailure'' \<and> otherReason i = ''PreExistingDetail'')"

definition classify_reboot_reason_BroadcomSocUsesRawReason :: "env \<Rightarrow> world \<Rightarrow> bool" where
  "classify_reboot_reason_BroadcomSocUsesRawReason e w \<longleftrightarrow> 
     classified e w zero_info (zero_ctx\<lparr>soc := ''BROADCOM''\<rparr>) (zero_hw\<lparr>mappedReason := ''MPM_RESET'', rawReason := ''mpm_reset''\<rparr>) zero_panic zero_fw
       (\<lambda>i. customReason i = ''Hardware Register - MPM_RESET'')"

section \<open>The kernel log\<close>

definition update_kernel_log_NullParameters :: "env \<Rightarrow> world \<Rightarrow> bool" where
  "update_kernel_log_NullParameters e w \<longleftrightarrow> 
     (let w = classify_setup w; w = update_kernel_log e None (Some zero_info) w; w = update_kernel_log e (Some zero_ctx) None w
      in \<not> access_ok KERNEL_LOG_FILE w)"

definition update_kernel_log_NonRealtekSocIsNoOp :: "env \<Rightarrow> world \<Rightarrow> bool" where
  "update_kernel_log_NonRealtekSocIsNoOp e w \<longleftrightarrow> 
     \<not> access_ok KERNEL_LOG_FILE (update_kernel_log e (Some (zero_ctx\<lparr>soc := ''BRCM''\<rparr>)) (Some (zero_info\<lparr>reason := ''KERNEL_PANIC''\<rparr>)) (classify_setup w))"

definition update_kernel_log_RtkWithEmptyReasonIsNoOp :: "env \<Rightarrow> world \<Rightarrow> bool" where
  "update_kernel_log_RtkWithEmptyReasonIsNoOp e w \<longleftrightarrow> 
     \<not> access_ok KERNEL_LOG_FILE (update_kernel_log e (Some (zero_ctx\<lparr>soc := ''RTK''\<rparr>)) (Some zero_info) (classify_setup w))"

definition update_kernel_log_RtkAnnotatesLowercaseReason :: "env \<Rightarrow> world \<Rightarrow> bool" where
  "update_kernel_log_RtkAnnotatesLowercaseReason e w \<longleftrightarrow> 
     has_substr (read_whole_file KERNEL_LOG_FILE (update_kernel_log e (Some (zero_ctx\<lparr>soc := ''RTK''\<rparr>)) (Some (zero_info\<lparr>reason := ''KERNEL_PANIC''\<rparr>)) (classify_setup w))) ''PreviousRebootReason: kernel_panic''"

definition update_kernel_log_RealtekSocAnnotatesReason :: "env \<Rightarrow> world \<Rightarrow> bool" where
  "update_kernel_log_RealtekSocAnnotatesReason e w \<longleftrightarrow> 
     has_substr (read_whole_file KERNEL_LOG_FILE (update_kernel_log e (Some (zero_ctx\<lparr>soc := ''REALTEK''\<rparr>)) (Some (zero_info\<lparr>reason := ''SOFTWARE_MASTER_RESET''\<rparr>)) (classify_setup w))) ''PreviousRebootReason: software_master_reset''"

definition classify_reboot_reason_RtkAnnotatesKernelLog :: "env \<Rightarrow> world \<Rightarrow> bool" where
  "classify_reboot_reason_RtkAnnotatesKernelLog e w \<longleftrightarrow> 
     (let ctx = zero_ctx\<lparr>soc := ''RTK''\<rparr>;
          (result, info, w) = classify_reboot_reason e (Some zero_info) (Some ctx) (Some (zero_hw\<lparr>mappedReason := ''WATCHDOG''\<rparr>))
             (Some zero_panic) (Some zero_fw) (remove_path KERNEL_LOG_FILE (classify_setup w))
      in result = SUCCESS \<and> (case info of None \<Rightarrow> False | Some i \<Rightarrow>
           source i = ''WatchDog'' \<and> reason i = ''WATCHDOG_TIMER_RESET'' \<and>
           has_substr (read_whole_file KERNEL_LOG_FILE (update_kernel_log e (Some ctx) info w))
             ''PreviousRebootReason: watchdog_timer_reset''))"

definition detect_kernel_panic_TvPstorePanicCopiesLogsAndAnnotates :: "env \<Rightarrow> world \<Rightarrow> bool" where
  "detect_kernel_panic_TvPstorePanicCopiesLogsAndAnnotates e w \<longleftrightarrow> 
     (let e = e\<lparr>dirents := (dirents e)(PSTORE_DIR := [''console-ramoops-0'', ''dmesg-ramoops-0'', replicate 250 (CHR ''x'')])\<rparr>;
          w = remove_path ''/opt/logs/dmesg-ramoops-0.log'' (put_dir PSTORE_DIR (classify_setup w));
          w = put_file PSTORE_CONSOLE_LOG_FILE (''boot line'' @ [NL] @ ''Kernel panic - not syncing: Fatal exception'' @ [NL]) w;
          w = put_file (PSTORE_DIR @ ''/dmesg-ramoops-0'') (''dmesg contents'' @ [NL]) w;
          w = put_file (PSTORE_DIR @ ''/'' @ replicate 250 (CHR ''x'')) (''skipme'' @ [NL]) w;
          (result, panicInfo, w) = detect_kernel_panic e (Some (zero_ctx\<lparr>rdkProfile := ''TV''\<rparr>)) (Some zero_panic) w
      in result = SUCCESS \<and> (case panicInfo of None \<Rightarrow> False | Some p \<Rightarrow>
           pn_detected p \<and> panicType p = ''Kernel panic - not syncing'' \<and> strchr (pn_details p) NL = None) \<and>
         access_ok ''/opt/logs/dmesg-ramoops-0.log'' w \<and>
         has_substr (read_whole_file KERNEL_LOG_FILE w) ''PreviousRebootReason: kernel_panic!'')"

section \<open>The suite\<close>

definition list_tests :: "(env \<Rightarrow> world \<Rightarrow> bool) list" where
  "list_tests = [is_app_triggered_NullInput, is_app_triggered_ValidReasons, is_app_triggered_InvalidReasons,
     is_ops_triggered_NullInput, is_ops_triggered_ValidReasons, is_ops_triggered_InvalidReasons,
     is_maintenance_triggered_NullInput, is_maintenance_triggered_ValidReasons,
     is_maintenance_triggered_InvalidReasons]"

definition panic_tests :: "(env \<Rightarrow> world \<Rightarrow> bool) list" where
  "panic_tests = [detect_kernel_panic_NullParameters, detect_kernel_panic_NoPanicDetected,
     detect_kernel_panic_BrcmWithOopsSignature, detect_kernel_panic_RtkWithoutPstoreFile,
     detect_kernel_panic_BrcmWithoutOopsMarker, detect_kernel_panic_TvPstoreWithoutPanicSignature]"

definition firmware_tests :: "(env \<Rightarrow> world \<Rightarrow> bool) list" where
  "firmware_tests = [check_firmware_failure_NullParameters, check_firmware_failure_NoFailureDetected,
     check_firmware_failure_MaxRebootDetectedStb, check_firmware_failure_MediaClientUsesUiMgr,
     check_firmware_failure_EcmCrashDetected, check_firmware_failure_MaxRebootAndEcmCrashTogether,
     check_firmware_failure_EcmCrashSkippedForMediaClient, check_firmware_failure_EcmLogPresentWithoutCrashString]"

definition classification_tests :: "(env \<Rightarrow> world \<Rightarrow> bool) list" where
  "classification_tests = [classify_reboot_reason_NullParameters, classify_reboot_reason_FirmwareFailureMaxReboot,
     classify_reboot_reason_FirmwareFailureECMCrash, classify_reboot_reason_KernelPanic,
     classify_reboot_reason_AppTriggered, classify_reboot_reason_OpsTriggered,
     classify_reboot_reason_MaintenanceTriggered, classify_reboot_reason_HardwareReason,
     classify_reboot_reason_WatchdogReset, classify_reboot_reason_PowerOnReset,
     classify_reboot_reason_UnknownCustomDefaultsToFirmwareFailure, classify_reboot_reason_FallbackToSoftwareReboot,
     classify_reboot_reason_HardwareUnknownMapsHardPower,
     classify_reboot_reason_BrcmRawReasonSetsPrefixedCustomReason,
     classify_reboot_reason_AmlogicBypassWhenReasonPreset, classify_reboot_reason_MtkBypassWhenReasonPreset,
     classify_reboot_reason_FirmwareFailureWithInitiatorAndDetails,
     classify_reboot_reason_CustomReasonMaintenanceLiteral,
     classify_reboot_reason_BrcmMappedReasonPrefixedWhenRawMissing,
     classify_reboot_reason_BrcmUnknownMappedReasonHardPower, classify_reboot_reason_UnknownMappedReasonNonBrcm,
     classify_reboot_reason_HardwareUnknownStringNonEmpty,
     classify_reboot_reason_UnknownWhenPanicFlagSetButNotDetectedEarlier,
     classify_reboot_reason_UnknownCustomKeepsExistingSource,
     classify_reboot_reason_FirmwareFailureWithoutDetailsKeepsOtherReason,
     classify_reboot_reason_BroadcomSocUsesRawReason]"

definition mapping_tests :: "(env \<Rightarrow> world \<Rightarrow> bool) list" where
  "mapping_tests = [classify_reboot_reason_HardwareMappings_MultipleCases, classify_reboot_reason_HardwareMappings_AdditionalCases,
     classify_reboot_reason_HardwareMappings_AliasCases, classify_reboot_reason_HardwareMappings_RemainingCases]"

definition kernel_log_tests :: "(env \<Rightarrow> world \<Rightarrow> bool) list" where
  "kernel_log_tests = [update_kernel_log_NullParameters, update_kernel_log_NonRealtekSocIsNoOp,
     update_kernel_log_RtkWithEmptyReasonIsNoOp, update_kernel_log_RtkAnnotatesLowercaseReason,
     update_kernel_log_RealtekSocAnnotatesReason, classify_reboot_reason_RtkAnnotatesKernelLog,
     detect_kernel_panic_TvPstorePanicCopiesLogsAndAnnotates]"

definition classify_suite :: "(env \<Rightarrow> world \<Rightarrow> bool) list" where
  "classify_suite = list_tests @ panic_tests @ firmware_tests @ classification_tests @ mapping_tests @ kernel_log_tests"

lemmas list_tests_defs =
  list_tests_def is_app_triggered_NullInput_def is_app_triggered_ValidReasons_def is_app_triggered_InvalidReasons_def
  is_ops_triggered_NullInput_def is_ops_triggered_ValidReasons_def is_ops_triggered_InvalidReasons_def
  is_maintenance_triggered_NullInput_def is_maintenance_triggered_ValidReasons_def
  is_maintenance_triggered_InvalidReasons_def

lemmas panic_tests_defs =
  panic_tests_def detect_kernel_panic_NullParameters_def detect_kernel_panic_NoPanicDetected_def
  detect_kernel_panic_BrcmWithOopsSignature_def detect_kernel_panic_RtkWithoutPstoreFile_def
  detect_kernel_panic_BrcmWithoutOopsMarker_def detect_kernel_panic_TvPstoreWithoutPanicSignature_def

lemmas firmware_tests_defs =
  firmware_tests_def check_firmware_failure_NullParameters_def check_firmware_failure_NoFailureDetected_def
  check_firmware_failure_MaxRebootDetectedStb_def check_firmware_failure_MediaClientUsesUiMgr_def
  check_firmware_failure_EcmCrashDetected_def check_firmware_failure_MaxRebootAndEcmCrashTogether_def
  check_firmware_failure_EcmCrashSkippedForMediaClient_def check_firmware_failure_EcmLogPresentWithoutCrashString_def

lemmas classification_tests_defs =
  classification_tests_def classify_reboot_reason_NullParameters_def
  classify_reboot_reason_FirmwareFailureMaxReboot_def classify_reboot_reason_FirmwareFailureECMCrash_def
  classify_reboot_reason_KernelPanic_def classify_reboot_reason_AppTriggered_def
  classify_reboot_reason_OpsTriggered_def classify_reboot_reason_MaintenanceTriggered_def
  classify_reboot_reason_HardwareReason_def classify_reboot_reason_WatchdogReset_def
  classify_reboot_reason_PowerOnReset_def classify_reboot_reason_UnknownCustomDefaultsToFirmwareFailure_def
  classify_reboot_reason_FallbackToSoftwareReboot_def classify_reboot_reason_HardwareUnknownMapsHardPower_def
  classify_reboot_reason_BrcmRawReasonSetsPrefixedCustomReason_def
  classify_reboot_reason_AmlogicBypassWhenReasonPreset_def classify_reboot_reason_MtkBypassWhenReasonPreset_def
  classify_reboot_reason_FirmwareFailureWithInitiatorAndDetails_def
  classify_reboot_reason_CustomReasonMaintenanceLiteral_def
  classify_reboot_reason_BrcmMappedReasonPrefixedWhenRawMissing_def
  classify_reboot_reason_BrcmUnknownMappedReasonHardPower_def classify_reboot_reason_UnknownMappedReasonNonBrcm_def
  classify_reboot_reason_HardwareUnknownStringNonEmpty_def
  classify_reboot_reason_UnknownWhenPanicFlagSetButNotDetectedEarlier_def
  classify_reboot_reason_UnknownCustomKeepsExistingSource_def
  classify_reboot_reason_FirmwareFailureWithoutDetailsKeepsOtherReason_def
  classify_reboot_reason_BroadcomSocUsesRawReason_def

lemmas mapping_tests_defs =
  mapping_tests_def classify_reboot_reason_HardwareMappings_MultipleCases_def
  classify_reboot_reason_HardwareMappings_AdditionalCases_def classify_reboot_reason_HardwareMappings_AliasCases_def
  classify_reboot_reason_HardwareMappings_RemainingCases_def

lemmas kernel_log_tests_defs =
  kernel_log_tests_def update_kernel_log_NullParameters_def update_kernel_log_NonRealtekSocIsNoOp_def
  update_kernel_log_RtkWithEmptyReasonIsNoOp_def update_kernel_log_RtkAnnotatesLowercaseReason_def
  update_kernel_log_RealtekSocAnnotatesReason_def classify_reboot_reason_RtkAnnotatesKernelLog_def
  detect_kernel_panic_TvPstorePanicCopiesLogsAndAnnotates_def

section \<open>What the tests depend on\<close>

lemma result_alike:
  "fst (classify_reboot_reason e (Some i) (Some c) h p f w) = SUCCESS"
  "fst (snd (classify_reboot_reason e (Some i) (Some c) h p f w)) = fst (snd (classify_reboot_reason plain_env (Some i) (Some c) h p f empty_world))"
proof -
  define hw where "hw h i = fst (map_hardware_reason plain_env h i empty_world)" for h i
  have m: "fst (map_hardware_reason e h i v) = hw h i" for e h i v
    by (simp add: hw_def map_hardware_reason_def split: option.split)
  have h: "fst (classify_hardware e c h i v) = fst (classify_hardware plain_env c h i empty_world)" for c h i v
    by (simp add: classify_hardware_def case_prod_beta m)
  show "fst (classify_reboot_reason e (Some i) (Some c) h p f w) = SUCCESS"
    "fst (snd (classify_reboot_reason e (Some i) (Some c) h p f w)) = fst (snd (classify_reboot_reason plain_env (Some i) (Some c) h p f empty_world))"
    by (simp_all add: classify_reboot_reason_def h Let_def case_prod_beta)
qed

lemma classified_alike: "classified e w = classified plain_env empty_world"
  by (intro ext) (simp add: classified_def case_prod_beta result_alike(1)
    result_alike(2) [of e _ _ _ _ _ "classify_setup w"] result_alike(2) [of plain_env _ _ _ _ _ "classify_setup empty_world"])

lemma firmware_alike:
  assumes "test_env e" and "\<And>p. p \<in> {OCAPRI_LOG_FILE, UIMGR_LOG_FILE, ECM_CRASH_LOG_FILE} \<Longrightarrow> fs w p = fs w' p"
  shows "firmware_checked e w c P = firmware_checked plain_env w' c P"
proof -
  have emit: "search_string_in_file e p s (emit ev v) = search_string_in_file e p s v" for e p s ev v
    by (simp add: search_string_in_file_def fopen_r_cong [of "emit ev v" p v])
  have s: "search_string_in_file e p s w = search_string_in_file plain_env p s w'"
      if "p \<in> {OCAPRI_LOG_FILE, UIMGR_LOG_FILE, ECM_CRASH_LOG_FILE}" for p s
    by (simp add: search_string_in_file_def fopen_r_alike [OF assms(1) plain_env_ok assms(2) [OF that]])
  show ?thesis
    by (simp add: firmware_checked_def check_firmware_failure_def Let_def case_prod_beta fetcher_t2CountNotify_def
       s emit)
qed


lemma panic_alike:
  assumes "test_env e" and "soc c = ''BRCM'' \<Longrightarrow> fs w KERNEL_LOG_FILE = fs w' KERNEL_LOG_FILE"
    and "soc c \<noteq> ''BRCM'' \<Longrightarrow> rdkProfile c = ''TV'' \<Longrightarrow> fs w PSTORE_CONSOLE_LOG_FILE = fs w' PSTORE_CONSOLE_LOG_FILE"
  shows "panic_checked e w c P = panic_checked plain_env w' c P"
  using fopen_r_alike [OF assms(1) plain_env_ok assms(2)] fopen_r_alike [OF assms(1) plain_env_ok assms(3)]
  by (simp add: panic_checked_def detect_kernel_panic_def search_panic_in_file_def Let_def split: sum.split option.split)

lemma kernel_log_alike:
  assumes "test_env e" and "fs w KERNEL_LOG_FILE = None"
  shows "fs (update_kernel_log e c i w) KERNEL_LOG_FILE = fs (update_kernel_log plain_env c i (classify_setup empty_world)) KERNEL_LOG_FILE"
proof -
  have a: "fs (snd (append_file e KERNEL_LOG_FILE [s] v)) KERNEL_LOG_FILE = Some (Reg s)"
    if "test_env e" and "fs v KERNEL_LOG_FILE = None" for e s v
    using append_file_writable [of e KERNEL_LOG_FILE v "[s]"] that
    by (simp add: writable_def test_env_simps content_def missing_dir_def KERNEL_LOG_FILE_def)
  show ?thesis
    using assms a [OF plain_env_ok]
    by (simp add: update_kernel_log_def a classify_setup_def empty_world_def Let_def split: option.split)
qed

section \<open>Evaluation\<close>

lemma plain_list_tests: "list_all (\<lambda>t. t plain_env empty_world) list_tests" by code_simp
lemma plain_panic_tests: "list_all (\<lambda>t. t plain_env empty_world) panic_tests" by code_simp
lemma plain_firmware_tests: "list_all (\<lambda>t. t plain_env empty_world) firmware_tests" by code_simp
lemma plain_classification_tests: "list_all (\<lambda>t. t plain_env empty_world) classification_tests" by code_simp
lemma plain_mapping_tests: "list_all (\<lambda>t. t plain_env empty_world) mapping_tests" by code_simp
lemma plain_kernel_log_tests: "list_all (\<lambda>t. t plain_env empty_world) kernel_log_tests" by code_simp

lemma list_tests_alike: "list_all (\<lambda>t. t e w = t plain_env empty_world) list_tests"
  by (simp only: list_tests_defs list.pred_inject)

lemma panic_tests_alike: "test_env e \<Longrightarrow> list_all (\<lambda>t. t e w = t plain_env empty_world) panic_tests"
  unfolding panic_tests_defs list.pred_inject
  by (intro conjI panic_alike TrueI) (auto simp: classify_setup_def detect_kernel_panic_def zero_ctx_def)

lemma firmware_tests_alike: "test_env e \<Longrightarrow> list_all (\<lambda>t. t e w = t plain_env empty_world) firmware_tests"
  unfolding firmware_tests_defs list.pred_inject
  by (intro conjI firmware_alike TrueI) (auto simp: classify_setup_def check_firmware_failure_def)

lemma classification_tests_alike: "list_all (\<lambda>t. t e w = t plain_env empty_world) (classification_tests @ mapping_tests)"
  by (simp add: classification_tests_defs mapping_tests_defs mapping_cases_def classified_alike [of e w])
   (simp add: classify_reboot_reason_def)

text \<open>The tests that write: the note of the panic and of the reason in the kernel log.\<close>

lemma rtk_note_alike:
  assumes "test_env e"
  shows "classify_reboot_reason_RtkAnnotatesKernelLog e w = classify_reboot_reason_RtkAnnotatesKernelLog plain_env empty_world"
proof -
  let ?r = "\<lambda>e w. classify_reboot_reason e (Some zero_info) (Some (zero_ctx\<lparr>soc := ''RTK''\<rparr>)) (Some (zero_hw\<lparr>mappedReason := ''WATCHDOG''\<rparr>))
     (Some zero_panic) (Some zero_fw) (remove_path KERNEL_LOG_FILE (classify_setup w))"
  have r: "fst (?r e w) = SUCCESS \<and> fst (snd (?r e w)) = fst (snd (?r plain_env empty_world))" for e w
    using result_alike(2) [of e _ _ _ _ _ "remove_path KERNEL_LOG_FILE (classify_setup w)"]
      result_alike(2) [of plain_env _ _ _ _ _ "remove_path KERNEL_LOG_FILE (classify_setup empty_world)"]
    by (simp add: result_alike(1))
  have k: "fs (update_kernel_log e c i (snd (snd (?r e w)))) KERNEL_LOG_FILE =
      fs (update_kernel_log plain_env c i (classify_setup empty_world)) KERNEL_LOG_FILE" if "test_env e" for e c i w
    using that by (rule kernel_log_alike) (simp add: classify_fs classify_setup_def)
  show ?thesis
    using r [of e w] k [OF assms] r [of plain_env empty_world] k [OF plain_env_ok]
    by (simp add: classify_reboot_reason_RtkAnnotatesKernelLog_def case_prod_beta read_whole_file_def content_def Let_def split: option.split)
qed

lemma annotated:
  assumes "test_env e" and "fs w KERNEL_LOG_FILE \<noteq> Some Dir"
  shows "has_substr (read_whole_file KERNEL_LOG_FILE (annotate_panic e w)) ''PreviousRebootReason: kernel_panic!''"
proof -
  let ?n = "''PreviousRebootReason: kernel_panic!''"
  have m: "\<not> missing_dir KERNEL_LOG_FILE" by (simp add: missing_dir_def KERNEL_LOG_FILE_def)
  obtain c v where "fopen_a e KERNEL_LOG_FILE w = Inr v" and c: "fs v KERNEL_LOG_FILE = Some (Reg c)"
    using assms m by (cases "fs w KERNEL_LOG_FILE"; cases "the (fs w KERNEL_LOG_FILE)") (auto simp: fopen_a_def test_env_simps)
  moreover obtain ts u where "stamp_now e v = (ts, u)" and "fs u = fs v"
    by (simp add: stamp_now_def utc_now_def Let_def case_prod_beta)
  ultimately have "content (annotate_panic e w) KERNEL_LOG_FILE = Some ((c @ ts @ '' '') @ ?n @ [NL])"
    using assms(1) by (simp add: annotate_panic_def fputs_unlimited [where c = c] test_env_simps)
  then show ?thesis by (simp only: read_whole_file_def option.case has_substr_iff sublist_appendI)
qed

lemma find_panic_sample:
  "find_panic (fgets_lines 512 (''boot line'' @ [NL] @ ''Kernel panic - not syncing: Fatal exception'' @ [NL])) =
     Some (''Kernel panic - not syncing'', ''Kernel panic - not syncing: Fatal exception'' @ [NL])"
  by code_simp

lemma pstore_dst_neq: "KERNEL_LOG_FILE \<noteq> pstore_dst n"
proof
  assume "KERNEL_LOG_FILE = pstore_dst n"
  then have "last KERNEL_LOG_FILE = last (pstore_dst n)" by simp
  then show False by (simp add: KERNEL_LOG_FILE_def pstore_dst_def)
qed

lemma pstore_panic_copied:
  assumes "test_env e"
  shows "detect_kernel_panic_TvPstorePanicCopiesLogsAndAnnotates e w"
proof -
  let ?x = "replicate 250 (CHR ''x'')" and ?d = "''dmesg-ramoops-0''"
  let ?names = "[''console-ramoops-0'', ?d, ?x]"
  let ?bytes = "''boot line'' @ [NL] @ ''Kernel panic - not syncing: Fatal exception'' @ [NL]"
  define e' where "e' = e\<lparr>dirents := (dirents e)(PSTORE_DIR := ?names)\<rparr>"
  define v where "v = put_file (PSTORE_DIR @ ''/'' @ ?x) (''skipme'' @ [NL]) (put_file (PSTORE_DIR @ ''/dmesg-ramoops-0'') (''dmesg contents'' @ [NL])
     (put_file PSTORE_CONSOLE_LOG_FILE ?bytes (remove_path ''/opt/logs/dmesg-ramoops-0.log'' (put_dir PSTORE_DIR (classify_setup w)))))"
  have e': "test_env e'" using assms by (simp add: e'_def test_env_def)
  have x: "n \<noteq> ?x" if "length n < 250" for n using that by auto
  have b: "fopen_r e' PSTORE_CONSOLE_LOG_FILE v = Inr ?bytes"
    by (simp add: x fopen_r_def test_env_simps [OF e'] v_def PSTORE_DIR_def PSTORE_CONSOLE_LOG_FILE_def)
  have d: "opendir e' PSTORE_DIR v = Some ?names"
    by (simp add: opendir_def is_dir_def test_env_simps [OF e'] v_def) (simp add: e'_def PSTORE_DIR_def)
  have c: "content (copy_pstore_logs_to_opt e' v) (pstore_dst ?d) = Some (''dmesg contents'' @ [NL])"
    by (rule pstore_copied [OF d]) (simp_all add: x copied_def writable_def readable_def content_def test_env_simps [OF e'] pstore_src_def pstore_dst_def v_def
         missing_dir_def PSTORE_DIR_def PSTORE_CONSOLE_LOG_FILE_def classify_setup_def)
  have "world_op (\<lambda>w. fold (pstore_entry e') ?names w) (pstore_dst ` set ?names)"
    by (rule world_op_fold) (blast intro: world_op_mono [OF pstore_op.world_op_axioms])
  from world_op.frame [OF this, of KERNEL_LOG_FILE v] have "fs (copy_pstore_logs_to_opt e' v) KERNEL_LOG_FILE = fs v KERNEL_LOG_FILE"
    using pstore_dst_neq by (auto simp: copy_pstore_logs_to_opt_def d)
  also have "\<dots> = None"
    by (simp add: v_def classify_setup_def) (simp add: KERNEL_LOG_FILE_def PSTORE_DIR_def)
  finally have k: "fs (copy_pstore_logs_to_opt e' v) KERNEL_LOG_FILE = None" .
  have "access_ok ''/opt/logs/dmesg-ramoops-0.log'' (annotate_panic e' (copy_pstore_logs_to_opt e' v))"
    using c annotate_frame [of "pstore_dst ?d" e' "copy_pstore_logs_to_opt e' v"]
    by (auto simp: access_ok_def content_def pstore_dst_def KERNEL_LOG_FILE_def split: option.splits)
  moreover have "detect_kernel_panic e' (Some (zero_ctx\<lparr>rdkProfile := ''TV''\<rparr>)) (Some zero_panic) v =
      (SUCCESS, Some \<lparr>pn_detected = True, panicType = ''Kernel panic - not syncing'', pn_details = ''Kernel panic - not syncing: Fatal exception''\<rparr>,
       annotate_panic e' (copy_pstore_logs_to_opt e' v))"
    unfolding detect_kernel_panic_def search_panic_in_file_def b sum.case find_panic_sample
    by (simp add: zero_ctx_def upto_nl_def)
  moreover note annotated [OF e', of "copy_pstore_logs_to_opt e' v"] k
  ultimately show ?thesis
    unfolding detect_kernel_panic_TvPstorePanicCopiesLogsAndAnnotates_def Let_def e'_def [symmetric] v_def [symmetric]
    by (simp add: strchr_None_iff)
qed

lemma kernel_log_tests_pass:
  assumes "test_env e"
  shows "list_all (\<lambda>t. t e w) kernel_log_tests"
proof -
  have s: "fs (classify_setup w) KERNEL_LOG_FILE = None" for w by (simp add: classify_setup_def)
  note k = kernel_log_alike [OF assms s]
  have n: "update_kernel_log e None i w = w" "update_kernel_log e c None w = w" for e c i w
    by (simp_all add: update_kernel_log_def split: option.split)
  have "list_all (\<lambda>t. t e w = t plain_env empty_world) (butlast kernel_log_tests)"
    using rtk_note_alike [OF assms, of w]
    by (simp add: kernel_log_tests_def update_kernel_log_NullParameters_def update_kernel_log_NonRealtekSocIsNoOp_def
      update_kernel_log_RtkWithEmptyReasonIsNoOp_def update_kernel_log_RtkAnnotatesLowercaseReason_def update_kernel_log_RealtekSocAnnotatesReason_def
      access_ok_def read_whole_file_def content_def k n s)
  then show ?thesis
    using plain_kernel_log_tests pstore_panic_copied [OF assms, of w] by (simp add: kernel_log_tests_def)
qed

text \<open>
  C33. The model of the classification passes the repository's own unit tests: all sixty tests with
  an assertion of \<^verbatim>\<open>reboot_classify_gtest.cpp\<close> hold, on every machine on which files can be opened
  and written, whatever other files it has and whatever its clocks and services do.
\<close>

theorem classify_suite_passes:
  assumes "test_env e"
  shows "list_all (\<lambda>t. t e w) classify_suite"
proof -
  have pass: "list_all (\<lambda>t. t e w) ts" if "list_all (\<lambda>t. t e w = t plain_env empty_world) ts" and "list_all (\<lambda>t. t plain_env empty_world) ts" for ts
    using that by (auto simp: list_all_iff)
  show ?thesis
    using pass [OF list_tests_alike plain_list_tests] pass [OF panic_tests_alike [OF assms] plain_panic_tests]
      pass [OF firmware_tests_alike [OF assms] plain_firmware_tests] kernel_log_tests_pass [OF assms]
      pass [OF classification_tests_alike] plain_classification_tests plain_mapping_tests
    by (simp add: classify_suite_def)
qed

theorem classify_suite_passes_witness:
  "test_env plain_env \<and> list_all (\<lambda>t. t plain_env empty_world) classify_suite"
  using classify_suite_passes [OF plain_env_ok] plain_env_ok by blast

end
