(* ===== verification/LogParserTests.thy ===== *)
theory LogParserTests
  imports TestBase
begin

text \<open>
  \<^verbatim>\<open>src/unittest/reboot_log_parser_gtest.cpp\<close>: the tests of the device properties, the gate, the
  hardware register, the log of the previous boot and the lines about it. The paths that the
  tests redirect into their sandbox are the model's own paths.
\<close>

section \<open>Fixture\<close>

text \<open>The sandbox is empty when a test starts: the end of every test removes it.\<close>

definition log_setup :: "world \<Rightarrow> world" where
  "log_setup w = put_dir ''/tmp/reboot_test'' (clear_tree ''/tmp/reboot_test/'' w)"

definition mock_props :: "string \<Rightarrow> string \<Rightarrow> string \<Rightarrow> string \<Rightarrow> string \<Rightarrow> string option" where
  "mock_props soc_v build_v device_v stt_v key =
     (if key = ''SOC'' \<and> soc_v \<noteq> [] then Some soc_v
      else if key = ''BUILD_TYPE'' \<and> build_v \<noteq> [] then Some build_v
      else if key = ''DEVICE_TYPE'' \<and> device_v \<noteq> [] then Some device_v
      else if key = ''REBOOT_INFO_STT_SUPPORT'' \<and> stt_v \<noteq> [] then Some stt_v
      else None)"

text \<open>\<^verbatim>\<open>LOG_PATH\<close> set, and the names a listing of the previous logs gives.\<close>

definition log_test_env :: "env \<Rightarrow> string \<Rightarrow> string list \<Rightarrow> env" where
  "log_test_env e base names = e\<lparr>getenv := (getenv e)(''LOG_PATH'' := Some base),
     dirents := (\<lambda>p. if p = base @ ''/PreviousLogs'' then [''.'', ''..''] @ names else [])\<rparr>"

text \<open>A path that is there but cannot be opened.\<close>

definition no_read :: "path \<Rightarrow> env \<Rightarrow> env" where
  "no_read p e = e\<lparr>open_r_err := (open_r_err e)(p := Some ENOENT)\<rparr>"

definition legacy_parsed :: "env \<Rightarrow> world \<Rightarrow> path \<Rightarrow> string \<Rightarrow> (RebootInfo \<Rightarrow> bool) \<Rightarrow> bool" where
  "legacy_parsed e w p text expected \<longleftrightarrow>
     (case parse_legacy_log e (Some p) (Some zero_info) (put_file p text (log_setup w)) of
        (result, i) \<Rightarrow> result = SUCCESS \<and> (case i of None \<Rightarrow> False | Some i \<Rightarrow> expected i))"

definition register_read :: "env \<Rightarrow> world \<Rightarrow> int \<Rightarrow> (HardwareReason \<Rightarrow> bool) \<Rightarrow> bool" where
  "register_read e w rc expected \<longleftrightarrow>
     (case read_brcm_previous_reboot_reason e (Some zero_hw) w of
        (result, h) \<Rightarrow> result = rc \<and> (case h of None \<Rightarrow> False | Some h \<Rightarrow> expected h))"

definition hardware_dispatched ::
    "env \<Rightarrow> world \<Rightarrow> EnvContext \<Rightarrow> RebootInfo \<Rightarrow> (int \<Rightarrow> HardwareReason \<Rightarrow> RebootInfo \<Rightarrow> bool) \<Rightarrow> bool" where
  "hardware_dispatched e w ctx info expected \<longleftrightarrow>
     (case get_hardware_reason e (Some ctx) (Some zero_hw) (Some info) w of
        (result, Some h, Some i) \<Rightarrow> expected result h i
      | _ \<Rightarrow> False)"

definition log_found :: "env \<Rightarrow> nat \<Rightarrow> world \<Rightarrow> (int \<Rightarrow> path \<Rightarrow> bool) \<Rightarrow> bool" where
  "log_found e len w expected \<longleftrightarrow> (case find_previous_reboot_log e (Some []) len w of (rc, out) \<Rightarrow> expected rc out)"

definition fields_logged :: "env \<Rightarrow> world \<Rightarrow> path option \<Rightarrow> string list \<Rightarrow> bool" where
  "fields_logged e w jsonPath texts \<longleftrightarrow>
     (case update_previous_reboot_log_fields e jsonPath None w of
        (result, w) \<Rightarrow> result = SUCCESS \<and> list_all (has_substr (read_whole_file REBOOTINFO_LOG w)) texts)"

section \<open>Device properties\<close>

definition parse_device_properties_NullContext :: "env \<Rightarrow> world \<Rightarrow> bool" where
  "parse_device_properties_NullContext e w \<longleftrightarrow> 
     fst (parse_device_properties (e\<lparr>getDevicePropertyData := mock_props [] [] [] []\<rparr>) None (log_setup w)) = ERROR_GENERAL"

definition parse_device_properties_Success :: "env \<Rightarrow> world \<Rightarrow> bool" where
  "parse_device_properties_Success e w \<longleftrightarrow> 
     (case parse_device_properties (e\<lparr>getDevicePropertyData := mock_props [] [] [] []\<rparr>) (Some zero_ctx)
        (put_file ''/tmp/reboot_test/device.properties''
          (''SOC=BRCM'' @ [NL] @ ''BUILD_TYPE=prod'' @ [NL] @ ''DEVICE_TYPE=stb'' @ [NL]) (log_setup w)) of
        (result, ctx) \<Rightarrow> result = SUCCESS)"

definition parse_device_properties_InitializesDefaults :: "env \<Rightarrow> world \<Rightarrow> bool" where
  "parse_device_properties_InitializesDefaults e w \<longleftrightarrow> 
     (let garbage = replicate 64 (CHR 0xFF)
      in case parse_device_properties (e\<lparr>getDevicePropertyData := mock_props [] [] [] []\<rparr>)
           (Some \<lparr>soc = garbage, rdkProfile = garbage, buildType = garbage, device_type = garbage, rebootInfoSttSupport = True\<rparr>)
           (log_setup w) of
           (result, ctx) \<Rightarrow> result = SUCCESS \<and> (case ctx of None \<Rightarrow> False | Some c \<Rightarrow> \<not> rebootInfoSttSupport c))"

definition parse_device_properties_UsesMockPropertyValues :: "env \<Rightarrow> world \<Rightarrow> bool" where
  "parse_device_properties_UsesMockPropertyValues e w \<longleftrightarrow> 
     (case parse_device_properties (e\<lparr>getDevicePropertyData := mock_props ''BRCM'' ''prod'' ''stb'' ''true''\<rparr>) (Some zero_ctx)
        (log_setup w) of
        (result, ctx) \<Rightarrow> result = SUCCESS \<and> (case ctx of None \<Rightarrow> False | Some c \<Rightarrow> soc c = ''BRCM'' \<and> buildType c = ''prod'' \<and> device_type c = ''stb'' \<and>
          rebootInfoSttSupport c))"

definition parse_device_properties_UppercaseTrueValues :: "env \<Rightarrow> world \<Rightarrow> bool" where
  "parse_device_properties_UppercaseTrueValues e w \<longleftrightarrow> 
     (case parse_device_properties (e\<lparr>getDevicePropertyData := mock_props ''RTK'' [] ''stb'' ''TRUE''\<rparr>) (Some zero_ctx)
        (log_setup w) of
        (result, ctx) \<Rightarrow> result = SUCCESS \<and> (case ctx of None \<Rightarrow> False | Some c \<Rightarrow> rebootInfoSttSupport c))"

definition parse_device_properties_FallbackFromEtcDeviceProperties :: "env \<Rightarrow> world \<Rightarrow> bool" where
  "parse_device_properties_FallbackFromEtcDeviceProperties e w \<longleftrightarrow> 
     (case parse_device_properties (e\<lparr>getDevicePropertyData := mock_props [] [] [] []\<rparr>) (Some zero_ctx)
        (put_file DEVICE_PROPERTIES_PATH (''SOC=AMLOGIC'' @ [NL] @ ''DEVICE_NAME=tv_device'' @ [NL]) (log_setup w)) of
        (result, ctx) \<Rightarrow> result = SUCCESS \<and> (case ctx of None \<Rightarrow> False | Some c \<Rightarrow> soc c = ''AMLOGIC'' \<and> device_type c = ''tv_device''))"

definition parse_device_properties_FallbackUsesDeviceTypeKey :: "env \<Rightarrow> world \<Rightarrow> bool" where
  "parse_device_properties_FallbackUsesDeviceTypeKey e w \<longleftrightarrow> 
     (case parse_device_properties (e\<lparr>getDevicePropertyData := mock_props [] [] [] []\<rparr>) (Some zero_ctx)
        (put_file DEVICE_PROPERTIES_PATH (''SOC=BRCM'' @ [NL] @ ''DEVICE_TYPE=hybrid_stb'' @ [NL]) (log_setup w)) of
        (result, ctx) \<Rightarrow> result = SUCCESS \<and> (case ctx of None \<Rightarrow> False | Some c \<Rightarrow> soc c = ''BRCM'' \<and> device_type c = ''hybrid_stb''))"

definition parse_device_properties_FallbackOpenFailureReturnsFailure :: "env \<Rightarrow> world \<Rightarrow> bool" where
  "parse_device_properties_FallbackOpenFailureReturnsFailure e w \<longleftrightarrow> 
     fst (parse_device_properties (e\<lparr>getDevicePropertyData := mock_props [] [] [] [],
         open_r_err := (open_r_err e)(DEVICE_PROPERTIES_PATH := Some ENOENT)\<rparr>) (Some zero_ctx) (log_setup w)) = FAILURE"

definition free_env_context_ResetsMemory :: "env \<Rightarrow> world \<Rightarrow> bool" where
  "free_env_context_ResetsMemory e w \<longleftrightarrow> 
     (let garbage = replicate 64 (CHR 0xAB)
      in case free_env_context (Some \<lparr>soc = garbage, rdkProfile = garbage, buildType = garbage, device_type = garbage,
             rebootInfoSttSupport = True\<rparr>) of
           None \<Rightarrow> False | Some c \<Rightarrow> soc c = [] \<and> buildType c = [] \<and> device_type c = [])"

section \<open>The gate\<close>

definition update_reboot_info_NullContext :: "env \<Rightarrow> world \<Rightarrow> bool" where
  "update_reboot_info_NullContext e w \<longleftrightarrow> update_reboot_info None (log_setup w) = 0"

definition update_reboot_info_PlatcoWithoutSttFlag :: "env \<Rightarrow> world \<Rightarrow> bool" where
  "update_reboot_info_PlatcoWithoutSttFlag e w \<longleftrightarrow> update_reboot_info (Some zero_ctx) (remove_path STT_FLAG (log_setup w)) = 0"

definition update_reboot_info_RequiresSttFlag :: "env \<Rightarrow> world \<Rightarrow> bool" where
  "update_reboot_info_RequiresSttFlag e w \<longleftrightarrow> update_reboot_info (Some zero_ctx) (remove_path STT_FLAG (log_setup w)) = 0"

definition update_reboot_info_AllowsWithFlags :: "env \<Rightarrow> world \<Rightarrow> bool" where
  "update_reboot_info_AllowsWithFlags e w \<longleftrightarrow> 
     update_reboot_info (Some zero_ctx) (put_file STT_FLAG (''1'' @ [NL]) (log_setup w)) = 1"

definition update_reboot_info_NonPlatcoRequiresFlags :: "env \<Rightarrow> world \<Rightarrow> bool" where
  "update_reboot_info_NonPlatcoRequiresFlags e w \<longleftrightarrow> 
     update_reboot_info (Some zero_ctx) (remove_path ''/tmp/rebootInfo_Updated'' (remove_path STT_FLAG (log_setup w))) = 0 \<and>
     update_reboot_info (Some zero_ctx) (put_file ''/tmp/rebootInfo_Updated'' (''1'' @ [NL]) (put_file STT_FLAG (''1'' @ [NL])
       (remove_path ''/tmp/rebootInfo_Updated'' (remove_path STT_FLAG (log_setup w))))) = 1"

definition update_reboot_info_LlamaFirstInvocationAllowed :: "env \<Rightarrow> world \<Rightarrow> bool" where
  "update_reboot_info_LlamaFirstInvocationAllowed e w \<longleftrightarrow> 
     update_reboot_info (Some zero_ctx) (remove_path ''/tmp/rebootInfo_Updated'' (remove_path STT_FLAG (log_setup w))) = 0"

definition update_reboot_info_LlamaRequiresSttFlag :: "env \<Rightarrow> world \<Rightarrow> bool" where
  "update_reboot_info_LlamaRequiresSttFlag e w \<longleftrightarrow> 
     update_reboot_info (Some zero_ctx) (remove_path ''/tmp/rebootInfo_Updated'' (remove_path STT_FLAG (log_setup w))) = 0 \<and>
     update_reboot_info (Some zero_ctx) (put_file ''/tmp/rebootInfo_Updated'' (''1'' @ [NL]) (put_file STT_FLAG (''1'' @ [NL])
       (remove_path ''/tmp/rebootInfo_Updated'' (remove_path STT_FLAG (log_setup w))))) = 1"

section \<open>The older log format\<close>

definition parse_legacy_log_NullParameters :: "env \<Rightarrow> world \<Rightarrow> bool" where
  "parse_legacy_log_NullParameters e w \<longleftrightarrow> 
     fst (parse_legacy_log e None (Some zero_info) (log_setup w)) = ERROR_GENERAL \<and>
     fst (parse_legacy_log e (Some ''/tmp/test.log'') None (log_setup w)) = ERROR_GENERAL"

definition parse_legacy_log_FileNotFound :: "env \<Rightarrow> world \<Rightarrow> bool" where
  "parse_legacy_log_FileNotFound e w \<longleftrightarrow> 
     fst (parse_legacy_log e (Some ''/tmp/nonexistent_file.log'') (Some zero_info) (log_setup w)) = ERROR_FILE_NOT_FOUND"

definition parse_legacy_log_EmptyPathFileNotFound :: "env \<Rightarrow> world \<Rightarrow> bool" where
  "parse_legacy_log_EmptyPathFileNotFound e w \<longleftrightarrow> 
     fst (parse_legacy_log e (Some []) (Some zero_info) (log_setup w)) = ERROR_FILE_NOT_FOUND"

definition parse_legacy_log_EmptyFile :: "env \<Rightarrow> world \<Rightarrow> bool" where
  "parse_legacy_log_EmptyFile e w \<longleftrightarrow> 
     fst (parse_legacy_log e (Some ''/tmp/reboot_test/empty.log'') (Some zero_info)
       (put_file ''/tmp/reboot_test/empty.log'' [] (log_setup w))) = FAILURE"

definition parse_legacy_log_Success :: "env \<Rightarrow> world \<Rightarrow> bool" where
  "parse_legacy_log_Success e w \<longleftrightarrow> 
     legacy_parsed e w ''/tmp/reboot_test/reboot.log''
        (''PreviousRebootInitiatedBy: SystemService'' @ [NL] @
         ''PreviousRebootTime: 2025-11-28 10:30:00 UTC'' @ [NL] @
         ''PreviousCustomReason: ScheduledReboot'' @ [NL] @
         ''PreviousOtherReason: Reboot due to scheduled maintenance'' @ [NL])
       (\<lambda>i. source i = ''SystemService'' \<and> timestamp i = ''2025-11-28 10:30:00 UTC'' \<and> customReason i = ''ScheduledReboot'' \<and> otherReason i = ''Reboot due to scheduled maintenance'')"

definition parse_legacy_log_PartialData :: "env \<Rightarrow> world \<Rightarrow> bool" where
  "parse_legacy_log_PartialData e w \<longleftrightarrow> 
     legacy_parsed e w ''/tmp/reboot_test/partial.log''
        (''PreviousRebootInitiatedBy: WatchDog'' @ [NL] @
         ''Some other line'' @ [NL] @
         ''PreviousCustomReason: WATCHDOG_RESET'' @ [NL])
       (\<lambda>i. source i = ''WatchDog'' \<and> customReason i = ''WATCHDOG_RESET'')"

definition parse_legacy_log_OnlyOtherReason :: "env \<Rightarrow> world \<Rightarrow> bool" where
  "parse_legacy_log_OnlyOtherReason e w \<longleftrightarrow> 
     legacy_parsed e w ''/tmp/reboot_test/other_only.log''
        (''junk line'' @ [NL] @
         ''PreviousOtherReason: some detail'' @ [NL])
       (\<lambda>i. otherReason i = ''some detail'')"

definition parse_legacy_log_TrimmedValuesWithWhitespace :: "env \<Rightarrow> world \<Rightarrow> bool" where
  "parse_legacy_log_TrimmedValuesWithWhitespace e w \<longleftrightarrow> 
     legacy_parsed e w ''/tmp/reboot_test/trimmed_fields.log''
        (''PreviousRebootInitiatedBy:'' @ [TAB] @ ''  ServiceMgr   '' @ [NL] @
         ''PreviousRebootTime:   2026-03-10 10:11:12 UTC'' @ [CR] @ [NL] @
         ''PreviousCustomReason:'' @ [TAB] @ ''MaintenanceReboot'' @ [TAB] @ [NL] @
         ''PreviousOtherReason:   reason with spaces   '' @ [CR] @ [NL])
       (\<lambda>i. source i = ''ServiceMgr'' \<and> timestamp i = ''2026-03-10 10:11:12 UTC'' \<and> customReason i = ''MaintenanceReboot'' \<and> otherReason i = ''reason with spaces'')"

definition parse_legacy_log_RawFields :: "env \<Rightarrow> world \<Rightarrow> bool" where
  "parse_legacy_log_RawFields e w \<longleftrightarrow> 
     legacy_parsed e w ''/tmp/reboot_test/raw_reboot.log''
        (''Thu Jan  1 12:00:00 UTC 2026 RebootReason: MAINTENANCE_REBOOT'' @ [NL] @
         ''Thu Jan  1 12:00:00 UTC 2026 RebootInitiatedBy: Servicemanager'' @ [NL] @
         ''Thu Jan  1 12:00:00 UTC 2026 RebootTime: Thu Jan  1 12:00:00 UTC 2026'' @ [NL] @
         ''Thu Jan  1 12:00:00 UTC 2026 CustomReason: MAINTENANCE_REBOOT'' @ [NL] @
         ''Thu Jan  1 12:00:00 UTC 2026 OtherReason: Scheduled maintenance'' @ [NL])
       (\<lambda>i. source i = ''Servicemanager'' \<and> customReason i = ''MAINTENANCE_REBOOT'' \<and> otherReason i = ''Scheduled maintenance'')"

definition parse_legacy_log_HalSysReboot :: "env \<Rightarrow> world \<Rightarrow> bool" where
  "parse_legacy_log_HalSysReboot e w \<longleftrightarrow> 
     legacy_parsed e w ''/tmp/reboot_test/hal_sys_reboot.log''
        (''Thu Jan  1 12:00:00 UTC 2026 RebootReason: Triggered from WebPA FIRMWARE_FAILURE (XRE)'' @ [NL] @
         ''Thu Jan  1 12:00:00 UTC 2026 RebootInitiatedBy: HAL_SYS_Reboot'' @ [NL] @
         ''Thu Jan  1 12:00:00 UTC 2026 RebootTime: Thu Jan  1 12:00:00 UTC 2026'' @ [NL] @
         ''Thu Jan  1 12:00:00 UTC 2026 CustomReason: FIRMWARE_FAILURE'' @ [NL])
       (\<lambda>i. source i = ''WebPA'' \<and> otherReason i = ''FIRMWARE_FAILURE'' \<and> customReason i = ''FIRMWARE_FAILURE'')"

definition parse_legacy_log_HalSysReboot_NoTriggerLine :: "env \<Rightarrow> world \<Rightarrow> bool" where
  "parse_legacy_log_HalSysReboot_NoTriggerLine e w \<longleftrightarrow> 
     legacy_parsed e w ''/tmp/reboot_test/hal_notrigger.log''
        (''Thu Jan  1 12:00:00 UTC 2026 RebootInitiatedBy: HAL_SYS_Reboot'' @ [NL] @
         ''Thu Jan  1 12:00:00 UTC 2026 CustomReason: UNKNOWN'' @ [NL])
       (\<lambda>i. source i = ''HAL_SYS_Reboot'' \<and> customReason i = ''UNKNOWN'')"

definition parse_legacy_log_PreviousPrefixTakesPriority :: "env \<Rightarrow> world \<Rightarrow> bool" where
  "parse_legacy_log_PreviousPrefixTakesPriority e w \<longleftrightarrow> 
     legacy_parsed e w ''/tmp/reboot_test/mixed_fields.log''
        (''Thu Jan  1 12:00:00 UTC 2026 RebootInitiatedBy: RawSource'' @ [NL] @
         ''Thu Jan  1 12:00:00 UTC 2026 PreviousRebootInitiatedBy: LegacySource'' @ [NL] @
         ''Thu Jan  1 12:00:00 UTC 2026 RebootTime: 2026-01-01 12:00:00 UTC'' @ [NL] @
         ''Thu Jan  1 12:00:00 UTC 2026 PreviousRebootTime: 2025-12-31 08:00:00 UTC'' @ [NL] @
         ''Thu Jan  1 12:00:00 UTC 2026 CustomReason: RawCustom'' @ [NL] @
         ''Thu Jan  1 12:00:00 UTC 2026 PreviousCustomReason: LegacyCustom'' @ [NL] @
         ''Thu Jan  1 12:00:00 UTC 2026 PreviousOtherReason: LegacyOther'' @ [NL])
       (\<lambda>i. source i = ''LegacySource'' \<and> timestamp i = ''2025-12-31 08:00:00 UTC'' \<and> customReason i = ''LegacyCustom'' \<and> otherReason i = ''LegacyOther'')"

section \<open>The hardware register\<close>

definition read_brcm_previous_reboot_reason_NullParameter :: "env \<Rightarrow> world \<Rightarrow> bool" where
  "read_brcm_previous_reboot_reason_NullParameter e w \<longleftrightarrow> 
     fst (read_brcm_previous_reboot_reason e None (log_setup w)) = ERROR_GENERAL"

definition read_brcm_previous_reboot_reason_FileNotFound :: "env \<Rightarrow> world \<Rightarrow> bool" where
  "read_brcm_previous_reboot_reason_FileNotFound e w \<longleftrightarrow> 
     fst (read_brcm_previous_reboot_reason e (Some zero_hw) (log_setup w)) = FAILURE"

definition read_brcm_previous_reboot_reason_ParsesPrimaryTokenUppercase :: "env \<Rightarrow> world \<Rightarrow> bool" where
  "read_brcm_previous_reboot_reason_ParsesPrimaryTokenUppercase e w \<longleftrightarrow> 
     register_read e (put_file BRCM_REBOOT_FILE (''watchdog_reset,extra'' @ [NL]) (log_setup w)) SUCCESS
       (\<lambda>h. rawReason h = ''WATCHDOG_RESET,EXTRA'' \<and> mappedReason h = ''WATCHDOG_RESET'')"

definition read_brcm_previous_reboot_reason_EmptyFileReturnsNotFound :: "env \<Rightarrow> world \<Rightarrow> bool" where
  "read_brcm_previous_reboot_reason_EmptyFileReturnsNotFound e w \<longleftrightarrow> 
     register_read e (put_file BRCM_REBOOT_FILE ([]) (log_setup w)) FAILURE
       (\<lambda>h. True)"

definition get_hardware_reason_brcm_InvalidParams :: "env \<Rightarrow> world \<Rightarrow> bool" where
  "get_hardware_reason_brcm_InvalidParams e w \<longleftrightarrow> 
     fst (read_brcm_previous_reboot_reason e None (log_setup w)) = ERROR_GENERAL"

definition get_hardware_reason_DispatchBrcmPath :: "env \<Rightarrow> world \<Rightarrow> bool" where
  "get_hardware_reason_DispatchBrcmPath e w \<longleftrightarrow> 
     hardware_dispatched e (log_setup w) (zero_ctx\<lparr>soc := ''BRCM''\<rparr>) zero_info (\<lambda>rc h i. rc = SUCCESS \<and> mappedReason h \<noteq> [])"

definition get_hardware_reason_DispatchAmlogicPath :: "env \<Rightarrow> world \<Rightarrow> bool" where
  "get_hardware_reason_DispatchAmlogicPath e w \<longleftrightarrow> 
     hardware_dispatched e (log_setup w) (zero_ctx\<lparr>soc := ''AMLOGIC''\<rparr>) zero_info (\<lambda>rc h i. rc = SUCCESS \<and> mappedReason h = ''UNKNOWN'')"

definition get_hardware_reason_UnknownSocFallsBackToUnknown :: "env \<Rightarrow> world \<Rightarrow> bool" where
  "get_hardware_reason_UnknownSocFallsBackToUnknown e w \<longleftrightarrow> 
     hardware_dispatched e (log_setup w) (zero_ctx\<lparr>soc := ''UNKNOWN_SOC''\<rparr>) zero_info (\<lambda>rc h i. rc = SUCCESS \<and> mappedReason h \<noteq> [])"

definition get_hardware_reason_brcm_FilePathBehavior :: "env \<Rightarrow> world \<Rightarrow> bool" where
  "get_hardware_reason_brcm_FilePathBehavior e w \<longleftrightarrow> 
     (case read_brcm_previous_reboot_reason e (Some zero_hw) (log_setup w) of
        (rc, h) \<Rightarrow> (rc = SUCCESS \<or> rc = FAILURE) \<and> (case h of None \<Rightarrow> False | Some h \<Rightarrow> mappedReason h \<noteq> []))"

definition get_hardware_reason_DispatchRtkAliasPath :: "env \<Rightarrow> world \<Rightarrow> bool" where
  "get_hardware_reason_DispatchRtkAliasPath e w \<longleftrightarrow> 
     hardware_dispatched e (log_setup w) (zero_ctx\<lparr>soc := ''REALTEK''\<rparr>) zero_info (\<lambda>rc h i. rc = SUCCESS \<and> mappedReason h = ''UNKNOWN'')"

definition get_hardware_reason_DispatchMtkPath :: "env \<Rightarrow> world \<Rightarrow> bool" where
  "get_hardware_reason_DispatchMtkPath e w \<longleftrightarrow> 
     hardware_dispatched e (log_setup w) (zero_ctx\<lparr>soc := ''MTK''\<rparr>) zero_info (\<lambda>rc h i. rc = SUCCESS \<or> rc = FAILURE \<or> rc = ERROR_GENERAL)"

definition get_hardware_reason_DispatchBroadcomAliasPath :: "env \<Rightarrow> world \<Rightarrow> bool" where
  "get_hardware_reason_DispatchBroadcomAliasPath e w \<longleftrightarrow> 
     hardware_dispatched e (log_setup w) (zero_ctx\<lparr>soc := ''BROADCOM''\<rparr>) zero_info (\<lambda>rc h i. rc = SUCCESS \<and> mappedReason h = ''UNKNOWN'')"

definition get_hardware_reason_DispatchMediatekAliasPath :: "env \<Rightarrow> world \<Rightarrow> bool" where
  "get_hardware_reason_DispatchMediatekAliasPath e w \<longleftrightarrow> 
     hardware_dispatched e (log_setup w) (zero_ctx\<lparr>soc := ''MEDIATEK''\<rparr>) zero_info (\<lambda>rc h i. rc = SUCCESS \<or> rc = FAILURE \<or> rc = ERROR_GENERAL)"

definition get_hardware_reason_EmptySocFallbackPath :: "env \<Rightarrow> world \<Rightarrow> bool" where
  "get_hardware_reason_EmptySocFallbackPath e w \<longleftrightarrow> 
     hardware_dispatched e (log_setup w) zero_ctx zero_info (\<lambda>rc h i. rc = SUCCESS \<and> mappedReason h \<noteq> [])"

definition get_hardware_reason_brcm_ReadsAndUppercases :: "env \<Rightarrow> world \<Rightarrow> bool" where
  "get_hardware_reason_brcm_ReadsAndUppercases e w \<longleftrightarrow> 
     register_read e (put_file BRCM_REBOOT_FILE (''watchdog_reset'' @ [NL]) (log_setup w)) SUCCESS
       (\<lambda>h. rawReason h = ''WATCHDOG_RESET'' \<and> mappedReason h = ''WATCHDOG_RESET'')"

definition get_hardware_reason_DispatchAmlogicUsesReadPath :: "env \<Rightarrow> world \<Rightarrow> bool" where
  "get_hardware_reason_DispatchAmlogicUsesReadPath e w \<longleftrightarrow> 
     hardware_dispatched e (put_file ''/sys/devices/platform/aml_pm/reset_reason'' (''12'' @ [NL]) (log_setup w)) (zero_ctx\<lparr>soc := ''AMLOGIC''\<rparr>)
       zero_info (\<lambda>rc h i. rc = SUCCESS \<and> mappedReason h = ''UNKNOWN'' \<and> reason i = [])"

definition get_hardware_reason_DispatchMtkUsesReadPath :: "env \<Rightarrow> world \<Rightarrow> bool" where
  "get_hardware_reason_DispatchMtkUsesReadPath e w \<longleftrightarrow> 
     hardware_dispatched e (put_file ''/sys/mtk_pm/boot_reason'' (''0xD1'' @ [NL]) (log_setup w)) (zero_ctx\<lparr>soc := ''MEDIATEK''\<rparr>)
       (zero_info\<lparr>timestamp := ''2026-03-10T11:22:33Z''\<rparr>)
       (\<lambda>rc h i. rc = SUCCESS \<and> mappedReason h = ''UNKNOWN'' \<and> reason i = [] \<and> timestamp i = ''2026-03-10T11:22:33Z'')"

definition get_hardware_reason_brcm_EmptyFileUnknown :: "env \<Rightarrow> world \<Rightarrow> bool" where
  "get_hardware_reason_brcm_EmptyFileUnknown e w \<longleftrightarrow> 
     register_read e (put_file BRCM_REBOOT_FILE ([]) (log_setup w)) FAILURE
       (\<lambda>h. mappedReason h = [])"

definition get_hardware_reason_brcm_OpenFailsReturnsErrorGeneral :: "env \<Rightarrow> world \<Rightarrow> bool" where
  "get_hardware_reason_brcm_OpenFailsReturnsErrorGeneral e w \<longleftrightarrow> 
     register_read (e\<lparr>open_r_err := (open_r_err e)(BRCM_REBOOT_FILE := Some ENOENT)\<rparr>)
       (put_file BRCM_REBOOT_FILE [] (log_setup w)) FAILURE (\<lambda>h. mappedReason h = [])"

section \<open>The log of the previous boot\<close>

definition find_previous_reboot_log_NullParameters :: "env \<Rightarrow> world \<Rightarrow> bool" where
  "find_previous_reboot_log_NullParameters e w \<longleftrightarrow> 
     fst (find_previous_reboot_log e None 256 (log_setup w)) = ERROR_GENERAL \<and>
     fst (find_previous_reboot_log e (Some []) 0 (log_setup w)) = ERROR_GENERAL"

definition find_previous_reboot_log_NoLogsReturnsNotFound :: "env \<Rightarrow> world \<Rightarrow> bool" where
  "find_previous_reboot_log_NoLogsReturnsNotFound e w \<longleftrightarrow> 
     log_found (log_test_env e ''/tmp/reboot_test/nologs'' []) 256
       (log_setup w)
       (\<lambda>rc out. rc = ERROR_FILE_NOT_FOUND \<and> out = [])"

definition find_previous_reboot_log_TimestampedSubdir :: "env \<Rightarrow> world \<Rightarrow> bool" where
  "find_previous_reboot_log_TimestampedSubdir e w \<longleftrightarrow> 
     log_found (log_test_env e ''/tmp/reboot_test/logs'' [''20260101_120000'']) 512
       (put_file ''/tmp/reboot_test/logs/PreviousLogs/20260101_120000/rebootInfo.log'' (''RebootInitiatedBy: Servicemanager'' @ [NL])
       (put_file ''/tmp/reboot_test/logs/PreviousLogs/20260101_120000/last_reboot'' ([])
       (put_dir ''/tmp/reboot_test/logs/PreviousLogs/20260101_120000'' (put_dir ''/tmp/reboot_test/logs/PreviousLogs'' (log_setup w)))))
       (\<lambda>rc out. rc = SUCCESS \<and> out \<noteq> [] \<and> has_substr out ''rebootInfo.log'')"

definition find_previous_reboot_log_FlatFallback :: "env \<Rightarrow> world \<Rightarrow> bool" where
  "find_previous_reboot_log_FlatFallback e w \<longleftrightarrow> 
     log_found (log_test_env e ''/tmp/reboot_test/logs'' [''rebootInfo.log'']) 512
       (put_file ''/tmp/reboot_test/logs/PreviousLogs/rebootInfo.log'' (''RebootInitiatedBy: WebPA'' @ [NL])
       (put_dir ''/tmp/reboot_test/logs/PreviousLogs'' (log_setup w)))
       (\<lambda>rc out. rc = SUCCESS \<and> out = ''/tmp/reboot_test/logs/PreviousLogs/rebootInfo.log'')"

definition find_previous_reboot_log_Bak1Preferred :: "env \<Rightarrow> world \<Rightarrow> bool" where
  "find_previous_reboot_log_Bak1Preferred e w \<longleftrightarrow> 
     log_found (log_test_env e ''/tmp/reboot_test/logs'' [''rebootInfo.log'', ''bak1_rebootInfo.log'']) 512
       (put_file ''/tmp/reboot_test/logs/PreviousLogs/bak1_rebootInfo.log'' (''newer'' @ [NL])
       (put_file ''/tmp/reboot_test/logs/PreviousLogs/rebootInfo.log'' (''old'' @ [NL])
       (put_dir ''/tmp/reboot_test/logs/PreviousLogs'' (log_setup w))))
       (\<lambda>rc out. rc = SUCCESS \<and> out = ''/tmp/reboot_test/logs/PreviousLogs/bak1_rebootInfo.log'')"

definition find_previous_reboot_log_Bak2WhenBak1Missing :: "env \<Rightarrow> world \<Rightarrow> bool" where
  "find_previous_reboot_log_Bak2WhenBak1Missing e w \<longleftrightarrow> 
     log_found (log_test_env e ''/tmp/reboot_test/logs'' [''rebootInfo.log'', ''bak2_rebootInfo.log'']) 512
       (put_file ''/tmp/reboot_test/logs/PreviousLogs/bak2_rebootInfo.log'' (''bak2'' @ [NL])
       (put_file ''/tmp/reboot_test/logs/PreviousLogs/rebootInfo.log'' (''old'' @ [NL])
       (put_dir ''/tmp/reboot_test/logs/PreviousLogs'' (log_setup w))))
       (\<lambda>rc out. rc = SUCCESS \<and> out = ''/tmp/reboot_test/logs/PreviousLogs/bak2_rebootInfo.log'')"

section \<open>The lines about the previous reboot\<close>

definition update_previous_reboot_log_fields_UsesJsonValues :: "env \<Rightarrow> world \<Rightarrow> bool" where
  "update_previous_reboot_log_fields_UsesJsonValues e w \<longleftrightarrow> 
     fields_logged (log_test_env e ''/tmp/reboot_test/logs'' [''rebootInfo.log''])
       (put_file ''/tmp/reboot_test/previous_reboot.json''
        (''{'' @ [DQ] @ ''timestamp'' @ [DQ] @ '':'' @ [DQ] @ ''2026-08-01T01:02:03Z'' @ [DQ] @ '','' @ [DQ] @ ''source'' @ [DQ] @ '':'' @ [DQ] @ ''WebPA'' @ [DQ] @ '','' @ [DQ] @ ''reason'' @ [DQ] @ '':'' @ [DQ] @ ''USER_INITIATED'' @ [DQ] @ '','' @ [DQ] @ ''customReason'' @ [DQ] @ '':'' @ [DQ] @ ''Reset'' @ [DQ] @ '','' @ [DQ] @ ''otherReason'' @ [DQ] @ '':'' @ [DQ] @ ''Requested'' @ [DQ] @ ''}'')
       (put_file ''/tmp/reboot_test/logs/PreviousLogs/rebootInfo.log''
        (''2026-08-01T01:02:03Z RebootReason: Previous user reboot'' @ [NL])
       (put_dir ''/tmp/reboot_test/logs/PreviousLogs'' (put_file REBOOTINFO_LOG [] (log_setup w))))) (Some ''/tmp/reboot_test/previous_reboot.json'')
       [''PreviousRebootReason: RebootReason: Previous user reboot'',
        ''PreviousRebootInitiatedBy: WebPA'',
        ''PreviousRebootTime: 2026-08-01T01:02:03Z'',
        ''PreviousCustomReason: Reset'',
        ''PreviousOtherReason: Requested'']"

definition update_previous_reboot_log_fields_FallsBackToLegacyLog :: "env \<Rightarrow> world \<Rightarrow> bool" where
  "update_previous_reboot_log_fields_FallsBackToLegacyLog e w \<longleftrightarrow> 
     fields_logged (log_test_env e ''/tmp/reboot_test/logs'' [''rebootInfo.log''])
       (put_file ''/tmp/reboot_test/logs/PreviousLogs/rebootInfo.log''
        (''2026-07-31T20:00:00Z RebootReason: Legacy reboot reason'' @ [NL] @
         ''2026-07-31T20:00:00Z RebootInitiatedBy: SystemService'' @ [NL] @
         ''2026-07-31T20:00:00Z RebootTime: 2026-07-31T20:00:00Z'' @ [NL] @
         ''2026-07-31T20:00:00Z CustomReason: Maintenance'' @ [NL] @
         ''2026-07-31T20:00:00Z OtherReason: Scheduled update'' @ [NL])
       (put_dir ''/tmp/reboot_test/logs/PreviousLogs'' (put_file REBOOTINFO_LOG [] (log_setup w)))) (Some ''/tmp/reboot_test/missing.json'')
       [''PreviousRebootReason: RebootReason: Legacy reboot reason'',
        ''PreviousRebootInitiatedBy: SystemService'',
        ''PreviousRebootTime: 2026-07-31T20:00:00Z'',
        ''PreviousCustomReason: Maintenance'',
        ''PreviousOtherReason: Scheduled update'']"

definition update_previous_reboot_log_fields_NullJsonWritesEmptyFields :: "env \<Rightarrow> world \<Rightarrow> bool" where
  "update_previous_reboot_log_fields_NullJsonWritesEmptyFields e w \<longleftrightarrow> 
     fields_logged e
       (put_file REBOOTINFO_LOG [] (log_setup w)) None
       [''PreviousRebootReason: '' @ [NL],
        ''PreviousRebootInitiatedBy: '' @ [NL],
        ''PreviousRebootTime: '' @ [NL],
        ''PreviousCustomReason: '' @ [NL],
        ''PreviousOtherReason: '' @ [NL]]"

definition update_previous_reboot_log_fields_MissingJsonAndLogWritesEmptyFields :: "env \<Rightarrow> world \<Rightarrow> bool" where
  "update_previous_reboot_log_fields_MissingJsonAndLogWritesEmptyFields e w \<longleftrightarrow> 
     fields_logged (log_test_env e ''/tmp/reboot_test/no_previous_logs'' [])
       (put_file REBOOTINFO_LOG [] (log_setup w)) (Some ''/tmp/reboot_test/missing.json'')
       [''PreviousRebootReason: '' @ [NL],
        ''PreviousRebootInitiatedBy: '' @ [NL]]"

definition update_previous_reboot_log_fields_InvalidLegacyLogWritesEmptyFields :: "env \<Rightarrow> world \<Rightarrow> bool" where
  "update_previous_reboot_log_fields_InvalidLegacyLogWritesEmptyFields e w \<longleftrightarrow> 
     fields_logged (log_test_env e ''/tmp/reboot_test/logs'' [''rebootInfo.log''])
       (put_file ''/tmp/reboot_test/logs/PreviousLogs/rebootInfo.log''
        (''unrelated entry'' @ [NL])
       (put_dir ''/tmp/reboot_test/logs/PreviousLogs'' (put_file REBOOTINFO_LOG [] (log_setup w)))) (Some ''/tmp/reboot_test/missing.json'')
       [''PreviousRebootReason: '' @ [NL],
        ''PreviousRebootInitiatedBy: '' @ [NL]]"

definition update_previous_reboot_log_fields_JsonOpenFailureFallsBackToLegacyLog :: "env \<Rightarrow> world \<Rightarrow> bool" where
  "update_previous_reboot_log_fields_JsonOpenFailureFallsBackToLegacyLog e w \<longleftrightarrow> 
     fields_logged (no_read ''/tmp/reboot_test/unreadable.json'' (log_test_env e ''/tmp/reboot_test/logs'' [''rebootInfo.log'']))
       (put_file ''/tmp/reboot_test/unreadable.json''
        ([])
       (put_file ''/tmp/reboot_test/logs/PreviousLogs/rebootInfo.log''
        (''2026-07-31T20:00:00Z RebootReason: Fallback reason'' @ [NL] @
         ''2026-07-31T20:00:00Z RebootInitiatedBy: SystemService'' @ [NL])
       (put_dir ''/tmp/reboot_test/logs/PreviousLogs'' (put_file REBOOTINFO_LOG [] (log_setup w))))) (Some ''/tmp/reboot_test/unreadable.json'')
       [''PreviousRebootReason: RebootReason: Fallback reason'',
        ''PreviousRebootInitiatedBy: SystemService'']"

definition update_previous_reboot_log_fields_OutputOpenFailureReturnsError :: "env \<Rightarrow> world \<Rightarrow> bool" where
  "update_previous_reboot_log_fields_OutputOpenFailureReturnsError e w \<longleftrightarrow> 
     fst (update_previous_reboot_log_fields (e\<lparr>open_w_err := (open_w_err e)(REBOOTINFO_LOG := Some ENOENT)\<rparr>)
       None None (log_setup w)) = ERROR_GENERAL"

section \<open>The suite\<close>

definition property_tests :: "(env \<Rightarrow> world \<Rightarrow> bool) list" where
  "property_tests = [parse_device_properties_NullContext, parse_device_properties_Success,
     parse_device_properties_InitializesDefaults, parse_device_properties_UsesMockPropertyValues,
     parse_device_properties_UppercaseTrueValues, parse_device_properties_FallbackFromEtcDeviceProperties,
     parse_device_properties_FallbackUsesDeviceTypeKey, parse_device_properties_FallbackOpenFailureReturnsFailure,
     free_env_context_ResetsMemory, update_reboot_info_NullContext, update_reboot_info_PlatcoWithoutSttFlag,
     update_reboot_info_RequiresSttFlag, update_reboot_info_AllowsWithFlags,
     update_reboot_info_NonPlatcoRequiresFlags, update_reboot_info_LlamaFirstInvocationAllowed,
     update_reboot_info_LlamaRequiresSttFlag]"

definition legacy_tests :: "(env \<Rightarrow> world \<Rightarrow> bool) list" where
  "legacy_tests = [parse_legacy_log_NullParameters, parse_legacy_log_FileNotFound, parse_legacy_log_EmptyPathFileNotFound,
     parse_legacy_log_EmptyFile, parse_legacy_log_Success, parse_legacy_log_PartialData,
     parse_legacy_log_OnlyOtherReason, parse_legacy_log_TrimmedValuesWithWhitespace, parse_legacy_log_RawFields,
     parse_legacy_log_HalSysReboot, parse_legacy_log_HalSysReboot_NoTriggerLine,
     parse_legacy_log_PreviousPrefixTakesPriority]"

definition register_tests :: "(env \<Rightarrow> world \<Rightarrow> bool) list" where
  "register_tests = [read_brcm_previous_reboot_reason_NullParameter, read_brcm_previous_reboot_reason_FileNotFound,
     read_brcm_previous_reboot_reason_ParsesPrimaryTokenUppercase,
     read_brcm_previous_reboot_reason_EmptyFileReturnsNotFound, get_hardware_reason_brcm_InvalidParams,
     get_hardware_reason_DispatchBrcmPath, get_hardware_reason_DispatchAmlogicPath,
     get_hardware_reason_UnknownSocFallsBackToUnknown, get_hardware_reason_brcm_FilePathBehavior,
     get_hardware_reason_DispatchRtkAliasPath, get_hardware_reason_DispatchMtkPath,
     get_hardware_reason_DispatchBroadcomAliasPath, get_hardware_reason_DispatchMediatekAliasPath,
     get_hardware_reason_EmptySocFallbackPath, get_hardware_reason_brcm_ReadsAndUppercases,
     get_hardware_reason_DispatchAmlogicUsesReadPath, get_hardware_reason_DispatchMtkUsesReadPath,
     get_hardware_reason_brcm_EmptyFileUnknown, get_hardware_reason_brcm_OpenFailsReturnsErrorGeneral]"

definition find_tests :: "(env \<Rightarrow> world \<Rightarrow> bool) list" where
  "find_tests = [find_previous_reboot_log_NullParameters, find_previous_reboot_log_NoLogsReturnsNotFound,
     find_previous_reboot_log_TimestampedSubdir, find_previous_reboot_log_FlatFallback,
     find_previous_reboot_log_Bak1Preferred, find_previous_reboot_log_Bak2WhenBak1Missing]"

definition fields_tests :: "(env \<Rightarrow> world \<Rightarrow> bool) list" where
  "fields_tests = [update_previous_reboot_log_fields_UsesJsonValues, update_previous_reboot_log_fields_FallsBackToLegacyLog,
     update_previous_reboot_log_fields_NullJsonWritesEmptyFields,
     update_previous_reboot_log_fields_MissingJsonAndLogWritesEmptyFields,
     update_previous_reboot_log_fields_InvalidLegacyLogWritesEmptyFields,
     update_previous_reboot_log_fields_JsonOpenFailureFallsBackToLegacyLog,
     update_previous_reboot_log_fields_OutputOpenFailureReturnsError]"

definition log_parser_suite :: "(env \<Rightarrow> world \<Rightarrow> bool) list" where
  "log_parser_suite = property_tests @ legacy_tests @ register_tests @ find_tests @ fields_tests"

lemmas property_tests_defs =
  property_tests_def parse_device_properties_NullContext_def parse_device_properties_Success_def
  parse_device_properties_InitializesDefaults_def parse_device_properties_UsesMockPropertyValues_def
  parse_device_properties_UppercaseTrueValues_def parse_device_properties_FallbackFromEtcDeviceProperties_def
  parse_device_properties_FallbackUsesDeviceTypeKey_def parse_device_properties_FallbackOpenFailureReturnsFailure_def
  free_env_context_ResetsMemory_def update_reboot_info_NullContext_def update_reboot_info_PlatcoWithoutSttFlag_def
  update_reboot_info_RequiresSttFlag_def update_reboot_info_AllowsWithFlags_def
  update_reboot_info_NonPlatcoRequiresFlags_def update_reboot_info_LlamaFirstInvocationAllowed_def
  update_reboot_info_LlamaRequiresSttFlag_def

lemmas legacy_tests_defs =
  legacy_tests_def parse_legacy_log_NullParameters_def parse_legacy_log_FileNotFound_def
  parse_legacy_log_EmptyPathFileNotFound_def parse_legacy_log_EmptyFile_def parse_legacy_log_Success_def
  parse_legacy_log_PartialData_def parse_legacy_log_OnlyOtherReason_def
  parse_legacy_log_TrimmedValuesWithWhitespace_def parse_legacy_log_RawFields_def parse_legacy_log_HalSysReboot_def
  parse_legacy_log_HalSysReboot_NoTriggerLine_def parse_legacy_log_PreviousPrefixTakesPriority_def

lemmas register_tests_defs =
  register_tests_def read_brcm_previous_reboot_reason_NullParameter_def
  read_brcm_previous_reboot_reason_FileNotFound_def read_brcm_previous_reboot_reason_ParsesPrimaryTokenUppercase_def
  read_brcm_previous_reboot_reason_EmptyFileReturnsNotFound_def get_hardware_reason_brcm_InvalidParams_def
  get_hardware_reason_DispatchBrcmPath_def get_hardware_reason_DispatchAmlogicPath_def
  get_hardware_reason_UnknownSocFallsBackToUnknown_def get_hardware_reason_brcm_FilePathBehavior_def
  get_hardware_reason_DispatchRtkAliasPath_def get_hardware_reason_DispatchMtkPath_def
  get_hardware_reason_DispatchBroadcomAliasPath_def get_hardware_reason_DispatchMediatekAliasPath_def
  get_hardware_reason_EmptySocFallbackPath_def get_hardware_reason_brcm_ReadsAndUppercases_def
  get_hardware_reason_DispatchAmlogicUsesReadPath_def get_hardware_reason_DispatchMtkUsesReadPath_def
  get_hardware_reason_brcm_EmptyFileUnknown_def get_hardware_reason_brcm_OpenFailsReturnsErrorGeneral_def

lemmas find_tests_defs =
  find_tests_def find_previous_reboot_log_NullParameters_def find_previous_reboot_log_NoLogsReturnsNotFound_def
  find_previous_reboot_log_TimestampedSubdir_def find_previous_reboot_log_FlatFallback_def
  find_previous_reboot_log_Bak1Preferred_def find_previous_reboot_log_Bak2WhenBak1Missing_def

lemmas fields_tests_defs =
  fields_tests_def update_previous_reboot_log_fields_UsesJsonValues_def
  update_previous_reboot_log_fields_FallsBackToLegacyLog_def
  update_previous_reboot_log_fields_NullJsonWritesEmptyFields_def
  update_previous_reboot_log_fields_MissingJsonAndLogWritesEmptyFields_def
  update_previous_reboot_log_fields_InvalidLegacyLogWritesEmptyFields_def
  update_previous_reboot_log_fields_JsonOpenFailureFallsBackToLegacyLog_def
  update_previous_reboot_log_fields_OutputOpenFailureReturnsError_def

section \<open>What the tests depend on\<close>

definition log_machine :: "world \<Rightarrow> bool" where
  "log_machine w \<longleftrightarrow> fs w DEVICE_PROPERTIES_PATH \<noteq> None \<and> fs w BRCM_REBOOT_FILE = None \<and> fs w [] = None \<and>
     fs w ''/tmp/nonexistent_file.log'' = None"

definition plain_world :: world where
  "plain_world = put_file DEVICE_PROPERTIES_PATH [] empty_world"

lemma plain_world_ok: "log_machine plain_world"
  by (simp add: log_machine_def plain_world_def empty_world_def BRCM_REBOOT_FILE_def DEVICE_PROPERTIES_PATH_def)

lemma log_setup_fs: "fs (log_setup w) q = (if q = ''/tmp/reboot_test'' then Some Dir else if prefix ''/tmp/reboot_test/'' q then None else fs w q)"
  by (simp add: log_setup_def clear_tree_def)

lemma path_check_prefix: "logfile_path_check n (Some l) r = Some p \<Longrightarrow> prefix l p"
  by (auto simp: logfile_path_check_def split: option.splits if_splits)

lemma find_marked_alike:
  assumes "alike P e w e' w'" and "\<And>q. prefix d q \<Longrightarrow> q \<in> P"
  shows "find_marked d ns w = find_marked d ns w'"
proof (induction ns)
  case (Cons n ns)
  have "q \<in> P" if "logfile_path_check k (Some d) r = Some q'" and "prefix q' q" for k r q q'
    using path_check_prefix [OF that(1)] that(2) assms(2) by (metis prefix_order.trans)
  note sub = this
  have "is_dir q w = is_dir q w'" if "logfile_path_check 256 (Some d) (Some n) = Some q" for q
    using sub [OF that] alikeD(5) [OF assms(1)] by blast
  moreover have "access_ok m w = access_ok m w'"
    if "logfile_path_check 256 (Some d) (Some n) = Some q" and "logfile_path_check 256 (Some q) r = Some m" for q r m
    using sub [OF that(1)] path_check_prefix [OF that(2)] alikeD(4) [OF assms(1)] by blast
  ultimately show ?case using Cons.IH by (auto split: option.splits)
qed simp

lemma find_bak_alike:
  assumes "alike P e w e' w'" and "\<And>q. prefix d q \<Longrightarrow> q \<in> P"
  shows "find_bak d is w = find_bak d is w'"
proof (induction "is")
  case (Cons i "is")
  have "access_ok q w = access_ok q w'" if "logfile_path_check 256 (Some d) r = Some q" for r q
    using path_check_prefix [OF that] assms(2) alikeD(4) [OF assms(1)] by blast
  then show ?case using Cons.IH by (simp split: option.splits)
qed simp

lemma find_previous_alike:
  assumes "alike P e w e' w'" and "getenv e ''LOG_PATH'' = Some b" and "getenv e' ''LOG_PATH'' = Some b" and "b \<noteq> []"
    and "\<And>q. prefix b q \<Longrightarrow> q \<in> P"
  shows "find_previous_reboot_log e out n w = find_previous_reboot_log e' out n w'"
proof (cases "logfile_path_check 256 (Some b) (Some ''PreviousLogs'')")
  case None
  with assms show ?thesis by (simp add: find_previous_reboot_log_def split: option.split)
next
  case (Some d)
  have d: "q \<in> P" if "prefix d q" for q
    using path_check_prefix [OF Some] that assms(5) by (metis prefix_order.trans)
  have "access_ok q w = access_ok q w'" if "logfile_path_check 256 (Some d) r = Some q" for r q
    using path_check_prefix [OF that] d alikeD(4) [OF assms(1)] by blast
  with Some assms(2-4) alikeD(3) [OF assms(1) d [of d]] find_marked_alike [OF assms(1) d] find_bak_alike [OF assms(1) d]
  show ?thesis by (simp add: find_previous_reboot_log_def split: option.splits)
qed

lemma parse_legacy_alike: "alike P e w e' w' \<Longrightarrow> p \<in> P \<Longrightarrow> parse_legacy_log e (Some p) i w = parse_legacy_log e' (Some p) i w'"
  by (cases i) (simp_all only: parse_legacy_log_def prod.case option.case alikeD(2))

lemma read_brcm_alike: "alike P e w e' w' \<Longrightarrow> BRCM_REBOOT_FILE \<in> P \<Longrightarrow>
    read_brcm_previous_reboot_reason e h w = read_brcm_previous_reboot_reason e' h w'"
  by (simp only: read_brcm_previous_reboot_reason_def read_file_data_def alikeD)


section \<open>The machines of the suite\<close>

text \<open>The paths the readers under test look at: the sandbox, and three paths that must be missing.\<close>

definition reader_paths :: "path set" where
  "reader_paths = {p. prefix ''/tmp/reboot_test/'' p} \<union> {BRCM_REBOOT_FILE, [], ''/tmp/nonexistent_file.log''}"

lemma sandbox: "prefix ''/tmp/reboot_test/'' b \<Longrightarrow> prefix b q \<Longrightarrow> q \<in> reader_paths" "prefix ''/tmp/reboot_test/'' b \<Longrightarrow> b \<noteq> []"
  by (auto simp: reader_paths_def intro: prefix_order.trans)

lemma setup_alike:
  assumes "test_env e" and "log_machine w"
  shows "alike reader_paths e (log_setup w) plain_env (log_setup plain_world)"
  using assms by (auto simp: alike_def reader_paths_def log_setup_fs opendir_def is_dir_def test_env_simps [OF plain_env_ok] test_env_simps
    log_machine_def plain_world_def empty_world_def BRCM_REBOOT_FILE_def DEVICE_PROPERTIES_PATH_def)

lemma put_file_alike: "alike P e w e' w' \<Longrightarrow> alike P e (put_file p s w) e' (put_file p s w')"
  by (auto simp: alike_def opendir_def is_dir_def)

lemma put_dir_alike: "alike P e w e' w' \<Longrightarrow> dirents e p = dirents e' p \<Longrightarrow> alike P e (put_dir p w) e' (put_dir p w')"
  by (auto simp: alike_def opendir_def is_dir_def)

lemma log_test_env_alike: "alike P e w e' w' \<Longrightarrow> alike P (log_test_env e b ns) w (log_test_env e' b ns) w'"
  by (auto simp: alike_def opendir_def is_dir_def log_test_env_def)

lemma no_read_alike: "alike P e w e' w' \<Longrightarrow> alike P (no_read p e) w (no_read p e') w'"
  by (auto simp: alike_def opendir_def is_dir_def no_read_def split: if_splits)

lemma env_simps [simp]:
  "getenv (log_test_env e b ns) ''LOG_PATH'' = Some b" "getenv (no_read p e) = getenv e"
  "dirents (log_test_env e b ns) q = (if q = b @ ''/PreviousLogs'' then [''.'', ''..''] @ ns else [])" "dirents (no_read p e) = dirents e"
  by (simp_all add: log_test_env_def no_read_def)

lemma log_found_alike:
  assumes "alike reader_paths (log_test_env e b ns) w (log_test_env e' b ns) w'" and "prefix ''/tmp/reboot_test/'' b"
  shows "log_found (log_test_env e b ns) n w X = log_found (log_test_env e' b ns) n w' X"
  using find_previous_alike [OF assms(1) env_simps(1) env_simps(1) sandbox(2) sandbox(1)] assms(2) by (simp add: log_found_def)

lemma legacy_parsed_alike:
  assumes "alike reader_paths e (log_setup w) e' (log_setup w')" and "prefix ''/tmp/reboot_test/'' p"
  shows "legacy_parsed e w p s X = legacy_parsed e' w' p s X"
  using assms parse_legacy_alike [OF put_file_alike [OF assms(1)], of p] by (simp add: legacy_parsed_def reader_paths_def)

lemma register_read_alike:
  "alike reader_paths e w e' w' \<Longrightarrow> register_read e w rc X = register_read e' w' rc X"
  "alike reader_paths e w e' w' \<Longrightarrow> hardware_dispatched e w c i Y = hardware_dispatched e' w' c i Y"
  using read_brcm_alike [of reader_paths e w e' w']
  by (simp_all add: register_read_def hardware_dispatched_def get_hardware_reason_def reader_paths_def Let_def)

text \<open>What the five lines are taken from.\<close>

lemma find_prev_prefix:
  assumes "length (prev_logs e) \<le> 235" and "find_previous_reboot_log e (Some []) 256 w = (SUCCESS, p)"
  shows "prefix (prev_logs e) p"
  using assms(2) unfolding find_prev_unfold [OF assms(1)]
  by (auto simp: marked_log_def flat_logs_def bak_log_def Let_def split: option.splits if_splits)

lemma previous_alike:
  assumes a: "alike reader_paths e w e' w'" and b: "getenv e ''LOG_PATH'' = Some b" "getenv e' ''LOG_PATH'' = Some b"
    and "prefix ''/tmp/reboot_test/'' b" "length b \<le> 220" and "prefix ''/tmp/reboot_test/'' jp"
  shows "previous_info e (Some jp) w = previous_info e' (Some jp) w'" "previous_reason e (Some jp) w = previous_reason e' (Some jp) w'"
proof -
  have f: "find_previous_reboot_log e (Some []) 256 w = find_previous_reboot_log e' (Some []) 256 w'"
    using find_previous_alike [OF a b sandbox(2) sandbox(1)] assms(4) by simp
  have p: "p \<in> reader_paths" if "find_previous_reboot_log e' (Some []) 256 w' = (SUCCESS, p)" for p
  proof -
    have "prefix b p"
      using find_prev_prefix [OF _ that] assms(5) b(2) sandbox(2) [OF assms(4)] by (auto simp: prev_logs_def log_base_def dest: append_prefixD)
    then show ?thesis using sandbox(1) [OF assms(4)] by blast
  qed
  have j: "fopen_r e jp w = fopen_r e' jp w'" using alikeD(2) [OF a] assms(6) by (simp add: reader_paths_def)
  show "previous_info e (Some jp) w = previous_info e' (Some jp) w'"
    using parse_legacy_alike [OF a p] by (auto simp: previous_info_def j f Let_def split: prod.splits sum.splits)
  show "previous_reason e (Some jp) w = previous_reason e' (Some jp) w'"
    using alikeD(2) [OF a p] by (auto simp: previous_reason_def load_previous_reboot_reason_line_def f Let_def split: prod.splits)
qed


text \<open>Every text a test looks for is part of one of the five lines, whatever the clock says.\<close>

definition fields_hold :: "env \<Rightarrow> world \<Rightarrow> path option \<Rightarrow> string list \<Rightarrow> bool" where
  "fields_hold e w jp texts \<longleftrightarrow> list_all (\<lambda>t. list_ex (\<lambda>(k, v). has_substr (k @ '': '' @ v @ [NL]) t)
     (previous_fields (previous_info e jp w) (previous_reason e jp w))) texts"

lemma fields_loggedI:
  assumes "writable e REBOOTINFO_LOG w" and "fields_hold e w jp texts"
  shows "fields_logged e w jp texts"
proof -
  let ?kvs = "previous_fields (previous_info e jp w) (previous_reason e jp w)"
  have line: "sublist (k @ '': '' @ v @ [NL]) (concat (map (\<lambda>(n, kv). previous_line e (m + n) kv) (enumerate j kvs)))"
    if "(k, v) \<in> set kvs" for k v m j kvs
    using that
  proof (induction kvs arbitrary: j)
    case (Cons kv kvs)
    show ?case
    proof (cases "kv = (k, v)")
      case True
      then have "previous_line e (m + j) kv = (iso_stamp e (m + j) @ '' '') @ k @ '': '' @ v @ [NL]" by (simp add: previous_line_def)
      then have "sublist (k @ '': '' @ v @ [NL]) (previous_line e (m + j) kv)" by (simp only: sublist_append_leftI)
      then show ?thesis by (auto intro: sublist_order.order_trans)
    next
      case False
      with Cons show ?thesis by (auto intro: sublist_order.order_trans)
    qed
  qed simp
  have "has_substr (previous_text e (ticks w) (previous_info e jp w) (previous_reason e jp w)) t" if "t \<in> set texts" for t
  proof -
    obtain k v where "(k, v) \<in> set ?kvs" and "sublist t (k @ '': '' @ v @ [NL])"
      using assms(2) \<open>t \<in> set texts\<close> by (auto simp: fields_hold_def list_all_iff list_ex_iff has_substr_iff)
    then show ?thesis using line [of k v ?kvs] by (auto simp: has_substr_iff previous_text_def intro: sublist_order.order_trans)
  qed
  then show ?thesis
    by (simp add: fields_logged_def update_fields_ok [OF assms(1)] read_whole_file_def content_def list_all_iff)
qed

section \<open>Evaluation\<close>

lemma plain_legacy_tests: "list_all (\<lambda>t. t plain_env plain_world) legacy_tests" by code_simp
lemma plain_register_tests: "list_all (\<lambda>t. t plain_env plain_world) register_tests" by code_simp
lemma plain_find_tests: "list_all (\<lambda>t. t plain_env plain_world) find_tests" by code_simp

lemma legacy_tests_alike:
  assumes "test_env e" and "log_machine w"
  shows "list_all (\<lambda>t. t e w = t plain_env plain_world) legacy_tests"
proof -
  note a = setup_alike [OF assms]
  have p: "parse_legacy_log e (Some p) i (log_setup w) = parse_legacy_log plain_env (Some p) i (log_setup plain_world)"
    if "p \<in> {[], ''/tmp/nonexistent_file.log''}" for p i
    by (rule parse_legacy_alike [OF a]) (use that in \<open>auto simp: reader_paths_def\<close>)
  have n: "parse_legacy_log e None i v = (ERROR_GENERAL, i)" "parse_legacy_log e q None v = (ERROR_GENERAL, None)" for e q i v
    by (simp_all add: parse_legacy_log_def split: option.split)
  show ?thesis
    unfolding legacy_tests_defs list.pred_inject
    by (intro conjI legacy_parsed_alike [OF a] TrueI arg_cong [where f = "\<lambda>r. fst r = _"] parse_legacy_alike [OF put_file_alike [OF a]])
      (simp_all add: p n reader_paths_def)
qed

lemma register_tests_alike:
  assumes "test_env e" and "log_machine w"
  shows "list_all (\<lambda>t. t e w = t plain_env plain_world) register_tests"
proof -
  note a = setup_alike [OF assms]
  have r: "read_brcm_previous_reboot_reason e h (log_setup w) = read_brcm_previous_reboot_reason plain_env h (log_setup plain_world)" for h
    using read_brcm_alike [OF a] by (simp add: reader_paths_def)
  show ?thesis
    unfolding register_tests_defs list.pred_inject r no_read_def [symmetric]
    by (intro conjI register_read_alike put_file_alike no_read_alike a TrueI refl) simp_all
qed

lemma find_tests_alike:
  assumes "test_env e" and "log_machine w"
  shows "list_all (\<lambda>t. t e w = t plain_env plain_world) find_tests"
  unfolding find_tests_defs list.pred_inject
  by (intro conjI TrueI log_found_alike put_file_alike put_dir_alike log_test_env_alike setup_alike assms)
    (simp_all add: find_previous_reboot_log_def)

text \<open>The properties file of the machine may hold anything; the mocked properties win over it.\<close>

lemma scan_all_stt: "rebootInfoSttSupport (fold scan_property ls c) = rebootInfoSttSupport c"
  by (induction ls arbitrary: c) (auto simp: scan_property_def split: option.split)

lemmas props_simps = parse_device_properties_def property_def mock_props_def clamp64_def zero_ctx_def Let_def

lemma fallback_tests:
  "fold scan_property (fgets_lines 256 (''SOC=AMLOGIC'' @ [NL] @ ''DEVICE_NAME=tv_device'' @ [NL])) zero_ctx =
     zero_ctx\<lparr>soc := ''AMLOGIC'', device_type := ''tv_device''\<rparr>"
  "fold scan_property (fgets_lines 256 (''SOC=BRCM'' @ [NL] @ ''DEVICE_TYPE=hybrid_stb'' @ [NL])) zero_ctx =
     zero_ctx\<lparr>soc := ''BRCM'', device_type := ''hybrid_stb''\<rparr>"
  by code_simp+

lemma property_tests_pass:
  assumes "test_env e" and "log_machine w"
  shows "list_all (\<lambda>t. t e w) property_tests"
proof -
  have m: "fopen_r (e\<lparr>getDevicePropertyData := m\<rparr>) p v = fopen_r e p v" for m p v
    by (simp add: fopen_r_def)
  obtain b where b: "fopen_r e DEVICE_PROPERTIES_PATH w = Inr b"
    using assms by (cases "the (fs w DEVICE_PROPERTIES_PATH)") (auto simp: fopen_r_def test_env_simps log_machine_def)
  have s: "fopen_r e DEVICE_PROPERTIES_PATH (log_setup w) = Inr b"
    "fopen_r e DEVICE_PROPERTIES_PATH (put_file ''/tmp/reboot_test/device.properties'' s (log_setup w)) = Inr b" for s
    unfolding b [symmetric] by (rule fopen_r_cong; simp add: log_setup_fs DEVICE_PROPERTIES_PATH_def)+
  have t: "strcasecmp_eq ''true'' ''true''" "strcasecmp_eq ''TRUE'' ''true''" by code_simp+
  have f: "fopen_r e p (put_file p s v) = Inr s" for p s v
    using assms(1) by (simp add: fopen_r_def test_env_simps)
  have p: "parse_device_properties (e\<lparr>getDevicePropertyData := mock_props [] [] [] []\<rparr>) (Some zero_ctx) v =
      (case fopen_r e DEVICE_PROPERTIES_PATH v of Inl _ \<Rightarrow> (FAILURE, Some zero_ctx)
       | Inr bytes \<Rightarrow> (SUCCESS, Some (fold scan_property (fgets_lines 256 bytes) zero_ctx)))" for v
    by (simp add: props_simps m split: sum.split)
  have "parse_device_properties_NullContext e w" "parse_device_properties_Success e w" "parse_device_properties_InitializesDefaults e w"
    "parse_device_properties_UsesMockPropertyValues e w" "parse_device_properties_UppercaseTrueValues e w"
    by (simp_all add: property_tests_defs props_simps m s t scan_all_keeps scan_all_stt)
  moreover have "parse_device_properties_FallbackFromEtcDeviceProperties e w" "parse_device_properties_FallbackUsesDeviceTypeKey e w"
    unfolding property_tests_defs p f sum.case fallback_tests by simp_all
  moreover have "parse_device_properties_FallbackOpenFailureReturnsFailure e w"
    by (simp add: property_tests_defs props_simps fopen_r_def)
  moreover have "list_all (\<lambda>t. t e w) (drop 8 property_tests)"
    by (simp add: property_tests_defs free_env_context_def update_reboot_info_def access_ok_def zero_ctx_def log_setup_fs)
  ultimately show ?thesis by (simp add: property_tests_def)
qed

text \<open>The five lines.\<close>

lemma fields_pass:
  assumes "alike reader_paths e w e' w'" and "getenv e ''LOG_PATH'' = Some b" "getenv e' ''LOG_PATH'' = Some b"
    and "prefix ''/tmp/reboot_test/'' b" "length b \<le> 220" and "prefix ''/tmp/reboot_test/'' jp" and "writable e REBOOTINFO_LOG w"
    and "fields_hold e' w' (Some jp) texts"
  shows "fields_logged e w (Some jp) texts"
  using fields_loggedI [OF assms(7)] previous_alike [OF assms(1-6)] assms(8) by (simp add: fields_hold_def)

lemma log_not_tmp: "REBOOTINFO_LOG \<noteq> CHR ''/'' # CHR ''t'' # p"
  by (simp add: REBOOTINFO_LOG_def)

lemma log_test_env_writable:
  assumes "test_env e"
  shows "writable (log_test_env e b ns) REBOOTINFO_LOG w \<longleftrightarrow> fs w REBOOTINFO_LOG \<noteq> Some Dir"
    "writable (no_read p (log_test_env e b ns)) REBOOTINFO_LOG w \<longleftrightarrow> fs w REBOOTINFO_LOG \<noteq> Some Dir"
    "writable e REBOOTINFO_LOG w \<longleftrightarrow> fs w REBOOTINFO_LOG \<noteq> Some Dir"
  using assms by (simp_all add: writable_def log_test_env_def no_read_def test_env_simps missing_dir_def REBOOTINFO_LOG_def)

lemma pass_UsesJsonValues:
  assumes a: "test_env e" "log_machine w"
  shows "update_previous_reboot_log_fields_UsesJsonValues e w"
  unfolding update_previous_reboot_log_fields_UsesJsonValues_def
  by (rule fields_pass, (rule put_file_alike put_dir_alike no_read_alike log_test_env_alike setup_alike [OF a])+,
    (simp add: log_test_env_writable [OF a(1)] log_not_tmp)+, code_simp)

lemma pass_FallsBackToLegacyLog:
  assumes a: "test_env e" "log_machine w"
  shows "update_previous_reboot_log_fields_FallsBackToLegacyLog e w"
  unfolding update_previous_reboot_log_fields_FallsBackToLegacyLog_def
  by (rule fields_pass, (rule put_file_alike put_dir_alike no_read_alike log_test_env_alike setup_alike [OF a])+,
    (simp add: log_test_env_writable [OF a(1)] log_not_tmp)+, code_simp)

lemma pass_MissingJsonAndLogWritesEmptyFields:
  assumes a: "test_env e" "log_machine w"
  shows "update_previous_reboot_log_fields_MissingJsonAndLogWritesEmptyFields e w"
  unfolding update_previous_reboot_log_fields_MissingJsonAndLogWritesEmptyFields_def
  by (rule fields_pass, (rule put_file_alike put_dir_alike no_read_alike log_test_env_alike setup_alike [OF a])+,
    (simp add: log_test_env_writable [OF a(1)] log_not_tmp)+, code_simp)

lemma pass_InvalidLegacyLogWritesEmptyFields:
  assumes a: "test_env e" "log_machine w"
  shows "update_previous_reboot_log_fields_InvalidLegacyLogWritesEmptyFields e w"
  unfolding update_previous_reboot_log_fields_InvalidLegacyLogWritesEmptyFields_def
  by (rule fields_pass, (rule put_file_alike put_dir_alike no_read_alike log_test_env_alike setup_alike [OF a])+,
    (simp add: log_test_env_writable [OF a(1)] log_not_tmp)+, code_simp)

lemma pass_JsonOpenFailureFallsBackToLegacyLog:
  assumes a: "test_env e" "log_machine w"
  shows "update_previous_reboot_log_fields_JsonOpenFailureFallsBackToLegacyLog e w"
  unfolding update_previous_reboot_log_fields_JsonOpenFailureFallsBackToLegacyLog_def
  by (rule fields_pass, (rule put_file_alike put_dir_alike no_read_alike log_test_env_alike setup_alike [OF a])+,
    (simp add: log_test_env_writable [OF a(1)] log_not_tmp)+, code_simp)

lemma plain_null_fields:
  "fields_hold e w None [''PreviousRebootReason: '' @ [NL], ''PreviousRebootInitiatedBy: '' @ [NL], ''PreviousRebootTime: '' @ [NL],
     ''PreviousCustomReason: '' @ [NL], ''PreviousOtherReason: '' @ [NL]]"
  by (simp add: fields_hold_def previous_fields_def previous_info_def previous_reason_def zero_info_def has_substr_iff sublist_code)

lemma fields_tests_pass:
  assumes "test_env e" and "log_machine w"
  shows "list_all (\<lambda>t. t e w) fields_tests"
proof -
  have "update_previous_reboot_log_fields_NullJsonWritesEmptyFields e w"
    unfolding update_previous_reboot_log_fields_NullJsonWritesEmptyFields_def
    by (intro fields_loggedI plain_null_fields) (simp add: log_test_env_writable assms)
  moreover have "update_previous_reboot_log_fields_OutputOpenFailureReturnsError e w"
    by (simp add: update_previous_reboot_log_fields_OutputOpenFailureReturnsError_def update_previous_reboot_log_fields_def fopen_w_def Let_def)
  moreover note pass_UsesJsonValues [OF assms] pass_FallsBackToLegacyLog [OF assms] pass_MissingJsonAndLogWritesEmptyFields [OF assms]
    pass_InvalidLegacyLogWritesEmptyFields [OF assms] pass_JsonOpenFailureFallsBackToLegacyLog [OF assms]
  ultimately show ?thesis by (simp add: fields_tests_def)
qed

text \<open>
  C34. The models of the property parser, the hardware reason and the boot-up checker pass all sixty
  unit tests of \<^verbatim>\<open>reboot_log_parser_gtest.cpp\<close>, on every machine on which files can be opened and
  written, that has a properties file and none of the files the tests require to be missing.
\<close>

theorem log_parser_suite_passes:
  assumes "test_env e" and "log_machine w"
  shows "list_all (\<lambda>t. t e w) log_parser_suite"
proof -
  have pass: "list_all (\<lambda>t. t e w) ts" if "list_all (\<lambda>t. t e w = t plain_env plain_world) ts" "list_all (\<lambda>t. t plain_env plain_world) ts" for ts
    using that by (auto simp: list_all_iff)
  show ?thesis
    using property_tests_pass [OF assms] fields_tests_pass [OF assms] pass [OF legacy_tests_alike [OF assms] plain_legacy_tests]
      pass [OF register_tests_alike [OF assms] plain_register_tests] pass [OF find_tests_alike [OF assms] plain_find_tests]
    by (simp add: log_parser_suite_def)
qed

theorem log_parser_suite_passes_witness:
  "test_env plain_env \<and> log_machine plain_world \<and> list_all (\<lambda>t. t plain_env plain_world) log_parser_suite"
  using log_parser_suite_passes [OF plain_env_ok plain_world_ok] plain_env_ok plain_world_ok by blast

end
