(* ===== verification/ParodusTests.thy ===== *)
theory ParodusTests
  imports TestBase
begin

text \<open>
  \<^verbatim>\<open>src/unittest/reboot_parodus_gtest.cpp\<close> and \<^verbatim>\<open>src/unittest/reboot_json_gtest.cpp\<close>: the tests of the
  hand-over to parodus, the key press, the lock and the writers of the records. The buffers that
  the tests read files back into are larger than what is in them.
\<close>

section \<open>Null parameters\<close>

definition append_kernel_reason_InvalidParams :: "env \<Rightarrow> world \<Rightarrow> bool" where
  "append_kernel_reason_InvalidParams e w \<longleftrightarrow> fst (append_kernel_reason e None None w) = ERROR_GENERAL"

definition update_parodus_log_InvalidParams :: "env \<Rightarrow> world \<Rightarrow> bool" where
  "update_parodus_log_InvalidParams e w \<longleftrightarrow> fst (update_parodus_log e None w) = ERROR_GENERAL"

definition copy_keypress_info_InvalidParams :: "env \<Rightarrow> world \<Rightarrow> bool" where
  "copy_keypress_info_InvalidParams e w \<longleftrightarrow> fst (copy_keypress_info e None None w) = ERROR_GENERAL"

definition handle_parodus_reboot_file_InvalidParams :: "env \<Rightarrow> world \<Rightarrow> bool" where
  "handle_parodus_reboot_file_InvalidParams e w \<longleftrightarrow> 
     fst (handle_parodus_reboot_file e None (Some ''/tmp/out'') w) = ERROR_GENERAL \<and>
     fst (handle_parodus_reboot_file e (Some zero_info) None w) = ERROR_GENERAL"

definition write_reboot_info_InvalidParams :: "env \<Rightarrow> world \<Rightarrow> bool" where
  "write_reboot_info_InvalidParams e w \<longleftrightarrow> fst (write_reboot_info e None None w) = ERROR_GENERAL"

definition write_hardpower_InvalidParams :: "env \<Rightarrow> world \<Rightarrow> bool" where
  "write_hardpower_InvalidParams e w \<longleftrightarrow> fst (write_hardpower e None None w) = ERROR_GENERAL"

section \<open>The note for Realtek devices\<close>

definition append_kernel_reason_NonRtkSkips :: "env \<Rightarrow> world \<Rightarrow> bool" where
  "append_kernel_reason_NonRtkSkips e w \<longleftrightarrow> 
     fst (append_kernel_reason e (Some (zero_ctx\<lparr>soc := ''BRCM''\<rparr>)) (Some (zero_info\<lparr>reason := ''SOFTWARE_MASTER_RESET''\<rparr>)) w) = SUCCESS"

definition append_kernel_reason_RtkPathExecutes :: "env \<Rightarrow> world \<Rightarrow> bool" where
  "append_kernel_reason_RtkPathExecutes e w \<longleftrightarrow> 
     (let rc = fst (append_kernel_reason e (Some (zero_ctx\<lparr>soc := ''RTK''\<rparr>)) (Some (zero_info\<lparr>reason := ''SOFTWARE_MASTER_RESET''\<rparr>)) w)
      in rc = SUCCESS \<or> rc = ERROR_GENERAL)"

definition append_kernel_reason_RtkWritesLowercaseToLog :: "env \<Rightarrow> world \<Rightarrow> bool" where
  "append_kernel_reason_RtkWritesLowercaseToLog e w \<longleftrightarrow> 
     (case append_kernel_reason e (Some (zero_ctx\<lparr>soc := ''REALTEK''\<rparr>)) (Some (zero_info\<lparr>reason := ''SOFTWARE_MASTER_RESET''\<rparr>))
         (remove_path KERNEL_REASON_LOG w) of
        (rc, w) \<Rightarrow> rc = SUCCESS \<and> has_substr (read_whole_file KERNEL_REASON_LOG w) ''software_master_reset'')"

section \<open>The parodus log\<close>

definition update_parodus_log_ValidInfoPath :: "env \<Rightarrow> world \<Rightarrow> bool" where
  "update_parodus_log_ValidInfoPath e w \<longleftrightarrow> 
     (let rc = fst (update_parodus_log e (Some (zero_info\<lparr>timestamp := ''2026-03-10T10:00:00Z'', source := ''Kernel'', reason := ''KERNEL_PANIC'',
         customReason := ''Hardware Register - KERNEL_PANIC'', otherReason := ''Oops dump''\<rparr>)) w)
      in rc = SUCCESS \<or> rc = ERROR_GENERAL)"

definition update_parodus_log_SkipsWhenPreviousInfoExists :: "env \<Rightarrow> world \<Rightarrow> bool" where
  "update_parodus_log_SkipsWhenPreviousInfoExists e w \<longleftrightarrow> 
     (case update_parodus_log e (Some (zero_info\<lparr>timestamp := ''2026-03-10T15:00:00Z'', source := ''Kernel'', reason := ''KERNEL_PANIC'',
         customReason := ''Hardware Register - KERNEL_PANIC''\<rparr>)) (put_file PARODUS_LOG (''PreviousRebootInfo:existing'' @ [NL]) w) of
        (rc, w) \<Rightarrow> rc = SUCCESS \<and> has_substr (read_whole_file PARODUS_LOG w) ''PreviousRebootInfo:existing'')"

definition update_parodus_log_WritesWhenNoPreviousInfo :: "env \<Rightarrow> world \<Rightarrow> bool" where
  "update_parodus_log_WritesWhenNoPreviousInfo e w \<longleftrightarrow> 
     (case update_parodus_log e (Some (zero_info\<lparr>timestamp := ''2026-03-10T22:00:00Z'', source := ''WatchDog'', reason := ''WATCHDOG_TIMER_RESET'',
         customReason := ''Hardware Register - WATCHDOG'', otherReason := ''watchdog timeout''\<rparr>)) (remove_path PARODUS_LOG w) of
        (rc, w) \<Rightarrow> rc = SUCCESS \<and> has_substr (read_whole_file PARODUS_LOG w)
          ''PreviousRebootInfo:2026-03-10T22:00:00Z, WATCHDOG_TIMER_RESET, Hardware Register - WATCHDOG, WatchDog'')"

section \<open>The file of the service\<close>

definition handle_parodus_reboot_file_FallbackWritesDest :: "env \<Rightarrow> world \<Rightarrow> bool" where
  "handle_parodus_reboot_file_FallbackWritesDest e w \<longleftrightarrow> 
     (case handle_parodus_reboot_file e (Some (zero_info\<lparr>timestamp := ''2026-03-10T12:00:00Z'', reason := ''APP_TRIGGERED'', customReason := ''Servicemanager'', source := ''Servicemanager''\<rparr>)) (Some ''/tmp/reboot_test_parodus.out'')
         w of
        (rc, w) \<Rightarrow> rc = SUCCESS \<and> has_substr (read_whole_file ''/tmp/reboot_test_parodus.out'' w)
          ''PreviousRebootInfo:2026-03-10T12:00:00Z, APP_TRIGGERED, Servicemanager, Servicemanager'')"

definition handle_parodus_reboot_file_EmptyFallbackDoesNotWriteDest :: "env \<Rightarrow> world \<Rightarrow> bool" where
  "handle_parodus_reboot_file_EmptyFallbackDoesNotWriteDest e w \<longleftrightarrow> 
     (case handle_parodus_reboot_file e (Some (zero_info\<lparr>timestamp := ''2026-03-10T12:00:00Z''\<rparr>)) (Some ''/tmp/reboot_test_parodus_empty.out'')
         (remove_path ''/tmp/reboot_test_parodus_empty.out'' (remove_path PARODUS_REBOOT_INFO_FILE w)) of
        (rc, w) \<Rightarrow> rc = SUCCESS \<and> \<not> access_ok ''/tmp/reboot_test_parodus_empty.out'' w)"

definition handle_parodus_reboot_file_InvalidDestinationPath :: "env \<Rightarrow> world \<Rightarrow> bool" where
  "handle_parodus_reboot_file_InvalidDestinationPath e w \<longleftrightarrow> 
     (case handle_parodus_reboot_file e (Some (zero_info\<lparr>timestamp := ''2026-03-10T12:30:00Z'', reason := ''OPS_TRIGGERED'', customReason := ''ScheduledReboot'', source := ''ScheduledReboot''\<rparr>)) (Some ''/this/path/does/not/exist/out.info'')
         w of
        (rc, w) \<Rightarrow> rc = ERROR_GENERAL)"

definition handle_parodus_reboot_file_UsesParodusInputFile :: "env \<Rightarrow> world \<Rightarrow> bool" where
  "handle_parodus_reboot_file_UsesParodusInputFile e w \<longleftrightarrow> 
     (case handle_parodus_reboot_file e (Some (zero_info\<lparr>timestamp := ''2026-03-10T16:00:00Z'', reason := ''APP_TRIGGERED'', customReason := ''DeviceInitiated'', source := ''DeviceInitiated''\<rparr>)) (Some ''/tmp/reboot_test_parodus_from_input.out'')
         (put_file PARODUS_REBOOT_INFO_FILE ''PreviousRebootInfo:from_input_file'' w) of
        (rc, w) \<Rightarrow> rc = SUCCESS \<and> has_substr (read_whole_file ''/tmp/reboot_test_parodus_from_input.out'' w) ''PreviousRebootInfo:from_input_file'' \<and>
          \<not> access_ok PARODUS_REBOOT_INFO_FILE w)"

definition handle_parodus_reboot_file_EmptyInputFilePath :: "env \<Rightarrow> world \<Rightarrow> bool" where
  "handle_parodus_reboot_file_EmptyInputFilePath e w \<longleftrightarrow> 
     (case handle_parodus_reboot_file e (Some zero_info) (Some ''/tmp/reboot_test_parodus_empty.out'')
         (put_file PARODUS_REBOOT_INFO_FILE [] w) of
        (rc, w) \<Rightarrow> rc = SUCCESS \<and> access_ok ''/tmp/reboot_test_parodus_empty.out'' w \<and> read_whole_file ''/tmp/reboot_test_parodus_empty.out'' w = [])"

definition handle_parodus_reboot_file_InputExistsButDestOpenFails :: "env \<Rightarrow> world \<Rightarrow> bool" where
  "handle_parodus_reboot_file_InputExistsButDestOpenFails e w \<longleftrightarrow> 
     (case handle_parodus_reboot_file e (Some zero_info) (Some ''/this/path/does/not/exist/out.info'')
         (put_file PARODUS_REBOOT_INFO_FILE ''PreviousRebootInfo:content'' w) of
        (rc, w) \<Rightarrow> rc = ERROR_GENERAL \<and> access_ok PARODUS_REBOOT_INFO_FILE w)"

definition handle_parodus_reboot_file_InputPathOpenFailsThenFallbackWrites :: "env \<Rightarrow> world \<Rightarrow> bool" where
  "handle_parodus_reboot_file_InputPathOpenFailsThenFallbackWrites e w \<longleftrightarrow> 
     (case handle_parodus_reboot_file e (Some (zero_info\<lparr>timestamp := ''2026-03-10T23:10:00Z'', reason := ''SOFTWARE_MASTER_RESET'', customReason := ''SOFTWARE_MASTER_RESET'', source := ''SoftwareReboot''\<rparr>)) (Some ''/tmp/reboot_test_parodus_fallback_after_open_fail.out'')
         (put_file PARODUS_REBOOT_INFO_FILE [] w) of
        (rc, w) \<Rightarrow> rc = SUCCESS \<and> access_ok ''/tmp/reboot_test_parodus_fallback_after_open_fail.out'' w \<and>
          (has_substr (read_whole_file ''/tmp/reboot_test_parodus_fallback_after_open_fail.out'' w)
             ''PreviousRebootInfo:2026-03-10T23:10:00Z, SOFTWARE_MASTER_RESET, SOFTWARE_MASTER_RESET, SoftwareReboot'' \<or>
           read_whole_file ''/tmp/reboot_test_parodus_fallback_after_open_fail.out'' w = []))"

definition handle_parodus_reboot_file_AppendsNewlineWhenMissingInInput :: "env \<Rightarrow> world \<Rightarrow> bool" where
  "handle_parodus_reboot_file_AppendsNewlineWhenMissingInInput e w \<longleftrightarrow> 
     (case handle_parodus_reboot_file e (Some zero_info) (Some ''/tmp/reboot_test_parodus_newline.out'')
         (put_file PARODUS_REBOOT_INFO_FILE ''PreviousRebootInfo:line_without_newline'' w) of
        (rc, w) \<Rightarrow> rc = SUCCESS \<and> read_whole_file ''/tmp/reboot_test_parodus_newline.out'' w \<noteq> [] \<and> last (read_whole_file ''/tmp/reboot_test_parodus_newline.out'' w) = NL)"

section \<open>The key press\<close>

definition copy_keypress_info_SourceMissingReturnsSuccess :: "env \<Rightarrow> world \<Rightarrow> bool" where
  "copy_keypress_info_SourceMissingReturnsSuccess e w \<longleftrightarrow> 
     fst (copy_keypress_info e (Some ''/tmp/nonexistent_keypress.info'') (Some ''/tmp/unused_dest.info'') w) = SUCCESS"

definition copy_keypress_info_Success :: "env \<Rightarrow> world \<Rightarrow> bool" where
  "copy_keypress_info_Success e w \<longleftrightarrow> 
     (case copy_keypress_info e (Some ''/tmp/reboot_test_keypress_src.info'') (Some ''/tmp/reboot_test_keypress_dst.info'')
         (put_file ''/tmp/reboot_test_keypress_src.info'' (''KEY=OK'' @ [NL]) w) of
        (rc, w) \<Rightarrow> rc = SUCCESS \<and> has_substr (read_whole_file ''/tmp/reboot_test_keypress_dst.info'' w) ''KEY=OK'')"

definition copy_keypress_info_InvalidDestinationPath :: "env \<Rightarrow> world \<Rightarrow> bool" where
  "copy_keypress_info_InvalidDestinationPath e w \<longleftrightarrow> 
     fst (copy_keypress_info e (Some ''/tmp/reboot_test_keypress_src2.info'') (Some ''/this/path/does/not/exist/keypress.out'')
       (put_file ''/tmp/reboot_test_keypress_src2.info'' (''KEY=BADDEST'' @ [NL]) w)) = ERROR_GENERAL"

definition copy_keypress_info_ReadErrorFromDirectorySource :: "env \<Rightarrow> world \<Rightarrow> bool" where
  "copy_keypress_info_ReadErrorFromDirectorySource e w \<longleftrightarrow> 
     fst (copy_keypress_info e (Some ''/tmp/reboot_test_keypress_dir'') (Some ''/tmp/reboot_test_keypress_dir_out.info'')
       (put_dir ''/tmp/reboot_test_keypress_dir'' w)) = ERROR_GENERAL"

section \<open>The records\<close>

definition acquire_and_release_lock_Success :: "env \<Rightarrow> world \<Rightarrow> bool" where
  "acquire_and_release_lock_Success e w \<longleftrightarrow> 
     (case acquire_lock e (Some ''/tmp/reboot_test_lockfile.lock'') w of None \<Rightarrow> False
     | Some (rc, w) \<Rightarrow> rc = SUCCESS \<and> fst (release_lock (Some ''/tmp/reboot_test_lockfile.lock'') w) = SUCCESS)"

definition write_reboot_info_Success :: "env \<Rightarrow> world \<Rightarrow> bool" where
  "write_reboot_info_Success e w \<longleftrightarrow> 
     (case write_reboot_info e (Some ''/tmp/reboot_test_info.json'') (Some \<lparr>timestamp = ''2026-03-10T00:00:00Z'', source = ''Kernel'', reason = ''KERNEL_PANIC'',
         customReason = ''Hardware Register - KERNEL_PANIC'', otherReason = ''Reboot due to Kernel Panic captured by Oops Dump''\<rparr>) w of
        (rc, w) \<Rightarrow> rc = SUCCESS \<and> list_all (has_substr (read_whole_file ''/tmp/reboot_test_info.json'' w))
          [[DQ] @ ''timestamp'' @ [DQ] @ '':'' @ [DQ] @ ''2026-03-10T00:00:00Z'' @ [DQ], [DQ] @ ''source'' @ [DQ] @ '':'' @ [DQ] @ ''Kernel'' @ [DQ], [DQ] @ ''reason'' @ [DQ] @ '':'' @ [DQ] @ ''KERNEL_PANIC'' @ [DQ]])"

definition write_hardpower_Success :: "env \<Rightarrow> world \<Rightarrow> bool" where
  "write_hardpower_Success e w \<longleftrightarrow> 
     (case write_hardpower e (Some ''/tmp/reboot_test_hardpower.json'') (Some ''2026-03-10T01:23:45Z'') w of
        (rc, w) \<Rightarrow> rc = SUCCESS \<and> has_substr (read_whole_file ''/tmp/reboot_test_hardpower.json'' w)
          ([DQ] @ ''lastHardPowerReset'' @ [DQ] @ '':'' @ [DQ] @ ''2026-03-10T01:23:45Z'' @ [DQ]))"

section \<open>The suite\<close>

text \<open>Two tests expect a blank after each comma of the line; they are kept apart.\<close>

definition separator_tests :: "(env \<Rightarrow> world \<Rightarrow> bool) list" where
  "separator_tests = [handle_parodus_reboot_file_FallbackWritesDest, update_parodus_log_WritesWhenNoPreviousInfo]"

definition parodus_suite :: "(env \<Rightarrow> world \<Rightarrow> bool) list" where
  "parodus_suite = [append_kernel_reason_InvalidParams, update_parodus_log_InvalidParams, copy_keypress_info_InvalidParams,
     handle_parodus_reboot_file_InvalidParams, write_reboot_info_InvalidParams, write_hardpower_InvalidParams,
     append_kernel_reason_NonRtkSkips, append_kernel_reason_RtkPathExecutes,
     append_kernel_reason_RtkWritesLowercaseToLog, update_parodus_log_ValidInfoPath,
     update_parodus_log_SkipsWhenPreviousInfoExists, handle_parodus_reboot_file_EmptyFallbackDoesNotWriteDest,
     handle_parodus_reboot_file_InvalidDestinationPath, handle_parodus_reboot_file_UsesParodusInputFile,
     handle_parodus_reboot_file_EmptyInputFilePath, handle_parodus_reboot_file_InputExistsButDestOpenFails,
     handle_parodus_reboot_file_InputPathOpenFailsThenFallbackWrites,
     handle_parodus_reboot_file_AppendsNewlineWhenMissingInInput, copy_keypress_info_SourceMissingReturnsSuccess,
     copy_keypress_info_Success, copy_keypress_info_InvalidDestinationPath,
     copy_keypress_info_ReadErrorFromDirectorySource, acquire_and_release_lock_Success, write_reboot_info_Success,
     write_hardpower_Success]"

lemmas parodus_tests_defs =
  append_kernel_reason_InvalidParams_def update_parodus_log_InvalidParams_def copy_keypress_info_InvalidParams_def
  handle_parodus_reboot_file_InvalidParams_def write_reboot_info_InvalidParams_def write_hardpower_InvalidParams_def
  append_kernel_reason_NonRtkSkips_def append_kernel_reason_RtkPathExecutes_def
  append_kernel_reason_RtkWritesLowercaseToLog_def update_parodus_log_ValidInfoPath_def
  update_parodus_log_SkipsWhenPreviousInfoExists_def update_parodus_log_WritesWhenNoPreviousInfo_def
  handle_parodus_reboot_file_FallbackWritesDest_def handle_parodus_reboot_file_EmptyFallbackDoesNotWriteDest_def
  handle_parodus_reboot_file_InvalidDestinationPath_def handle_parodus_reboot_file_UsesParodusInputFile_def
  handle_parodus_reboot_file_EmptyInputFilePath_def handle_parodus_reboot_file_InputExistsButDestOpenFails_def
  handle_parodus_reboot_file_InputPathOpenFailsThenFallbackWrites_def
  handle_parodus_reboot_file_AppendsNewlineWhenMissingInInput_def copy_keypress_info_SourceMissingReturnsSuccess_def
  copy_keypress_info_Success_def copy_keypress_info_InvalidDestinationPath_def
  copy_keypress_info_ReadErrorFromDirectorySource_def acquire_and_release_lock_Success_def
  write_reboot_info_Success_def write_hardpower_Success_def

section \<open>The machines of the suite\<close>

definition parodus_outputs :: "path list" where
  "parodus_outputs = [PARODUS_LOG, KERNEL_REASON_LOG, PARODUS_REBOOT_INFO_FILE, ''/tmp/reboot_test_parodus.out'',
     ''/tmp/reboot_test_parodus_from_input.out'', ''/tmp/reboot_test_parodus_empty.out'',
     ''/tmp/reboot_test_parodus_fallback_after_open_fail.out'', ''/tmp/reboot_test_parodus_newline.out'',
     ''/tmp/reboot_test_keypress_dst.info'', ''/tmp/reboot_test_keypress_dir_out.info'', ''/tmp/reboot_test_lockfile.lock'',
     ''/tmp/reboot_test_info.json'', ''/tmp/reboot_test_hardpower.json'']"

text \<open>
  What the tests rely on without setting it up: no line of \<^verbatim>\<open>rebootnow\<close> is waiting, one file is
  missing, no directory is in the way, and the lock is granted.
\<close>

definition parodus_machine :: "env \<Rightarrow> world \<Rightarrow> bool" where
  "parodus_machine e w \<longleftrightarrow> test_env e \<and> flock e = FlockGranted \<and> fs w PARODUS_REBOOT_INFO_FILE = None \<and>
     fs w ''/tmp/nonexistent_keypress.info'' = None \<and> list_all (\<lambda>p. fs w p \<noteq> Some Dir) parodus_outputs"

lemma outputs_ok:
  "parodus_machine e w \<Longrightarrow> p \<in> set parodus_outputs \<Longrightarrow> writable e p w"
  by (auto simp: parodus_machine_def writable_def test_env_simps missing_dir_def parodus_outputs_def
      PARODUS_LOG_def KERNEL_REASON_LOG_def PARODUS_REBOOT_INFO_FILE_def)

lemma outputs_writable:
  assumes "parodus_machine e w" and "p \<in> set parodus_outputs"
  shows "writable e p (put_file q s w)" "writable e p (remove_path q w)" "p \<noteq> q \<Longrightarrow> writable e p (put_dir q w)"
  using outputs_ok [OF assms] by (simp_all add: writable_def)

text \<open>The stamp of a line has no comma.\<close>

lemma stamp_no_comma: "CHR '','' \<notin> set (fst (get_timestamp_string e n w))"
proof -
  have d: "CHR '','' \<notin> set (show_nat k)" for k using show_nat_digits [of "CHR '',''" k] by (auto simp: isdigit_def)
  have "CHR '','' \<notin> set (iso8601_ms t)" for t
    by (cases t) (simp add: iso8601_ms_def pad0_def d)
  then have "CHR '','' \<notin> set (bufcpy n (iso8601_ms t))" for t
    using set_mono_prefix [OF prefix_bufcpy, of n "iso8601_ms t"] by blast
  then show ?thesis by (simp add: get_timestamp_string_def utc_now_def)
qed

section \<open>Evaluation\<close>

lemma null_tests:
  "append_kernel_reason_InvalidParams e w" "update_parodus_log_InvalidParams e w" "copy_keypress_info_InvalidParams e w"
  "handle_parodus_reboot_file_InvalidParams e w" "write_reboot_info_InvalidParams e w" "write_hardpower_InvalidParams e w"
  "append_kernel_reason_NonRtkSkips e w" "append_kernel_reason_RtkPathExecutes e w" "update_parodus_log_ValidInfoPath e w"
  by (simp_all add: parodus_tests_defs append_kernel_reason_def update_parodus_log_def copy_keypress_info_def
      handle_parodus_reboot_file_def write_reboot_info_def write_hardpower_def zero_ctx_def case_prod_beta Let_def split: option.split)

text \<open>What the two writers append, with the stamp of the moment.\<close>

lemma kernel_note:
  assumes "writable e KERNEL_REASON_LOG w" and "content w KERNEL_REASON_LOG = None" and "soc c = ''REALTEK''"
  shows "\<exists>ts v. append_kernel_reason e (Some c) (Some i) w = (SUCCESS, v) \<and>
    content v KERNEL_REASON_LOG = Some (ts @ '': Kernel reboot reason: '' @ map tolower (bufcpy 128 (reason i)) @ [NL])"
proof -
  let ?v = "snd (get_timestamp_string e 64 w)"
  have "writable e KERNEL_REASON_LOG ?v" "content ?v KERNEL_REASON_LOG = None"
    using assms by (simp_all add: writable_def content_def)
  then show ?thesis
    by (simp add: append_kernel_reason_def assms(3) case_prod_beta append_file_writable)
qed

lemma parodus_note:
  assumes "writable e PARODUS_LOG w"
  shows "\<exists>ts v. update_parodus_log e (Some i) w = (SUCCESS, v) \<and> CHR '','' \<notin> set ts \<and>
    content v PARODUS_LOG = Some (read_whole_file PARODUS_LOG w @
      (ts @ '' '' @ UPDATE_NAME @ '': Updating previous reboot info to Parodus'' @ [NL] @
       ts @ '' '' @ UPDATE_NAME @ '': PreviousRebootInfo:'' @ timestamp i) @ '','' @ reason i @ '','' @ customReason i @ '','' @ source i @ [NL])"
proof -
  let ?v = "snd (get_timestamp_string e 64 w)"
  have "writable e PARODUS_LOG ?v" "content ?v PARODUS_LOG = content w PARODUS_LOG"
    using assms by (simp_all add: writable_def content_def)
  then show ?thesis
    using stamp_no_comma [of e 64 w]
    by (auto simp: update_parodus_log_def case_prod_beta append_file_writable read_whole_file_def split: option.split)
qed

lemma no_blank: "CHR '','' \<notin> set l \<Longrightarrow> strstr r '', '' = None \<Longrightarrow> sublist '', '' n \<Longrightarrow> \<not> has_substr (l @ r) n"
  using strstr_skip [of "CHR '',''" l r "'' ''"] by (metis has_substr_iff strstr_None_iff sublist_order.order.trans)

lemma kernel_note_test:
  assumes "parodus_machine e w"
  shows "append_kernel_reason_RtkWritesLowercaseToLog e w"
proof -
  let ?w = "remove_path KERNEL_REASON_LOG w"
  let ?c = "zero_ctx\<lparr>soc := ''REALTEK''\<rparr>" and ?i = "zero_info\<lparr>reason := ''SOFTWARE_MASTER_RESET''\<rparr>"
  have low: "map tolower (bufcpy 128 (reason ?i)) = ''software_master_reset''" by code_simp
  have "writable e KERNEL_REASON_LOG ?w" by (rule outputs_writable(2) [OF assms]) (simp add: parodus_outputs_def)
  then obtain ts v where "append_kernel_reason e (Some ?c) (Some ?i) ?w = (SUCCESS, v)"
    and "content v KERNEL_REASON_LOG = Some ((ts @ '': Kernel reboot reason: '') @ ''software_master_reset'' @ [NL])"
    using kernel_note [of e ?w ?c ?i] unfolding low by (auto simp: content_def)
  then show ?thesis
    unfolding append_kernel_reason_RtkWritesLowercaseToLog_def read_whole_file_def
    by (simp only: prod.case option.case has_substr_mid)
qed

lemma parodus_note_tests:
  assumes "parodus_machine e w"
  shows "update_parodus_log_SkipsWhenPreviousInfoExists e w" "\<not> update_parodus_log_WritesWhenNoPreviousInfo e w"
proof -
  let ?w = "put_file PARODUS_LOG (''PreviousRebootInfo:existing'' @ [NL]) w"
  let ?i = "zero_info\<lparr>timestamp := ''2026-03-10T15:00:00Z'', source := ''Kernel'', reason := ''KERNEL_PANIC'',
         customReason := ''Hardware Register - KERNEL_PANIC''\<rparr>"
  have r: "read_whole_file PARODUS_LOG ?w = [] @ ''PreviousRebootInfo:existing'' @ [NL]"
    by (simp add: read_whole_file_def content_def)
  have "writable e PARODUS_LOG ?w" by (rule outputs_writable(1) [OF assms]) (simp add: parodus_outputs_def)
  then obtain s v where u: "update_parodus_log e (Some ?i) ?w = (SUCCESS, v)"
    and c: "content v PARODUS_LOG = Some (([] @ ''PreviousRebootInfo:existing'' @ [NL]) @ s)"
    using parodus_note [of e ?w ?i] unfolding r by blast
  show "update_parodus_log_SkipsWhenPreviousInfoExists e w"
    unfolding update_parodus_log_SkipsWhenPreviousInfoExists_def u prod.case read_whole_file_def c option.case append_assoc
    using has_substr_mid by blast
next
  let ?w = "remove_path PARODUS_LOG w"
  let ?i = "zero_info\<lparr>timestamp := ''2026-03-10T22:00:00Z'', source := ''WatchDog'', reason := ''WATCHDOG_TIMER_RESET'',
         customReason := ''Hardware Register - WATCHDOG'', otherReason := ''watchdog timeout''\<rparr>"
  let ?r = "'','' @ reason ?i @ '','' @ customReason ?i @ '','' @ source ?i @ [NL]"
  have "writable e PARODUS_LOG ?w" by (rule outputs_writable(2) [OF assms]) (simp add: parodus_outputs_def)
  then obtain ts v where u: "update_parodus_log e (Some ?i) ?w = (SUCCESS, v)" and ts: "CHR '','' \<notin> set ts" and
    c: "content v PARODUS_LOG = Some ((ts @ '' '' @ UPDATE_NAME @ '': Updating previous reboot info to Parodus'' @ [NL] @
       ts @ '' '' @ UPDATE_NAME @ '': PreviousRebootInfo:'' @ timestamp ?i) @ ?r)" (is "_ = Some (?l @ ?r)")
    using parodus_note [of e ?w ?i] by (auto simp: read_whole_file_def content_def)
  have "CHR '','' \<notin> set ?l" using ts by (simp add: UPDATE_NAME_def)
  moreover have "strstr ?r '', '' = None" by code_simp
  moreover have "sublist '', '' ''PreviousRebootInfo:2026-03-10T22:00:00Z, WATCHDOG_TIMER_RESET, Hardware Register - WATCHDOG, WatchDog''"
    by code_simp
  ultimately have "\<not> has_substr (?l @ ?r) ''PreviousRebootInfo:2026-03-10T22:00:00Z, WATCHDOG_TIMER_RESET, Hardware Register - WATCHDOG, WatchDog''"
    by (rule no_blank)
  then show "\<not> update_parodus_log_WritesWhenNoPreviousInfo e w"
    unfolding update_parodus_log_WritesWhenNoPreviousInfo_def u prod.case read_whole_file_def c option.case by blast
qed

text \<open>The hand-over of a waiting line, and of a record when there is none.\<close>

lemma line_consumed:
  assumes "fopen_r e PARODUS_REBOOT_INFO_FILE w = Inr bytes" and "fopen_w e dest w = Inr w1" and "dest \<noteq> PARODUS_REBOOT_INFO_FILE"
    and "fs w PARODUS_REBOOT_INFO_FILE = Some (Reg bytes)" and "unlink_err e PARODUS_REBOOT_INFO_FILE = None"
  shows "fs (snd (handle_parodus_reboot_file e (Some i) (Some dest) w)) PARODUS_REBOOT_INFO_FILE = None"
proof -
  have "fs w1 PARODUS_REBOOT_INFO_FILE = Some (Reg bytes)" using assms(2-4) by (auto dest!: fopen_w_Inr)
  moreover have "fs (fprints e dest ss v) PARODUS_REBOOT_INFO_FILE = fs v PARODUS_REBOOT_INFO_FILE"
    "fs (snd (append_file e PARODUS_LOG ss v)) PARODUS_REBOOT_INFO_FILE = fs v PARODUS_REBOOT_INFO_FILE" for ss v
    using assms(3) by (simp_all add: fprints_op.frame append_op.frame)
  ultimately show ?thesis
    using assms(1,2,5) by (simp add: handle_parodus_reboot_file_def Let_def case_prod_beta unlink_def)
qed

lemma line_handed:
  assumes "parodus_machine e w" and "dest \<in> set parodus_outputs" and "dest \<noteq> PARODUS_LOG" and "dest \<noteq> PARODUS_REBOOT_INFO_FILE"
  shows "\<exists>v. handle_parodus_reboot_file e (Some i) (Some dest) (put_file PARODUS_REBOOT_INFO_FILE bytes w) = (SUCCESS, v) \<and>
    content v dest = Some (handed_line (cstr (take 511 bytes))) \<and> fs v PARODUS_REBOOT_INFO_FILE = None"
proof -
  let ?w = "put_file PARODUS_REBOOT_INFO_FILE bytes w"
  obtain rc v where h: "handle_parodus_reboot_file e (Some i) (Some dest) ?w = (rc, v)" by fastforce
  have wr: "writable e dest ?w" "writable e PARODUS_LOG ?w" "writable e PARODUS_REBOOT_INFO_FILE ?w"
    by (rule outputs_writable(1) [OF assms(1)], use assms(2) in \<open>simp add: parodus_outputs_def\<close>)+
  have rd: "readable e PARODUS_REBOOT_INFO_FILE" using assms(1) by (simp add: readable_def parodus_machine_def test_env_simps)
  have "content ?w PARODUS_REBOOT_INFO_FILE = Some bytes" by (simp add: content_def)
  from handover_line [OF wr rd assms(3,4) this h]
  have "rc = SUCCESS" "content v dest = Some (handed_line (cstr (take 511 bytes)))" by blast+
  moreover have "fs v PARODUS_REBOOT_INFO_FILE = None"
    using line_consumed [of e ?w bytes dest _ i] wr rd assms(4) h by (simp add: fopen_r_def fopen_w_def readable_def writable_def)
  ultimately show ?thesis using h by blast
qed

lemma record_handed:
  assumes "parodus_machine e w" and "dest \<in> set parodus_outputs" and "dest \<noteq> PARODUS_LOG" and "dest \<noteq> PARODUS_REBOOT_INFO_FILE"
    and "reason i \<noteq> []"
  shows "\<exists>v. handle_parodus_reboot_file e (Some i) (Some dest) w = (SUCCESS, v) \<and>
    content v dest = Some (''PreviousRebootInfo:'' @ timestamp i @ '','' @ reason i @ '','' @ customReason i @ '','' @ source i @ [NL])"
  using assms outputs_ok [OF assms(1,2)]
  by (simp add: handle_parodus_reboot_file_def fopen_r_def parodus_machine_def test_env_simps write_file_writable content_def)

lemma handed_line_tests:
  assumes "parodus_machine e w"
  shows "handle_parodus_reboot_file_UsesParodusInputFile e w" "handle_parodus_reboot_file_EmptyInputFilePath e w"
    "handle_parodus_reboot_file_InputPathOpenFailsThenFallbackWrites e w"
    "handle_parodus_reboot_file_AppendsNewlineWhenMissingInInput e w"
proof -
  have paths: "''/tmp/reboot_test_parodus_from_input.out'' \<in> set parodus_outputs" "''/tmp/reboot_test_parodus_empty.out'' \<in> set parodus_outputs"
    "''/tmp/reboot_test_parodus_fallback_after_open_fail.out'' \<in> set parodus_outputs" "''/tmp/reboot_test_parodus_newline.out'' \<in> set parodus_outputs"
    by (simp_all add: parodus_outputs_def)
  have off: "p \<noteq> PARODUS_LOG" "p \<noteq> PARODUS_REBOOT_INFO_FILE" if "prefix ''/tmp/'' p" for p
    using that by (auto simp: PARODUS_LOG_def PARODUS_REBOOT_INFO_FILE_def)
  note handed = line_handed [OF assms _ off]
  have vals: "handed_line (cstr (take 511 [])) = []"
    "handed_line (cstr (take 511 ''PreviousRebootInfo:from_input_file'')) = [] @ ''PreviousRebootInfo:from_input_file'' @ [NL]"
    "handed_line (cstr (take 511 ''PreviousRebootInfo:line_without_newline'')) = ''PreviousRebootInfo:line_without_newline'' @ [NL]"
    by code_simp+
  let ?i = "zero_info\<lparr>timestamp := ''2026-03-10T16:00:00Z'', reason := ''APP_TRIGGERED'', customReason := ''DeviceInitiated'', source := ''DeviceInitiated''\<rparr>"
  show "handle_parodus_reboot_file_UsesParodusInputFile e w"
    using handed [OF paths(1), of ?i "''PreviousRebootInfo:from_input_file''"] 
    unfolding handle_parodus_reboot_file_UsesParodusInputFile_def vals
    by (auto simp: read_whole_file_def access_ok_def has_substr_mid simp del: append.simps)
  show "handle_parodus_reboot_file_EmptyInputFilePath e w"
    using handed [OF paths(2), of zero_info "[]"] unfolding handle_parodus_reboot_file_EmptyInputFilePath_def vals
    by (auto simp: read_whole_file_def access_ok_def content_def split: option.splits)
  show "handle_parodus_reboot_file_AppendsNewlineWhenMissingInInput e w"
    using handed [OF paths(4), of zero_info "''PreviousRebootInfo:line_without_newline''"]
    unfolding handle_parodus_reboot_file_AppendsNewlineWhenMissingInInput_def vals
    by (auto simp: read_whole_file_def)
  let ?j = "zero_info\<lparr>timestamp := ''2026-03-10T23:10:00Z'', reason := ''SOFTWARE_MASTER_RESET'', customReason := ''SOFTWARE_MASTER_RESET'', source := ''SoftwareReboot''\<rparr>"
  show "handle_parodus_reboot_file_InputPathOpenFailsThenFallbackWrites e w"
    using handed [OF paths(3), of ?j "[]"] unfolding handle_parodus_reboot_file_InputPathOpenFailsThenFallbackWrites_def vals
    by (auto simp: read_whole_file_def access_ok_def content_def split: option.splits)
qed

lemma no_line_tests:
  assumes "parodus_machine e w"
  shows "handle_parodus_reboot_file_EmptyFallbackDoesNotWriteDest e w" "handle_parodus_reboot_file_InvalidDestinationPath e w"
    "handle_parodus_reboot_file_InputExistsButDestOpenFails e w"
  using assms by (simp_all add: parodus_tests_defs handle_parodus_reboot_file_def fopen_r_def fopen_w_def write_file_def
      parodus_machine_def test_env_simps missing_dir_def zero_info_def access_ok_def)

lemma fallback_test:
  assumes "parodus_machine e w"
  shows "\<not> handle_parodus_reboot_file_FallbackWritesDest e w"
proof -
  let ?i = "zero_info\<lparr>timestamp := ''2026-03-10T12:00:00Z'', reason := ''APP_TRIGGERED'', customReason := ''Servicemanager'', source := ''Servicemanager''\<rparr>"
  let ?l = "''PreviousRebootInfo:'' @ timestamp ?i @ '','' @ reason ?i @ '','' @ customReason ?i @ '','' @ source ?i @ [NL]"
  have p: "''/tmp/reboot_test_parodus.out'' \<in> set parodus_outputs" "''/tmp/reboot_test_parodus.out'' \<noteq> PARODUS_LOG"
    "''/tmp/reboot_test_parodus.out'' \<noteq> PARODUS_REBOOT_INFO_FILE" "reason ?i \<noteq> []"
    by (simp_all add: parodus_outputs_def PARODUS_LOG_def PARODUS_REBOOT_INFO_FILE_def)
  have n: "\<not> has_substr ?l ''PreviousRebootInfo:2026-03-10T12:00:00Z, APP_TRIGGERED, Servicemanager, Servicemanager''" by code_simp
  from record_handed [OF assms p] obtain v where
    h: "handle_parodus_reboot_file e (Some ?i) (Some ''/tmp/reboot_test_parodus.out'') w = (SUCCESS, v)" and
    c: "content v ''/tmp/reboot_test_parodus.out'' = Some ?l" by blast
  show ?thesis
    unfolding handle_parodus_reboot_file_FallbackWritesDest_def h prod.case read_whole_file_def c option.case using n by blast
qed

lemma keypress_tests:
  assumes "parodus_machine e w"
  shows "copy_keypress_info_SourceMissingReturnsSuccess e w" "copy_keypress_info_Success e w"
    "copy_keypress_info_InvalidDestinationPath e w" "copy_keypress_info_ReadErrorFromDirectorySource e w"
proof -
  have env: "test_env e" using assms by (simp add: parodus_machine_def)
  show "copy_keypress_info_SourceMissingReturnsSuccess e w" "copy_keypress_info_InvalidDestinationPath e w"
    "copy_keypress_info_ReadErrorFromDirectorySource e w"
    using assms
    by (simp_all add: parodus_tests_defs copy_keypress_info_def fopen_r_def fopen_w_def parodus_machine_def test_env_simps
        missing_dir_def case_prod_beta is_dir_def parodus_outputs_def)
  let ?w = "put_file ''/tmp/reboot_test_keypress_src.info'' (''KEY=OK'' @ [NL]) w"
  have "has_substr ([] @ ''KEY=OK'' @ [NL]) ''KEY=OK''" by (rule has_substr_mid)
  moreover have "copy_keypress_info e (Some ''/tmp/reboot_test_keypress_src.info'') (Some ''/tmp/reboot_test_keypress_dst.info'') ?w =
      (SUCCESS, put_file ''/tmp/reboot_test_keypress_dst.info'' (''KEY=OK'' @ [NL]) ?w)"
    using assms keypress_run [of "''/tmp/reboot_test_keypress_src.info''" "''/tmp/reboot_test_keypress_dst.info''" ?w "''KEY=OK'' @ [NL]" e]
    by (simp add: content_def readable_def test_env_simps [OF env] missing_dir_def parodus_machine_def parodus_outputs_def put_file_def)
  ultimately show "copy_keypress_info_Success e w"
    unfolding copy_keypress_info_Success_def by (simp add: read_whole_file_def content_def)
qed

lemma record_tests:
  assumes "parodus_machine e w"
  shows "acquire_and_release_lock_Success e w" "write_reboot_info_Success e w" "write_hardpower_Success e w"
proof -
  have wr: "writable e ''/tmp/reboot_test_info.json'' w" "writable e ''/tmp/reboot_test_hardpower.json'' w"
    by (rule outputs_ok [OF assms], simp add: parodus_outputs_def)+
  show "acquire_and_release_lock_Success e w"
    using assms by (simp add: acquire_and_release_lock_Success_def acquire_lock_def release_lock_def open_rw_def parodus_machine_def
        test_env_simps missing_dir_def parodus_outputs_def)
  let ?h = "concat [''{'' @ [NL], [DQ] @ ''lastHardPowerReset'' @ [DQ] @ '':'' @ [DQ] @ ''2026-03-10T01:23:45Z'' @ [DQ] @ [NL], ''}'' @ [NL]]"
  have h: "has_substr ?h ([DQ] @ ''lastHardPowerReset'' @ [DQ] @ '':'' @ [DQ] @ ''2026-03-10T01:23:45Z'' @ [DQ])" by code_simp
  have r: "read_whole_file p (v\<lparr>fs := f(p := Some (Reg s))\<rparr>) = s" for p v f s by (simp add: read_whole_file_def content_def)
  show "write_hardpower_Success e w"
    unfolding write_hardpower_Success_def write_hardpower_def option.case prod.case write_file_writable [OF wr(2)] r using h by blast
  show "write_reboot_info_Success e w"
    unfolding write_reboot_info_Success_def write_reboot_info_ok [OF wr(1)] prod.case r by (rule conjI [OF refl]) code_simp
qed

lemma plain_parodus: "parodus_machine plain_env empty_world"
  by (simp add: parodus_machine_def plain_env_ok) (simp add: plain_env_def calm_env_def empty_world_def list_all_iff)

section \<open>The result\<close>

text \<open>
  C35. The model of the hand-over to parodus, the key press copy, the lock and the writers passes
  all unit tests of \<^verbatim>\<open>reboot_parodus_gtest.cpp\<close> and \<^verbatim>\<open>reboot_json_gtest.cpp\<close> but two, on every machine
  of the suite; the two others fail on each of them, since they expect a blank after the commas of
  the line, which the code does not write.
\<close>

theorem parodus_suite_passes:
  assumes "parodus_machine e w"
  shows "list_all (\<lambda>t. t e w) parodus_suite \<and> list_all (\<lambda>t. \<not> t e w) separator_tests"
  using kernel_note_test [OF assms] parodus_note_tests [OF assms] handed_line_tests [OF assms] no_line_tests [OF assms]
    fallback_test [OF assms] keypress_tests [OF assms] record_tests [OF assms]
  by (simp add: parodus_suite_def separator_tests_def null_tests)

theorem parodus_suite_passes_witness:
  "parodus_machine plain_env empty_world \<and> list_all (\<lambda>t. t plain_env empty_world) parodus_suite \<and>
     list_all (\<lambda>t. \<not> t plain_env empty_world) separator_tests"
  using parodus_suite_passes [OF plain_parodus] plain_parodus by blast

end
