(* ===== verification/HelperTests.thy ===== *)
theory HelperTests
  imports TestBase RebootMain
begin

text \<open>
  The tests of \<^verbatim>\<open>src/unittest\<close> for the helpers of both programs: all of \<^verbatim>\<open>rfc_interface_gtest.cpp\<close>,
  \<^verbatim>\<open>utils_gtest.cpp\<close> and \<^verbatim>\<open>cyclic_reboot_gtest.cpp\<close>, those of \<^verbatim>\<open>reboot_main_gtest.cpp\<close> with an
  assertion that do not put a stub in the place of the loop guard or of the PID file's removal,
  and those of \<^verbatim>\<open>rebootreason_main_gtest.cpp\<close> that do not measure the shorter timeout of the test
  build. Where that build takes an unreadable uptime as recent, the tests run here on a machine
  that has just started; \<open>main\<close> with its PID guard stubbed is \<open>rebootnow_body\<close>; and a wait that
  succeeds by returning is one whose result is not \<open>None\<close>.
\<close>

section \<open>Mocks and fixtures\<close>

text \<open>The store behind the mocked RFC service: its values at the start, and what was set since.\<close>

fun rfc_store :: "(string \<Rightarrow> string option) \<Rightarrow> event list \<Rightarrow> string \<Rightarrow> string option" where
  "rfc_store s [] = s"
| "rfc_store s (RfcSet n v t # evs) = rfc_store (s(n \<mapsto> v)) evs"
| "rfc_store s (ev # evs) = rfc_store s evs"

definition rfc_mock :: "world \<Rightarrow> (string \<times> string) list \<Rightarrow> env \<Rightarrow> env" where
  "rfc_mock w init e = e\<lparr>
     getRFCParameter := (\<lambda>evs _ n. case rfc_store (map_of init) (drop (length (trace w)) evs) n of
        None \<Rightarrow> (WDMP_FAILURE, []) | Some v \<Rightarrow> (WDMP_SUCCESS, v)),
     setRFCParameter := (\<lambda>_ _ _ _ _. WDMP_SUCCESS)\<rparr>"

definition rfc_failing :: "env \<Rightarrow> env" where
  "rfc_failing e = e\<lparr>getRFCParameter := (\<lambda>_ _ _. (WDMP_FAILURE, [])), setRFCParameter := (\<lambda>_ _ _ _ _. WDMP_FAILURE)\<rparr>"

definition rfc_stub :: "env \<Rightarrow> env" where
  "rfc_stub e = e\<lparr>getRFCParameter := (\<lambda>_ _ _. (WDMP_FAILURE, [])), setRFCParameter := (\<lambda>_ _ _ _ _. WDMP_SUCCESS)\<rparr>"

definition fputs_failing :: "env \<Rightarrow> env" where
  "fputs_failing e = e\<lparr>size_max := (\<lambda>_. Some 0)\<rparr>"

text \<open>The switches of the loop guard.\<close>

definition cyclic_mock :: "bool \<Rightarrow> int \<Rightarrow> env \<Rightarrow> env" where
  "cyclic_mock det dur e = e\<lparr>
     getRFCParameter := (\<lambda>_ _ n. if has_substr n ''RebootStop.Detection'' then (WDMP_SUCCESS, if det then ''true'' else ''false'')
        else if has_substr n ''RebootStop.Duration'' then (WDMP_SUCCESS, show_int dur) else (WDMP_FAILURE, [])),
     setRFCParameter := (\<lambda>_ _ _ _ _. WDMP_SUCCESS)\<rparr>"

text \<open>The record the tests write for the previous reboot, which ends without a newline.\<close>

definition prev_json :: "string \<Rightarrow> string \<Rightarrow> string \<Rightarrow> string \<Rightarrow> string" where
  "prev_json src rsn cus oth = ''{'' @ [NL] @ json_kv ''timestamp'' ''2023-01-01T00:00:00Z'' @ '','' @ [NL] @
     json_kv ''source'' src @ '','' @ [NL] @ json_kv ''reason'' rsn @ '','' @ [NL] @
     json_kv ''customReason'' cus @ '','' @ [NL] @ json_kv ''otherReason'' oth @ [NL] @ ''}''"

definition first_line :: "path \<Rightarrow> world \<Rightarrow> string" where
  "first_line p w = takeWhile (\<lambda>c. c \<noteq> NL) (read_whole_file p w)"

section \<open>The accessors of the parameters\<close>

definition GetStringSuccess :: "env \<Rightarrow> world \<Rightarrow> bool" where
  "GetStringSuccess e w \<longleftrightarrow> 
     rfc_get_string_param (rfc_mock w [(''Device.X.Foo.String'', ''hello'')] e) (Some ''Device.X.Foo.String'') 64 w = Some ''hello''"

definition GetBoolTrue :: "env \<Rightarrow> world \<Rightarrow> bool" where
  "GetBoolTrue e w \<longleftrightarrow> rfc_get_bool_param (rfc_mock w [(''Device.X.Foo.Bool'', ''true'')] e) (Some ''Device.X.Foo.Bool'') w = Some True"

definition GetBoolFalseAndZero :: "env \<Rightarrow> world \<Rightarrow> bool" where
  "GetBoolFalseAndZero e w \<longleftrightarrow> 
     rfc_get_bool_param (rfc_mock w [(''Device.X.Foo.Bool'', ''false'')] e) (Some ''Device.X.Foo.Bool'') w = Some False \<and>
     rfc_get_bool_param (rfc_mock w [(''Device.X.Foo.Bool'', ''0'')] e) (Some ''Device.X.Foo.Bool'') w = Some False"

definition GetIntSuccess :: "env \<Rightarrow> world \<Rightarrow> bool" where
  "GetIntSuccess e w \<longleftrightarrow> rfc_get_int_param (rfc_mock w [(''Device.X.Foo.Int'', ''42'')] e) (Some ''Device.X.Foo.Int'') w = Some 42"

definition GetIntNegativeAndRejectsInvalidValue :: "env \<Rightarrow> world \<Rightarrow> bool" where
  "GetIntNegativeAndRejectsInvalidValue e w \<longleftrightarrow> 
     rfc_get_int_param (rfc_mock w [(''Device.X.Foo.Int'', ''-99'')] e) (Some ''Device.X.Foo.Int'') w = Some (- 99) \<and>
     rfc_get_int_param (rfc_mock w [(''Device.X.Foo.Int'', ''not-a-number'')] e) (Some ''Device.X.Foo.Int'') w = None"

definition GetStringUnquotesAndTruncatesValue :: "env \<Rightarrow> world \<Rightarrow> bool" where
  "GetStringUnquotesAndTruncatesValue e w \<longleftrightarrow> 
     rfc_get_string_param (rfc_mock w [(''Device.X.Foo.String'', ([DQ] @ ''quoted value'' @ [DQ]))] e) (Some ''Device.X.Foo.String'') 5 w = Some ''quot''"

definition GetStringRejectsEmptyValue :: "env \<Rightarrow> world \<Rightarrow> bool" where
  "GetStringRejectsEmptyValue e w \<longleftrightarrow> 
     rfc_get_string_param (rfc_mock w [(''Device.X.Foo.String'', [])] e) (Some ''Device.X.Foo.String'') 16 w = None"

definition SetBoolFalseAndReadBack :: "env \<Rightarrow> world \<Rightarrow> bool" where
  "SetBoolFalseAndReadBack e w \<longleftrightarrow> 
     (let e = rfc_mock w [] e in case rfc_set_bool_param e (Some ''Device.X.Foo.SetBool'') False w of
        (done, w) \<Rightarrow> done \<and> rfc_get_bool_param e (Some ''Device.X.Foo.SetBool'') w = Some False)"

definition SetBoolAndReadBack :: "env \<Rightarrow> world \<Rightarrow> bool" where
  "SetBoolAndReadBack e w \<longleftrightarrow> 
     (let e = rfc_mock w [] e in case rfc_set_bool_param e (Some ''Device.X.Foo.SetBool'') True w of
        (done, w) \<Rightarrow> done \<and> rfc_get_bool_param e (Some ''Device.X.Foo.SetBool'') w = Some True)"

definition SetIntAndReadBack :: "env \<Rightarrow> world \<Rightarrow> bool" where
  "SetIntAndReadBack e w \<longleftrightarrow> 
     (let e = rfc_mock w [] e in case rfc_set_int_param e (Some ''Device.X.Foo.SetInt'') 99 w of
        (done, w) \<Rightarrow> done \<and> rfc_get_int_param e (Some ''Device.X.Foo.SetInt'') w = Some 99)"

definition BackendFailures :: "env \<Rightarrow> world \<Rightarrow> bool" where
  "BackendFailures e w \<longleftrightarrow> 
     (let e = rfc_failing e in rfc_get_string_param e (Some ''Device.X.Foo.String'') 16 w = None \<and> \<not> fst (rfc_set_int_param e (Some ''Device.X.Foo.SetInt'') 1 w))"

definition CyclicRebootParams :: "env \<Rightarrow> world \<Rightarrow> bool" where
  "CyclicRebootParams e w \<longleftrightarrow> 
     (let e = rfc_mock w [(RFC_REBOOTSTOP_DETECTION, ''true''), (RFC_REBOOTSTOP_DURATION, ''30'')] e
      in rfc_get_bool_param e (Some RFC_REBOOTSTOP_DETECTION) w = Some True \<and>
         rfc_get_int_param e (Some RFC_REBOOTSTOP_DURATION) w = Some 30 \<and>
         (case rfc_set_bool_param e (Some RFC_REBOOTSTOP_ENABLE) True w of
            (done, w) \<Rightarrow> done \<and> rfc_get_bool_param e (Some RFC_REBOOTSTOP_ENABLE) w = Some True))"

section \<open>The helpers of the reboot program\<close>

definition TimestampUpdate_Format :: "env \<Rightarrow> world \<Rightarrow> bool" where
  "TimestampUpdate_Format e w \<longleftrightarrow> 
     (case RebootUtils.timestamp_update e 64 w of (buf, w) \<Rightarrow> 0 < length buf \<and> has_substr buf ''UTC'')"

definition WriteRebootInfoLog_FputsFailure :: "env \<Rightarrow> world \<Rightarrow> bool" where
  "WriteRebootInfoLog_FputsFailure e w \<longleftrightarrow> 
     fst (write_rebootinfo_log (fputs_failing e) ''./tmp_utils_test.log'' (''x'' @ [NL]) (remove_path ''./tmp_utils_test.log'' w)) = -1"

definition AppendLineToFile_Readback :: "env \<Rightarrow> world \<Rightarrow> bool" where
  "AppendLineToFile_Readback e w \<longleftrightarrow> 
     (case write_rebootinfo_log e ''./tmp_utils_test.log'' (''hello'' @ [NL]) (remove_path ''./tmp_utils_test.log'' w) of
        (rc, w) \<Rightarrow> rc = 0 \<and> first_line ''./tmp_utils_test.log'' w = ''hello'')"

definition WriteRebootInfoLog_InvalidPath :: "env \<Rightarrow> world \<Rightarrow> bool" where
  "WriteRebootInfoLog_InvalidPath e w \<longleftrightarrow> 
     fst (write_rebootinfo_log e ''/invalid/path/doesnotexist.log'' (''x'' @ [NL]) w) = -1"

definition TimestampUpdate_TinyBuffer :: "env \<Rightarrow> world \<Rightarrow> bool" where
  "TimestampUpdate_TinyBuffer e w \<longleftrightarrow> fst (RebootUtils.timestamp_update e 1 w) = []"

definition TelemetryWrappers :: "env \<Rightarrow> world \<Rightarrow> bool" where
  "TelemetryWrappers e w \<longleftrightarrow> 
     (let e = e\<lparr>t2_enabled := False\<rparr>
      in trace (t2ValNotify e (Some ''TEST_MARKER'') (Some ''TEST_VALUE'') (t2CountNotify e (Some ''TEST_MARKER'') 1 w)) = trace w)"

definition TelemetryWrappersIgnoreInvalidValues :: "env \<Rightarrow> world \<Rightarrow> bool" where
  "TelemetryWrappersIgnoreInvalidValues e w \<longleftrightarrow> 
     (let e = e\<lparr>t2_enabled := False\<rparr>;
          v = t2CountNotify e (Some []) 1 (t2CountNotify e None 1 w)
      in trace (t2ValNotify e (Some ''TEST_MARKER'') None (t2ValNotify e (Some []) (Some ''TEST_VALUE'') (t2ValNotify e None (Some ''TEST_VALUE'') v))) = trace w)"

definition RfcHelpersAreInvoked :: "env \<Rightarrow> world \<Rightarrow> bool" where
  "RfcHelpersAreInvoked e w \<longleftrightarrow> 
     (let e = rfc_stub e
      in rfc_get_string_param e (Some ''Device.Test.String'') 16 w = None \<and>
         rfc_get_bool_param e (Some ''Device.Test.Bool'') w = None \<and>
         rfc_get_int_param e (Some ''Device.Test.Int'') w = None \<and>
         fst (rfc_set_bool_param e (Some ''Device.Test.Bool'') True w) \<and>
         fst (rfc_set_int_param e (Some ''Device.Test.Int'') 1 w))"

section \<open>The loop guard\<close>

definition ProceedWhenNoFlag :: "env \<Rightarrow> world \<Rightarrow> bool" where
  "ProceedWhenNoFlag e w \<longleftrightarrow> 
     fst (handle_cyclic_reboot (cyclic_mock True 0 e) (Some ''Src'') (Some ''Reason'') (Some ''Custom'') (Some ''Other'')
         (remove_path REBOOTNOW_FLAG w)) = 1"

definition DeferOnLoopDetection :: "env \<Rightarrow> world \<Rightarrow> bool" where
  "DeferOnLoopDetection e w \<longleftrightarrow> 
     fst (handle_cyclic_reboot (cyclic_mock True 10 e) (Some ''Src'') (Some ''Reason'') (Some ''Custom'') (Some ''Other'')
         (remove_path REBOOTSTOP_FLAG (put_file REBOOT_COUNTER_FILE (''5'' @ [NL]) (put_file PREVIOUS_REBOOT_INFO_FILE (prev_json ''Src'' ''Reason'' ''Custom'' ''Other'') (put_file REBOOTNOW_FLAG [] w))))) = 0"

definition DetectionDisabledProceed :: "env \<Rightarrow> world \<Rightarrow> bool" where
  "DetectionDisabledProceed e w \<longleftrightarrow> 
     fst (handle_cyclic_reboot (cyclic_mock False 0 e) (Some ''Src'') (Some ''Reason'') (Some ''Custom'') (Some ''Other'')
         (remove_path REBOOTSTOP_FLAG (put_file PREVIOUS_REBOOT_INFO_FILE (prev_json ''Src'' ''Reason'' ''Custom'' ''Other'') (put_file REBOOTNOW_FLAG [] w)))) = 1"

definition SameReasonStopFlagPresent :: "env \<Rightarrow> world \<Rightarrow> bool" where
  "SameReasonStopFlagPresent e w \<longleftrightarrow> 
     fst (handle_cyclic_reboot (cyclic_mock True 10 e) (Some ''Src'') (Some ''Reason'') (Some ''Custom'') (Some ''Other'')
         (put_file REBOOTSTOP_FLAG [] (put_file PREVIOUS_REBOOT_INFO_FILE (prev_json ''Src'' ''Reason'' ''Custom'' ''Other'') (put_file REBOOTNOW_FLAG [] w)))) = 0"

definition IncrementCounterBelowThresholdProceed :: "env \<Rightarrow> world \<Rightarrow> bool" where
  "IncrementCounterBelowThresholdProceed e w \<longleftrightarrow> 
     fst (handle_cyclic_reboot (cyclic_mock True 10 e) (Some ''Src'') (Some ''Reason'') (Some ''Custom'') (Some ''Other'')
         (remove_path REBOOTSTOP_FLAG (put_file REBOOT_COUNTER_FILE (''3'' @ [NL]) (put_file PREVIOUS_REBOOT_INFO_FILE (prev_json ''Src'' ''Reason'' ''Custom'' ''Other'') (put_file REBOOTNOW_FLAG [] w))))) = 1"

definition PreviousInfoMissingProceedsAndResets :: "env \<Rightarrow> world \<Rightarrow> bool" where
  "PreviousInfoMissingProceedsAndResets e w \<longleftrightarrow> 
     (case handle_cyclic_reboot (cyclic_mock True 0 e) (Some ''Src'') (Some ''Reason'') (Some ''Custom'') (Some ''Other'')
         (put_file REBOOT_COUNTER_FILE (''7'' @ [NL]) (put_file REBOOTSTOP_FLAG [] (remove_path PREVIOUS_REBOOT_INFO_FILE (put_file REBOOTNOW_FLAG [] w)))) of
        (rc, w) \<Rightarrow> rc = 1 \<and> \<not> access_ok REBOOTSTOP_FLAG w \<and> first_line REBOOT_COUNTER_FILE w = ''0'')"

definition DifferentReasonResetsCounter :: "env \<Rightarrow> world \<Rightarrow> bool" where
  "DifferentReasonResetsCounter e w \<longleftrightarrow> 
     (case handle_cyclic_reboot (cyclic_mock True 15 e) (Some ''Src'') (Some ''NewReason'') (Some ''Custom'') (Some ''Other'')
         (put_file REBOOTSTOP_FLAG [] (put_file REBOOT_COUNTER_FILE (''9'' @ [NL]) (put_file PREVIOUS_REBOOT_INFO_FILE (prev_json ''Src'' ''PrevReason'' ''Custom'' ''Other'') (put_file REBOOTNOW_FLAG [] w)))) of
        (rc, w) \<Rightarrow> rc = 1 \<and> \<not> access_ok REBOOTSTOP_FLAG w \<and> first_line REBOOT_COUNTER_FILE w = ''0'')"

definition CallCyclicHandle :: "env \<Rightarrow> world \<Rightarrow> bool" where
  "CallCyclicHandle e w \<longleftrightarrow> 
     fst (handle_cyclic_reboot (cyclic_mock True 10 e) (Some ''Src'') (Some ''Reason'') (Some ''Custom'') (Some ''Other'')
         (remove_path REBOOTSTOP_FLAG (put_file REBOOT_COUNTER_FILE (''5'' @ [NL]) (put_file PREVIOUS_REBOOT_INFO_FILE (prev_json ''Src'' ''Reason'' ''Custom'' ''Other'') (put_file REBOOTNOW_FLAG [] w))))) = 0"

definition CallCyclicLargeDuration :: "env \<Rightarrow> world \<Rightarrow> bool" where
  "CallCyclicLargeDuration e w \<longleftrightarrow> 
     fst (handle_cyclic_reboot (cyclic_mock True 180 e) (Some ''Src'') (Some ''Reason'') (Some ''Custom'') (Some ''Other'')
         (remove_path REBOOTSTOP_FLAG (put_file REBOOT_COUNTER_FILE (''5'' @ [NL]) (put_file PREVIOUS_REBOOT_INFO_FILE (prev_json ''Src'' ''Reason'' ''Custom'' ''Other'') (put_file REBOOTNOW_FLAG [] w))))) = 0"

definition CallCyclicNoFlagProceed :: "env \<Rightarrow> world \<Rightarrow> bool" where
  "CallCyclicNoFlagProceed e w \<longleftrightarrow> 
     fst (handle_cyclic_reboot (cyclic_mock True 10 e) (Some ''Src'') (Some ''Reason'') (Some ''Custom'') (Some ''Other'')
         (clear_tree ''/opt/secure/reboot'' w)) = 1"

definition CallCyclicDifferentReasonResets :: "env \<Rightarrow> world \<Rightarrow> bool" where
  "CallCyclicDifferentReasonResets e w \<longleftrightarrow> 
     (case handle_cyclic_reboot (cyclic_mock True 15 e) (Some ''Src'') (Some ''Reason'') (Some ''Custom'') (Some ''Other'')
         (put_file REBOOT_COUNTER_FILE (''7'' @ [NL]) (put_file REBOOTSTOP_FLAG [] (put_file PREVIOUS_REBOOT_INFO_FILE (prev_json ''SrcPrev'' ''ReasonPrev'' ''CustomPrev'' ''OtherPrev'') (put_file REBOOTNOW_FLAG [] w)))) of
        (rc, w) \<Rightarrow> rc = 1 \<and> \<not> access_ok REBOOTSTOP_FLAG w \<and> first_line REBOOT_COUNTER_FILE w = ''0'')"

section \<open>The options and helpers of \<^verbatim>\<open>rebootnow\<close>\<close>

definition NoArgs :: "env \<Rightarrow> world \<Rightarrow> bool" where
  "NoArgs e w \<longleftrightarrow> fst (rebootnow_body e [] w) \<noteq> 0"

definition HelpOption :: "env \<Rightarrow> world \<Rightarrow> bool" where
  "HelpOption e w \<longleftrightarrow> fst (rebootnow_body e [''-h''] w) = 0"

definition ConflictingOptions :: "env \<Rightarrow> world \<Rightarrow> bool" where
  "ConflictingOptions e w \<longleftrightarrow> fst (rebootnow_body e [''-s'', ''SrcA'', ''-c'', ''SrcB''] w) \<noteq> 0"

definition MaintenanceFlagRejectsEmptyReason :: "env \<Rightarrow> world \<Rightarrow> bool" where
  "MaintenanceFlagRejectsEmptyReason e w \<longleftrightarrow> 
     fst (update_maintenance_reboot_flag e None w) \<noteq> 0 \<and> fst (update_maintenance_reboot_flag e (Some []) w) \<noteq> 0"

definition MaintenanceFlagCreatesAndClearsFlag :: "env \<Rightarrow> world \<Rightarrow> bool" where
  "MaintenanceFlagCreatesAndClearsFlag e w \<longleftrightarrow> 
     (case update_maintenance_reboot_flag e (Some ''MAINTENANCE_REBOOT'') (remove_path MAINTENANCE_REBOOT_FLAG w) of
        (rc, w) \<Rightarrow> rc = 0 \<and> access_ok MAINTENANCE_REBOOT_FLAG w \<and>
          (case update_maintenance_reboot_flag e (Some ''APP_TRIGGERED'') w of
             (rc, w) \<Rightarrow> rc = 0 \<and> \<not> access_ok MAINTENANCE_REBOOT_FLAG w))"

definition InvokeT2CountNotify :: "env \<Rightarrow> world \<Rightarrow> bool" where
  "InvokeT2CountNotify e w \<longleftrightarrow> 
     trace (t2CountNotify (e\<lparr>t2_enabled := True\<rparr>) (Some ''TEST_MARKER_COUNT'') 1 (w\<lparr>trace := []\<rparr>)) \<noteq> []"

definition InvokeCheckStringValue :: "env \<Rightarrow> world \<Rightarrow> bool" where
  "InvokeCheckStringValue e w \<longleftrightarrow> 
     check_string_value [''Alpha'', ''Beta'', ''Gamma''] (Some ''Bet'') \<and>
     \<not> check_string_value [''One'', ''Two'', ''Three''] (Some ''Four'')"

definition UpdateRebootLog_EdgeCases :: "env \<Rightarrow> world \<Rightarrow> bool" where
  "UpdateRebootLog_EdgeCases e w \<longleftrightarrow> 
     snd (update_reboot_log None 0 0 (Some ''x'')) = 0 \<and>
     (case update_reboot_log (Some []) 8 0 (Some ''1234'') of
        (buf, used) \<Rightarrow> (case fst (update_reboot_log buf 8 used (Some ''ABCDEFGHijklmnop'')) of
           None \<Rightarrow> False | Some b \<Rightarrow> length b < 8))"

definition UpdateRebootLog_BufferFullGuard :: "env \<Rightarrow> world \<Rightarrow> bool" where
  "UpdateRebootLog_BufferFullGuard e w \<longleftrightarrow> 
     (case update_reboot_log (Some (replicate 15 (CHR ''X''))) 16 15 (Some ''ignored'') of
        (buf, ret) \<Rightarrow> ret = 15 \<and> (case buf of None \<Rightarrow> False | Some b \<Rightarrow> length b < 16))"

section \<open>The helpers of \<^verbatim>\<open>update_prev_reboot_info\<close>\<close>

text \<open>An \<open>access\<close> that the mock makes fail is one before the sentinel was created by another process.\<close>

definition FastPath_SentinelAlreadyPresent :: "env \<Rightarrow> world \<Rightarrow> bool" where
  "FastPath_SentinelAlreadyPresent e w \<longleftrightarrow> 
     wait_for_backup_logs_done e (put_file BACKUP_LOGS_DONE_FLAG [] w) \<noteq> None"

definition InotifyInit1Fails :: "env \<Rightarrow> world \<Rightarrow> bool" where
  "InotifyInit1Fails e w \<longleftrightarrow> 
     wait_for_backup_logs_done (e\<lparr>inotify_init_ok := False\<rparr>) (remove_path BACKUP_LOGS_DONE_FLAG w) \<noteq> None"

definition InotifyAddWatchFails :: "env \<Rightarrow> world \<Rightarrow> bool" where
  "InotifyAddWatchFails e w \<longleftrightarrow> 
     wait_for_backup_logs_done (e\<lparr>inotify_watch_ok := False\<rparr>) (remove_path BACKUP_LOGS_DONE_FLAG w) \<noteq> None"

definition RaceResolution_SentinelAppearsAfterWatch :: "env \<Rightarrow> world \<Rightarrow> bool" where
  "RaceResolution_SentinelAppearsAfterWatch e w \<longleftrightarrow> 
     wait_for_backup_logs_done (e\<lparr>interleave := (\<lambda>_ f. f(BACKUP_LOGS_DONE_FLAG := Some (Reg [])))\<rparr>) (remove_path BACKUP_LOGS_DONE_FLAG w) \<noteq> None"

definition ClockGetTimeFails :: "env \<Rightarrow> world \<Rightarrow> bool" where
  "ClockGetTimeFails e w \<longleftrightarrow> 
     wait_for_backup_logs_done (e\<lparr>interleave := (\<lambda>_ f. f), mono_clock := (\<lambda>_. None)\<rparr>) (remove_path BACKUP_LOGS_DONE_FLAG w) \<noteq> None"

definition SentinelDetectedViaInotify :: "env \<Rightarrow> world \<Rightarrow> bool" where
  "SentinelDetectedViaInotify e w \<longleftrightarrow> 
     wait_for_backup_logs_done (e\<lparr>interleave := (\<lambda>n f. if n = ticks w then f else f(BACKUP_LOGS_DONE_FLAG := Some (Reg []))),
         inotify_wait := (\<lambda>_. Names [''.backup_logs_done''])\<rparr>) (remove_path BACKUP_LOGS_DONE_FLAG w) \<noteq> None"

definition acquire_release_lock_InvalidParams :: "env \<Rightarrow> world \<Rightarrow> bool" where
  "acquire_release_lock_InvalidParams e w \<longleftrightarrow> 
     map_option fst (acquire_lock e None w) = Some ERROR_GENERAL \<and> fst (release_lock None w) = ERROR_GENERAL"

definition get_current_timestamp_WritesUtcTimestamp :: "env \<Rightarrow> world \<Rightarrow> bool" where
  "get_current_timestamp_WritesUtcTimestamp e w \<longleftrightarrow> 
     (case get_current_timestamp e 64 w of (buf, w) \<Rightarrow> buf \<noteq> [] \<and> has_substr buf ''UTC'')"

definition check_dir_exists_CreatesMissingDirectory :: "env \<Rightarrow> world \<Rightarrow> bool" where
  "check_dir_exists_CreatesMissingDirectory e w \<longleftrightarrow> 
     (case check_dir_exists e ''/tmp/rebootreason_main_gtest_directory'' (remove_path ''/tmp/rebootreason_main_gtest_directory'' w) of (rc, w) \<Rightarrow> rc = SUCCESS \<and> is_dir ''/tmp/rebootreason_main_gtest_directory'' w)"

definition check_dir_exists_AcceptsExistingDirectory :: "env \<Rightarrow> world \<Rightarrow> bool" where
  "check_dir_exists_AcceptsExistingDirectory e w \<longleftrightarrow> fst (check_dir_exists e ''/tmp'' w) = SUCCESS"

definition check_dir_exists_ReturnsErrorWhenCreateFails :: "env \<Rightarrow> world \<Rightarrow> bool" where
  "check_dir_exists_ReturnsErrorWhenCreateFails e w \<longleftrightarrow> 
     fst (check_dir_exists (e\<lparr>open_w_err := (\<lambda>_. Some EACCES)\<rparr>) ''/tmp/rebootreason_main_gtest_denied'' w) = ERROR_GENERAL"

section \<open>The suites\<close>

definition rfc_suite :: "(env \<Rightarrow> world \<Rightarrow> bool) list" where
  "rfc_suite = [GetStringSuccess, GetBoolTrue, GetBoolFalseAndZero, GetIntSuccess, GetIntNegativeAndRejectsInvalidValue,
     GetStringUnquotesAndTruncatesValue, GetStringRejectsEmptyValue, SetBoolFalseAndReadBack, SetBoolAndReadBack,
     SetIntAndReadBack, BackendFailures, CyclicRebootParams]"

definition utils_suite :: "(env \<Rightarrow> world \<Rightarrow> bool) list" where
  "utils_suite = [TimestampUpdate_Format, WriteRebootInfoLog_FputsFailure, AppendLineToFile_Readback,
     WriteRebootInfoLog_InvalidPath, TimestampUpdate_TinyBuffer, TelemetryWrappers,
     TelemetryWrappersIgnoreInvalidValues, RfcHelpersAreInvoked]"

definition cyclic_suite :: "(env \<Rightarrow> world \<Rightarrow> bool) list" where
  "cyclic_suite = [ProceedWhenNoFlag, DeferOnLoopDetection, DetectionDisabledProceed, SameReasonStopFlagPresent,
     IncrementCounterBelowThresholdProceed, PreviousInfoMissingProceedsAndResets, DifferentReasonResetsCounter,
     CallCyclicHandle, CallCyclicLargeDuration, CallCyclicNoFlagProceed, CallCyclicDifferentReasonResets]"

definition rebootnow_suite :: "(env \<Rightarrow> world \<Rightarrow> bool) list" where
  "rebootnow_suite = [NoArgs, HelpOption, ConflictingOptions, MaintenanceFlagRejectsEmptyReason, MaintenanceFlagCreatesAndClearsFlag,
     InvokeT2CountNotify, InvokeCheckStringValue, UpdateRebootLog_EdgeCases, UpdateRebootLog_BufferFullGuard]"

definition fetcher_suite :: "(env \<Rightarrow> world \<Rightarrow> bool) list" where
  "fetcher_suite = [FastPath_SentinelAlreadyPresent, InotifyInit1Fails, InotifyAddWatchFails,
     RaceResolution_SentinelAppearsAfterWatch, ClockGetTimeFails, SentinelDetectedViaInotify,
     acquire_release_lock_InvalidParams, get_current_timestamp_WritesUtcTimestamp,
     check_dir_exists_CreatesMissingDirectory, check_dir_exists_AcceptsExistingDirectory,
     check_dir_exists_ReturnsErrorWhenCreateFails]"

lemmas rfc_suite_defs =
  rfc_suite_def GetStringSuccess_def GetBoolTrue_def GetBoolFalseAndZero_def GetIntSuccess_def
  GetIntNegativeAndRejectsInvalidValue_def GetStringUnquotesAndTruncatesValue_def GetStringRejectsEmptyValue_def
  SetBoolFalseAndReadBack_def SetBoolAndReadBack_def SetIntAndReadBack_def BackendFailures_def CyclicRebootParams_def

lemmas utils_suite_defs =
  utils_suite_def TimestampUpdate_Format_def WriteRebootInfoLog_FputsFailure_def AppendLineToFile_Readback_def
  WriteRebootInfoLog_InvalidPath_def TimestampUpdate_TinyBuffer_def TelemetryWrappers_def
  TelemetryWrappersIgnoreInvalidValues_def RfcHelpersAreInvoked_def

lemmas cyclic_suite_defs =
  cyclic_suite_def ProceedWhenNoFlag_def DeferOnLoopDetection_def DetectionDisabledProceed_def
  SameReasonStopFlagPresent_def IncrementCounterBelowThresholdProceed_def PreviousInfoMissingProceedsAndResets_def
  DifferentReasonResetsCounter_def CallCyclicHandle_def CallCyclicLargeDuration_def CallCyclicNoFlagProceed_def
  CallCyclicDifferentReasonResets_def

lemmas rebootnow_suite_defs =
  rebootnow_suite_def NoArgs_def HelpOption_def ConflictingOptions_def MaintenanceFlagRejectsEmptyReason_def
  MaintenanceFlagCreatesAndClearsFlag_def InvokeT2CountNotify_def InvokeCheckStringValue_def
  UpdateRebootLog_EdgeCases_def UpdateRebootLog_BufferFullGuard_def

lemmas fetcher_suite_defs =
  fetcher_suite_def FastPath_SentinelAlreadyPresent_def InotifyInit1Fails_def InotifyAddWatchFails_def
  RaceResolution_SentinelAppearsAfterWatch_def ClockGetTimeFails_def SentinelDetectedViaInotify_def
  acquire_release_lock_InvalidParams_def get_current_timestamp_WritesUtcTimestamp_def
  check_dir_exists_CreatesMissingDirectory_def check_dir_exists_AcceptsExistingDirectory_def
  check_dir_exists_ReturnsErrorWhenCreateFails_def

section \<open>The machines of the suites\<close>

text \<open>
  What the tests rely on: files can be used, the device has just started, the clock shows a date
  of four digits, and no directory is in the way.
\<close>

definition dated :: "tm \<Rightarrow> bool" where
  "dated t \<longleftrightarrow> tm_mday t < 100 \<and> tm_hour t < 100 \<and> tm_min t < 100 \<and> tm_sec t < 100 \<and> tm_year t < 8100"

definition helper_machine :: "env \<Rightarrow> world \<Rightarrow> bool" where
  "helper_machine e w \<longleftrightarrow> test_env e \<and> (\<forall>n. dated (fst (utc_clock e n))) \<and> read_proc_uptime_secs e w \<in> {0..REBOOT_WINDOW_SECS} \<and>
     fs w ''/tmp'' = Some Dir \<and> fs w ''/tmp/rebootreason_main_gtest_denied'' = None \<and>
     list_all (\<lambda>p. fs w p \<noteq> Some Dir) [REBOOTNOW_FLAG, REBOOTSTOP_FLAG, REBOOT_COUNTER_FILE, MAINTENANCE_REBOOT_FLAG]"

section \<open>The parameters\<close>

lemma rfc_mock_get:
  "getRFCParameter (rfc_mock w s e) (trace w @ evs) c n =
     (case rfc_store (map_of s) evs n of None \<Rightarrow> (WDMP_FAILURE, []) | Some v \<Rightarrow> (WDMP_SUCCESS, v))"
  "getRFCParameter (rfc_mock w s e) (trace w) c n =
     (case map_of s n of None \<Rightarrow> (WDMP_FAILURE, []) | Some v \<Rightarrow> (WDMP_SUCCESS, v))"
  "setRFCParameter (rfc_mock w s e) evs c n v t = WDMP_SUCCESS"
  by (simp_all add: rfc_mock_def)

lemma numbers:
  "strtol ''42'' = Some (42, [])" "strtol ''-99'' = Some (- 99, [])" "strtol ''not-a-number'' = None"
  "strtol ''99'' = Some (99, [])" "strtol ''30'' = Some (30, [])" "bufcpy 32 (show_int 99) = ''99''"
  "to_int32 42 = 42" "to_int32 (- 99) = - 99" "to_int32 99 = 99" "to_int32 30 = 30"
  "strcasecmp_eq ''true'' ''true''" "\<not> strcasecmp_eq ''false'' ''true''" "\<not> strcasecmp_eq ''0'' ''true''"
  by code_simp+

lemma rfc_tests: "list_all (\<lambda>t. t e w) rfc_suite"
  by (simp add: rfc_suite_defs rfc_get_string_param_def rfc_get_bool_param_def rfc_get_int_param_def rfc_read_param_value_def
      rfc_set_bool_param_def rfc_set_int_param_def rfc_mock_get rfc_failing_def emit_def numbers)

section \<open>The clock, the log and the telemetry\<close>

lemma length_pad0: "length s \<le> k \<Longrightarrow> length (pad0 k s) = k"
  by (simp add: pad0_def)

lemma name_lengths: "length (day_name d) = 3" "length (month_name m) = 3"
proof -
  have pick: "P (xs ! i)" if "list_all P xs" "i < length xs" for P and xs :: "string list" and i
    using that by (simp add: list_all_length)
  show "length (day_name d) = 3" "length (month_name m) = 3"
    unfolding day_name_def month_name_def by (rule pick; simp)+
qed

lemma stamp_shape:
  assumes "dated t"
  shows "length (strftime_utc t) < 64" "has_substr (strftime_utc t) ''UTC''" "strftime_utc t \<noteq> []"
proof -
  have two: "length (pad0 2 (show_nat n)) = 2" if "n < 100" for n
    using length_show_nat [of n 2] that by (simp add: length_pad0)
  have "length (show_nat (tm_year t + 1900)) \<le> 4"
    using length_show_nat [of "tm_year t + 1900" 4] assms by (simp add: dated_def)
  then show "length (strftime_utc t) < 64"
    using assms by (simp add: strftime_utc_def dated_def two name_lengths)
  have "strftime_utc t = (day_name (tm_wday t) @ '' '' @ month_name (tm_mon t) @ '' '' @ pad0 2 (show_nat (tm_mday t)) @ '' '' @
      pad0 2 (show_nat (tm_hour t)) @ '':'' @ pad0 2 (show_nat (tm_min t)) @ '':'' @ pad0 2 (show_nat (tm_sec t)) @ '' '') @
      ''UTC'' @ ('' '' @ show_nat (tm_year t + 1900))"
    by (simp add: strftime_utc_def)
  then show "has_substr (strftime_utc t) ''UTC''" by (simp only: has_substr_mid)
  show "strftime_utc t \<noteq> []" by (simp add: strftime_utc_def)
qed

lemma clock_tests:
  assumes "helper_machine e w"
  shows "TimestampUpdate_Format e w" "TimestampUpdate_TinyBuffer e w" "get_current_timestamp_WritesUtcTimestamp e w"
proof -
  have "dated t" if "utc_clock e n = (t, ms)" for n t ms
    using assms that by (metis helper_machine_def fst_conv)
  note stamp = stamp_shape [OF this]
  show "TimestampUpdate_Format e w" "get_current_timestamp_WritesUtcTimestamp e w"
    using stamp by (auto simp: TimestampUpdate_Format_def get_current_timestamp_WritesUtcTimestamp_def RebootUtils.timestamp_update_def
        get_current_timestamp_def utc_now_def Let_def split: prod.split)
  show "TimestampUpdate_TinyBuffer e w"
    by (simp add: TimestampUpdate_TinyBuffer_def RebootUtils.timestamp_update_def utc_now_def Let_def split: prod.split)
qed

lemma utils_tests:
  assumes "helper_machine e w"
  shows "list_all (\<lambda>t. t e w) utils_suite"
proof -
  have "test_env e" using assms by (simp add: helper_machine_def)
  note env = test_env_simps [OF this] 
  show ?thesis
    using clock_tests(1,2) [OF assms]
    by (simp add: utils_suite_def)
      (simp add: utils_suite_defs write_rebootinfo_log_def fopen_a_def fputs_def fputs_failing_def env missing_dir_def content_def
        first_line_def read_whole_file_def t2CountNotify_def t2ValNotify_def Let_def rfc_stub_def rfc_get_string_param_def
        rfc_get_bool_param_def rfc_get_int_param_def rfc_read_param_value_def rfc_set_bool_param_def rfc_set_int_param_def)
qed

section \<open>The loop guard\<close>

lemma guard_run:
  assumes "guard_ok m v" and "loop_hit m s r c oth (v\<lparr>fs := (fs v)(REBOOTNOW_FLAG := None)\<rparr>) = hit"
  shows "fst (handle_cyclic_reboot m s r c oth v) =
      (if access_ok REBOOTNOW_FLAG v \<and> detection_enabled m v \<and> hit \<and>
          (access_ok REBOOTSTOP_FLAG v \<or> REBOOT_CYCLE_THRESHOLD \<le> snd (read_rebootcounter m (Some REBOOT_COUNTER_FILE) 0 v))
       then 0 else 1)"
    and "access_ok REBOOTNOW_FLAG v \<Longrightarrow> detection_enabled m v \<Longrightarrow> \<not> hit \<Longrightarrow>
      fs (snd (handle_cyclic_reboot m s r c oth v)) REBOOTSTOP_FLAG = None \<and>
      fs (snd (handle_cyclic_reboot m s r c oth v)) REBOOT_COUNTER_FILE = Some (Reg (show_int 0 @ [NL]))"
proof -
  let ?v = "v\<lparr>fs := (fs v)(REBOOTNOW_FLAG := None)\<rparr>"
  have u: "snd (unlink m REBOOTNOW_FLAG v) = ?v" using assms(1) by (simp add: guard_ok_def unlink_writable)
  have c: "read_rebootcounter m (Some REBOOT_COUNTER_FILE) 0 ?v = read_rebootcounter m (Some REBOOT_COUNTER_FILE) 0 v"
    by (rule read_rebootcounter_cong) simp
  have s: "access_ok REBOOTSTOP_FLAG ?v = access_ok REBOOTSTOP_FLAG v" by (simp add: access_ok_def)
  have g: "guard_ok m ?v" using assms(1) by (intro guard_ok_upd) simp_all
  show "fst (handle_cyclic_reboot m s r c oth v) =
      (if access_ok REBOOTNOW_FLAG v \<and> detection_enabled m v \<and> hit \<and>
          (access_ok REBOOTSTOP_FLAG v \<or> REBOOT_CYCLE_THRESHOLD \<le> snd (read_rebootcounter m (Some REBOOT_COUNTER_FILE) 0 v))
       then 0 else 1)"
    by (simp add: handle_cyclic_reboot_cases Let_def u c s assms(2))
  show "fs (snd (handle_cyclic_reboot m s r c oth v)) REBOOTSTOP_FLAG = None \<and>
      fs (snd (handle_cyclic_reboot m s r c oth v)) REBOOT_COUNTER_FILE = Some (Reg (show_int 0 @ [NL]))"
    if "access_ok REBOOTNOW_FLAG v" "detection_enabled m v" "\<not> hit"
    using that by (simp add: handle_cyclic_reboot_cases Let_def u assms(2) cyclic_reset_fs [OF g])
qed

lemma mock_detects: "detection_enabled (cyclic_mock det dur e) v = det"
proof -
  have n: "has_substr RFC_REBOOTSTOP_DETECTION ''RebootStop.Detection''" by code_simp
  have f: "\<not> strcasecmp_eq ''false'' ''true''" by code_simp
  show ?thesis
    by (cases det) (simp_all add: detection_enabled_def rfc_get_bool_param_def rfc_read_param_value_def cyclic_mock_def n numbers f)
qed

lemma counter_texts: "strtol [CHR ''5'', NL] = Some (5, [NL])" "strtol [CHR ''3'', NL] = Some (3, [NL])"
  "to_int32 5 = 5" "to_int32 3 = 3" "show_int 0 = ''0''"
  by code_simp+

text \<open>The record a test leaves, as the guard reads it.\<close>

lemma prev_read:
  assumes "open_r_err m PREVIOUS_REBOOT_INFO_FILE = None" and "fs v PREVIOUS_REBOOT_INFO_FILE = Some (Reg s)"
  shows "read_previous_reboot_info m 128 128 128 256 64 empty_prev v =
    read_previous_reboot_info plain_env 128 128 128 256 64 empty_prev (put_file PREVIOUS_REBOOT_INFO_FILE s empty_world)"
  using assms by (simp add: read_previous_reboot_info_def cyclic_file_exists_def access_ok_def fopen_r_def plain_env_def calm_env_def)

lemma prev_values:
  "read_previous_reboot_info plain_env 128 128 128 256 64 empty_prev
     (put_file PREVIOUS_REBOOT_INFO_FILE (prev_json ''Src'' ''Reason'' ''Custom'' ''Other'') empty_world) =
   (0, \<lparr>p_src = ''Src'', p_rsn = ''Reason'', p_cus = ''Custom'', p_oth = ''Other'', p_ts = ''2023-01-01T00:00:00Z''\<rparr>)"
  "read_previous_reboot_info plain_env 128 128 128 256 64 empty_prev
     (put_file PREVIOUS_REBOOT_INFO_FILE (prev_json ''Src'' ''PrevReason'' ''Custom'' ''Other'') empty_world) =
   (0, \<lparr>p_src = ''Src'', p_rsn = ''PrevReason'', p_cus = ''Custom'', p_oth = ''Other'', p_ts = ''2023-01-01T00:00:00Z''\<rparr>)"
  "read_previous_reboot_info plain_env 128 128 128 256 64 empty_prev
     (put_file PREVIOUS_REBOOT_INFO_FILE (prev_json ''SrcPrev'' ''ReasonPrev'' ''CustomPrev'' ''OtherPrev'') empty_world) =
   (0, \<lparr>p_src = ''SrcPrev'', p_rsn = ''ReasonPrev'', p_cus = ''CustomPrev'', p_oth = ''OtherPrev'', p_ts = ''2023-01-01T00:00:00Z''\<rparr>)"
  by code_simp+

lemma mock_hit:
  assumes "helper_machine e w" and "fs v PROC_UPTIME = fs w PROC_UPTIME"
  shows "fs v PREVIOUS_REBOOT_INFO_FILE = Some (Reg s) \<Longrightarrow>
      loop_hit (cyclic_mock det dur e) src rsn cus oth v =
        (case read_previous_reboot_info plain_env 128 128 128 256 64 empty_prev (put_file PREVIOUS_REBOOT_INFO_FILE s empty_world) of
           (rc, p) \<Rightarrow> rc = 0 \<and> same_cause src rsn cus oth p)"
    and "fs v PREVIOUS_REBOOT_INFO_FILE = None \<Longrightarrow> \<not> loop_hit (cyclic_mock det dur e) src rsn cus oth v"
proof -
  have o: "open_r_err (cyclic_mock det dur e) = open_r_err e" by (simp add: cyclic_mock_def)
  have "read_proc_uptime_secs (cyclic_mock det dur e) v = read_proc_uptime_secs e w"
    by (simp only: read_proc_uptime_secs_def fopen_r_def o assms(2))
  then have up: "read_proc_uptime_secs (cyclic_mock det dur e) v \<in> {0..REBOOT_WINDOW_SECS}"
    using assms(1) by (simp add: helper_machine_def)
  have r: "open_r_err (cyclic_mock det dur e) p = None" for p
    using assms(1) by (simp add: cyclic_mock_def helper_machine_def test_env_simps)
  show "loop_hit (cyclic_mock det dur e) src rsn cus oth v =
      (case read_previous_reboot_info plain_env 128 128 128 256 64 empty_prev (put_file PREVIOUS_REBOOT_INFO_FILE s empty_world) of
         (rc, p) \<Rightarrow> rc = 0 \<and> same_cause src rsn cus oth p)"
    if "fs v PREVIOUS_REBOOT_INFO_FILE = Some (Reg s)"
    using up by (simp add: loop_hit_def prev_read [OF r that] split: prod.split)
  show "\<not> loop_hit (cyclic_mock det dur e) src rsn cus oth v" if "fs v PREVIOUS_REBOOT_INFO_FILE = None"
    using that by (simp add: loop_hit_def read_previous_reboot_info_def cyclic_file_exists_def access_ok_def)
qed

lemma mock_guard_ok:
  assumes "helper_machine e w" and "fs v REBOOTNOW_FLAG = fs w REBOOTNOW_FLAG \<or> fs v REBOOTNOW_FLAG \<noteq> Some Dir"
    and "fs v REBOOTSTOP_FLAG = fs w REBOOTSTOP_FLAG \<or> fs v REBOOTSTOP_FLAG \<noteq> Some Dir"
    and "fs v REBOOT_COUNTER_FILE = fs w REBOOT_COUNTER_FILE \<or> fs v REBOOT_COUNTER_FILE \<noteq> Some Dir"
  shows "guard_ok (cyclic_mock det dur e) v"
proof -
  have "\<not> missing_dir REBOOTNOW_FLAG" "\<not> missing_dir REBOOTSTOP_FLAG" "\<not> missing_dir REBOOT_COUNTER_FILE" by code_simp+
  then show ?thesis
    using assms by (auto simp: guard_ok_def writable_def readable_def cyclic_mock_def helper_machine_def test_env_simps)
qed

lemma cyclic_tests:
  assumes "helper_machine e w"
  shows "list_all (\<lambda>t. t e w) cyclic_suite"
proof -
  have r: "open_r_err (cyclic_mock det dur e) p = None" for det dur p
    using assms by (simp add: cyclic_mock_def helper_machine_def test_env_simps)
  have pre: "prefix ''/opt/secure/reboot'' REBOOTNOW_FLAG" "prefix ''/opt/secure/reboot'' REBOOTSTOP_FLAG"
    "prefix ''/opt/secure/reboot'' REBOOT_COUNTER_FILE" by code_simp+
  note run = guard_run(1) [OF mock_guard_ok [OF assms] refl] guard_run(2) [OF mock_guard_ok [OF assms] refl]
    mock_hit [OF assms] mock_detects prev_values same_cause_def access_ok_def r
    read_rebootcounter_def fopen_r_def counter_texts REBOOT_CYCLE_THRESHOLD_def
  have "list_all (\<lambda>t. t e w) [ProceedWhenNoFlag, DetectionDisabledProceed, SameReasonStopFlagPresent, CallCyclicNoFlagProceed]"
    by (simp add: cyclic_suite_defs run clear_tree_def pre)
  moreover have "list_all (\<lambda>t. t e w) [DeferOnLoopDetection, IncrementCounterBelowThresholdProceed, CallCyclicHandle, CallCyclicLargeDuration]"
    by (simp add: cyclic_suite_defs run)
  moreover have "list_all (\<lambda>t. t e w) [PreviousInfoMissingProceedsAndResets, DifferentReasonResetsCounter, CallCyclicDifferentReasonResets]"
    by (simp add: cyclic_suite_defs run case_prod_beta first_line_def read_whole_file_def content_def)
  ultimately show ?thesis by (simp add: cyclic_suite_def)
qed

section \<open>The options and the flag\<close>

lemma rebootnow_tests:
  assumes "helper_machine e w"
  shows "list_all (\<lambda>t. t e w) rebootnow_suite"
proof -
  have "test_env e" "fs w MAINTENANCE_REBOOT_FLAG \<noteq> Some Dir" using assms by (simp_all add: helper_machine_def)
  moreover have "\<not> missing_dir MAINTENANCE_REBOOT_FLAG" by code_simp
  moreover have "check_string_value [''Alpha'', ''Beta'', ''Gamma''] (Some ''Bet'')"
    "\<not> check_string_value [''One'', ''Two'', ''Three''] (Some ''Four'')" by code_simp+
  moreover have "UpdateRebootLog_EdgeCases e w" "UpdateRebootLog_BufferFullGuard e w"
    by (simp_all add: UpdateRebootLog_EdgeCases_def UpdateRebootLog_BufferFullGuard_def update_reboot_log_def)
  ultimately show ?thesis
    by (simp add: rebootnow_suite_def)
      (simp add: rebootnow_suite_defs rebootnow_body_def takes_arg_def default_opts_def update_maintenance_reboot_flag_def fopen_w_def
        unlink_def test_env_simps access_ok_def t2CountNotify_def emit_def)
qed

section \<open>The wait and the directory\<close>

lemma announced_wait:
  assumes "inotify_wait m = (\<lambda>_. Names [''.backup_logs_done''])"
  shows "\<exists>u found. wait_loop m d v = Some (found, u)"
  by (subst wait_loop.simps) (auto simp: select_events_def assms BACKUP_LOGS_DONE_FILENAME_def)

lemma fetcher_tests:
  assumes "helper_machine e w"
  shows "list_all (\<lambda>t. t e w) fetcher_suite"
proof -
  have env: "test_env e" "fs w ''/tmp'' = Some Dir" "fs w ''/tmp/rebootreason_main_gtest_denied'' = None"
    using assms by (simp_all add: helper_machine_def)
  have "SentinelDetectedViaInotify e w"
    by (simp add: SentinelDetectedViaInotify_def wait_for_backup_logs_done_def Let_def case_prod_beta announced_wait split: option.split)
  then show ?thesis
    using env clock_tests(3) [OF assms]
    by (simp add: fetcher_suite_def)
      (simp add: fetcher_suite_defs wait_for_backup_logs_done_def Let_def others_run_def monotonic_def access_ok_def acquire_lock_def
        release_lock_def check_dir_exists_def mkdir_def is_dir_def test_env_simps missing_dir_def)
qed

section \<open>The result\<close>

text \<open>A machine the tests can run on.\<close>

definition started_world :: world where
  "started_world = put_dir ''/tmp'' (put_file PROC_UPTIME ''120.5 300.1'' empty_world)"

lemma started_ok: "helper_machine plain_env started_world"
proof -
  have "read_proc_uptime_secs plain_env started_world = 120" by code_simp
  moreover have "dated (fst (utc_clock plain_env n))" for n by (simp add: plain_env_def calm_env_def tm0_def dated_def)
  moreover have "fs started_world ''/tmp'' = Some Dir" "fs started_world ''/tmp/rebootreason_main_gtest_denied'' = None"
    "list_all (\<lambda>p. fs started_world p \<noteq> Some Dir) [REBOOTNOW_FLAG, REBOOTSTOP_FLAG, REBOOT_COUNTER_FILE, MAINTENANCE_REBOOT_FLAG]"
    by code_simp+
  ultimately show ?thesis by (simp add: helper_machine_def plain_env_ok REBOOT_WINDOW_SECS_def)
qed

text \<open>
  C36. The models of the loop guard, the RFC accessors, the telemetry and log helpers, the options,
  the maintenance flag and the wait for the log backup pass the unit tests of those parts: all of
  \<^verbatim>\<open>rfc_interface_gtest.cpp\<close>, \<^verbatim>\<open>utils_gtest.cpp\<close> and \<^verbatim>\<open>cyclic_reboot_gtest.cpp\<close> and the replayable
  ones of the two main programs, on every machine that has just started and can use its files.
\<close>

theorem helper_suites_pass:
  assumes "helper_machine e w"
  shows "list_all (\<lambda>t. t e w) (rfc_suite @ utils_suite @ cyclic_suite @ rebootnow_suite @ fetcher_suite)"
  using rfc_tests utils_tests [OF assms] cyclic_tests [OF assms] rebootnow_tests [OF assms] fetcher_tests [OF assms]
  by simp

theorem helper_suites_pass_witness:
  "helper_machine plain_env started_world \<and>
   list_all (\<lambda>t. t plain_env started_world) (rfc_suite @ utils_suite @ cyclic_suite @ rebootnow_suite @ fetcher_suite)"
  using helper_suites_pass [OF started_ok] started_ok by blast

end
