(* ===== verification/Spec2Isabelle.thy ===== *)
theory Spec2Isabelle
  imports DeviceLife PidRace ClassifyTests LogParserTests ParodusTests HelperTests
begin

text \<open>
  A verification development of reboot-manager, the two C programs that reboot an RDK device and
  explain the reboot afterwards.

  \<^bold>\<open>The programs.\<close> \<^verbatim>\<open>rebootnow\<close> (\<^verbatim>\<open>src/reboot-helper\<close>) is asked for a reboot by a named source. It
  admits one instance at a time by a PID file, sorts the source into a category, writes the
  request to the log and to a record, asks the loop guard whether this cause keeps rebooting the
  device, and, unless it is deferred to a cron job, notifies, cleans up and issues the reboot
  commands. \<^verbatim>\<open>update_prev_reboot_info\<close> (\<^verbatim>\<open>src/reboot-reason-fetcher\<close>) runs once at the next boot. Under
  a lock it moves the record to its place or, when there is none, waits for the log backup,
  collects the evidence (kernel logs, firmware logs, the hardware register), classifies the
  reboot and writes the record itself; it then leaves the lines about the previous reboot, the
  line for the parodus service, and a sentinel for the log upload.

  \<^bold>\<open>The model.\<close> State is passed explicitly. A \<open>world\<close> is the file system (paths to nodes), the
  trace of every other effect (telemetry, RFC writes, shell commands, signals, sleeps, locks,
  output), a tick that counts clock readings, the lock descriptor, and the directory trees that
  are removed recursively. An \<open>env\<close> holds what the programs do not decide: failing calls and
  their \<open>errno\<close>, the sizes at which writes stop, directory orders, clocks, process numbers, what
  other processes do meanwhile (\<open>interleave\<close>), whether a blocking \<^verbatim>\<open>flock\<close> is granted, fails or waits
  for ever (\<open>flock_answer\<close>), and the third-party services (RFC, telemetry,
  the secure shell, the device properties, the logger), which may answer by the whole history.
  Strings are character lists without their NUL; \<open>bufcpy n\<close> is a bounded copy into \<open>n\<close> bytes.
  Functions that may get a null pointer take an \<open>option\<close>; results and error codes are values.

  \<^bold>\<open>The theories\<close>, with the source each models:
  \<^item> \<open>Prelude\<close>: C strings, numbers, line and block reading, and the lemmas on them.
  \<^item> \<open>World\<close>: the system calls, their laws, the frame contract (locale \<open>world_op\<close>) and the file
    store interface (locale \<open>file_store\<close>).
  \<^item> \<open>Paths\<close>: the paths and RFC names of both headers, proved distinct once.
  \<^item> \<open>RebootUtils\<close>: \<^verbatim>\<open>utils.c\<close>; integers survive the RFC text form.
  \<^item> \<open>CyclicReboot\<close>: \<^verbatim>\<open>cyclic_reboot.c\<close>; \<open>handle_cyclic_reboot\<close> refines a small guard machine
    (locale \<open>loop_guard\<close> for its clients), breaks loops at the threshold, and its cron time is the
    right one; the record and its readers (locale \<open>reboot_record\<close>).
  \<^item> \<open>SystemCleanup\<close>: \<^verbatim>\<open>system_cleanup.c\<close>; the PID guard, honest recursive removal, the lossless
    move of the volatile logs, and the signals sent.
  \<^item> \<open>RebootMain\<close>: \<^verbatim>\<open>reboot_main.c\<close>, the whole of \<open>main\<close>; the device is rebooted exactly when the
    request is granted, and only after everything about it is on disk.
  \<^item> \<open>PidRace\<close>: the PID guard among several processes, one system call at a time, any of which may
    fail; a process alone behaves as the whole function, an established instance keeps every later
    one out that can read its number and its command line (\<open>reads_intact\<close>), and three windows let
    two instances in.
  \<^item> \<open>RebootLoop\<close>: repeated runs of \<^verbatim>\<open>rebootnow\<close>; the number of reboots is bounded.
  \<^item> \<open>RebootJson\<close>: \<^verbatim>\<open>json.c\<close> and the types of \<^verbatim>\<open>update-reboot-info.h\<close>; the lock as an interface (locale
    \<open>exclusive_lock\<close>).
  \<^item> \<open>LogParser\<close>: \<^verbatim>\<open>log_parser.c\<close>; device properties and the hardware register stay in bounds.
  \<^item> \<open>Classify\<close>: \<^verbatim>\<open>reboot_reason_classify.c\<close>; the classification is total and canonical, panic and
    firmware evidence is sound, two branches of the register cascade are dead (locale \<open>trigger_list\<close>).
  \<^item> \<open>ParodusLog\<close>: \<^verbatim>\<open>parodus_log_update.c\<close>; the hand-over to parodus and the key press copy.
  \<^item> \<open>BootupChecker\<close>: \<^verbatim>\<open>bootup_reason_checker.c\<close>; which log of the previous boot is taken, how it is
    parsed, and the five lines that are written.
  \<^item> \<open>FetcherMain\<close>: \<^verbatim>\<open>rebootreason_main.c\<close>, the whole of \<open>main\<close>; the program returns unless
    it waits for a lock that is never given up, the wait for the log backup ends for a reason, the lock is always released (locale \<open>lock_neutral\<close>) and the sentinel written.
  \<^item> \<open>FetcherRuns\<close>: whole runs of the fetcher; every boot leaves a record, a cold boot that of a
    power loss, and a record left by \<^verbatim>\<open>rebootnow\<close> is moved intact; one that cannot be moved is lost, and
    a second run in the same boot overwrites it.
  \<^item> \<open>LogHandover\<close>: the lines of one program as the other parses them.
  \<^item> \<open>Footprint\<close>: the files and events a whole run of each program is confined to, the applications
    below \<^verbatim>\<open>/media/apps\<close> that \<^verbatim>\<open>rebootnow\<close> removes after an upgrade among them.
  \<^item> \<open>DeviceLife\<close>: requests, boots and outside events in any order (\<open>device_step\<close>); the shared files
    hold whole records, or, where calls fail, writes stop short and runs are cut short, prefixes of
    whole records, since they are written in place.
  \<^item> \<open>TestBase\<close>, \<open>ClassifyTests\<close>, \<open>LogParserTests\<close>, \<open>ParodusTests\<close>, \<open>HelperTests\<close>: the unit tests of
    \<^verbatim>\<open>src/unittest\<close>, one definition per test, as predicates of the machine they run on; 196 of the
    198 replayed tests hold on every machine that meets the suite's requirements, two on none.
  \<^item> this theory: the hand-over of the record, the reason line and the parodus line from one
    program to the other, and how far their lists of sources agree.

  \<^bold>\<open>Termination and bounds.\<close> Every loop of the sources is a total function but one: the wait for
  the backup sentinel has no bound of its own when the clock cannot be read, so it is a
  \<open>partial_function\<close> in the option monad, and the program is proved to return when the monotonic
  clock passes every bound (\<open>clock_advances\<close>), except that \<open>acquire_lock\<close> has the result \<open>None\<close> when
  another process keeps the lock for ever. There is no fuel. Counters and durations are
  kept at 32 bits where they are parsed; array sizes are those of the sources.

  \<^bold>\<open>Assumptions of the statements.\<close> \<open>writable\<close>, \<open>readable\<close>, \<open>own_ok\<close>, \<open>guard_ok\<close> and
  \<open>fetcher_ready\<close> say that the files a run needs can be used; \<open>quotable\<close> and \<open>loggable\<close> that a text
  has no character that ends its field in the record or the log, since neither format escapes
  anything; \<open>device_env\<close> that only the programs write their files and, in its strict form, that
  these can be used throughout; \<open>stable\<close> that other
  processes leave a file alone. Each property with such a hypothesis has a concrete run that
  meets it.

  \<^bold>\<open>Not modelled.\<close> The differences of the test build (\<^verbatim>\<open>GTEST_ENABLE\<close>): its shorter timeout, its
  constant uptime, the truncation of the logs it moves, its accessors. For that reason, or because
  they assert nothing or put stubs in the place of functions of the program itself, some unit tests are not
  replayed: the suite of the cleanup, the tests of \<open>main\<close> behind a stubbed loop guard, and a few others.
  Further messages to the RDK logger, file modes, the raw bytes of inotify events (their names are
  given), the functional tests in Python, which drive the built programs, and the shell
  predecessors of the programs with their service units. What the shell commands and the signalled
  processes do is not modelled beyond their results. The tree removed recursively is given
  as a tree beside the flat file map, since only that function walks it; what it removes is gone
  from both. A write reports a size limit at once, where buffered output reports it when the
  buffer is flushed. Runs of the two programs follow one another, and the PID guard is one step in
  them; other orders of its calls are those of \<open>PidRace\<close>.
\<close>

section \<open>The two programs together\<close>

text \<open>
  A request of \<^verbatim>\<open>XFS\<close> on a quiet device, and the next boot of a television that finds what the
  request left.
\<close>

definition sample_record :: prev_info where
  "sample_record = request_record ''XFS'' ''Unknown'' ''disk full'' sample_stamp"

definition next_world :: world where
  "next_world = tv_world\<lparr>fs := (fs tv_world)(''/opt/logs/PreviousLogs/rebootInfo.log'' :=
       Some (Reg (concat (log_lines ''XFS'' False sample_stamp ''Unknown'' ''disk full''))),
     REBOOT_INFO_FILE := Some (Reg (record_text sample_record)),
     PARODUS_REBOOT_INFO_FILE := Some (Reg (parodus_line sample_stamp (categorize ''XFS'' ''Unknown'') ''Unknown'' ''XFS'')))\<rparr>"

lemma sample_run:
  "\<exists>rc w3. after_guard calm_env ''XFS'' False ''Unknown'' ''disk full'' empty_world = (rc, sample_stamp, w3)"
  using calm_stamp [of "''XFS''" False "''Unknown''" "''disk full''"] unfolding sample_stamp_def by (metis prod.collapse)

lemma sample_category: "categorize ''XFS'' ''Unknown'' = ''OPS_TRIGGERED''"
  using categorize_listed [of "''XFS''" "''Unknown''"] by (simp add: OPS_TRIGGERED_REASONS_def)

lemma sample_texts:
  "quotable sample_record" "length (record_text sample_record) < 512"
  "NUL \<notin> set (parodus_line sample_stamp (categorize ''XFS'' ''Unknown'') ''Unknown'' ''XFS'')"
  "length (parodus_line sample_stamp (categorize ''XFS'' ''Unknown'') ''Unknown'' ''XFS'') < 512"
  by (simp_all add: sample_record_def sample_stamp_def request_record_def quotable_def record_text_def json_kv_def
      sample_category parodus_line_def)

lemma backup_neq [simp]:
  "DEVICE_PROPERTIES_PATH \<noteq> ''/opt/logs/PreviousLogs/rebootInfo.log''" "STT_FLAG \<noteq> ''/opt/logs/PreviousLogs/rebootInfo.log''"
  "REBOOT_INFO_DIR \<noteq> ''/opt/logs/PreviousLogs/rebootInfo.log''" "LOCK_DIR \<noteq> ''/opt/logs/PreviousLogs/rebootInfo.log''"
  "REBOOT_INFO_FILE \<noteq> ''/opt/logs/PreviousLogs/rebootInfo.log''" "PARODUS_REBOOT_INFO_FILE \<noteq> ''/opt/logs/PreviousLogs/rebootInfo.log''"
  by (simp_all add: DEVICE_PROPERTIES_PATH_def STT_FLAG_def REBOOT_INFO_DIR_def LOCK_DIR_def REBOOT_INFO_FILE_def PARODUS_REBOOT_INFO_FILE_def)

lemma next_ready: "fetcher_ready tv_env tv_ctx next_world"
proof -
  have "parse_device_properties tv_env (Some zero_ctx) next_world = parse_device_properties tv_env (Some zero_ctx) tv_world"
    by (rule parse_cong) (simp add: next_world_def)
  with tv_ready show ?thesis
    by (auto simp: fetcher_ready_def access_ok_def is_dir_def lock_taken_def acquire_lock_def open_rw_def next_world_def tv_world_def tv_env_def
        calm_env_def empty_world_def)
qed

lemma next_files:
  "writable tv_env p next_world \<longleftrightarrow> p \<noteq> REBOOT_INFO_DIR" "readable tv_env p" "getenv tv_env ''LOG_PATH'' = None" "parodus_ok tv_env next_world"
  "rename_err tv_env p = None"
  by (auto simp: parodus_ok_def writable_def readable_def tv_env_def calm_env_def next_world_def tv_world_def empty_world_def)

text \<open>
  C5. The reason survives the reboot: when a request whose texts hold no double quote and no zero
  byte and whose record is shorter than 512 bytes was granted or deferred on writable files, and
  the record reaches a next boot in which the fetcher gets to it, can move it, and \<^verbatim>\<open>LOG_PATH\<close> is
  not set, then the fetcher of that boot ends successfully, the record of the previous reboot is,
  byte for byte, the one \<^verbatim>\<open>rebootnow\<close> wrote, and the log holds the five lines with the source,
  time and reasons of the request, each cut to the array it is read into (\<open>info_of\<close>). When the
  log of the request is moreover the flat log of the previous boot, without a marker or a backup
  before it, and the texts are such as the parser reads back (\<open>loggable\<close>: shorter than 128 bytes,
  the time than 64, no newline, no blank at either end, none of the field names), the first of
  the lines carries its reason line.
\<close>

theorem reboot_reason_handed_over:
  assumes "own_ok e w" and "log_files e \<inter> own_files = {}" and "after_guard e s b c oth w = (rc, ts, w3)"
    and "quotable (request_record s c oth ts)" and "length (record_text (request_record s c oth ts)) < 512"
    and "fetcher_ready e' d w'"
    and "content w' REBOOT_INFO_FILE = content (snd (run_request e s b c oth w)) REBOOT_INFO_FILE"
    and "writable e' PREVIOUS_REBOOT_INFO_FILE w'" and "readable e' PREVIOUS_REBOOT_INFO_FILE" and "writable e' REBOOTINFO_LOG w'"
    and "getenv e' ''LOG_PATH'' = None" and "rename_err e' REBOOT_INFO_FILE = None"
  shows "\<exists>n v r. fetcher_main e' w' = Some (SUCCESS, v) \<and> fs v REBOOT_INFO_FILE = None \<and>
    content v PREVIOUS_REBOOT_INFO_FILE = content (snd (run_request e s b c oth w)) REBOOT_INFO_FILE \<and>
    content v REBOOTINFO_LOG = Some (previous_text e' n (info_of (request_record s c oth ts)) r) \<and>
    (flat_backup e' w' \<and> loggable 128 s \<and> loggable 128 c \<and> loggable 128 oth \<and> loggable 64 ts \<and>
       content w' ''/opt/logs/PreviousLogs/rebootInfo.log'' = content (snd (run_request e s b c oth w)) REBOOTINFO_LOG \<longrightarrow>
       r = reason_body s b oth)"
proof -
  note k = run_request_kept [OF assms(1-3)]
  define t where "t = record_text (request_record s c oth ts)"
  have "fs w' REBOOT_INFO_FILE = Some (Reg t)" using assms(7) k(1) by (simp add: content_SomeD t_def)
  from moved_record [OF assms(6) this assms(8-12)] obtain n v where v: "fetcher_main e' w' = Some (SUCCESS, v)"
      "content v PREVIOUS_REBOOT_INFO_FILE = Some t" "fs v REBOOT_INFO_FILE = None"
      "content v REBOOTINFO_LOG = Some (previous_text e' n (json_info (cstr (take 511 t))) (previous_reason e' (Some PREVIOUS_REBOOT_INFO_FILE) w'))"
    by blast
  have j: "json_info (cstr (take 511 t)) = info_of (request_record s c oth ts)"
    using json_info_record [OF assms(4,5)] by (simp add: t_def)
  have "previous_reason e' (Some PREVIOUS_REBOOT_INFO_FILE) w' = reason_body s b oth"
    if "flat_backup e' w' \<and> loggable 128 s \<and> loggable 128 c \<and> loggable 128 oth \<and> loggable 64 ts \<and>
       content w' ''/opt/logs/PreviousLogs/rebootInfo.log'' = content (snd (run_request e s b c oth w)) REBOOTINFO_LOG"
    using that k(3) by (intro logged_reason) simp_all
  with v j k(1) show ?thesis by (auto simp: t_def)
qed

lemma next_backup: "flat_backup tv_env next_world"
proof -
  have p: "prev_logs tv_env = ''/opt/logs/PreviousLogs''" by (rule plain_base) (rule next_files(3))
  have "\<not> is_dir ''/opt/logs/PreviousLogs'' next_world"
    by (simp add: is_dir_def next_world_def tv_world_def empty_world_def REBOOT_INFO_FILE_def PARODUS_REBOOT_INFO_FILE_def
        REBOOT_INFO_DIR_def STT_FLAG_def)
  then have "marked_log tv_env next_world = None" by (simp add: marked_log_def opendir_def p)
  moreover have "\<not> access_ok (bak_log ''/opt/logs/PreviousLogs'' i) next_world" if "i \<in> {1, 2, 3}" for i
    using that by (auto simp: access_ok_def bak_log_def next_world_def tv_world_def empty_world_def REBOOT_INFO_FILE_def
        PARODUS_REBOOT_INFO_FILE_def REBOOT_INFO_DIR_def STT_FLAG_def)
  ultimately show ?thesis by (simp add: flat_backup_def next_files)
qed

theorem reboot_reason_handed_over_witness:
  "\<exists>n v. fetcher_main tv_env next_world = Some (SUCCESS, v) \<and>
     content v REBOOTINFO_LOG = Some (previous_text tv_env n (info_of sample_record) ''RebootReason: Triggered from XFS process disk full'')"
proof -
  obtain rc w3 where a: "after_guard calm_env ''XFS'' False ''Unknown'' ''disk full'' empty_world = (rc, sample_stamp, w3)"
    using sample_run by blast
  have l: "log_files calm_env \<inter> own_files = {}" by (simp add: calm_no_logs)
  have "content next_world REBOOT_INFO_FILE = content (snd (run_request calm_env ''XFS'' False ''Unknown'' ''disk full'' empty_world)) REBOOT_INFO_FILE"
    using run_request_kept(1) [OF calm_own_ok l a] by (simp add: next_world_def content_def sample_record_def)
  note h = reboot_reason_handed_over [OF calm_own_ok l a _ _ next_ready this, folded sample_record_def, OF sample_texts(1,2) _ next_files(2) _ next_files(3,5)]
  have "content next_world ''/opt/logs/PreviousLogs/rebootInfo.log'' =
      content (snd (run_request calm_env ''XFS'' False ''Unknown'' ''disk full'' empty_world)) REBOOTINFO_LOG"
    using run_request_kept(3) [OF calm_own_ok l a] backup_neq(5,6) [symmetric] by (simp add: next_world_def content_def)
  moreover have "loggable 128 ''XFS''" "reason_body ''XFS'' False ''disk full'' = ''RebootReason: Triggered from XFS process disk full''"
    by code_simp+
  ultimately show ?thesis using h next_backup sample_loggable(2-4) by (simp add: next_files(1)) metis
qed

text \<open>
  C21. The parodus service learns of the reboot: the line \<^verbatim>\<open>rebootnow\<close> left for it on writable
  files is, ended by a newline, what the file of the service holds after the fetcher of the next
  boot, provided that the line holds no zero byte and is shorter than the 512 bytes of the
  hand-over buffer, that a record is there and can be moved, that the files of the hand-over can
  be read and written, and that \<^verbatim>\<open>LOG_PATH\<close> is not set. A longer line is cut; without a record the
  line is handed over on another path, which this property does not speak of.
\<close>

theorem parodus_line_handed_over:
  assumes "own_ok e w" and "log_files e \<inter> own_files = {}" and "after_guard e s b c oth w = (rc, ts, w3)"
    and "NUL \<notin> set (parodus_line ts (categorize s c) c s)" and "length (parodus_line ts (categorize s c) c s) < 512"
    and "fetcher_ready e' d w'" and "parodus_ok e' w'"
    and "content w' PARODUS_REBOOT_INFO_FILE = content (snd (run_request e s b c oth w)) PARODUS_REBOOT_INFO_FILE"
    and "fs w' REBOOT_INFO_FILE = Some (Reg t)" and "writable e' PREVIOUS_REBOOT_INFO_FILE w'" and "readable e' PREVIOUS_REBOOT_INFO_FILE"
    and "writable e' REBOOTINFO_LOG w'" and "getenv e' ''LOG_PATH'' = None" and "rename_err e' REBOOT_INFO_FILE = None"
  shows "\<exists>v. fetcher_main e' w' = Some (SUCCESS, v) \<and>
    content v PREVIOUS_PARODUSREBOOT_INFO_FILE = Some (handed_line (parodus_line ts (categorize s c) c s))"
proof -
  let ?l = "parodus_line ts (categorize s c) c s"
  have "content w' PARODUS_REBOOT_INFO_FILE = Some ?l" using assms(8) run_request_kept(2) [OF assms(1-3)] by simp
  moreover have "cstr (take 511 ?l) = ?l" using assms(4,5) by simp
  ultimately show ?thesis
    using moved_record [OF assms(6,9-14)] assms(7) by (auto dest: spec)
qed

theorem parodus_line_handed_over_witness:
  "\<exists>v. fetcher_main tv_env next_world = Some (SUCCESS, v) \<and> content v PREVIOUS_PARODUSREBOOT_INFO_FILE =
     Some (handed_line (parodus_line sample_stamp (categorize ''XFS'' ''Unknown'') ''Unknown'' ''XFS''))"
proof -
  obtain rc w3 where a: "after_guard calm_env ''XFS'' False ''Unknown'' ''disk full'' empty_world = (rc, sample_stamp, w3)"
    using sample_run by blast
  have l: "log_files calm_env \<inter> own_files = {}" by (simp add: calm_no_logs)
  have p: "content next_world PARODUS_REBOOT_INFO_FILE =
      content (snd (run_request calm_env ''XFS'' False ''Unknown'' ''disk full'' empty_world)) PARODUS_REBOOT_INFO_FILE"
    using run_request_kept(2) [OF calm_own_ok l a] by (simp add: next_world_def content_def)
  have r: "fs next_world REBOOT_INFO_FILE = Some (Reg (record_text sample_record))" by (simp add: next_world_def)
  from parodus_line_handed_over [OF calm_own_ok l a sample_texts(3,4) next_ready next_files(4) p r] next_files show ?thesis by simp
qed

text \<open>The operations names of \<^verbatim>\<open>rebootnow\<close> that the fetcher does not list.\<close>

definition unlisted_ops :: "string list" where
  "unlisted_ops = [''ecmIpMonitor.sh'', ''monitor.sh'', ''BcmIndicateEcmReset'', ''CyclicReboot'',
     ''UpgradeReboot_firmwareDwnld.sh'', ''ImageUpgrade_updateNewImage.sh'']"

lemma fetcher_lists:
  "FETCHER_APP_TRIGGERED_REASONS = APP_TRIGGERED_REASONS"
  "FETCHER_MAINTENANCE_TRIGGERED_REASONS = MAINTENANCE_TRIGGERED_REASONS"
  by code_simp+

lemma fetcher_ops: "set FETCHER_OPS_TRIGGERED_REASONS = {x \<in> set OPS_TRIGGERED_REASONS. x \<notin> set unlisted_ops}"
proof -
  have a: "list_all (\<lambda>x. x \<in> set OPS_TRIGGERED_REASONS \<and> x \<notin> set unlisted_ops) FETCHER_OPS_TRIGGERED_REASONS"
    by code_simp
  have b: "list_all (\<lambda>x. x \<in> set FETCHER_OPS_TRIGGERED_REASONS \<or> x \<in> set unlisted_ops) OPS_TRIGGERED_REASONS"
    by code_simp
  from a b show ?thesis unfolding list_all_iff by blast
qed

lemma lists_nonempty:
  "list_all (\<lambda>x. x \<noteq> [] \<and> x \<noteq> ''MAINTENANCE_REBOOT'') (APP_TRIGGERED_REASONS @ OPS_TRIGGERED_REASONS @ MAINTENANCE_TRIGGERED_REASONS)"
  "list_all (\<lambda>x. x \<in> set OPS_TRIGGERED_REASONS \<and> x \<notin> set APP_TRIGGERED_REASONS \<and> x \<notin> set MAINTENANCE_TRIGGERED_REASONS) unlisted_ops"
  by code_simp+

lemma custom_category_listed:
  assumes "x \<in> set (APP_TRIGGERED_REASONS @ OPS_TRIGGERED_REASONS @ MAINTENANCE_TRIGGERED_REASONS)"
  shows "custom_category x = (if x \<in> set unlisted_ops then ''FIRMWARE_FAILURE'' else categorize x [])"
proof -
  have n: "x \<noteq> ''MAINTENANCE_REBOOT''" using assms lists_nonempty(1) by (auto simp: list_all_iff)
  have u: "x \<in> set unlisted_ops \<Longrightarrow> x \<notin> set APP_TRIGGERED_REASONS \<and> x \<notin> set MAINTENANCE_TRIGGERED_REASONS"
    using lists_nonempty(2) by (simp add: list_all_iff)
  have "custom_category x = (if x \<in> set APP_TRIGGERED_REASONS then ''APP_TRIGGERED''
      else if x \<in> set OPS_TRIGGERED_REASONS \<and> x \<notin> set unlisted_ops then ''OPS_TRIGGERED''
      else if x \<in> set MAINTENANCE_TRIGGERED_REASONS then ''MAINTENANCE_REBOOT'' else ''FIRMWARE_FAILURE'')"
    using n by (simp add: custom_category_def app_list.test_Some ops_list.test_Some maintenance_list.test_Some fetcher_lists fetcher_ops)
  then show ?thesis using assms u categorize_listed [of x "[]"] by auto
qed

text \<open>
  C30. The two programs sort the listed sources alike, with six exceptions: for every source name
  \<^verbatim>\<open>rebootnow\<close> lists, the fetcher gives to the same name as a custom reason the category that
  \<^verbatim>\<open>rebootnow\<close> gives to it as a source, except for six operations names missing from the list of
  the fetcher, which \<^verbatim>\<open>rebootnow\<close> counts as operations and the fetcher as firmware failures.
\<close>

theorem categories_agree:
  assumes "customReason i \<in> set (APP_TRIGGERED_REASONS @ OPS_TRIGGERED_REASONS @ MAINTENANCE_TRIGGERED_REASONS)" and "\<not> fw_hit fw"
  shows "\<exists>j. classify_reboot_reason e (Some i) (Some c) hwr pn fw w = (SUCCESS, Some j, w) \<and>
    reason j = (if customReason i \<in> set unlisted_ops then ''FIRMWARE_FAILURE'' else categorize (customReason i) []) \<and>
    (customReason i \<in> set unlisted_ops \<longrightarrow> categorize (customReason i) [] = ''OPS_TRIGGERED'')"
proof -
  have "customReason i \<noteq> []" using assms(1) lists_nonempty(1) by (auto simp: list_all_iff)
  moreover have "customReason i \<in> set unlisted_ops \<Longrightarrow> categorize (customReason i) [] = ''OPS_TRIGGERED''"
    using lists_nonempty(2) categorize_listed [of "customReason i" "[]"] by (simp add: list_all_iff)
  ultimately show ?thesis
    using custom_category_listed [OF assms(1)] by (simp add: classify_custom [OF assms(2)])
qed

theorem categories_agree_witness:
  "\<exists>j. classify_reboot_reason calm_env (Some (zero_info\<lparr>customReason := ''CyclicReboot''\<rparr>)) (Some zero_ctx) None None None empty_world =
     (SUCCESS, Some j, empty_world) \<and> reason j = ''FIRMWARE_FAILURE'' \<and> categorize ''CyclicReboot'' [] = ''OPS_TRIGGERED''"
proof -
  have "''CyclicReboot'' \<in> set unlisted_ops" "''CyclicReboot'' \<in> set OPS_TRIGGERED_REASONS" by code_simp+
  then show ?thesis
    using categories_agree [of "zero_info\<lparr>customReason := ''CyclicReboot''\<rparr>" None calm_env zero_ctx None None empty_world]
    by (simp add: fw_hit_def)
qed

end
